(* ===== verification/Prelude.thy ===== *)
theory Prelude
  imports Main "HOL-Library.Char_ord" "HOL-Library.List_Lexorder" "HOL-Library.Product_Lexorder"
    "HOL-Library.Multiset"
begin

text \<open>
  The vocabulary every component shares.

  \<^item> Python strings are lists of code points (\<open>pystr\<close>); an ASCII literal of the
    source is written \<open>lit ''abc''\<close>, a non-ASCII one as its list of code points.
    Python compares strings by code point, which is the lexicographic order of the list.
  \<^item> A call that may raise returns \<open>'e + 'a\<close>: \<open>Inl\<close> the exception, \<open>Inr\<close> the
    value; \<open>rbind\<close> sequences two such calls.
  \<^item> \<open>dict_fromkeys\<close> is \<open>list(dict.fromkeys(xs))\<close>, the first occurrences in order.
  \<^item> \<open>last_n n xs\<close> is the slice \<open>xs[-n:]\<close>, for \<open>n \<ge> 1\<close>.
\<close>

named_theorems py_defs "definitions that unfold a thin wrapper of the Python source"

section \<open>Strings\<close>

type_synonym pystr = "int list"

definition lit :: "string \<Rightarrow> pystr" where
  "lit s = map of_char s"

lemma inj_of_char_int: "inj (of_char :: char \<Rightarrow> int)"
  by (simp add: inj_def)

lemma lit_eq_iff [simp]: "lit s = lit t \<longleftrightarrow> s = t"
  by (simp add: lit_def inj_map_eq_map [OF inj_of_char_int])

lemma lit_empty_iff [simp]: "lit s = [] \<longleftrightarrow> s = []" "[] = lit s \<longleftrightarrow> s = []"
  by (auto simp: lit_def)

lemma length_lit [simp]: "length (lit s) = length s"
  by (simp add: lit_def)

lemma lit_append: "lit (s @ t) = lit s @ lit t"
  by (simp add: lit_def)

text \<open>
  \<open>str.strip()\<close> removes the white space of \<open>str.isspace\<close>. \<open>str.lower()\<close> is written
  out for ASCII and for the two other characters whose lower case contains an ASCII letter
  (the Kelvin sign and the dotted capital I); the remaining letters lower to non-ASCII
  letters and are kept, which no comparison with an ASCII literal can tell apart.
\<close>

definition py_space :: "int \<Rightarrow> bool" where
  "py_space c \<longleftrightarrow> 9 \<le> c \<and> c \<le> 13 \<or> 28 \<le> c \<and> c \<le> 32 \<or> c = 133 \<or> c = 160 \<or> c = 5760
     \<or> 8192 \<le> c \<and> c \<le> 8202 \<or> c \<in> {8232, 8233, 8239, 8287, 12288}"

definition py_strip :: "pystr \<Rightarrow> pystr" where
  "py_strip s = rev (dropWhile py_space (rev (dropWhile py_space s)))"

definition lower_char :: "int \<Rightarrow> pystr" where
  "lower_char c =
     (if 65 \<le> c \<and> c \<le> 90 then [c + 32]
      else if c = 8490 then [107] else if c = 304 then [105, 775] else [c])"

definition py_lower :: "pystr \<Rightarrow> pystr" where
  "py_lower s = concat (map lower_char s)"

definition upper_char :: "int \<Rightarrow> int" where
  "upper_char c = (if 97 \<le> c \<and> c \<le> 122 then c - 32 else c)"

lemma py_lower_idem [simp]: "py_lower (py_lower s) = py_lower s"
  by (induction s) (auto simp: py_lower_def lower_char_def)

lemma py_lower_append: "py_lower (s @ t) = py_lower s @ py_lower t"
  by (simp add: py_lower_def)

lemma py_strip_set: "set (py_strip s) \<subseteq> set s"
  unfolding py_strip_def set_rev using set_dropWhileD [of _ py_space]
  by (metis set_rev subsetI)

lemma py_strip_ends:
  assumes "py_strip s \<noteq> []"
  shows "\<not> py_space (hd (py_strip s)) \<and> \<not> py_space (last (py_strip s))"
proof -
  let ?l = "dropWhile py_space s"
  have l: "\<not> py_space (last (py_strip s))"
    using assms hd_dropWhile [of py_space "rev ?l"] by (simp add: py_strip_def last_rev)
  have ne: "?l \<noteq> []" using assms unfolding py_strip_def by (metis dropWhile.simps(1) rev.simps(1))
  obtain t where t: "?l = py_strip s @ t"
    using takeWhile_dropWhile_id [of py_space "rev ?l"]
    by (metis py_strip_def rev_append rev_rev_ident)
  then have "hd ?l = hd (py_strip s)" using assms by (metis hd_append2)
  with hd_dropWhile [of py_space s] ne l show ?thesis by simp
qed

lemma py_strip_idem [simp]: "py_strip (py_strip s) = py_strip s"
proof (cases "py_strip s")
  case Nil
  then show ?thesis by (simp add: py_strip_def [of "[]"])
next
  case (Cons a t)
  have "dropWhile py_space (py_strip s) = py_strip s"
    using py_strip_ends [of s] Cons by simp
  moreover have "dropWhile py_space (rev (py_strip s)) = rev (py_strip s)"
    using py_strip_ends [of s] Cons
    by (cases "rev (py_strip s)") (auto simp: last_rev hd_rev simp flip: hd_rev)
  ultimately show ?thesis by (simp add: py_strip_def [of "py_strip s"])
qed

fun split_on :: "int \<Rightarrow> pystr \<Rightarrow> pystr list" where
  \<comment> \<open>\<open>str.split\<close> with a one-character separator\<close>
  "split_on c [] = [[]]"
| "split_on c (x # xs) =
     (if x = c then [] # split_on c xs
      else case split_on c xs of [] \<Rightarrow> [[x]] | y # ys \<Rightarrow> (x # y) # ys)"

fun starts_with :: "pystr \<Rightarrow> pystr \<Rightarrow> bool" where
  \<comment> \<open>\<open>starts_with p s\<close>: \<open>s.startswith(p)\<close>\<close>
  "starts_with [] s = True"
| "starts_with (c # p) s = (case s of [] \<Rightarrow> False | d # t \<Rightarrow> c = d \<and> starts_with p t)"

fun str_in :: "pystr \<Rightarrow> pystr \<Rightarrow> bool" where
  \<comment> \<open>\<open>p in s\<close>\<close>
  "str_in p [] = (p = [])"
| "str_in p (c # s) = (starts_with p (c # s) \<or> str_in p s)"

section \<open>Results that may be an exception\<close>

definition rbind :: "'e + 'a \<Rightarrow> ('a \<Rightarrow> 'e + 'b) \<Rightarrow> 'e + 'b" where
  "rbind m f = (case m of Inl e \<Rightarrow> Inl e | Inr x \<Rightarrow> f x)"

lemma rbind_simps [simp]: "rbind (Inl e) f = Inl e" "rbind (Inr x) f = f x"
  by (simp_all add: rbind_def)

lemma rbind_InrE: "rbind m f = Inr y \<Longrightarrow> (\<And>x. m = Inr x \<Longrightarrow> f x = Inr y \<Longrightarrow> P) \<Longrightarrow> P"
  by (cases m) auto

lemma rbind_Inr_iff: "rbind m f = Inr y \<longleftrightarrow> (\<exists>x. m = Inr x \<and> f x = Inr y)"
  by (cases m) auto

section \<open>Lists\<close>

fun dict_fromkeys :: "'a list \<Rightarrow> 'a list" where
  "dict_fromkeys [] = []"
| "dict_fromkeys (x # xs) = x # filter (\<lambda>y. y \<noteq> x) (dict_fromkeys xs)"

lemma set_dict_fromkeys [simp]: "set (dict_fromkeys xs) = set xs"
  by (induction xs) auto

lemma distinct_dict_fromkeys [simp]: "distinct (dict_fromkeys xs)"
  by (induction xs) auto

lemma dict_fromkeys_distinct: "distinct xs \<Longrightarrow> dict_fromkeys xs = xs"
  by (induction xs) (auto intro!: filter_True)

lemma dict_fromkeys_idem [simp]: "dict_fromkeys (dict_fromkeys xs) = dict_fromkeys xs"
  by (simp add: dict_fromkeys_distinct)

lemma dict_fromkeys_append:
  "dict_fromkeys (xs @ ys) = dict_fromkeys xs @ filter (\<lambda>y. y \<notin> set xs) (dict_fromkeys ys)"
  by (induction xs) (auto intro: filter_cong)

lemma dict_fromkeys_Nil_iff [simp]: "dict_fromkeys xs = [] \<longleftrightarrow> xs = []"
  by (cases xs) auto

lemma length_dict_fromkeys: "length (dict_fromkeys xs) \<le> length xs"
  by (induction xs) (auto intro: order_trans [OF length_filter_le])

definition last_n :: "nat \<Rightarrow> 'a list \<Rightarrow> 'a list" where
  "last_n n xs = drop (length xs - n) xs"

lemma length_last_n [simp]: "length (last_n n xs) = min n (length xs)"
  by (auto simp: last_n_def)

lemma set_last_n: "set (last_n n xs) \<subseteq> set xs"
  by (simp add: last_n_def set_drop_subset)

lemma last_n_all: "length xs \<le> n \<Longrightarrow> last_n n xs = xs"
  by (simp add: last_n_def)

lemma last_n_snoc: "0 < n \<Longrightarrow> last_n n (xs @ [x]) = last_n (n - 1) xs @ [x]"
  by (cases "length xs \<le> n - 1") (auto simp: last_n_def Suc_diff_le drop_Cons')

text \<open>Python's \<open>for index, x in enumerate(xs)\<close>.\<close>

definition enumerate_py :: "'a list \<Rightarrow> (nat \<times> 'a) list" where
  "enumerate_py xs = zip [0..<length xs] xs"

lemma map_snd_enumerate [simp]: "map snd (enumerate_py xs) = xs"
  by (simp add: enumerate_py_def)

lemma set_enumerate: "(i, x) \<in> set (enumerate_py xs) \<longleftrightarrow> i < length xs \<and> xs ! i = x"
  by (auto simp: enumerate_py_def set_zip intro!: exI [of _ i])

section \<open>Sorting\<close>

text \<open>
  \<open>sorted(xs, key=f)\<close> and \<open>list.sort(key=f)\<close> are stable; the library's
  \<open>sort_key\<close> is the stable insertion sort. These are the facts the components use.
\<close>

lemma sort_key_mset: "mset (sort_key f xs) = mset xs"
  by simp

lemma sort_key_Nil_iff [simp]: "sort_key f xs = [] \<longleftrightarrow> xs = []"
  by (metis length_0_conv length_sort)

lemma sort_key_Cons_hd:
  assumes "sort_key f xs = y # ys" shows "y \<in> set xs \<and> (\<forall>x \<in> set xs. f y \<le> f x)"
proof -
  have "sorted (map f (y # ys))" using assms sorted_sort_key [of f xs] by metis
  moreover have "set (y # ys) = set xs" using assms set_sort [of f xs] by metis
  ultimately show ?thesis by auto
qed

lemma sorted_take_map: "sorted (map f xs) \<Longrightarrow> sorted (map f (take n xs))"
  using sorted_wrt_take [of "(\<le>)" "map f xs" n] by (simp add: take_map)

lemma sort_key_take_best:
  assumes "x \<in> set (take n (sort_key f xs))" "y \<in> set (drop n (sort_key f xs))"
  shows "f x \<le> f y"
proof -
  have "sorted (map f (take n (sort_key f xs)) @ map f (drop n (sort_key f xs)))"
    using sorted_sort_key [of f xs] by (metis append_take_drop_id map_append)
  with assms show ?thesis by (auto simp: sorted_append)
qed

section \<open>Runs and refinement\<close>

text \<open>
  \<open>runs step s ls s'\<close>: steps with labels \<open>ls\<close> lead from \<open>s\<close> to \<open>s'\<close>. A component with an
  invariant whose steps are steps of an abstract machine refines it: every run keeps the
  invariant and is a run of the abstract machine with the same labels.
\<close>

inductive runs :: "('s \<Rightarrow> 'l \<Rightarrow> 's \<Rightarrow> bool) \<Rightarrow> 's \<Rightarrow> 'l list \<Rightarrow> 's \<Rightarrow> bool" for step where
  runs_Nil [simp, intro!]: "runs step s [] s"
| runs_snoc: "runs step s ls s' \<Longrightarrow> step s' l s'' \<Longrightarrow> runs step s (ls @ [l]) s''"

lemma runs_single: "step s l s' \<Longrightarrow> runs step s [l] s'"
  using runs_snoc [of step s "[]" s l s'] by simp

lemma runs_append: "runs step s' ms s'' \<Longrightarrow> runs step s ls s' \<Longrightarrow> runs step s (ls @ ms) s''"
  by (induction rule: runs.induct) (auto simp flip: append_assoc intro: runs_snoc)

locale refinement =
  fixes inv :: "'s \<Rightarrow> bool" and step :: "'s \<Rightarrow> 'l \<Rightarrow> 's \<Rightarrow> bool"
    and abs :: "'s \<Rightarrow> 'a" and astep :: "'a \<Rightarrow> 'l \<Rightarrow> 'a \<Rightarrow> bool"
  assumes inv_step: "inv s \<Longrightarrow> step s l s' \<Longrightarrow> inv s'"
    and simulates: "inv s \<Longrightarrow> step s l s' \<Longrightarrow> astep (abs s) l (abs s')"
begin

lemma inv_runs: "runs step s ls s' \<Longrightarrow> inv s \<Longrightarrow> inv s'"
  by (induction rule: runs.induct) (auto intro: inv_step)

lemma refines: "runs step s ls s' \<Longrightarrow> inv s \<Longrightarrow> runs astep (abs s) ls (abs s')"
proof (induction rule: runs.induct)
  case (runs_snoc s ls s' l s'')
  then show ?case by (meson inv_runs runs.runs_snoc simulates)
qed simp

lemma preserves:
  assumes "\<And>s l s'. inv s \<Longrightarrow> step s l s' \<Longrightarrow> P s \<Longrightarrow> P s'"
  shows "runs step s ls s' \<Longrightarrow> inv s \<Longrightarrow> P s \<Longrightarrow> P s'"
proof (induction rule: runs.induct)
  case (runs_snoc s ls s' l s'')
  then show ?case using assms inv_runs by blast
qed simp

end

end
