(* ===== verification/Floats.thy ===== *)
theory Floats
  imports Prelude Complex_Main "HOL-Library.Log_Nat"
begin

text \<open>
  The numbers of the program. A Python \<open>float\<close> is a binary number with a 53-bit
  significand; its value is held as a rational, and every operation rounds the exact result
  to the nearest such number, ties to even (\<open>fl\<close>). The range of the exponent is not
  bounded in the model, so an overflow to infinity and the loss of precision of subnormal
  numbers (below \<open>2^-1022\<close>) are outside it; the amounts, rates and seconds of this
  program are far from both. A \<open>decimal.Decimal\<close> is a rational too; its arithmetic rounds
  to the 28 significant digits of the default context, ties to even (\<open>dec\<close>), and
  \<open>quantize(Decimal("0.01"), ROUND_HALF_UP)\<close> raises InvalidOperation (\<open>None\<close>) when
  the result needs more than 28 digits. \<open>Decimal(str(x))\<close> of a float is the shortest
  decimal that reads back as \<open>x\<close> (\<open>dec_of_float\<close>), \<open>float(d)\<close> of a Decimal is
  \<open>fl d\<close>, and \<open>round(x, n)\<close> is \<open>py_round\<close>.

  What the components rely on is stated by two locales: \<open>monotone_rounding\<close> (monotone and
  odd) and \<open>idempotent_rounding\<close> (its results are fixed points). Both roundings are
  interpretations, so \<open>double.round_nonneg\<close> and \<open>decimal28.round_nonneg\<close> are the same
  lemma on the two number types.
\<close>

section \<open>Rounding to an integer\<close>

definition round_half_even :: "rat \<Rightarrow> int" where
  "round_half_even q =
     (let f = \<lfloor>q\<rfloor>; d = q - of_int f
      in if d < 1 / 2 then f else if 1 / 2 < d then f + 1 else if even f then f else f + 1)"

definition round_half_up :: "rat \<Rightarrow> int" where
  \<comment> \<open>ROUND_HALF_UP of the decimal module: ties away from zero\<close>
  "round_half_up q = (if 0 \<le> q then \<lfloor>q + 1 / 2\<rfloor> else - \<lfloor>- q + 1 / 2\<rfloor>)"

lemma round_half_even_of_int [simp]: "round_half_even (of_int n) = n"
  by (simp add: round_half_even_def)

lemma round_half_even_err: "\<bar>of_int (round_half_even q) - q\<bar> \<le> 1 / 2"
proof -
  have f: "of_int \<lfloor>q\<rfloor> \<le> q" "q < of_int \<lfloor>q\<rfloor> + 1" using floor_correct [of q] by auto
  have "round_half_even q = \<lfloor>q\<rfloor> \<and> q - of_int \<lfloor>q\<rfloor> \<le> 1 / 2
      \<or> round_half_even q = \<lfloor>q\<rfloor> + 1 \<and> 1 / 2 \<le> q - of_int \<lfloor>q\<rfloor>"
    by (simp add: round_half_even_def Let_def not_less)
  then show ?thesis using f
  proof (elim disjE conjE)
    assume "round_half_even q = \<lfloor>q\<rfloor>" "q - of_int \<lfloor>q\<rfloor> \<le> 1 / 2"
    then show ?thesis using f(1) by (simp add: abs_le_iff field_simps)
  next
    assume "round_half_even q = \<lfloor>q\<rfloor> + 1" "1 / 2 \<le> q - of_int \<lfloor>q\<rfloor>"
    then show ?thesis using f(2) by (simp add: abs_le_iff field_simps)
  qed
qed

lemma round_half_even_mono:
  assumes "x \<le> y" shows "round_half_even x \<le> round_half_even y"
proof (cases "\<lfloor>x\<rfloor> = \<lfloor>y\<rfloor>")
  case True
  with assms show ?thesis by (auto simp: round_half_even_def Let_def)
next
  case False
  with floor_mono [OF assms] have "\<lfloor>x\<rfloor> + 1 \<le> \<lfloor>y\<rfloor>" by linarith
  then show ?thesis by (auto simp: round_half_even_def Let_def)
qed

lemma round_half_even_minus: "round_half_even (- q) = - round_half_even q"
proof (cases "q = of_int \<lfloor>q\<rfloor>")
  case True
  then show ?thesis by (metis of_int_minus round_half_even_of_int)
next
  case False
  then have "of_int \<lfloor>q\<rfloor> < q" "q < of_int \<lfloor>q\<rfloor> + 1" using floor_correct [of q] by linarith+
  then have "\<lfloor>- q\<rfloor> = - \<lfloor>q\<rfloor> - 1" by (intro floor_unique) auto
  then show ?thesis by (auto simp: round_half_even_def Let_def)
qed

lemma round_half_up_of_int [simp]: "round_half_up (of_int n) = n"
  by (auto simp: round_half_up_def floor_eq_iff simp flip: of_int_minus)

lemma round_half_up_minus: "round_half_up (- q) = - round_half_up q"
proof (cases "q = 0")
  case False
  then show ?thesis by (auto simp: round_half_up_def)
next
  case True
  moreover have "\<lfloor>1 / 2 :: rat\<rfloor> = 0" by (simp add: floor_eq_iff)
  ultimately show ?thesis by (simp add: round_half_up_def)
qed

lemma round_half_up_nonneg: "0 \<le> q \<Longrightarrow> 0 \<le> round_half_up q"
  by (simp add: round_half_up_def)

lemma round_half_up_mono:
  assumes "x \<le> y" shows "round_half_up x \<le> round_half_up y"
proof -
  consider "0 \<le> x" | "x < 0" "0 \<le> y" | "y < 0" by linarith
  then show ?thesis
  proof cases
    case 1
    with assms show ?thesis by (simp add: round_half_up_def floor_mono)
  next
    case 2
    then have "0 \<le> \<lfloor>- x + 1 / 2\<rfloor>" "0 \<le> \<lfloor>y + 1 / 2\<rfloor>" by simp_all
    then have "- \<lfloor>- x + 1 / 2\<rfloor> \<le> \<lfloor>y + 1 / 2\<rfloor>" by linarith
    with 2 show ?thesis by (simp only: round_half_up_def) simp
  next
    case 3
    with assms have "\<lfloor>- y + 1 / 2\<rfloor> \<le> \<lfloor>- x + 1 / 2\<rfloor>" by (intro floor_mono) auto
    with 3 assms show ?thesis by (simp add: round_half_up_def)
  qed
qed

section \<open>Rounding to p significant digits in base b\<close>

text \<open>\<open>int_digits b n\<close>: how many base-b digits the positive integer \<open>n\<close> has.\<close>

function int_digits :: "nat \<Rightarrow> int \<Rightarrow> nat" where
  "int_digits b n = (if n \<le> 0 \<or> b \<le> 1 then 0 else Suc (int_digits b (n div int b)))"
  by pat_completeness auto
termination
  by (relation "measure (\<lambda>(b, n). nat n)") (auto intro: pos_imp_zdiv_nonneg_iff [THEN iffD2] simp: int_div_less_self nat_less_iff)

declare int_digits.simps [simp del]

lemma int_digits_eval:
  "n \<le> 0 \<Longrightarrow> int_digits b n = 0"
  "0 < n \<Longrightarrow> 1 < b \<Longrightarrow> int_digits b n = Suc (int_digits b (n div int b))"
  by (subst int_digits.simps; simp)+

lemma int_digits_floorlog: "int_digits b n = floorlog b (nat n)"
proof (induction b n rule: int_digits.induct)
  case (1 b n)
  then show ?case
    by (subst int_digits.simps, subst compute_floorlog) (auto simp: nat_div_distrib)
qed

definition lead_exp :: "nat \<Rightarrow> rat \<Rightarrow> int" where
  \<comment> \<open>the exponent of the leading digit of a positive number\<close>
  "lead_exp b q =
     (if 1 \<le> q then int (int_digits b \<lfloor>q\<rfloor>) - 1 else - int (int_digits b (\<lceil>1 / q\<rceil> - 1)))"

definition sig_round :: "nat \<Rightarrow> nat \<Rightarrow> rat \<Rightarrow> rat" where
  "sig_round b p q =
     (if q = 0 then 0
      else let e = lead_exp b \<bar>q\<bar> - (int p - 1); u = power_int (of_nat b) e
           in of_int (round_half_even (q / u)) * u)"

lemma powi_less_exp: "1 < (x :: rat) \<Longrightarrow> power_int x m < power_int x n \<Longrightarrow> m < n"
  using power_int_increasing [of n m x] by (meson less_imp_le not_less)

lemma lead_exp_bounds:
  assumes b: "2 \<le> b" and q: "0 < q"
  shows "power_int (of_nat b) (lead_exp b q) \<le> q \<and> q < power_int (of_nat b) (lead_exp b q + 1)"
proof (cases "1 \<le> q")
  case True
  define n where "n = nat \<lfloor>q\<rfloor>"
  have n: "0 < n" "of_nat n \<le> q" "q < of_nat n + 1"
    using True by (auto simp: n_def le_floor_iff of_nat_nat) linarith
  have f: "b ^ (floorlog b n - 1) \<le> n" "n < b ^ floorlog b n" "0 < floorlog b n"
    using floorlog_bounds [of n b] n(1) b by (auto simp: floorlog_def)
  have 1: "power_int (of_nat b) (lead_exp b q) = (of_nat (b ^ (floorlog b n - 1)) :: rat)"
    using True f(3) by (simp add: lead_exp_def int_digits_floorlog n_def [symmetric] power_int_def nat_diff_distrib)
  have 2: "power_int (of_nat b) (lead_exp b q + 1) = (of_nat (b ^ floorlog b n) :: rat)"
    using True by (simp add: lead_exp_def int_digits_floorlog n_def [symmetric] power_int_def)
  have "(of_nat (b ^ (floorlog b n - 1)) :: rat) \<le> of_nat n" using f(1) by (simp only: of_nat_le_iff)
  moreover have "(of_nat n + 1 :: rat) \<le> of_nat (b ^ floorlog b n)"
    using f(2) by (metis Suc_eq_plus1 Suc_leI of_nat_Suc of_nat_le_iff add.commute)
  ultimately show ?thesis using n 1 2 by linarith
next
  case False
  define n where "n = nat (\<lceil>1 / q\<rceil> - 1)"
  have "1 < 1 / q" using False q by (simp add: field_simps)
  then have "1 < \<lceil>1 / q\<rceil>" by (simp add: less_ceiling_iff)
  then have n: "0 < n" "of_nat n < 1 / q" "1 / q \<le> of_nat n + 1"
    using ceiling_correct [of "1 / q"] by (auto simp: n_def of_nat_nat) linarith+
  have f: "b ^ (floorlog b n - 1) \<le> n" "n < b ^ floorlog b n" "0 < floorlog b n"
    using floorlog_bounds [of n b] n(1) b by (auto simp: floorlog_def)
  have bpos: "(0 :: rat) < of_nat (b ^ k)" for k using b by simp
  have 1: "power_int (of_nat b) (lead_exp b q) = 1 / (of_nat (b ^ floorlog b n) :: rat)"
    using False f(3) by (simp add: lead_exp_def int_digits_floorlog n_def [symmetric] power_int_def field_simps)
  have 2: "power_int (of_nat b) (lead_exp b q + 1) = 1 / (of_nat (b ^ (floorlog b n - 1)) :: rat)"
  proof -
    have "lead_exp b q + 1 = - int (floorlog b n - 1)"
      using False f(3) by (simp add: lead_exp_def int_digits_floorlog n_def [symmetric])
    then show ?thesis by (simp only: power_int_minus power_int_of_nat) (simp add: field_simps)
  qed
  have "(of_nat (b ^ (floorlog b n - 1)) :: rat) \<le> of_nat n" using f(1) by (simp only: of_nat_le_iff)
  then have a: "of_nat (b ^ (floorlog b n - 1)) < 1 / q" using n(2) by linarith
  have "(of_nat n + 1 :: rat) \<le> of_nat (b ^ floorlog b n)"
    using f(2) by (metis Suc_eq_plus1 Suc_leI of_nat_Suc of_nat_le_iff add.commute)
  then have c: "1 / q \<le> of_nat (b ^ floorlog b n)" using n(3) by linarith
  from a c show ?thesis unfolding 1 2 using q bpos [of "floorlog b n"] bpos [of "floorlog b n - 1"]
    by (simp only: pos_divide_le_eq pos_less_divide_eq mult.commute) 
qed

lemma lead_exp_unique:
  assumes b: "2 \<le> b" and "power_int (of_nat b) e \<le> q" "q < power_int (of_nat b) (e + 1)"
  shows "lead_exp b q = e"
proof -
  have b1: "(1 :: rat) < of_nat b" using b by simp
  have "0 < q" using assms(2) b by (meson less_le_trans of_nat_0_less_iff zero_less_power_int
        le_trans less_le_trans one_le_numeral less_eq_Suc_le pos2 not_less)
  note l = lead_exp_bounds [OF b this]
  have "power_int (of_nat b :: rat) (lead_exp b q) < power_int (of_nat b) (e + 1)" using l assms by linarith
  then have "lead_exp b q < e + 1" using powi_less_exp [OF b1] by blast
  moreover have "power_int (of_nat b :: rat) e < power_int (of_nat b) (lead_exp b q + 1)" using l assms by linarith
  then have "e < lead_exp b q + 1" using powi_less_exp [OF b1] by blast
  ultimately show ?thesis by linarith
qed

lemma lead_exp_mono:
  assumes b: "2 \<le> b" and "0 < x" "x \<le> y" shows "lead_exp b x \<le> lead_exp b y"
proof -
  have b1: "(1 :: rat) < of_nat b" using b by simp
  have "power_int (of_nat b :: rat) (lead_exp b x) < power_int (of_nat b) (lead_exp b y + 1)"
    using lead_exp_bounds [OF b, of x] lead_exp_bounds [OF b, of y] assms by linarith
  then have "lead_exp b x < lead_exp b y + 1" using powi_less_exp [OF b1] by blast
  then show ?thesis by linarith
qed

definition ulp :: "nat \<Rightarrow> nat \<Rightarrow> rat \<Rightarrow> rat" where
  "ulp b p q = power_int (of_nat b) (lead_exp b q - (int p - 1))"

lemma sig_round_zero [simp]: "sig_round b p 0 = 0"
  by (simp add: sig_round_def)

lemma sig_round_minus: "sig_round b p (- q) = - sig_round b p q"
  by (simp add: sig_round_def Let_def round_half_even_minus)

lemma sig_round_pos: "0 < q \<Longrightarrow> sig_round b p q = of_int (round_half_even (q / ulp b p q)) * ulp b p q"
  by (simp add: sig_round_def ulp_def Let_def)

lemma ulp_facts:
  assumes "2 \<le> b" "1 \<le> p"
  shows "0 < ulp b p q"
    "power_int (of_nat b) (lead_exp b q) = of_int (int b ^ (p - 1)) * ulp b p q"
    "power_int (of_nat b) (lead_exp b q + 1) = of_int (int b ^ p) * ulp b p q"
proof -
  have b: "(of_nat b :: rat) \<noteq> 0" "(0 :: rat) < of_nat b" using assms by auto
  show "0 < ulp b p q" using b by (simp add: ulp_def)
  have "lead_exp b q = int (p - 1) + (lead_exp b q - (int p - 1))" using assms by (simp add: of_nat_diff)
  then show "power_int (of_nat b) (lead_exp b q) = of_int (int b ^ (p - 1)) * ulp b p q"
    using b(1) power_int_add [of "of_nat b :: rat" "int (p - 1)" "lead_exp b q - (int p - 1)"]
    by (simp only: ulp_def power_int_of_nat of_int_power of_int_of_nat_eq) auto
  have "lead_exp b q + 1 = int p + (lead_exp b q - (int p - 1))" by simp
  then show "power_int (of_nat b) (lead_exp b q + 1) = of_int (int b ^ p) * ulp b p q"
    using b(1) power_int_add [of "of_nat b :: rat" "int p" "lead_exp b q - (int p - 1)"]
    by (simp add: ulp_def)
qed

lemma sig_round_between:
  assumes b: "2 \<le> b" and p: "1 \<le> p" and q: "0 < q"
  shows "power_int (of_nat b) (lead_exp b q) \<le> sig_round b p q"
    and "sig_round b p q \<le> power_int (of_nat b) (lead_exp b q + 1)"
proof -
  note u = ulp_facts [OF b p, of q] and l = lead_exp_bounds [OF b q]
  have "of_int (int b ^ (p - 1)) \<le> q / ulp b p q" "q / ulp b p q \<le> of_int (int b ^ p)"
    using l u by (simp_all only: pos_le_divide_eq pos_divide_le_eq) simp_all
  then have "int b ^ (p - 1) \<le> round_half_even (q / ulp b p q)" "round_half_even (q / ulp b p q) \<le> int b ^ p"
    using round_half_even_mono round_half_even_of_int by metis+
  then have "of_int (int b ^ (p - 1)) \<le> (of_int (round_half_even (q / ulp b p q)) :: rat)"
    "(of_int (round_half_even (q / ulp b p q)) :: rat) \<le> of_int (int b ^ p)"
    by (simp_all only: of_int_le_iff)
  then show "power_int (of_nat b) (lead_exp b q) \<le> sig_round b p q"
    "sig_round b p q \<le> power_int (of_nat b) (lead_exp b q + 1)"
    unfolding sig_round_pos [OF q] u(2,3) using u(1) by (auto intro: mult_right_mono)
qed

lemma sig_round_mono_pos:
  assumes b: "2 \<le> b" and p: "1 \<le> p" and "0 < x" "x \<le> y"
  shows "sig_round b p x \<le> sig_round b p y"
proof (cases "lead_exp b x = lead_exp b y")
  case True
  then have u: "ulp b p x = ulp b p y" by (simp add: ulp_def)
  have "x / ulp b p y \<le> y / ulp b p y" using assms ulp_facts(1) [OF b p, of y] by (simp add: divide_right_mono)
  then have "(of_int (round_half_even (x / ulp b p y)) :: rat) \<le> of_int (round_half_even (y / ulp b p y))"
    using round_half_even_mono by (simp only: of_int_le_iff)
  then show ?thesis
    using assms ulp_facts(1) [OF b p, of y] by (simp add: sig_round_pos u mult_right_mono)
next
  case False
  have y: "0 < y" using assms by linarith
  have "lead_exp b x + 1 \<le> lead_exp b y" using lead_exp_mono [OF b assms(3,4)] False by linarith
  then have "power_int (of_nat b :: rat) (lead_exp b x + 1) \<le> power_int (of_nat b) (lead_exp b y)"
    using b by (intro power_int_increasing) auto
  then show ?thesis
    using sig_round_between(2) [OF b p assms(3)] sig_round_between(1) [OF b p y] by linarith
qed

lemma sig_round_nonneg: "2 \<le> b \<Longrightarrow> 1 \<le> p \<Longrightarrow> 0 \<le> q \<Longrightarrow> 0 \<le> sig_round b p q"
  using sig_round_between(1) [of b p q] by (cases "q = 0") (auto intro: order_trans [rotated])

lemma sig_round_mono:
  assumes b: "2 \<le> b" and p: "1 \<le> p" and "x \<le> y"
  shows "sig_round b p x \<le> sig_round b p y"
proof -
  consider "0 < x" | "x \<le> 0" "0 \<le> y" | "y < 0" by linarith
  then show ?thesis
  proof cases
    case 1
    then show ?thesis using sig_round_mono_pos [OF b p] assms by blast
  next
    case 2
    then show ?thesis
      using sig_round_nonneg [OF b p, of y] sig_round_nonneg [OF b p, of "- x"] sig_round_minus [of b p x]
      by linarith
  next
    case 3
    then show ?thesis
      using sig_round_mono_pos [OF b p, of "- y" "- x"] assms by (simp add: sig_round_minus)
  qed
qed

text \<open>Numbers of at most \<open>p\<close> digits are fixed points.\<close>

lemma sig_round_exact:
  assumes b: "2 \<le> b" and p: "1 \<le> p" and m: "\<bar>m\<bar> \<le> int b ^ p"
  shows "sig_round b p (of_int m * power_int (of_nat b) e) = of_int m * power_int (of_nat b) e"
proof -
  have b1: "(1 :: rat) < of_nat b" "(of_nat b :: rat) \<noteq> 0" using b by auto
  have main: "sig_round b p (of_int m * power_int (of_nat b) e) = of_int m * power_int (of_nat b) e"
    if m: "0 < m" "m < int b ^ p" for m e
  proof -
    define q where "q = of_int m * power_int (of_nat b :: rat) e"
    have q: "0 < q" using m b1 by (simp add: q_def)
    have "(of_int m :: rat) < of_int (int b ^ p)" using m by (simp only: of_int_less_iff)
    then have "q < power_int (of_nat b) (int p + e)"
      using b1 by (simp add: q_def power_int_add)
    then have "power_int (of_nat b :: rat) (lead_exp b q) < power_int (of_nat b) (int p + e)"
      using lead_exp_bounds [OF b q] by linarith
    then have "lead_exp b q < int p + e" using powi_less_exp [OF b1(1)] by blast
    then obtain d where d: "e = (lead_exp b q - (int p - 1)) + int d"
      using zle_iff_zadd [of "lead_exp b q - (int p - 1)" e] by auto
    then have "power_int (of_nat b :: rat) e = ulp b p q * of_nat b ^ d"
      using b1 by (subst d) (simp add: ulp_def power_int_add)
    then have "q = of_int (m * int b ^ d) * ulp b p q"
      unfolding of_int_mult of_int_power of_int_of_nat_eq by (simp only: q_def mult.assoc mult.commute)
    then have "q / ulp b p q = of_int (m * int b ^ d)"
      using ulp_facts(1) [OF b p, of q] by (metis nonzero_mult_div_cancel_right less_irrefl)
    then show ?thesis
      using sig_round_pos [OF q, of b p] \<open>q = of_int (m * int b ^ d) * ulp b p q\<close>
      by (simp only: round_half_even_of_int q_def [symmetric])
  qed
  have pos: "sig_round b p (of_int m * power_int (of_nat b) e) = of_int m * power_int (of_nat b) e"
    if m: "0 \<le> m" "m \<le> int b ^ p" for m
  proof -
    consider "m = 0" | "0 < m" "m < int b ^ p" | "m = int b ^ p" using m by linarith
    then show ?thesis
    proof cases
      case 3
      have "of_int m * power_int (of_nat b) e = (of_int 1 :: rat) * power_int (of_nat b) (int p + e)"
        using 3 b1 by (simp add: power_int_add)
      moreover have "1 < int b ^ p" using b p by (simp add: one_less_power)
      ultimately show ?thesis using main [of 1 "int p + e"] by simp
    qed (use main in auto)
  qed
  show ?thesis
  proof (cases "0 \<le> m")
    case True
    with pos m show ?thesis by simp
  next
    case False
    with pos [of "- m"] m show ?thesis
      using sig_round_minus [of b p "of_int m * power_int (of_nat b) e"] by simp
  qed
qed

lemma sig_round_idem:
  assumes b: "2 \<le> b" and p: "1 \<le> p"
  shows "sig_round b p (sig_round b p q) = sig_round b p q"
proof -
  have main: "sig_round b p (sig_round b p q) = sig_round b p q" if q: "0 < q" for q
  proof -
    let ?m = "round_half_even (q / ulp b p q)"
    note u = ulp_facts [OF b p, of q]
    have "of_int ?m * ulp b p q \<le> of_int (int b ^ p) * ulp b p q"
      using sig_round_between(2) [OF b p q] u(3) sig_round_pos [OF q, of b p] by simp
    then have 1: "?m \<le> int b ^ p" using u(1) by (simp only: mult_le_cancel_right_pos of_int_le_iff)
    have "0 \<le> q / ulp b p q" using u(1) q by simp
    then have "0 \<le> ?m" using round_half_even_mono [of 0] round_half_even_of_int [of 0] by simp
    with 1 show ?thesis unfolding sig_round_pos [OF q] ulp_def
      by (intro sig_round_exact [OF b p]) auto
  qed
  consider "0 < q" | "q = 0" | "0 < - q" by linarith
  then show ?thesis
    using main [of q] main [of "- q"] by cases (simp_all add: sig_round_minus)
qed

section \<open>The contract of a rounding\<close>

locale monotone_rounding =
  fixes rnd :: "rat \<Rightarrow> rat"
  assumes rnd_mono: "x \<le> y \<Longrightarrow> rnd x \<le> rnd y"
    and rnd_minus: "rnd (- x) = - rnd x"
begin

lemma rnd_zero: "rnd 0 = 0"
  using rnd_minus [of 0] by simp

lemma rnd_nonneg: "0 \<le> x \<Longrightarrow> 0 \<le> rnd x"
  using rnd_mono [of 0 x] by (simp add: rnd_zero)

lemma rnd_nonpos: "x \<le> 0 \<Longrightarrow> rnd x \<le> 0"
  using rnd_mono [of x 0] by (simp add: rnd_zero)

lemma rnd_strict: "rnd x < rnd y \<Longrightarrow> x < y"
  using rnd_mono [of y x] by (meson not_less)

lemma rnd_ge_fixed: "rnd a = a \<Longrightarrow> a \<le> x \<Longrightarrow> a \<le> rnd x"
  using rnd_mono [of a x] by simp

lemma rnd_le_fixed: "rnd a = a \<Longrightarrow> x \<le> a \<Longrightarrow> rnd x \<le> a"
  using rnd_mono [of x a] by simp

end

locale idempotent_rounding = monotone_rounding +
  assumes rnd_idem: "rnd (rnd x) = rnd x"
begin

lemma rnd_ge_rnd: "rnd y \<le> x \<Longrightarrow> rnd y \<le> rnd x"
  using rnd_ge_fixed [OF rnd_idem] .

lemma rnd_add_ge_left: "rnd x = x \<Longrightarrow> 0 \<le> y \<Longrightarrow> x \<le> rnd (x + y)"
  by (rule rnd_ge_fixed) auto

end

section \<open>Floats\<close>

definition fl :: "rat \<Rightarrow> rat" where
  "fl = sig_round 2 53"

definition is_float :: "rat \<Rightarrow> bool" where
  "is_float x \<longleftrightarrow> fl x = x"

interpretation double: idempotent_rounding fl
  by unfold_locales (auto simp: fl_def sig_round_mono sig_round_minus sig_round_idem)

definition py_round :: "nat \<Rightarrow> rat \<Rightarrow> rat" where
  \<comment> \<open>\<open>round(x, n)\<close>: the correctly rounded decimal, read back as a float\<close>
  "py_round n x = fl (of_int (round_half_even (x * 10 ^ n)) / 10 ^ n)"

interpretation pyround: monotone_rounding "py_round n" for n
proof unfold_locales
  fix x y :: rat
  assume "x \<le> y"
  then have "x * 10 ^ n \<le> y * 10 ^ n" by (simp add: mult_right_mono)
  then have "(of_int (round_half_even (x * 10 ^ n)) :: rat) \<le> of_int (round_half_even (y * 10 ^ n))"
    using round_half_even_mono by (simp only: of_int_le_iff)
  then show "py_round n x \<le> py_round n y"
    unfolding py_round_def by (intro double.rnd_mono divide_right_mono) auto
next
  fix x :: rat
  show "py_round n (- x) = - py_round n x"
    using round_half_even_minus [of "x * 10 ^ n"] double.rnd_minus by (simp add: py_round_def)
qed

lemma is_float_fl [simp]: "is_float (fl x)"
  by (simp add: is_float_def double.rnd_idem)

lemma is_float_of_int: "\<bar>n\<bar> \<le> 2 ^ 53 \<Longrightarrow> is_float (of_int n)"
  using sig_round_exact [of 2 53 n 0] by (simp add: is_float_def fl_def)

lemma fl_zero [simp]: "fl 0 = 0"
  by (rule double.rnd_zero)

lemma fl_one [simp]: "fl 1 = 1"
  using is_float_of_int [of 1] by (simp add: is_float_def)

lemma py_round_one [simp]: "py_round n 1 = 1"
  using round_half_even_of_int [of "10 ^ n"] by (simp add: py_round_def)

lemma py_round_zero [simp]: "py_round n 0 = 0"
  by (rule pyround.rnd_zero)

lemma py_round_unit: "0 \<le> x \<Longrightarrow> x \<le> 1 \<Longrightarrow> 0 \<le> py_round n x \<and> py_round n x \<le> 1"
  using pyround.rnd_le_fixed [of n 1 x] pyround.rnd_nonneg [of x n] by simp

section \<open>Decimals\<close>

definition dec :: "rat \<Rightarrow> rat" where
  "dec = sig_round 10 28"

interpretation decimal28: idempotent_rounding dec
  by unfold_locales (auto simp: dec_def sig_round_mono sig_round_minus sig_round_idem)

definition quantize_cent :: "rat \<Rightarrow> rat option" where
  "quantize_cent d =
     (let n = round_half_up (d * 100) in if \<bar>n\<bar> < 10 ^ 28 then Some (of_int n / 100) else None)"

lemma quantize_cent_nonneg: "quantize_cent d = Some r \<Longrightarrow> 0 \<le> d \<Longrightarrow> 0 \<le> r"
  using round_half_up_nonneg [of "d * 100"] by (auto simp: quantize_cent_def Let_def split: if_splits)

lemma quantize_cent_mono:
  "quantize_cent d = Some r \<Longrightarrow> quantize_cent d' = Some r' \<Longrightarrow> d \<le> d' \<Longrightarrow> r \<le> r'"
  using round_half_up_mono [of "d * 100" "d' * 100"]
  by (auto simp: quantize_cent_def Let_def divide_right_mono split: if_splits)

lemma quantize_cent_cents: "quantize_cent d = Some r \<Longrightarrow> \<exists>n. r = of_int n / 100 \<and> \<bar>n\<bar> < 10 ^ 28"
  by (auto simp: quantize_cent_def Let_def split: if_splits intro!: exI [of _ "round_half_up (d * 100)"])

lemma quantize_cent_zero [simp]: "quantize_cent 0 = Some 0"
  using round_half_up_of_int [of 0] by (simp add: quantize_cent_def)

lemma quantize_cent_of_cents: "\<bar>n\<bar> < 10 ^ 28 \<Longrightarrow> quantize_cent (of_int n / 100) = Some (of_int n / 100)"
  by (simp add: quantize_cent_def)

text \<open>
  \<open>Decimal(str(x))\<close>: for 1 to 17 digits, the nearest decimal of that many digits and then its
  two neighbours; the first one that rounds to \<open>x\<close>.
\<close>

definition digit_candidates :: "nat \<Rightarrow> rat \<Rightarrow> rat list" where
  "digit_candidates n x =
     (let u = power_int 10 (lead_exp 10 \<bar>x\<bar> - (int n - 1))
      in [sig_round 10 n x, of_int \<lfloor>x / u\<rfloor> * u, of_int \<lceil>x / u\<rceil> * u])"

definition dec_of_float :: "rat \<Rightarrow> rat" where
  "dec_of_float x =
     (case find (\<lambda>d. fl d = x) (concat (map (\<lambda>n. digit_candidates n x) [1..<18])) of
        Some d \<Rightarrow> d | None \<Rightarrow> x)"

lemma fl_dec_of_float: "is_float x \<Longrightarrow> fl (dec_of_float x) = x"
  by (auto simp: dec_of_float_def is_float_def find_Some_iff split: option.splits)

lemma dec_of_float_strict_mono: "is_float x \<Longrightarrow> is_float y \<Longrightarrow> x < y \<Longrightarrow> dec_of_float x < dec_of_float y"
  using double.rnd_strict [of "dec_of_float x" "dec_of_float y"] by (simp add: fl_dec_of_float)

lemma dec_of_float_mono: "is_float x \<Longrightarrow> is_float y \<Longrightarrow> x \<le> y \<Longrightarrow> dec_of_float x \<le> dec_of_float y"
  using dec_of_float_strict_mono [of x y] by (cases "x = y") auto

lemma fl_eq_zero: "fl d = 0 \<longleftrightarrow> d = 0"
proof -
  have "fl d \<noteq> 0" if "0 < d" for d
    using sig_round_between(1) [of 2 53 d] that by (simp add: fl_def) (metis not_le power_int_0_left_if zero_less_numeral zero_less_power_int)
  from this [of d] this [of "- d"] show ?thesis by (cases d "0 :: rat" rule: linorder_cases) (auto simp: double.rnd_minus)
qed

lemma dec_of_float_zero [simp]: "dec_of_float 0 = 0"
  using fl_dec_of_float [of 0] by (simp add: is_float_def fl_eq_zero)

lemma dec_of_float_nonneg: "is_float x \<Longrightarrow> 0 \<le> x \<Longrightarrow> 0 \<le> dec_of_float x"
  using dec_of_float_mono [of 0 x] by (simp add: is_float_def)

section \<open>Evaluation\<close>

text \<open>
  The rules by which the simplifier computes a rounding of a numeral: \<open>float_eval\<close> for
  \<open>fl\<close>, \<open>dec\<close> and \<open>py_round\<close>, \<open>str_eval\<close> for \<open>dec_of_float\<close> as well.
\<close>

lemma floor_rat_numeral [simp]:
  "\<lfloor>numeral a / numeral b :: rat\<rfloor> = numeral a div numeral b"
  "\<lfloor>1 / numeral b :: rat\<rfloor> = 1 div numeral b"
  "\<lfloor>- (numeral a / numeral b) :: rat\<rfloor> = - numeral a div numeral b"
  "\<lfloor>- (1 / numeral b) :: rat\<rfloor> = - 1 div numeral b"
  using floor_divide_of_int_eq [where ?'a = rat, of "numeral a" "numeral b"] floor_divide_of_int_eq [where ?'a = rat, of 1 "numeral b"]
    floor_divide_of_int_eq [where ?'a = rat, of "- numeral a" "numeral b"] floor_divide_of_int_eq [where ?'a = rat, of "- 1" "numeral b"]
  by simp_all

lemma ceiling_rat_numeral [simp]:
  "\<lceil>numeral a / numeral b :: rat\<rceil> = - (- numeral a div numeral b)"
  "\<lceil>1 / numeral b :: rat\<rceil> = - (- 1 div numeral b)"
  "\<lceil>- (numeral a / numeral b) :: rat\<rceil> = - (numeral a div numeral b)"
  "\<lceil>- (1 / numeral b) :: rat\<rceil> = - (1 div numeral b)"
  by (simp_all add: ceiling_def)

lemma powi_eval:
  "0 \<le> e \<Longrightarrow> power_int (x :: rat) e = x ^ nat e" "e < 0 \<Longrightarrow> power_int (x :: rat) e = 1 / x ^ nat (- e)"
  by (simp_all add: power_int_def field_simps)

lemmas float_eval = fl_def dec_def py_round_def sig_round_def lead_exp_def int_digits_eval
  powi_eval round_half_even_def Let_def

lemmas str_eval = float_eval dec_of_float_def digit_candidates_def upt_rec

end
