(* ===== verification/Json.thy ===== *)
theory Json
  imports Floats
begin

text \<open>
  The JSON values that components exchange: event payloads, evidence attributes, log fields. An integer
  and a float are different values, as in Python (\<open>JNum\<close> is a float).
\<close>

section \<open>JSON values\<close>

text \<open>What \<open>model_dump(mode="json")\<close>, a payload or a log record holds; a dictionary in its order.\<close>

datatype json =
    JNull
  | JBool bool
  | JInt int
  | JNum rat
  | JStr pystr
  | JList "json list"
  | JMap "(pystr \<times> json) list"

end
