(* ===== verification/Heapq.thy ===== *)
theory Heapq
  imports Prelude
begin

text \<open>
  The \<open>heapq\<close> module of the Python standard library, which
  \<open>app/resilience/request_queue.py\<close> uses for its two queues: \<open>heappush\<close>,
  \<open>heappop\<close> and \<open>heapify\<close> over a list, with the sift order of the library (which
  decides the order of requests of equal priority). A heap holds values that are compared by
  an integer key. Where the library writes the moving item once at the end of a sift, the
  model swaps it at every step; the resulting list is the same.

  The lemmas show that every operation permutes the items (\<open>mset_heappush\<close>, \<dots>) and keeps
  the heap order (\<open>heap_heappush\<close>, \<dots>), so that the head is a minimum (\<open>heap_head_min\<close>).
\<close>

definition parent :: "nat \<Rightarrow> nat" where
  "parent i = (i - 1) div 2"

definition swap :: "'a list \<Rightarrow> nat \<Rightarrow> nat \<Rightarrow> 'a list" where
  "swap h i j = h[i := h ! j, j := h ! i]"

function siftdown :: "('a \<Rightarrow> int) \<Rightarrow> nat \<Rightarrow> 'a list \<Rightarrow> nat \<Rightarrow> 'a list" where
  "siftdown k s h pos =
     (if s < pos \<and> k (h ! pos) < k (h ! parent pos)
      then siftdown k s (swap h pos (parent pos)) (parent pos) else h)"
  by pat_completeness auto
termination
  by (relation "measure (\<lambda>(k, s, h, pos). pos)") (auto simp: parent_def)

definition min_child :: "('a \<Rightarrow> int) \<Rightarrow> 'a list \<Rightarrow> nat \<Rightarrow> nat" where
  "min_child k h pos =
     (let c = 2 * pos + 1
      in if c + 1 < length h \<and> \<not> k (h ! c) < k (h ! (c + 1)) then c + 1 else c)"

function sink :: "('a \<Rightarrow> int) \<Rightarrow> 'a list \<Rightarrow> nat \<Rightarrow> 'a list \<times> nat" where
  "sink k h pos =
     (if 2 * pos + 1 < length h
      then sink k (swap h pos (min_child k h pos)) (min_child k h pos) else (h, pos))"
  by pat_completeness auto
termination
  by (relation "measure (\<lambda>(k, h, pos). length h - pos)")
    (auto simp: min_child_def swap_def Let_def)

definition siftup :: "('a \<Rightarrow> int) \<Rightarrow> 'a list \<Rightarrow> nat \<Rightarrow> 'a list" where
  "siftup k h pos = (case sink k h pos of (h', p) \<Rightarrow> siftdown k pos h' p)"

definition heappush :: "('a \<Rightarrow> int) \<Rightarrow> 'a list \<Rightarrow> 'a \<Rightarrow> 'a list" where
  "heappush k h x = siftdown k 0 (h @ [x]) (length h)"

definition heappop :: "('a \<Rightarrow> int) \<Rightarrow> 'a list \<Rightarrow> ('a \<times> 'a list) option" where
  \<comment> \<open>\<open>None\<close>: IndexError on an empty heap\<close>
  "heappop k h =
     (if h = [] then None
      else let l = last h; h' = butlast h
           in if h' = [] then Some (l, []) else Some (hd h', siftup k (h'[0 := l]) 0))"

fun heapify_from :: "('a \<Rightarrow> int) \<Rightarrow> nat \<Rightarrow> 'a list \<Rightarrow> 'a list" where
  "heapify_from k 0 h = h"
| "heapify_from k (Suc i) h = heapify_from k i (siftup k h i)"

definition heapify :: "('a \<Rightarrow> int) \<Rightarrow> 'a list \<Rightarrow> 'a list" where
  "heapify k h = heapify_from k (length h div 2) h"

declare siftdown.simps [simp del] sink.simps [simp del]

section \<open>The items are permuted\<close>

lemma length_swap [simp]: "length (swap h i j) = length h"
  by (simp add: swap_def)

lemma nth_swap:
  "i < length h \<Longrightarrow> j < length h \<Longrightarrow> l < length h \<Longrightarrow>
     swap h i j ! l = (if l = j then h ! i else if l = i then h ! j else h ! l)"
  by (simp add: swap_def nth_list_update)

lemma mset_swap [simp]: "i < length h \<Longrightarrow> j < length h \<Longrightarrow> mset (swap h i j) = mset h"
  by (simp add: swap_def mset_swap)

lemma parent_less: "0 < i \<Longrightarrow> parent i < i"
  by (simp add: parent_def)

lemma parent_le: "parent i \<le> i"
  by (simp add: parent_def)

lemma min_child_bounds:
  "2 * pos + 1 < length h \<Longrightarrow> min_child k h pos < length h \<and> pos < min_child k h pos
     \<and> parent (min_child k h pos) = pos"
  by (auto simp: min_child_def Let_def parent_def)

lemma mset_siftdown: "pos < length h \<Longrightarrow> mset (siftdown k s h pos) = mset h"
proof (induction k s h pos rule: siftdown.induct)
  case (1 k s h pos)
  then show ?case
    using parent_le [of pos] by (subst siftdown.simps) auto
qed

lemma length_siftdown [simp]: "length (siftdown k s h pos) = length h"
proof (induction k s h pos rule: siftdown.induct)
  case (1 k s h pos)
  then show ?case by (subst siftdown.simps) auto
qed

lemma sink_bounds:
  "pos < length h \<Longrightarrow> sink k h pos = (h', p) \<Longrightarrow>
     p < length h' \<and> length h' = length h \<and> mset h' = mset h"
proof (induction k h pos arbitrary: h' p rule: sink.induct)
  case (1 k h pos)
  show ?case
  proof (cases "2 * pos + 1 < length h")
    case True
    then have m: "min_child k h pos < length h" using min_child_bounds by blast
    from True "1.prems" have "sink k (swap h pos (min_child k h pos)) (min_child k h pos) = (h', p)"
      by (simp add: sink.simps [of k h pos])
    with "1.IH" [OF True, of h' p] m "1.prems"(1) show ?thesis by simp
  next
    case False
    with "1.prems" show ?thesis by (simp add: sink.simps [of k h pos])
  qed
qed

lemma siftup_perm:
  assumes "pos < length h"
  shows "mset (siftup k h pos) = mset h \<and> length (siftup k h pos) = length h"
proof -
  obtain h' p where "sink k h pos = (h', p)" by force
  with sink_bounds [OF assms this] show ?thesis by (simp add: siftup_def mset_siftdown)
qed

lemmas mset_siftup = siftup_perm [THEN conjunct1]
  and length_siftup = siftup_perm [THEN conjunct2]

lemma mset_heappush: "mset (heappush k h x) = mset h + {#x#}"
  by (simp add: heappush_def mset_siftdown)

lemma length_heappush [simp]: "length (heappush k h x) = Suc (length h)"
  by (simp add: heappush_def)

lemma mset_heappop: "heappop k h = Some (x, h') \<Longrightarrow> mset h = add_mset x (mset h')"
proof -
  assume a: "heappop k h = Some (x, h')"
  then have ne: "h \<noteq> []" by (auto simp: heappop_def)
  define b where "b = butlast h"
  have h: "mset h = add_mset (last h) (mset b)"
    using ne unfolding b_def by (subst append_butlast_last_id [symmetric]) (simp_all del: append_butlast_last_id)
  show ?thesis
  proof (cases b)
    case Nil
    with a ne h show ?thesis by (simp add: heappop_def b_def [symmetric] Let_def)
  next
    case (Cons y ys)
    with a ne have "x = y" "h' = siftup k (last h # ys) 0"
      by (auto simp: heappop_def b_def [symmetric] Let_def)
    with h Cons show ?thesis by (simp add: mset_siftup)
  qed
qed

lemma heapify_from_perm:
  "n \<le> length h \<Longrightarrow> mset (heapify_from k n h) = mset h \<and> length (heapify_from k n h) = length h"
  by (induction n arbitrary: h) (auto simp: mset_siftup length_siftup)

lemma mset_heapify [simp]: "mset (heapify k h) = mset h"
  by (simp add: heapify_def heapify_from_perm)

section \<open>The heap order\<close>

definition heap_from :: "('a \<Rightarrow> int) \<Rightarrow> nat \<Rightarrow> 'a list \<Rightarrow> bool" where
  "heap_from k s h \<longleftrightarrow>
     (\<forall>j < length h. 0 < j \<longrightarrow> s \<le> parent j \<longrightarrow> k (h ! parent j) \<le> k (h ! j))"

abbreviation heap :: "('a \<Rightarrow> int) \<Rightarrow> 'a list \<Rightarrow> bool" where
  "heap k h \<equiv> heap_from k 0 h"

text \<open>\<open>below s pos\<close>: the position \<open>pos\<close> lies in the subtree of \<open>s\<close>.\<close>

function below :: "nat \<Rightarrow> nat \<Rightarrow> bool" where
  "below s pos = (if pos \<le> s then pos = s else below s (parent pos))"
  by pat_completeness auto
termination
  by (relation "measure snd") (auto simp: parent_less)

declare below.simps [simp del]

lemma below_self [simp]: "below s s"
  by (simp add: below.simps)

lemma below_ge: "below s pos \<Longrightarrow> s \<le> pos"
  by (subst (asm) below.simps) (auto split: if_splits)

lemma below_parent: "below s pos \<Longrightarrow> s < pos \<Longrightarrow> below s (parent pos) \<and> s \<le> parent pos"
  using below_ge by (subst (asm) below.simps) (auto split: if_splits)

lemma below_child: "below s (parent j) \<Longrightarrow> s \<le> parent j \<Longrightarrow> 0 < j \<Longrightarrow> below s j"
  using parent_less [of j] by (subst below.simps) (auto simp del: parent_less)

lemma below_zero [simp]: "below 0 pos"
proof (induction pos rule: less_induct)
  case (less pos)
  then show ?case by (subst below.simps) (auto simp: parent_less)
qed

text \<open>All edges below \<open>s\<close> are in order but the one into \<open>pos\<close>.\<close>

definition hole_up :: "('a \<Rightarrow> int) \<Rightarrow> nat \<Rightarrow> 'a list \<Rightarrow> nat \<Rightarrow> bool" where
  "hole_up k s h pos \<longleftrightarrow>
     (\<forall>j < length h. 0 < j \<longrightarrow> s \<le> parent j \<longrightarrow> j \<noteq> pos \<longrightarrow> k (h ! parent j) \<le> k (h ! j))
     \<and> (\<forall>j < length h. 0 < j \<longrightarrow> parent j = pos \<longrightarrow> s < pos \<longrightarrow> k (h ! parent pos) \<le> k (h ! j))"

lemma hole_up_step:
  assumes "hole_up k s h pos" "pos < length h" "below s pos" "s < pos"
    "k (h ! pos) < k (h ! parent pos)"
  shows "hole_up k s (swap h pos (parent pos)) (parent pos)"
proof -
  let ?p = "parent pos" and ?h = "swap h pos (parent pos)"
  have p: "?p < pos" "?p < length h" "s \<le> ?p" "below s ?p"
    using assms below_parent [of s pos] parent_less [of pos] by (auto simp del: parent_less)
  have edge: "k (h ! parent j) \<le> k (h ! j)" if "j < length h" "0 < j" "s \<le> parent j" "j \<noteq> pos" for j
    using assms(1) that by (simp add: hole_up_def)
  have gp: "k (h ! ?p) \<le> k (h ! j)" if "j < length h" "0 < j" "parent j = pos" for j
    using assms(1,4) that by (simp add: hole_up_def)
  have nth: "?h ! l = (if l = ?p then h ! pos else if l = pos then h ! ?p else h ! l)"
    if "l < length h" for l
    using nth_swap [of pos h ?p l] assms(2) p(2) that by simp
  have 1: "k (?h ! parent j) \<le> k (?h ! j)"
    if j: "j < length h" "0 < j" "s \<le> parent j" "j \<noteq> ?p" for j
  proof (cases "j = pos")
    case True
    then show ?thesis using nth [of pos] nth [of ?p] assms(2,5) p by auto
  next
    case False
    have pj: "parent j < length h" using parent_le [of j] j(1) by linarith
    show ?thesis
      using nth [OF j(1)] nth [OF pj] edge [of j] gp [of j] j False assms(5) p(1)
      by (auto split: if_splits)
  qed
  have 2: "k (?h ! parent ?p) \<le> k (?h ! j)"
    if j: "j < length h" "0 < j" "parent j = ?p" "s < ?p" for j
  proof -
    have pp: "parent ?p < ?p" "s \<le> parent ?p"
      using below_parent [OF p(4) j(4)] j(4) parent_less [of ?p] by auto
    have "k (h ! parent ?p) \<le> k (h ! ?p)" using edge [of ?p] p pp j(4) by auto
    moreover have "k (h ! ?p) \<le> k (h ! j)" if "j \<noteq> pos" using edge [of j] j p that by auto
    moreover have "j \<noteq> ?p" using j(3) j(2) parent_less [of j] by auto
    ultimately show ?thesis using nth [OF j(1)] nth [of "parent ?p"] pp p by auto
  qed
  show ?thesis using 1 2 by (auto simp: hole_up_def)
qed

lemma siftdown_heap:
  "hole_up k s h pos \<Longrightarrow> pos < length h \<Longrightarrow> below s pos \<Longrightarrow> heap_from k s (siftdown k s h pos)"
proof (induction k s h pos rule: siftdown.induct)
  case (1 k s h pos)
  show ?case
  proof (cases "s < pos \<and> k (h ! pos) < k (h ! parent pos)")
    case True
    have "parent pos < length h" using parent_le [of pos] "1.prems"(2) by linarith
    with "1.IH" [OF True] hole_up_step [OF "1.prems"] below_parent [OF "1.prems"(3)] True
    show ?thesis by (simp add: siftdown.simps [of k s h pos])
  next
    case False
    have "k (h ! parent j) \<le> k (h ! j)" if "j < length h" "0 < j" "s \<le> parent j" for j
    proof (cases "j = pos")
      case True
      moreover have "s < j" using that parent_less [of j] by linarith
      ultimately show ?thesis using False by auto
    next
      case False
      then show ?thesis using "1.prems"(1) that by (simp add: hole_up_def)
    qed
    with False show ?thesis by (auto simp: siftdown.simps [of k s h pos] heap_from_def)
  qed
qed

text \<open>All edges below \<open>s\<close> are in order but those into and out of \<open>pos\<close>.\<close>

definition hole :: "('a \<Rightarrow> int) \<Rightarrow> nat \<Rightarrow> 'a list \<Rightarrow> nat \<Rightarrow> bool" where
  "hole k s h pos \<longleftrightarrow>
     (\<forall>j < length h. 0 < j \<longrightarrow> s \<le> parent j \<longrightarrow> j \<noteq> pos \<longrightarrow> parent j \<noteq> pos
        \<longrightarrow> k (h ! parent j) \<le> k (h ! j))
     \<and> (\<forall>j < length h. 0 < j \<longrightarrow> parent j = pos \<longrightarrow> s < pos \<longrightarrow> k (h ! parent pos) \<le> k (h ! j))"

lemma children: "0 < j \<Longrightarrow> parent j = pos \<longleftrightarrow> j = 2 * pos + 1 \<or> j = 2 * pos + 2"
  by (auto simp: parent_def)

lemma min_child_le:
  assumes "2 * pos + 1 < length h" "j < length h" "0 < j" "parent j = pos"
  shows "k (h ! min_child k h pos) \<le> k (h ! j)"
  using assms children [of j pos] by (auto simp: min_child_def Let_def)

lemma hole_step:
  assumes "hole k s h pos" "2 * pos + 1 < length h" "below s pos"
  shows "hole k s (swap h pos (min_child k h pos)) (min_child k h pos)"
proof -
  let ?c = "min_child k h pos" and ?h = "swap h pos (min_child k h pos)"
  have c: "?c < length h" "pos < ?c" "parent ?c = pos" "pos < length h"
    using min_child_bounds [OF assms(2)] assms(2) by auto
  have s: "s \<le> pos" using assms(3) below_ge by blast
  have nth: "?h ! l = (if l = ?c then h ! pos else if l = pos then h ! ?c else h ! l)"
    if "l < length h" for l
    using nth_swap [of pos h ?c l] c that by simp
  have edge: "k (h ! parent j) \<le> k (h ! j)"
    if "j < length h" "0 < j" "s \<le> parent j" "j \<noteq> pos" "parent j \<noteq> pos" for j
    using assms(1) that by (simp add: hole_def)
  have gp: "k (h ! parent pos) \<le> k (h ! j)" if "j < length h" "0 < j" "parent j = pos" "s < pos" for j
    using assms(1) that by (simp add: hole_def)
  have 1: "k (?h ! parent j) \<le> k (?h ! j)"
    if j: "j < length h" "0 < j" "s \<le> parent j" "j \<noteq> ?c" "parent j \<noteq> ?c" for j
  proof -
    have pj: "parent j < length h" "parent j < j" using parent_less [of j] j(1,2) by linarith+
    consider "j = pos" | "parent j = pos" "j \<noteq> pos" | "j \<noteq> pos" "parent j \<noteq> pos" by blast
    then show ?thesis
    proof cases
      case 1
      with j pj have "s < pos" by linarith
      with 1 gp [of ?c] c show ?thesis using nth [OF j(1)] nth [OF pj(1)] j pj by auto
    next
      case 2
      then show ?thesis using min_child_le [OF assms(2) j(1,2), of k] nth [OF j(1)] nth [OF pj(1)] j c
        by auto
    next
      case 3
      then show ?thesis using edge [of j] nth [OF j(1)] nth [OF pj(1)] j by auto
    qed
  qed
  have 2: "k (?h ! parent ?c) \<le> k (?h ! j)" if j: "j < length h" "0 < j" "parent j = ?c" for j
  proof -
    have ne: "j \<noteq> ?c" "j \<noteq> pos" "pos \<noteq> ?c" using j parent_less [of j] c by auto
    then show ?thesis using edge [of j] nth [OF j(1)] nth [OF c(4)] j c s by auto
  qed
  show ?thesis using 1 2 by (auto simp: hole_def)
qed

lemma sink_hole:
  "hole k s h pos \<Longrightarrow> pos < length h \<Longrightarrow> below s pos \<Longrightarrow> sink k h pos = (h', p) \<Longrightarrow>
     hole_up k s h' p \<and> below s p \<and> p < length h'"
proof (induction k h pos arbitrary: h' p rule: sink.induct)
  case (1 k h pos)
  show ?case
  proof (cases "2 * pos + 1 < length h")
    case True
    note m = min_child_bounds [OF True, of k]
    have b: "below s (min_child k h pos)"
      using below_child [of s "min_child k h pos"] m "1.prems"(3) below_ge by auto
    from True "1.prems"(4) have "sink k (swap h pos (min_child k h pos)) (min_child k h pos) = (h', p)"
      by (simp add: sink.simps [of k h pos])
    with "1.IH" [OF True] hole_step [OF "1.prems"(1) True "1.prems"(3)] m b show ?thesis by simp
  next
    case False
    have leaf: "parent j \<noteq> pos" if "j < length h" "0 < j" for j
      using children [of j pos] that False by auto
    with False "1.prems" show ?thesis
      by (auto simp: sink.simps [of k h pos] hole_def hole_up_def)
  qed
qed

lemma siftup_heap:
  assumes "heap_from k (Suc pos) h" "pos < length h"
  shows "heap_from k pos (siftup k h pos)"
proof -
  obtain h' p where sk: "sink k h pos = (h', p)" by force
  have "hole k pos h pos"
    using assms(1) by (auto simp: heap_from_def hole_def)
  from sink_hole [OF this assms(2) below_self sk] siftdown_heap [of k pos h' p] sk
  show ?thesis by (simp add: siftup_def)
qed

lemma heap_heappush:
  assumes "heap k h" shows "heap k (heappush k h x)"
proof -
  have p: "parent j < length h" if "j < Suc (length h)" "0 < j" for j
    using parent_less [of j] that by linarith
  have "hole_up k 0 (h @ [x]) (length h)"
    using assms p unfolding heap_from_def hole_up_def
    by (auto simp: nth_append less_Suc_eq dest: less_imp_neq)
  then show ?thesis unfolding heappush_def by (intro siftdown_heap) auto
qed

lemma heap_heappop:
  assumes "heap k h" "heappop k h = Some (x, h')" shows "heap k h'"
proof (cases "butlast h")
  case Nil
  with assms show ?thesis by (auto simp: heappop_def heap_from_def Let_def split: if_splits)
next
  case (Cons y ys)
  then have ne: "h \<noteq> []" by auto
  with Cons have h: "h = y # ys @ [last h]" by (metis append_Cons append_butlast_last_id)
  from assms(2) ne Cons have h': "h' = siftup k (last h # ys) 0"
    by (auto simp: heappop_def Let_def)
  have "k ((last h # ys) ! parent j) \<le> k ((last h # ys) ! j)"
    if j: "j < length (last h # ys)" "0 < j" "Suc 0 \<le> parent j" for j
  proof -
    have pj: "parent j < j" using j by (simp add: parent_less)
    have n: "(last h # ys) ! i = h ! i" if "0 < i" "i < length (last h # ys)" for i
      using that by (subst (2) h) (auto simp: nth_Cons' nth_append)
    have "length h = Suc (Suc (length ys))" by (subst h) simp
    with assms(1) j have "k (h ! parent j) \<le> k (h ! j)" by (auto simp: heap_from_def)
    then show ?thesis using n [of j] n [of "parent j"] j pj by auto
  qed
  then have "heap_from k (Suc 0) (last h # ys)" by (auto simp: heap_from_def)
  from siftup_heap [OF this] h' show ?thesis by simp
qed

lemma heapify_from_heap:
  "n \<le> length h \<Longrightarrow> heap_from k n h \<Longrightarrow> heap k (heapify_from k n h)"
proof (induction n arbitrary: h)
  case (Suc n)
  then show ?case using siftup_heap [of k n h] by (auto simp: length_siftup)
qed simp

lemma heap_heapify [simp]: "heap k (heapify k h)"
proof -
  have "heap_from k (length h div 2) h" by (auto simp: heap_from_def parent_def)
  then show ?thesis unfolding heapify_def by (intro heapify_from_heap) auto
qed

lemma heap_Nil [simp]: "heap k []"
  by (simp add: heap_from_def)

lemma heap_head_min: "heap k h \<Longrightarrow> i < length h \<Longrightarrow> k (h ! 0) \<le> k (h ! i)"
proof (induction i rule: less_induct)
  case (less i)
  show ?case
  proof (cases "i = 0")
    case False
    then have "k (h ! 0) \<le> k (h ! parent i)" using less parent_less [of i] by auto
    also have "\<dots> \<le> k (h ! i)" using less.prems False by (auto simp: heap_from_def)
    finally show ?thesis .
  qed simp
qed

lemma heap_hd_min: "heap k h \<Longrightarrow> x \<in> set h \<Longrightarrow> k (hd h) \<le> k x"
  using heap_head_min [of k h] by (auto simp: in_set_conv_nth hd_conv_nth) (metis hd_conv_nth length_0_conv less_zeroE)

lemma heappop_hd: "h \<noteq> [] \<Longrightarrow> \<exists>h'. heappop k h = Some (hd h, h')"
  by (cases h rule: rev_cases) (auto simp: heappop_def Let_def hd_append)

section \<open>The contract of a priority queue\<close>

text \<open>\<open>drain pop n q\<close>: the items that up to \<open>n\<close> removals take, in their order.\<close>

fun drain :: "('q \<Rightarrow> ('a \<times> 'q) option) \<Rightarrow> nat \<Rightarrow> 'q \<Rightarrow> 'a list" where
  "drain pop 0 q = []"
| "drain pop (Suc n) q = (case pop q of None \<Rightarrow> [] | Some (x, q') \<Rightarrow> x # drain pop n q')"

locale min_queue =
  fixes key :: "'a \<Rightarrow> int"
    and ok :: "'q \<Rightarrow> bool"
    and items :: "'q \<Rightarrow> 'a multiset"
    and push :: "'q \<Rightarrow> 'a \<Rightarrow> 'q"
    and pop :: "'q \<Rightarrow> ('a \<times> 'q) option"
  assumes push_ok: "ok q \<Longrightarrow> ok (push q x)"
    and push_items: "items (push q x) = add_mset x (items q)"
    and pop_ok: "ok q \<Longrightarrow> pop q = Some (x, q') \<Longrightarrow> ok q'"
    and pop_items: "pop q = Some (x, q') \<Longrightarrow> items q = add_mset x (items q')"
    and pop_min: "ok q \<Longrightarrow> pop q = Some (x, q') \<Longrightarrow> y \<in># items q \<Longrightarrow> key x \<le> key y"
    and pop_None: "pop q = None \<longleftrightarrow> items q = {#}"
begin

lemma drain_subset: "mset (drain pop n q) \<subseteq># items q"
  by (induction n arbitrary: q) (auto split: option.splits dest: pop_items)

lemma drain_all: "size (items q) \<le> n \<Longrightarrow> mset (drain pop n q) = items q"
proof (induction n arbitrary: q)
  case 0
  then show ?case by simp
next
  case (Suc n)
  show ?case
  proof (cases "pop q")
    case None
    then have "items q = {#}" by (rule pop_None [THEN iffD1])
    with None show ?thesis by simp
  next
    case (Some r)
    obtain x q' where r: "r = (x, q')" by force
    with Some have i: "items q = add_mset x (items q')" by (simp add: pop_items)
    with Suc have "mset (drain pop n q') = items q'" by simp
    with Some r i show ?thesis by simp
  qed
qed

lemma drain_sorted: "ok q \<Longrightarrow> sorted (map key (drain pop n q))"
proof (induction n arbitrary: q)
  case (Suc n)
  show ?case
  proof (cases "pop q")
    case (Some r)
    obtain x q' where r: "r = (x, q')" by force
    with Some Suc.prems have ok: "ok q'" and i: "items q = add_mset x (items q')"
      by (auto intro: pop_ok pop_items)
    have "key x \<le> key y" if "y \<in> set (drain pop n q')" for y
    proof -
      have "y \<in># items q'" using that drain_subset [of n q'] by (auto dest: mset_subset_eqD)
      with i have "y \<in># items q" by simp
      with pop_min [OF Suc.prems] Some r show ?thesis by blast
    qed
    with Suc.IH [OF ok] Some r show ?thesis by auto
  qed simp
qed simp

end

interpretation pq: min_queue k "heap k" mset "heappush k" "heappop k" for k
proof unfold_locales
  fix q q' :: "'a list" and x y
  assume h: "heap k q" and p: "heappop k q = Some (x, q')" and y: "y \<in># mset q"
  then have "q \<noteq> []" by (auto simp: heappop_def)
  with heappop_hd [OF this, of k] p have "x = hd q" by auto
  with heap_hd_min [OF h, of y] y show "k x \<le> k y" by simp
next
  fix q :: "'a list"
  show "heappop k q = None \<longleftrightarrow> mset q = {#}" by (simp add: heappop_def Let_def)
next
  fix q :: "'a list" and x
  show "mset (heappush k q x) = add_mset x (mset q)" by (simp add: mset_heappush)
qed (fact heap_heappush heap_heappop mset_heappop)+

end
