(* ===== verification/Regex.thy ===== *)
theory Regex
  imports Prelude "HOL-Library.Sublist"
begin

text \<open>
  The part of Python's \<open>re\<close> module that the program uses: character classes with greedy
  counts, sequences, ordered alternatives, optional parts, groups, word boundaries and
  anchors. A match is a backtracking search: \<open>matches r st\<close> lists, in the order in which the
  engine tries them, the states after the match, and the engine takes the first. A state is the
  previous character, the rest of the text and the captured groups.

  Which characters are alphanumeric or decimal digits in Unicode is data of the standard
  library, a parameter (\<open>unicode\<close>) where a pattern uses \<open>\w\<close>, \<open>\d\<close> or \<open>\b\<close>.
\<close>

section \<open>Patterns\<close>

record unicode =
  alnum :: "int \<Rightarrow> bool"
  decimal :: "int \<Rightarrow> bool"

datatype re =
    Cls "int \<Rightarrow> bool"
  | Many "int \<Rightarrow> bool" nat "nat option"
  | Eps
  | Cat re re
  | Alt re re
  | Opt re
  | Grp nat re
  | Boundary "int \<Rightarrow> bool"
  | AtStart
  | AtEnd
  | NotAhead re

type_synonym mstate = "int option \<times> pystr \<times> (nat \<times> pystr) list"

definition word_char :: "unicode \<Rightarrow> int \<Rightarrow> bool" where
  "word_char u c \<longleftrightarrow> alnum u c \<or> c = 95"

definition consume :: "nat \<Rightarrow> mstate \<Rightarrow> mstate" where
  "consume n st =
     (case st of (p, s, caps) \<Rightarrow> (if n = 0 then p else Some (s ! (n - 1)), drop n s, caps))"

fun matches :: "re \<Rightarrow> mstate \<Rightarrow> mstate list" where
  "matches (Cls P) (p, s, caps) = (case s of c # t \<Rightarrow> if P c then [(Some c, t, caps)] else [] | [] \<Rightarrow> [])"
| "matches (Many P lo hi) (p, s, caps) =
     (let n = length (takeWhile P s); m = (case hi of None \<Rightarrow> n | Some h \<Rightarrow> min n h)
      in if m < lo then [] else map (\<lambda>k. consume k (p, s, caps)) (rev [lo..<Suc m]))"
| "matches Eps st = [st]"
| "matches (Cat a b) st = concat (map (matches b) (matches a st))"
| "matches (Alt a b) st = matches a st @ matches b st"
| "matches (Opt a) st = matches a st @ [st]"
| "matches (Grp n a) (p, s, caps) =
     map (\<lambda>(p', s', caps'). (p', s', (n, take (length s - length s') s) # caps')) (matches a (p, s, caps))"
| "matches (Boundary W) (p, s, caps) =
     (let before = (case p of None \<Rightarrow> False | Some c \<Rightarrow> W c); after = (case s of [] \<Rightarrow> False | c # _ \<Rightarrow> W c)
      in if before \<noteq> after then [(p, s, caps)] else [])"
| "matches AtStart (p, s, caps) = (if p = None then [(p, s, caps)] else [])"
| "matches AtEnd (p, s, caps) = (if s = [] \<or> s = [10] then [(p, s, caps)] else [])"
| "matches (NotAhead a) st = (if matches a st = [] then [st] else [])"

definition seq :: "re list \<Rightarrow> re" where
  "seq rs = foldr Cat rs Eps"

fun alts :: "re list \<Rightarrow> re" where
  "alts [] = Cls (\<lambda>_. False)"
| "alts [r] = r"
| "alts (r # rs) = Alt r (alts rs)"

definition str :: "pystr \<Rightarrow> re" where
  "str s = seq (map (\<lambda>c. Cls ((=) c)) s)"

text \<open>
  A literal under \<open>re.IGNORECASE\<close>: both cases of an ASCII letter, and the characters
  outside ASCII that the engine identifies with i, k and s.
\<close>

definition fold_char :: "int \<Rightarrow> int" where
  "fold_char c = (if 65 \<le> c \<and> c \<le> 90 then c + 32 else if c \<in> {304, 305} then 105
                  else if c = 8490 then 107 else if c = 383 then 115 else c)"

definition istr :: "string \<Rightarrow> re" where
  "istr s = seq (map (\<lambda>c. Cls (\<lambda>d. fold_char d = c)) (lit s))"

definition dot :: "int \<Rightarrow> bool" where
  "dot c \<longleftrightarrow> c \<noteq> 10"

section \<open>Searching and substituting\<close>

definition match_at :: "re \<Rightarrow> int option \<Rightarrow> pystr \<Rightarrow> mstate option" where
  "match_at r p s = (case matches r (p, s, []) of [] \<Rightarrow> None | st # _ \<Rightarrow> Some st)"

fun search_from :: "re \<Rightarrow> int option \<Rightarrow> pystr \<Rightarrow> mstate option" where
  "search_from r p [] = match_at r p []"
| "search_from r p (c # s) =
     (case match_at r p (c # s) of Some st \<Rightarrow> Some st | None \<Rightarrow> search_from r (Some c) s)"

definition search :: "re \<Rightarrow> pystr \<Rightarrow> bool" where
  "search r s \<longleftrightarrow> search_from r None s \<noteq> None"

definition fullmatch :: "re \<Rightarrow> pystr \<Rightarrow> bool" where
  "fullmatch r s \<longleftrightarrow> (\<exists>st \<in> set (matches r (None, s, [])). fst (snd st) = [])"

text \<open>
  \<open>pattern.sub(repl, s)\<close> for a pattern that does not match the empty string: from left to
  right, each match is replaced and skipped (\<open>k\<close> characters of it are left).
\<close>

fun sub_from :: "re \<Rightarrow> pystr \<Rightarrow> int option \<Rightarrow> nat \<Rightarrow> pystr \<Rightarrow> pystr" where
  "sub_from r repl p k [] = []"
| "sub_from r repl p (Suc k) (c # s) = sub_from r repl (Some c) k s"
| "sub_from r repl p 0 (c # s) =
     (case match_at r p (c # s) of
        Some (p', rest, caps) \<Rightarrow>
          if length rest < Suc (length s) then repl @ sub_from r repl (Some c) (length s - length rest) s
          else c # sub_from r repl (Some c) 0 s
      | None \<Rightarrow> c # sub_from r repl (Some c) 0 s)"

definition sub :: "re \<Rightarrow> pystr \<Rightarrow> pystr \<Rightarrow> pystr" where
  "sub r repl s = sub_from r repl None 0 s"

text \<open>\<open>pattern.findall(s)\<close> for a pattern without groups that does not match the empty string.\<close>

fun findall_from :: "re \<Rightarrow> int option \<Rightarrow> nat \<Rightarrow> pystr \<Rightarrow> pystr list" where
  "findall_from r p k [] = []"
| "findall_from r p (Suc k) (c # s) = findall_from r (Some c) k s"
| "findall_from r p 0 (c # s) =
     (case match_at r p (c # s) of
        Some (p', rest, caps) \<Rightarrow>
          if length rest < Suc (length s)
          then take (Suc (length s) - length rest) (c # s) # findall_from r (Some c) (length s - length rest) s
          else findall_from r (Some c) 0 s
      | None \<Rightarrow> findall_from r (Some c) 0 s)"

definition findall :: "re \<Rightarrow> pystr \<Rightarrow> pystr list" where
  "findall r s = findall_from r None 0 s"

text \<open>The text of the leftmost match, \<open>pattern.search(s).group(0)\<close>.\<close>

fun search_text_from :: "re \<Rightarrow> int option \<Rightarrow> pystr \<Rightarrow> pystr option" where
  "search_text_from r p [] = map_option (\<lambda>_. []) (match_at r p [])"
| "search_text_from r p (c # s) =
     (case match_at r p (c # s) of
        Some (p', rest, caps) \<Rightarrow> Some (take (Suc (length s) - length rest) (c # s))
      | None \<Rightarrow> search_text_from r (Some c) s)"

definition search_text :: "re \<Rightarrow> pystr \<Rightarrow> pystr option" where
  "search_text r s = search_text_from r None s"

section \<open>Lemmas\<close>

lemma suffix_consume: "suffix (fst (snd (consume n (p, s, caps)))) s"
  by (simp add: consume_def suffix_drop)

lemma matches_suffix: "st \<in> set (matches r (p, s, caps)) \<Longrightarrow> suffix (fst (snd st)) s"
proof (induction r arbitrary: p s caps st)
  case (Cat a b)
  then obtain p1 s1 c1 where "(p1, s1, c1) \<in> set (matches a (p, s, caps))" "st \<in> set (matches b (p1, s1, c1))"
    by auto
  with Cat.IH(1) [of "(p1, s1, c1)"] Cat.IH(2) show ?case by (metis fst_conv snd_conv suffix_order.trans)
next
  case (Grp n a)
  then show ?case by fastforce
qed (auto simp: Let_def suffix_ConsI suffix_consume split: list.splits if_splits option.splits)

lemma search_Cons: "search_from r p (c # s) = None \<Longrightarrow> match_at r p (c # s) = None \<and> search_from r (Some c) s = None"
  by (auto split: option.splits)

text \<open>A text without a match is returned as it is.\<close>

lemma sub_from_no_match: "search_from r p s = None \<Longrightarrow> sub_from r repl p 0 s = s"
proof (induction s arbitrary: p)
  case (Cons c s)
  from search_Cons [OF Cons.prems] Cons.IH show ?case by simp
qed simp

lemma sub_no_match: "\<not> search r s \<Longrightarrow> sub r repl s = s"
  unfolding search_def sub_def by (rule sub_from_no_match) blast

lemma consume_rest: "fst (snd (consume k (p, s, caps))) = drop k s"
  by (simp add: consume_def)

lemma set_matches_Many:
  "set (matches (Many P lo (Some hi)) (p, s, caps)) =
     (\<lambda>k. consume k (p, s, caps)) ` {lo..min (length (takeWhile P s)) hi}"
proof -
  have "set (rev [lo..<Suc m]) = {lo..m}" for m by auto
  then show ?thesis by (simp add: Let_def del: upt_Suc)
qed

lemma fullmatch_Many: "fullmatch (Many P lo (Some hi)) s \<longleftrightarrow> lo \<le> length s \<and> length s \<le> hi \<and> list_all P s"
proof -
  let ?n = "length (takeWhile P s)"
  have n: "?n \<le> length s" by (rule length_takeWhile_le)
  have all: "?n = length s \<longleftrightarrow> list_all P s"
    by (metis (no_types, lifting) list_all_iff takeWhile_eq_all_conv takeWhile_eq_take take_all_iff order_refl)
  have "fullmatch (Many P lo (Some hi)) s \<longleftrightarrow> (\<exists>k \<in> {lo..min ?n hi}. length s \<le> k)"
    unfolding fullmatch_def set_matches_Many by (simp add: consume_rest)
  also have "\<dots> \<longleftrightarrow> lo \<le> length s \<and> length s \<le> hi \<and> ?n = length s"
    using n by (auto intro!: bexI [of _ "length s"])
  finally show ?thesis using all by simp
qed

end
