(* ===== verification/RequestQueue.thy ===== *)
theory RequestQueue
  imports Heapq Floats
begin

text \<open>
  The scheduler of \<open>app/resilience/request_queue.py\<close>: two priority queues (normal and heavy
  conversations), a worker budget for each, and the rebalancing that takes heavy capacity away
  while normal work piles up. Every block under \<open>async with self._condition\<close> is one atomic
  operation here; \<open>acquire\<close> is the admission test of its loop (\<open>try_acquire\<close>, \<open>None\<close>
  while the caller waits) and the release of its \<open>finally\<close>.

  The second half runs the queue the way \<open>_execute_task\<close> of \<open>app/api/server.py\<close> does:
  enqueue, wait, run, release and, always, discard, for any number of tasks interleaved
  (\<open>task_step\<close>).
\<close>

section \<open>Data\<close>

datatype queue_type = Normal | Heavy

definition USER_PRIORITY :: "(pystr \<times> int) list" where
  "USER_PRIORITY = [(lit ''premium'', 1), (lit ''standard'', 5), (lit ''free'', 10)]"

definition priority_for_user_tier :: "pystr option \<Rightarrow> int" where
  "priority_for_user_tier user_tier =
     (let tier = (case user_tier of Some t \<Rightarrow> if t = [] then lit ''standard'' else t
                  | None \<Rightarrow> lit ''standard'')
      in case map_of USER_PRIORITY (py_lower (py_strip tier)) of Some p \<Rightarrow> p | None \<Rightarrow> 5)"

text \<open>
  A request; \<open>rq_ident\<close> is the identity of the object (\<open>is\<close>). The dataclass compares, and
  tests equality, by the priority alone.
\<close>

record prioritized_request =
  rq_ident :: nat
  rq_priority :: int
  rq_timestamp :: rat
  rq_thread_id :: pystr
  rq_query :: pystr
  rq_user_id :: "pystr option"

definition request_eq :: "prioritized_request \<Rightarrow> prioritized_request \<Rightarrow> bool" where
  "request_eq a b \<longleftrightarrow> rq_priority a = rq_priority b"

record pqueue =
  normal_workers :: int
  heavy_workers :: int
  heavy_threshold :: int
  rebalance_threshold :: int
  average_task_seconds :: rat
  normal_queue :: "prioritized_request list"
  heavy_queue :: "prioritized_request list"
  normal_active :: int
  heavy_active :: int
  heavy_limit :: int

section \<open>Operations\<close>

definition init_queue :: "int \<Rightarrow> int \<Rightarrow> int \<Rightarrow> int \<Rightarrow> rat \<Rightarrow> pqueue option" where
  \<comment> \<open>\<open>None\<close>: ValueError\<close>
  "init_queue normal heavy threshold rebalance average =
     (if normal < 1 \<or> heavy < 1 then None
      else Some \<lparr>normal_workers = normal, heavy_workers = heavy,
                 heavy_threshold = max 1 threshold, rebalance_threshold = max 1 rebalance,
                 average_task_seconds = max (fl (1 / 10)) average,
                 normal_queue = [], heavy_queue = [], normal_active = 0, heavy_active = 0,
                 heavy_limit = heavy\<rparr>)"

definition classify :: "pqueue \<Rightarrow> int \<Rightarrow> queue_type" where
  "classify q dialog_turns = (if heavy_threshold q \<le> dialog_turns then Heavy else Normal)"

definition queue_type_of :: "pystr \<Rightarrow> queue_type" where
  "queue_type_of s = (if s = lit ''heavy'' then Heavy else Normal)"

fun queue_of :: "pqueue \<Rightarrow> queue_type \<Rightarrow> prioritized_request list" where
  "queue_of q Heavy = heavy_queue q"
| "queue_of q Normal = normal_queue q"

fun set_queue :: "pqueue \<Rightarrow> queue_type \<Rightarrow> prioritized_request list \<Rightarrow> pqueue" where
  "set_queue q Heavy xs = q\<lparr>heavy_queue := xs\<rparr>"
| "set_queue q Normal xs = q\<lparr>normal_queue := xs\<rparr>"

fun active_of :: "pqueue \<Rightarrow> queue_type \<Rightarrow> int" where
  "active_of q Heavy = heavy_active q"
| "active_of q Normal = normal_active q"

fun capacity :: "pqueue \<Rightarrow> queue_type \<Rightarrow> int" where
  "capacity q Heavy = heavy_limit q"
| "capacity q Normal = normal_workers q"

fun set_active :: "pqueue \<Rightarrow> queue_type \<Rightarrow> int \<Rightarrow> pqueue" where
  "set_active q Heavy v = q\<lparr>heavy_active := v\<rparr>"
| "set_active q Normal v = q\<lparr>normal_active := v\<rparr>"

definition rebalance :: "pqueue \<Rightarrow> pqueue" where
  "rebalance q =
     (if rebalance_threshold q < int (length (normal_queue q))
      then q\<lparr>heavy_limit := max 1 (heavy_workers q div 2)\<rparr>
      else if int (length (normal_queue q)) < rebalance_threshold q div 4 + 1
      then q\<lparr>heavy_limit := heavy_workers q\<rparr> else q)"

fun position_in :: "prioritized_request \<Rightarrow> prioritized_request list \<Rightarrow> nat \<Rightarrow> nat" where
  "position_in r [] i = 0"
| "position_in r (x # xs) i = (if rq_ident x = rq_ident r then i + 1 else position_in r xs (i + 1))"

definition position :: "pqueue \<Rightarrow> prioritized_request \<Rightarrow> queue_type \<Rightarrow> nat" where
  "position q r k = position_in r (sort_key rq_priority (queue_of q k)) 0"

definition estimate_wait_seconds :: "pqueue \<Rightarrow> prioritized_request \<Rightarrow> queue_type \<Rightarrow> rat" where
  "estimate_wait_seconds q r k =
     (let ahead = fl (of_int (max 0 (int (position q r k) - 1)));
          cap = fl (of_int (max 1 (capacity q k)))
      in py_round 1 (fl (fl (ahead * average_task_seconds q) / cap)))"

definition pending :: "pqueue \<Rightarrow> int" where
  "pending q = int (length (normal_queue q)) + int (length (heavy_queue q))"

definition active :: "pqueue \<Rightarrow> int" where
  "active q = normal_active q + heavy_active q"

definition enqueue :: "pqueue \<Rightarrow> prioritized_request \<Rightarrow> queue_type \<Rightarrow> pqueue \<times> nat" where
  "enqueue q r k =
     (let q' = rebalance (set_queue q k (heappush rq_priority (queue_of q k) r))
      in (q', position q' r k))"

fun remove_eq :: "prioritized_request \<Rightarrow> prioritized_request list \<Rightarrow> prioritized_request list option" where
  \<comment> \<open>\<open>list.remove\<close>: the first item that is the object or equal to it; \<open>None\<close>: ValueError\<close>
  "remove_eq r [] = None"
| "remove_eq r (x # xs) =
     (if rq_ident x = rq_ident r \<or> request_eq x r then Some xs else map_option ((#) x) (remove_eq r xs))"

definition discard :: "pqueue \<Rightarrow> prioritized_request \<Rightarrow> queue_type \<Rightarrow> pqueue" where
  "discard q r k =
     (case remove_eq r (queue_of q k) of
        None \<Rightarrow> q
      | Some xs \<Rightarrow> rebalance (set_queue q k (heapify rq_priority xs)))"

definition try_acquire :: "pqueue \<Rightarrow> prioritized_request \<Rightarrow> queue_type \<Rightarrow> pqueue option" where
  "try_acquire q r k =
     (if queue_of q k \<noteq> [] \<and> rq_ident (hd (queue_of q k)) = rq_ident r
         \<and> active_of q k < capacity q k
      then case heappop rq_priority (queue_of q k) of
             Some (_, xs) \<Rightarrow> Some (rebalance (set_active (set_queue q k xs) k (active_of q k + 1)))
           | None \<Rightarrow> None
      else None)"

definition release :: "pqueue \<Rightarrow> queue_type \<Rightarrow> pqueue" where
  "release q k = rebalance (set_active q k (max 0 (active_of q k - 1)))"

definition reset :: "pqueue \<Rightarrow> pqueue" where
  "reset q = q\<lparr>normal_queue := [], heavy_queue := [], normal_active := 0, heavy_active := 0,
               heavy_limit := heavy_workers q\<rparr>"

section \<open>Frame lemmas\<close>

lemma rebalance_fields [simp]:
  "normal_workers (rebalance q) = normal_workers q" "heavy_workers (rebalance q) = heavy_workers q"
  "queue_of (rebalance q) k = queue_of q k" "active_of (rebalance q) k = active_of q k"
  "average_task_seconds (rebalance q) = average_task_seconds q"
  "rebalance_threshold (rebalance q) = rebalance_threshold q"
  "heavy_threshold (rebalance q) = heavy_threshold q"
  by (cases k; simp add: rebalance_def)+

lemma set_fields [simp]:
  "queue_of (set_queue q k xs) k' = (if k' = k then xs else queue_of q k')"
  "active_of (set_queue q k xs) k' = active_of q k'"
  "queue_of (set_active q k v) k' = queue_of q k'"
  "active_of (set_active q k v) k' = (if k' = k then v else active_of q k')"
  "normal_workers (set_queue q k xs) = normal_workers q" "normal_workers (set_active q k v) = normal_workers q"
  "heavy_workers (set_queue q k xs) = heavy_workers q" "heavy_workers (set_active q k v) = heavy_workers q"
  "heavy_limit (set_queue q k xs) = heavy_limit q" "heavy_limit (set_active q k v) = heavy_limit q"
  "average_task_seconds (set_queue q k xs) = average_task_seconds q"
  "average_task_seconds (set_active q k v) = average_task_seconds q"
  by (cases k; cases k'; simp)+

section \<open>The invariant of the queue\<close>

definition workers_of :: "pqueue \<Rightarrow> queue_type \<Rightarrow> int" where
  "workers_of q k = (case k of Normal \<Rightarrow> normal_workers q | Heavy \<Rightarrow> heavy_workers q)"

definition queue_ok :: "pqueue \<Rightarrow> bool" where
  "queue_ok q \<longleftrightarrow>
     1 \<le> normal_workers q \<and> 1 \<le> heavy_workers q
     \<and> heavy_limit q \<in> {max 1 (heavy_workers q div 2), heavy_workers q}
     \<and> 0 < average_task_seconds q
     \<and> (\<forall>k \<in> {Normal, Heavy}. heap rq_priority (queue_of q k)
          \<and> 0 \<le> active_of q k \<and> active_of q k \<le> workers_of q k)"

lemma workers_of_fields [simp]:
  "workers_of (rebalance q) k = workers_of q k" "workers_of (set_queue q k' xs) k = workers_of q k"
  "workers_of (set_active q k' v) k = workers_of q k"
  by (cases k; simp add: workers_of_def)+

lemma queue_okD:
  assumes "queue_ok q"
  shows "heap rq_priority (queue_of q k)" "0 \<le> active_of q k" "active_of q k \<le> workers_of q k"
    "1 \<le> capacity q k" "capacity q k \<le> workers_of q k" "1 \<le> heavy_limit q" "heavy_limit q \<le> heavy_workers q"
  using assms by (cases k; auto simp: queue_ok_def workers_of_def)+

lemma queue_okI:
  "1 \<le> normal_workers q \<Longrightarrow> 1 \<le> heavy_workers q
   \<Longrightarrow> heavy_limit q \<in> {max 1 (heavy_workers q div 2), heavy_workers q} \<Longrightarrow> 0 < average_task_seconds q
   \<Longrightarrow> (\<And>k. heap rq_priority (queue_of q k)) \<Longrightarrow> (\<And>k. 0 \<le> active_of q k)
   \<Longrightarrow> (\<And>k. active_of q k \<le> workers_of q k) \<Longrightarrow> queue_ok q"
  by (auto simp: queue_ok_def)

lemma heavy_limit_rebalance:
  "heavy_limit q \<in> {max 1 (heavy_workers q div 2), heavy_workers q}
   \<Longrightarrow> heavy_limit (rebalance q) \<in> {max 1 (heavy_workers q div 2), heavy_workers q}"
  by (auto simp: rebalance_def)

lemma queue_ok_update:
  assumes "queue_ok q" "heap rq_priority xs" "0 \<le> v" "v \<le> workers_of q k"
  shows "queue_ok (rebalance (set_active (set_queue q k xs) k v))"
proof -
  have l: "heavy_limit q \<in> {max 1 (heavy_workers q div 2), heavy_workers q}"
    and "1 \<le> normal_workers q" "1 \<le> heavy_workers q" "0 < average_task_seconds q"
    using assms(1) by (auto simp: queue_ok_def)
  moreover from l have "heavy_limit (rebalance (set_active (set_queue q k xs) k v))
      \<in> {max 1 (heavy_workers q div 2), heavy_workers q}"
    using heavy_limit_rebalance [of "set_active (set_queue q k xs) k v"] by simp
  moreover note queue_okD(1-3) [OF assms(1)] assms(2-4)
  ultimately show ?thesis by (intro queue_okI) simp_all
qed

lemma set_active_same [simp]: "set_active (set_queue q k xs) k (active_of q k) = set_queue q k xs"
  by (cases k) auto

lemma set_queue_same [simp]: "set_queue q k (queue_of q k) = q"
  by (cases k) auto

lemma queue_ok_set_queue:
  "queue_ok q \<Longrightarrow> heap rq_priority xs \<Longrightarrow> queue_ok (rebalance (set_queue q k xs))"
  using queue_ok_update [of q xs "active_of q k" k] by (simp add: queue_okD)

lemma queue_ok_set_active:
  "queue_ok q \<Longrightarrow> 0 \<le> v \<Longrightarrow> v \<le> workers_of q k \<Longrightarrow> queue_ok (rebalance (set_active q k v))"
  using queue_ok_update [of q "queue_of q k" v k] by (simp add: queue_okD)

lemma queue_ok_init: "init_queue n h t r a = Some q \<Longrightarrow> queue_ok q"
proof -
  assume i: "init_queue n h t r a = Some q"
  have "0 < fl (1 / 10)" by (simp add: float_eval)
  then have "0 < max (fl (1 / 10)) a" by linarith
  with i show ?thesis
    by (auto simp: init_queue_def queue_ok_def workers_of_def split: if_splits)
qed

lemma queue_ok_enqueue: "queue_ok q \<Longrightarrow> queue_ok (fst (enqueue q r k))"
  by (simp add: enqueue_def Let_def queue_ok_set_queue pq.push_ok queue_okD)

lemma queue_ok_discard: "queue_ok q \<Longrightarrow> queue_ok (discard q r k)"
  by (simp add: discard_def queue_ok_set_queue split: option.split)

lemma queue_ok_release: "queue_ok q \<Longrightarrow> queue_ok (release q k)"
  using queue_okD(2,3) [of q k] by (auto simp: release_def intro!: queue_ok_set_active)

lemma try_acquire_SomeE:
  assumes "try_acquire q r k = Some q'"
  obtains x xs where "heappop rq_priority (queue_of q k) = Some (x, xs)" "rq_ident x = rq_ident r"
    "x = hd (queue_of q k)" "active_of q k < capacity q k"
    "q' = rebalance (set_active (set_queue q k xs) k (active_of q k + 1))"
  using assms heappop_hd [of "queue_of q k" rq_priority]
  by (auto simp: try_acquire_def split: if_splits option.splits)

lemma queue_ok_try_acquire:
  assumes q: "queue_ok q" and a: "try_acquire q r k = Some q'" shows "queue_ok q'"
proof -
  from a obtain x xs where p: "heappop rq_priority (queue_of q k) = Some (x, xs)"
    and c: "active_of q k < capacity q k"
    and q': "q' = rebalance (set_active (set_queue q k xs) k (active_of q k + 1))"
    by (rule try_acquire_SomeE)
  have "heap rq_priority xs" using pq.pop_ok [OF queue_okD(1) [OF q] p] .
  moreover have "0 \<le> active_of q k + 1" "active_of q k + 1 \<le> workers_of q k"
    using queue_okD(2,5) [OF q, of k] c by linarith+
  ultimately show ?thesis unfolding q' by (rule queue_ok_update [OF q])
qed

lemma queue_ok_reset: "queue_ok q \<Longrightarrow> queue_ok (reset q)"
  by (auto simp: queue_ok_def reset_def workers_of_def)

lemmas queue_ok_ops = queue_ok_init queue_ok_enqueue queue_ok_discard queue_ok_release
  queue_ok_try_acquire queue_ok_reset

section \<open>Positions and waiting times\<close>

lemma position_in_zero: "position_in r xs i = 0 \<longleftrightarrow> rq_ident r \<notin> rq_ident ` set xs"
  by (induction xs arbitrary: i) auto

lemma position_in_bounds: "position_in r xs i \<noteq> 0 \<Longrightarrow> i < position_in r xs i \<and> position_in r xs i \<le> i + length xs"
proof (induction xs arbitrary: i)
  case (Cons x xs)
  show ?case
  proof (cases "rq_ident x = rq_ident r")
    case False
    with Cons.prems have "position_in r xs (Suc i) \<noteq> 0" by simp
    from Cons.IH [OF this] False show ?thesis by simp
  qed simp
qed simp

lemma position_in_hd: "position_in r xs i = Suc i \<longleftrightarrow> xs \<noteq> [] \<and> rq_ident (hd xs) = rq_ident r"
  using position_in_bounds [of r "tl xs" "Suc i"] by (cases xs) auto

lemma sort_key_hd_min: "\<forall>y \<in> set xs. f x \<le> f y \<Longrightarrow> sort_key f (x # xs) = x # sort_key f xs"
  using sort_key_Cons_hd [of f xs] by (cases "sort_key f xs") fastforce+

lemma hd_sort_heap:
  assumes "heap rq_priority xs" "xs \<noteq> []" shows "hd (sort_key rq_priority xs) = hd xs"
proof -
  obtain x ys where x: "xs = x # ys" using assms(2) by (cases xs) auto
  then have "\<forall>y \<in> set ys. rq_priority x \<le> rq_priority y" using heap_hd_min [OF assms(1)] by auto
  from sort_key_hd_min [OF this] x show ?thesis by simp
qed

lemma position_one: "queue_ok q \<Longrightarrow>
    position q r k = 1 \<longleftrightarrow> queue_of q k \<noteq> [] \<and> rq_ident (hd (queue_of q k)) = rq_ident r"
  using position_in_hd [of r "sort_key rq_priority (queue_of q k)" 0]
    hd_sort_heap [OF queue_okD(1), of q k]
  by (cases "queue_of q k = []") (simp_all add: position_def)

lemma position_bounds:
  "position q r k \<le> length (queue_of q k)" "position q r k = 0 \<longleftrightarrow> rq_ident r \<notin> rq_ident ` set (queue_of q k)"
  using position_in_bounds [of r "sort_key rq_priority (queue_of q k)" 0]
    position_in_zero [of r "sort_key rq_priority (queue_of q k)" 0]
  by (cases "position q r k = 0"; simp add: position_def)+

text \<open>
  The number a client is shown is truthful about the head: a request has position 1
  exactly when it is the one that the admission test of \<open>acquire\<close> accepts next, position 0
  exactly when it is not queued, and never a position beyond the length of its queue.
\<close>

lemma position_truthful:
  assumes "queue_ok q"
  shows "(position q r k = 1 \<longleftrightarrow> queue_of q k \<noteq> [] \<and> rq_ident (hd (queue_of q k)) = rq_ident r)
    \<and> (position q r k = 0 \<longleftrightarrow> rq_ident r \<notin> rq_ident ` set (queue_of q k))
    \<and> position q r k \<le> length (queue_of q k)"
  using position_one [OF assms] position_bounds by auto

definition sample_request :: "nat \<Rightarrow> int \<Rightarrow> prioritized_request" where
  "sample_request i p = \<lparr>rq_ident = i, rq_priority = p, rq_timestamp = 0, rq_thread_id = lit ''t'',
                         rq_query = lit ''q'', rq_user_id = None\<rparr>"

definition sample_queue :: "pqueue" where
  "sample_queue = \<lparr>normal_workers = 1, heavy_workers = 4, heavy_threshold = 30,
     rebalance_threshold = 20, average_task_seconds = 10,
     normal_queue = [sample_request 0 5, sample_request 1 5, sample_request 2 5], heavy_queue = [],
     normal_active = 0, heavy_active = 0, heavy_limit = 4\<rparr>"

lemma sample_queue_ok: "queue_ok sample_queue"
proof -
  have "heap_from rq_priority 0 [sample_request 0 5, sample_request 1 5, sample_request 2 5]"
    by (auto simp: heap_from_def sample_request_def parent_def less_Suc_eq)
  then show ?thesis by (simp add: queue_ok_def sample_queue_def workers_of_def)
qed

theorem position_truthful_witness:
  "position sample_queue (sample_request 0 5) Normal = 1
   \<and> position sample_queue (sample_request 7 5) Normal = 0"
  using position_truthful [OF sample_queue_ok, of "sample_request 0 5" Normal]
    position_truthful [OF sample_queue_ok, of "sample_request 7 5" Normal]
  by (simp add: sample_queue_def sample_request_def)

text \<open>
  Requests are served in priority order: taking the head of a well-formed queue again and
  again yields every queued request exactly once, in nondecreasing priority number.
\<close>

lemma served_in_priority_order:
  assumes "queue_ok q"
  shows "sorted (map rq_priority (drain (heappop rq_priority) (length (queue_of q k)) (queue_of q k)))
    \<and> mset (drain (heappop rq_priority) (length (queue_of q k)) (queue_of q k)) = mset (queue_of q k)"
  using pq.drain_sorted [OF queue_okD(1) [OF assms]] pq.drain_all [of "queue_of q k"] by auto

lemma served_in_priority_order_witness:
  "sorted (map rq_priority (drain (heappop rq_priority) (length (queue_of sample_queue Normal))
     (queue_of sample_queue Normal)))"
  using served_in_priority_order [OF sample_queue_ok, of Normal] by blast

lemma estimate_eq:
  "estimate_wait_seconds q r k =
     py_round 1 (fl (fl (fl (of_int (max 0 (int (position q r k) - 1))) * average_task_seconds q)
       / fl (of_int (max 1 (capacity q k)))))"
  by (simp add: estimate_wait_seconds_def Let_def)

lemma fl_of_pos: "1 \<le> x \<Longrightarrow> 1 \<le> fl x"
  using double.rnd_ge_fixed [of 1 x] by simp

text \<open>
  The estimated wait is never negative, is zero at the head of the queue, and does not
  decrease with the position: of two requests of one queue, the one further back is never told
  a shorter wait.
\<close>

lemma estimate_monotone:
  assumes "queue_ok q" "position q r k \<le> position q r' k"
  shows "0 \<le> estimate_wait_seconds q r k
    \<and> estimate_wait_seconds q r k \<le> estimate_wait_seconds q r' k
    \<and> (position q r k = 1 \<longrightarrow> estimate_wait_seconds q r k = 0)"
proof -
  have avg: "0 \<le> average_task_seconds q" using assms(1) by (simp add: queue_ok_def)
  have cap: "0 < fl (of_int (max 1 (capacity q k)))" using fl_of_pos [of "of_int (max 1 (capacity q k))"] by simp
  have nonneg: "0 \<le> fl (of_int (max 0 (int (position q x k) - 1)))" for x by (intro double.rnd_nonneg) simp
  have "fl (of_int (max 0 (int (position q r k) - 1))) \<le> fl (of_int (max 0 (int (position q r' k) - 1)))"
    using assms(2) by (intro double.rnd_mono) simp
  then show ?thesis unfolding estimate_eq using avg cap nonneg [of r]
    by (auto intro!: pyround.rnd_mono pyround.rnd_nonneg double.rnd_mono double.rnd_nonneg
        divide_right_mono mult_right_mono mult_nonneg_nonneg divide_nonneg_pos)
qed

theorem estimate_monotone_witness:
  "estimate_wait_seconds sample_queue (sample_request 0 5) Normal = 0
   \<and> 0 \<le> estimate_wait_seconds sample_queue (sample_request 2 5) Normal"
proof -
  have p: "position sample_queue (sample_request 0 5) Normal = 1"
    "position sample_queue (sample_request 2 5) Normal = 3"
    by (simp_all add: position_def sample_queue_def sample_request_def)
  then show ?thesis
    using estimate_monotone [OF sample_queue_ok, of "sample_request 0 5" Normal "sample_request 2 5"]
    by (simp del: One_nat_def)
qed

section \<open>Tasks around the queue\<close>

text \<open>
  \<open>_execute_task\<close>: a task is \<open>Waiting\<close> from its enqueue to its admission, \<open>Running\<close> until
  \<open>acquire\<close> exits, \<open>Leaving\<close> until the discard of its \<open>finally\<close>, and then \<open>Gone\<close>.
  A cancelled waiter is removed by \<open>acquire\<close> and then discarded as well (\<open>cancel\<close>); one
  cancelled before it reaches \<open>acquire\<close> is only discarded (\<open>abandon\<close>).
\<close>

datatype task_phase = Waiting | Running | Leaving | Gone

record sched =
  sched_queue :: pqueue
  sched_tasks :: "nat \<Rightarrow> (task_phase \<times> queue_type \<times> prioritized_request) option"

definition set_task :: "sched \<Rightarrow> pqueue \<Rightarrow> task_phase \<Rightarrow> queue_type \<Rightarrow> prioritized_request \<Rightarrow> sched" where
  "set_task s q p k r = \<lparr>sched_queue = q, sched_tasks = (sched_tasks s)(rq_ident r \<mapsto> (p, k, r))\<rparr>"

inductive task_step :: "sched \<Rightarrow> sched \<Rightarrow> bool" where
  submit: "sched_tasks s (rq_ident r) = None \<Longrightarrow>
     task_step s (set_task s (fst (enqueue (sched_queue s) r k)) Waiting k r)"
| admit: "sched_tasks s (rq_ident r) = Some (Waiting, k, r) \<Longrightarrow> try_acquire (sched_queue s) r k = Some q \<Longrightarrow>
     task_step s (set_task s q Running k r)"
| cancel: "sched_tasks s (rq_ident r) = Some (Waiting, k, r) \<Longrightarrow>
     task_step s (set_task s (discard (sched_queue s) r k) Leaving k r)"
| abandon: "sched_tasks s (rq_ident r) = Some (Waiting, k, r) \<Longrightarrow>
     task_step s (set_task s (sched_queue s) Leaving k r)"
| exit: "sched_tasks s (rq_ident r) = Some (Running, k, r) \<Longrightarrow>
     task_step s (set_task s (release (sched_queue s) k) Leaving k r)"
| leave: "sched_tasks s (rq_ident r) = Some (Leaving, k, r) \<Longrightarrow>
     task_step s (set_task s (discard (sched_queue s) r k) Gone k r)"
| tick: "task_step s (s\<lparr>sched_queue := rebalance (sched_queue s)\<rparr>)"

inductive task_steps :: "sched \<Rightarrow> sched \<Rightarrow> bool" where
  refl: "task_steps s s"
| step: "task_steps s t \<Longrightarrow> task_step t u \<Longrightarrow> task_steps s u"

inductive_cases task_stepE: "task_step s t"

definition init_sched :: "pqueue \<Rightarrow> sched" where
  "init_sched q = \<lparr>sched_queue = q, sched_tasks = Map.empty\<rparr>"

definition in_phase :: "sched \<Rightarrow> task_phase \<Rightarrow> queue_type \<Rightarrow> nat set" where
  "in_phase s p k = {i. \<exists>r. sched_tasks s i = Some (p, k, r)}"

definition sched_ok :: "sched \<Rightarrow> bool" where
  "sched_ok s \<longleftrightarrow> queue_ok (sched_queue s) \<and> finite (dom (sched_tasks s))
     \<and> (\<forall>k. active_of (sched_queue s) k = int (card (in_phase s Running k)))"

lemma in_phase_set_task:
  "in_phase (set_task s q p k r) p' k' =
     (if p' = p \<and> k' = k then insert (rq_ident r) (in_phase s p' k') else in_phase s p' k' - {rq_ident r})"
  by (auto simp: in_phase_def set_task_def)

lemma in_phase_finite: "finite (dom (sched_tasks s)) \<Longrightarrow> finite (in_phase s p k)"
  by (erule rev_finite_subset) (auto simp: in_phase_def)

lemma active_of_ops [simp]:
  "active_of (fst (enqueue q r k)) k' = active_of q k'"
  "active_of (discard q r k) k' = active_of q k'"
  "active_of (release q k) k' = (if k' = k then max 0 (active_of q k - 1) else active_of q k')"
  by (auto simp: enqueue_def Let_def discard_def release_def split: option.split)

lemma active_of_try_acquire:
  "try_acquire q r k = Some q' \<Longrightarrow> active_of q' k' = active_of q k' + (if k' = k then 1 else 0)"
  by (erule try_acquire_SomeE) auto

lemma queue_ok_rebalance: "queue_ok q \<Longrightarrow> queue_ok (rebalance q)"
  using queue_ok_set_queue [of q "queue_of q Normal" Normal] by (simp add: queue_okD del: set_queue.simps queue_of.simps)

lemma sched_ok_set_task:
  assumes "sched_ok s" "queue_ok q"
    and "\<And>k'. active_of q k' = int (card (in_phase (set_task s q p k r) Running k'))"
  shows "sched_ok (set_task s q p k r)"
proof -
  have "dom (sched_tasks (set_task s q p k r)) = insert (rq_ident r) (dom (sched_tasks s))"
    by (simp add: set_task_def)
  with assms show ?thesis by (simp add: sched_ok_def) (simp add: set_task_def)
qed

lemma sched_ok_step: "task_step s t \<Longrightarrow> sched_ok s \<Longrightarrow> sched_ok t"
proof (induction rule: task_step.induct)
  case (submit s r k)
  then have "in_phase (set_task s q Waiting k r) Running k' = in_phase s Running k'" for q k'
    by (simp add: in_phase_set_task) (auto simp: in_phase_def)
  with submit show ?case by (intro sched_ok_set_task) (simp_all add: sched_ok_def queue_ok_enqueue)
next
  case (admit s r k q)
  then have "rq_ident r \<notin> in_phase s Running k'" for k' by (simp add: in_phase_def)
  with admit show ?case
    by (intro sched_ok_set_task)
      (auto simp: sched_ok_def in_phase_set_task in_phase_finite active_of_try_acquire intro: queue_ok_try_acquire)
next
  case (cancel s r k)
  then have "in_phase (set_task s q Leaving k r) Running k' = in_phase s Running k'" for q k'
    by (simp add: in_phase_set_task) (auto simp: in_phase_def)
  with cancel show ?case by (intro sched_ok_set_task) (simp_all add: sched_ok_def queue_ok_discard)
next
  case (abandon s r k)
  then have "in_phase (set_task s q Leaving k r) Running k' = in_phase s Running k'" for q k'
    by (simp add: in_phase_set_task) (auto simp: in_phase_def)
  with abandon show ?case by (intro sched_ok_set_task) (simp_all add: sched_ok_def)
next
  case (exit s r k)
  then have i: "rq_ident r \<in> in_phase s Running k" and o: "k' \<noteq> k \<Longrightarrow> rq_ident r \<notin> in_phase s Running k'" for k'
    by (auto simp: in_phase_def)
  from exit have f: "finite (in_phase s Running k)" by (simp add: sched_ok_def in_phase_finite)
  with i have "0 < card (in_phase s Running k)" by (auto simp: card_gt_0_iff)
  then have "max 0 (int (card (in_phase s Running k)) - 1) = int (card (in_phase s Running k - {rq_ident r}))"
    using i f by (simp add: card_Diff_singleton)
  with exit o show ?case
    by (intro sched_ok_set_task) (auto simp: sched_ok_def in_phase_set_task queue_ok_release)
next
  case (leave s r k)
  then have "in_phase (set_task s q Gone k r) Running k' = in_phase s Running k'" for q k'
    by (simp add: in_phase_set_task) (auto simp: in_phase_def)
  with leave show ?case by (intro sched_ok_set_task) (simp_all add: sched_ok_def queue_ok_discard)
next
  case (tick s)
  then show ?case by (simp add: sched_ok_def queue_ok_rebalance in_phase_def)
qed

lemma sched_ok_steps: "task_steps s t \<Longrightarrow> sched_ok s \<Longrightarrow> sched_ok t"
  by (induction rule: task_steps.induct) (auto intro: sched_ok_step)

lemma sched_ok_init: "queue_ok q \<Longrightarrow> \<forall>k. active_of q k = 0 \<Longrightarrow> sched_ok (init_sched q)"
  by (simp add: sched_ok_def init_sched_def in_phase_def)

lemma init_queue_active: "init_queue n h t r a = Some q \<Longrightarrow> active_of q k = 0"
  by (cases k) (auto simp: init_queue_def split: if_splits)

text \<open>
  C10. Never more tasks run than there are workers: in every state that any interleaving of
  submissions, admissions, cancellations and exits reaches from a fresh queue, at most
  \<open>normal_workers\<close> normal and \<open>heavy_workers\<close> heavy tasks are running, and the counter of the
  queue is exactly their number.
\<close>

theorem running_bounded:
  assumes "init_queue n h th rb a = Some q" "task_steps (init_sched q) s"
  shows "int (card (in_phase s Running Normal)) \<le> normal_workers (sched_queue s)
    \<and> int (card (in_phase s Running Heavy)) \<le> heavy_workers (sched_queue s)
    \<and> active (sched_queue s) = int (card (in_phase s Running Normal)) + int (card (in_phase s Running Heavy))"
proof -
  have "sched_ok s"
    using assms sched_ok_steps sched_ok_init queue_ok_init init_queue_active by blast
  then have "queue_ok (sched_queue s)"
    and a: "active_of (sched_queue s) k = int (card (in_phase s Running k))" for k
    by (simp_all add: sched_ok_def)
  from queue_okD(3) [OF this(1)] a show ?thesis
    by (metis (no_types) active_def active_of.simps queue_type.simps(3,4) workers_of_def)
qed

definition idents :: "prioritized_request list \<Rightarrow> nat set" where
  "idents xs = rq_ident ` set xs"

definition queued_ok :: "sched \<Rightarrow> bool" where
  "queued_ok s \<longleftrightarrow> (\<forall>k. distinct (map rq_ident (queue_of (sched_queue s) k))
     \<and> (\<forall>x \<in> set (queue_of (sched_queue s) k). \<exists>p. p \<noteq> Running \<and> sched_tasks s (rq_ident x) = Some (p, k, x)))"

definition lost :: "sched \<Rightarrow> nat \<Rightarrow> bool" where
  \<comment> \<open>the task exists, does not run, and no queue holds its request\<close>
  "lost s j \<longleftrightarrow> (\<exists>p k r. p \<noteq> Running \<and> sched_tasks s j = Some (p, k, r))
     \<and> (\<forall>k. j \<notin> idents (queue_of (sched_queue s) k))"

lemma remove_eq_SomeE:
  assumes "remove_eq r xs = Some ys"
  obtains a w b where "xs = a @ w # b" "ys = a @ b" "rq_ident w = rq_ident r \<or> request_eq w r"
  using assms
proof (induction xs arbitrary: ys thesis)
  case (Cons x xs)
  show ?case
  proof (cases "rq_ident x = rq_ident r \<or> request_eq x r")
    case True
    with Cons.prems(2) show ?thesis by (intro Cons.prems(1) [of "[]" x xs]) auto
  next
    case False
    with Cons.prems(2) obtain zs where z: "remove_eq r xs = Some zs" "ys = x # zs" by auto
    show ?thesis
    proof (rule Cons.IH [OF _ z(1)])
      fix a w b assume "xs = a @ w # b" "zs = a @ b" "rq_ident w = rq_ident r \<or> request_eq w r"
      with z show ?thesis by (intro Cons.prems(1) [of "x # a" w b]) simp_all
    qed
  qed
qed simp

lemma remove_eq_None: "remove_eq r xs = None \<longleftrightarrow> (\<forall>x \<in> set xs. rq_ident x \<noteq> rq_ident r \<and> \<not> request_eq x r)"
  by (induction xs) auto

lemma distinct_map_mset: "mset xs = mset ys \<Longrightarrow> distinct (map f xs) = distinct (map f ys)"
  by (intro mset_eq_imp_distinct_iff) simp

lemma queue_of_enqueue: "queue_of (fst (enqueue q r k)) k' =
    (if k' = k then heappush rq_priority (queue_of q k) r else queue_of q k')"
  by (simp add: enqueue_def Let_def)

lemma mset_queue_discard:
  "mset (queue_of (discard q r k) k') =
     (case remove_eq r (queue_of q k) of Some xs \<Rightarrow> if k' = k then mset xs else mset (queue_of q k')
      | None \<Rightarrow> mset (queue_of q k'))"
  by (simp add: discard_def split: option.split)

lemma idents_mset: "idents xs = rq_ident ` set_mset (mset xs)"
  by (simp add: idents_def)

lemma discard_sub:
  "set (queue_of (discard q r k) k') \<subseteq> set (queue_of q k')
   \<and> (distinct (map rq_ident (queue_of q k')) \<longrightarrow> distinct (map rq_ident (queue_of (discard q r k) k')))"
proof (cases "remove_eq r (queue_of q k)")
  case None
  then show ?thesis by (simp add: discard_def)
next
  case (Some xs)
  from this obtain a w b where x: "queue_of q k = a @ w # b" "xs = a @ b" by (rule remove_eq_SomeE)
  show ?thesis
  proof (cases "k' = k")
    case True
    have m: "mset (queue_of (discard q r k) k) = mset (a @ b)"
      using Some x by (simp add: mset_queue_discard)
    from mset_eq_setD [OF m] distinct_map_mset [OF m, of rq_ident] x True show ?thesis by auto
  next
    case False
    with Some show ?thesis by (simp add: discard_def)
  qed
qed

lemmas discard_set = discard_sub [THEN conjunct1]
  and discard_distinct = discard_sub [THEN conjunct2, rule_format]

lemma try_acquire_sub:
  assumes "try_acquire q r k = Some q'"
  shows "set (queue_of q' k') \<subseteq> set (queue_of q k')" "rq_ident r \<in> idents (queue_of q k)"
    and "distinct (map rq_ident (queue_of q k')) \<Longrightarrow> distinct (map rq_ident (queue_of q' k'))
      \<and> (k' = k \<longrightarrow> rq_ident r \<notin> idents (queue_of q' k'))"
proof -
  from assms obtain x xs where p: "heappop rq_priority (queue_of q k) = Some (x, xs)" "rq_ident x = rq_ident r"
    and q': "q' = rebalance (set_active (set_queue q k xs) k (active_of q k + 1))"
    by (rule try_acquire_SomeE)
  have m: "mset (queue_of q k) = mset (x # xs)" using mset_heappop [OF p(1)] by simp
  then have s: "set (queue_of q k) = set (x # xs)" by (rule mset_eq_setD)
  show "set (queue_of q' k') \<subseteq> set (queue_of q k')" using s q' by auto
  show "rq_ident r \<in> idents (queue_of q k)" using s p by (simp add: idents_def)
  show "distinct (map rq_ident (queue_of q k')) \<Longrightarrow> distinct (map rq_ident (queue_of q' k'))
      \<and> (k' = k \<longrightarrow> rq_ident r \<notin> idents (queue_of q' k'))"
    using distinct_map_mset [OF m, of rq_ident] p(2) q' by (auto simp: idents_def)
qed

lemma queued_ok_distinct: "queued_ok s \<Longrightarrow> distinct (map rq_ident (queue_of (sched_queue s) k))"
  by (simp add: queued_ok_def)

lemma queued_ok_task: "queued_ok s \<Longrightarrow> x \<in> set (queue_of (sched_queue s) k) \<Longrightarrow>
    \<exists>p. p \<noteq> Running \<and> sched_tasks s (rq_ident x) = Some (p, k, x)"
  by (simp add: queued_ok_def)

lemma queued_ok_ident:
  assumes "queued_ok s" "i \<in> idents (queue_of (sched_queue s) k)"
  shows "\<exists>p x. p \<noteq> Running \<and> sched_tasks s i = Some (p, k, x)"
proof -
  from assms(2) obtain x where x: "x \<in> set (queue_of (sched_queue s) k)" "i = rq_ident x"
    by (auto simp: idents_def)
  from queued_ok_task [OF assms(1) x(1)] x(2) show ?thesis by auto
qed

lemmas queued_okD = queued_ok_distinct queued_ok_task queued_ok_ident

lemma queued_ok_set_task:
  assumes s: "queued_ok s"
    and sub: "\<And>k'. set (queue_of q k') \<subseteq> set (queue_of (sched_queue s) k')"
    and dis: "\<And>k'. distinct (map rq_ident (queue_of q k'))"
    and old: "sched_tasks s (rq_ident r) = Some (p0, k, r)"
    and p: "p \<noteq> Running \<or> (\<forall>k'. rq_ident r \<notin> idents (queue_of q k'))"
  shows "queued_ok (set_task s q p k r)"
  unfolding queued_ok_def
proof (intro allI conjI ballI)
  fix k' show "distinct (map rq_ident (queue_of (sched_queue (set_task s q p k r)) k'))"
    using dis by (simp add: set_task_def)
next
  fix k' x assume "x \<in> set (queue_of (sched_queue (set_task s q p k r)) k')"
  then have x: "x \<in> set (queue_of q k')" by (simp add: set_task_def)
  with sub have "x \<in> set (queue_of (sched_queue s) k')" by blast
  from queued_ok_task [OF s this]
  obtain p' where p': "p' \<noteq> Running" "sched_tasks s (rq_ident x) = Some (p', k', x)" by blast
  show "\<exists>p'. p' \<noteq> Running \<and> sched_tasks (set_task s q p k r) (rq_ident x) = Some (p', k', x)"
  proof (cases "rq_ident x = rq_ident r")
    case True
    have e: "k' = k" "x = r" using p'(2) old unfolding True by simp_all
    then have "rq_ident r \<in> idents (queue_of q k')" using x by (simp add: idents_def)
    with p e show ?thesis by (auto simp: set_task_def)
  next
    case False
    with p' show ?thesis by (auto simp: set_task_def)
  qed
qed

lemma queued_ok_step: "task_step s t \<Longrightarrow> queued_ok s \<Longrightarrow> queued_ok t"
proof (induction rule: task_step.induct)
  case (submit s r k)
  have new: "rq_ident r \<notin> idents (queue_of (sched_queue s) k')" for k'
    using queued_okD(3) [OF submit(2)] submit(1) by fastforce
  have d: "distinct (map rq_ident (queue_of (fst (enqueue (sched_queue s) r k)) k'))" for k'
    using queued_okD(1) [OF submit(2)] new [of k]
      distinct_map_mset [of "heappush rq_priority (queue_of (sched_queue s) k) r"
        "r # queue_of (sched_queue s) k" rq_ident]
    by (auto simp: queue_of_enqueue mset_heappush idents_def)
  have q: "set (queue_of (fst (enqueue (sched_queue s) r k)) k')
      = (if k' = k then insert r (set (queue_of (sched_queue s) k)) else set (queue_of (sched_queue s) k'))" for k'
    using mset_eq_setD [of "heappush rq_priority (queue_of (sched_queue s) k) r" "r # queue_of (sched_queue s) k"]
    by (auto simp: queue_of_enqueue mset_heappush)
  have "\<exists>p. p \<noteq> Running \<and> ((sched_tasks s)(rq_ident r \<mapsto> (Waiting, k, r))) (rq_ident x) = Some (p, k', x)"
    if x: "x \<in> set (queue_of (sched_queue s) k')" for x k'
    using queued_okD(2) [OF submit(2) x] submit(1) by auto
  with d q show ?case by (auto simp: queued_ok_def set_task_def)
next
  case (admit s r k q)
  have no: "rq_ident r \<notin> idents (queue_of q k')" for k'
  proof (cases "k' = k")
    case True
    then show ?thesis using try_acquire_sub(3) [OF admit(2) queued_okD(1) [OF admit(3)], of k] by blast
  next
    case False
    then have "rq_ident r \<notin> idents (queue_of (sched_queue s) k')"
      using queued_okD(3) [OF admit(3), of "rq_ident r" k'] admit(1) by auto
    then show ?thesis using try_acquire_sub(1) [OF admit(2), of k'] by (auto simp: idents_def)
  qed
  show ?case
    using try_acquire_sub(1,3) [OF admit(2)] queued_okD(1) [OF admit(3)] no admit(1)
    by (intro queued_ok_set_task [OF admit(3)]) auto
next
  case (cancel s r k)
  then show ?case
    by (intro queued_ok_set_task discard_set discard_distinct queued_okD(1)) simp_all
next
  case (abandon s r k)
  then show ?case using queued_okD(1) by (intro queued_ok_set_task) auto
next
  case (exit s r k)
  then show ?case using queued_okD(1) by (intro queued_ok_set_task) (auto simp: release_def)
next
  case (leave s r k)
  then show ?case
    by (intro queued_ok_set_task discard_set discard_distinct queued_okD(1)) simp_all
next
  case (tick s)
  then show ?case by (simp add: queued_ok_def)
qed

lemma queued_ok_steps: "task_steps s t \<Longrightarrow> queued_ok s \<Longrightarrow> queued_ok t"
  by (induction rule: task_steps.induct) (auto intro: queued_ok_step)

lemma init_queue_empty: "init_queue n h t r a = Some q \<Longrightarrow> queue_of q k = []"
  by (cases k) (auto simp: init_queue_def split: if_splits)

lemma queued_ok_init: "init_queue n h t r a = Some q \<Longrightarrow> queued_ok (init_sched q)"
  by (simp add: queued_ok_def init_sched_def init_queue_empty)

lemma lost_set_task:
  assumes "lost s j" "p \<noteq> Running \<or> rq_ident r \<noteq> j"
    and "\<And>k'. set (queue_of q k') \<subseteq> set (queue_of (sched_queue s) k')"
  shows "lost (set_task s q p k r) j"
  using assms by (fastforce simp: lost_def set_task_def idents_def)

lemma lost_step: "task_step s t \<Longrightarrow> lost s j \<Longrightarrow> lost t j"
proof (induction rule: task_step.induct)
  case (submit s r k)
  then have "rq_ident r \<noteq> j" by (auto simp: lost_def)
  moreover have "idents (heappush rq_priority xs r) = insert (rq_ident r) (idents xs)" for xs
    by (simp add: idents_mset mset_heappush)
  ultimately show ?case using submit(2) by (auto simp: lost_def set_task_def queue_of_enqueue)
next
  case (admit s r k q)
  then have "rq_ident r \<noteq> j" using try_acquire_sub(2) [OF admit(2)] by (auto simp: lost_def)
  with admit show ?case using try_acquire_sub(1) by (intro lost_set_task) auto
next
  case (tick s)
  then show ?case by (simp add: lost_def)
qed (rule lost_set_task, assumption, simp, simp add: release_def discard_set)+

lemma lost_steps: "task_steps s t \<Longrightarrow> lost s j \<Longrightarrow> lost t j"
  by (induction rule: task_steps.induct) (auto intro: lost_step)

lemma lost_not_running: "lost s j \<Longrightarrow> j \<notin> in_phase s Running k"
  by (auto simp: lost_def in_phase_def)

text \<open>
  C11. A task that leaves takes a waiting request with it. \<open>_execute_task\<close> always discards
  its request, also after it was admitted and so is no longer queued; \<open>list.remove\<close> then
  compares by priority alone. Whenever some request of the same priority waits in that
  queue, the discard removes one of them, and in no continuation does its task ever run.
\<close>

theorem leaving_task_loses_waiter:
  assumes "init_queue n h th rb a = Some q0" "task_steps (init_sched q0) s"
    and "sched_tasks s (rq_ident r) = Some (Leaving, k, r)"
    and "rq_ident r \<notin> idents (queue_of (sched_queue s) k)"
    and "y \<in> set (queue_of (sched_queue s) k)" "rq_priority y = rq_priority r"
  shows "\<exists>w \<in> set (queue_of (sched_queue s) k). rq_priority w = rq_priority r \<and> rq_ident w \<noteq> rq_ident r
    \<and> (\<forall>u. task_steps (set_task s (discard (sched_queue s) r k) Gone k r) u \<longrightarrow>
        (\<forall>k'. rq_ident w \<notin> in_phase u Running k' \<and> rq_ident w \<notin> idents (queue_of (sched_queue u) k')))"
proof -
  let ?t = "set_task s (discard (sched_queue s) r k) Gone k r"
  have s: "queued_ok s" using assms(1,2) queued_ok_steps queued_ok_init by blast
  obtain xs where xs: "remove_eq r (queue_of (sched_queue s) k) = Some xs"
    using assms(5,6) remove_eq_None [of r "queue_of (sched_queue s) k"] by (auto simp: request_eq_def)
  then obtain c w b where w: "queue_of (sched_queue s) k = c @ w # b" "xs = c @ b"
      "rq_ident w = rq_ident r \<or> request_eq w r" by (rule remove_eq_SomeE)
  then have ne: "rq_ident w \<noteq> rq_ident r" using assms(4) by (auto simp: idents_def)
  obtain p where p: "p \<noteq> Running" "sched_tasks s (rq_ident w) = Some (p, k, w)"
    using queued_okD(2) [OF s, of w k] w by auto
  have "rq_ident w \<notin> idents (queue_of (discard (sched_queue s) r k) k')" for k'
  proof (cases "k' = k")
    case True
    with queued_okD(1) [OF s, of k] w xs show ?thesis by (auto simp: discard_def idents_mset)
  next
    case False
    then show ?thesis
      using queued_okD(3) [OF s, of "rq_ident w" k'] p discard_sub [of "sched_queue s" r k k']
      by (fastforce simp: idents_def)
  qed
  with p ne have "lost ?t (rq_ident w)" by (simp add: lost_def set_task_def)
  then have "\<forall>u. task_steps ?t u \<longrightarrow> lost u (rq_ident w)" using lost_steps by blast
  then show ?thesis
    using w ne lost_not_running by (intro bexI [of _ w]) (auto simp: request_eq_def lost_def)
qed

text \<open>The execution of both witnesses: one worker; task 0 runs, task 1 waits, task 0 exits.\<close>

definition run_queue :: "prioritized_request list \<Rightarrow> int \<Rightarrow> pqueue" where
  "run_queue xs running =
     \<lparr>normal_workers = 1, heavy_workers = 1, heavy_threshold = 30, rebalance_threshold = 20,
      average_task_seconds = 10, normal_queue = xs, heavy_queue = [],
      normal_active = running, heavy_active = 0, heavy_limit = 1\<rparr>"

definition sample_run :: "sched list" where
  "sample_run =
     (let a = sample_request 0 5; b = sample_request 1 5;
          s1 = set_task (init_sched (run_queue [] 0)) (run_queue [a] 0) Waiting Normal a;
          s2 = set_task s1 (run_queue [] 1) Running Normal a;
          s3 = set_task s2 (run_queue [b] 1) Waiting Normal b;
          s4 = set_task s3 (run_queue [b] 0) Leaving Normal a
      in [s1, s2, s3, s4])"

lemma run_queue_init: "init_queue 1 1 30 20 10 = Some (run_queue [] 0)"
proof -
  have "max (fl (1 / 10)) 10 = 10" using double.rnd_le_fixed [of 1 "1 / 10"] by simp
  then show ?thesis by (simp add: init_queue_def run_queue_def)
qed

lemma run_queue_ops:
  "fst (enqueue (run_queue [] n) r Normal) = run_queue [r] n"
  "try_acquire (run_queue [r] 0) r Normal = Some (run_queue [] 1)"
  "release (run_queue xs 1) Normal = rebalance (run_queue xs 0)"
  "rebalance (run_queue [r] n) = run_queue [r] n"
  by (simp_all add: enqueue_def Let_def run_queue_def heappush_def siftdown.simps rebalance_def
      try_acquire_def heappop_def release_def)

lemma sample_run_steps: "task_steps (init_sched (run_queue [] 0)) (sample_run ! 3)"
proof -
  have 1: "task_step (init_sched (run_queue [] 0)) (sample_run ! 0)"
    using submit [of "init_sched (run_queue [] 0)" "sample_request 0 5" Normal]
    by (simp add: sample_run_def Let_def init_sched_def run_queue_ops)
  have 2: "task_step (sample_run ! 0) (sample_run ! 1)"
    using admit [of "sample_run ! 0" "sample_request 0 5" Normal "run_queue [] 1"]
    by (simp add: sample_run_def Let_def set_task_def run_queue_ops)
  have 3: "task_step (sample_run ! 1) (sample_run ! 2)"
    using submit [of "sample_run ! 1" "sample_request 1 5" Normal]
    by (simp add: sample_run_def Let_def set_task_def run_queue_ops init_sched_def sample_request_def)
  have 4: "task_step (sample_run ! 2) (sample_run ! 3)"
    using exit [of "sample_run ! 2" "sample_request 0 5" Normal]
    by (simp add: sample_run_def Let_def set_task_def run_queue_ops sample_request_def)
  show ?thesis using 1 2 3 4 by (meson task_steps.intros)
qed

theorem running_bounded_witness:
  "int (card (in_phase (sample_run ! 3) Running Normal)) \<le> 1"
  using running_bounded [OF run_queue_init sample_run_steps]
  by (simp add: sample_run_def Let_def set_task_def run_queue_def)

theorem leaving_task_loses_waiter_witness:
  "\<exists>w \<in> set (queue_of (sched_queue (sample_run ! 3)) Normal). rq_ident w \<noteq> 0
   \<and> (\<forall>u. task_steps (set_task (sample_run ! 3)
         (discard (sched_queue (sample_run ! 3)) (sample_request 0 5) Normal) Gone Normal (sample_request 0 5)) u
       \<longrightarrow> (\<forall>k'. rq_ident w \<notin> in_phase u Running k'))"
proof -
  have "sched_tasks (sample_run ! 3) (rq_ident (sample_request 0 5)) = Some (Leaving, Normal, sample_request 0 5)"
    "rq_ident (sample_request 0 5) \<notin> idents (queue_of (sched_queue (sample_run ! 3)) Normal)"
    "sample_request 1 5 \<in> set (queue_of (sched_queue (sample_run ! 3)) Normal)"
    "rq_priority (sample_request 1 5) = rq_priority (sample_request 0 5)"
    by (simp_all add: sample_run_def Let_def set_task_def run_queue_def sample_request_def idents_def)
  from leaving_task_loses_waiter [OF run_queue_init sample_run_steps this]
  show ?thesis by (auto simp: sample_request_def)
qed

text \<open>
  The two tiers of work never starve the heavy pool or overdraw it: after every operation
  on a well-formed queue the heavy limit is between 1 and \<open>heavy_workers\<close>, it is the full
  \<open>heavy_workers\<close> when the normal queue is short and the halved limit while the normal queue is
  longer than the threshold, and the head of a queue with a free worker is admitted.
\<close>

lemma rebalance_and_admission:
  assumes "queue_ok q" "queue_of q k \<noteq> []" "active_of q k < capacity q k"
  shows "\<exists>q'. try_acquire q (hd (queue_of q k)) k = Some q' \<and> queue_ok q'
    \<and> length (queue_of q' k) + 1 = length (queue_of q k) \<and> active_of q' k = active_of q k + 1
    \<and> 1 \<le> heavy_limit q' \<and> heavy_limit q' \<le> heavy_workers q
    \<and> (rebalance_threshold q < int (length (normal_queue q')) \<longrightarrow> heavy_limit q' = max 1 (heavy_workers q div 2))
    \<and> (normal_queue q' = [] \<and> 1 \<le> rebalance_threshold q \<longrightarrow> heavy_limit q' = heavy_workers q)"
proof -
  obtain xs where p: "heappop rq_priority (queue_of q k) = Some (hd (queue_of q k), xs)"
    using heappop_hd assms(2) by blast
  define q' where "q' = rebalance (set_active (set_queue q k xs) k (active_of q k + 1))"
  have a: "try_acquire q (hd (queue_of q k)) k = Some q'"
    using assms p by (simp add: try_acquire_def q'_def)
  have ok: "queue_ok q'" by (rule queue_ok_try_acquire [OF assms(1) a])
  have "length (queue_of q k) = Suc (length xs)"
    using mset_heappop [OF p] by (metis size_add_mset size_mset)
  moreover have "rebalance_threshold q < int (length (normal_queue q')) \<longrightarrow> heavy_limit q' = max 1 (heavy_workers q div 2)"
    "normal_queue q' = [] \<and> 1 \<le> rebalance_threshold q \<longrightarrow> heavy_limit q' = heavy_workers q"
    by (cases k; auto simp: q'_def rebalance_def)+
  ultimately show ?thesis using a ok queue_okD(6,7) [OF ok] by (simp add: q'_def)
qed

lemma rebalance_and_admission_witness:
  "\<exists>q'. try_acquire sample_queue (sample_request 0 5) Normal = Some q' \<and> heavy_limit q' \<le> 4"
  using rebalance_and_admission [OF sample_queue_ok, of Normal] by (auto simp: sample_queue_def)

end
