(* ===== verification/Circuit.thy ===== *)
theory Circuit
  imports Floats
begin

text \<open>
  \<open>app/provider_resilience.py\<close>: the circuit breaker, the outcome window and the retry loop
  that guard every call to a provider. A circuit is the state of one provider; the registry
  maps provider names to circuits, created on first use. Times are the values that
  \<open>monotonic()\<close> returns. \<open>execute\<close> runs the operation once per attempt: \<open>op i\<close> is what
  attempt \<open>i\<close> does, \<open>jitter i\<close> the value in [0, 1] that \<open>random.uniform\<close> scales.
\<close>

section \<open>State and settings\<close>

record circuit_state =
  failures :: nat
  opened_at :: "rat option"
  half_open_in_flight :: bool
  outcomes :: "bool list"

record circuit_settings =
  retry_attempts :: int
  retry_backoff_seconds :: rat
  retry_backoff_max_seconds :: rat
  failure_threshold :: nat
  window_size :: nat
  failure_rate_limit :: rat
  reset_seconds :: rat

definition new_circuit :: circuit_state where
  "new_circuit = \<lparr>failures = 0, opened_at = None, half_open_in_flight = False, outcomes = []\<rparr>"

datatype provider_error =
    TimeoutOrTransport
  | HTTPStatus int
  | OtherError

definition retryable :: "provider_error \<Rightarrow> bool" where
  "retryable e =
     (case e of TimeoutOrTransport \<Rightarrow> True
      | HTTPStatus code \<Rightarrow> code = 429 \<or> 500 \<le> code
      | OtherError \<Rightarrow> False)"

datatype 'a attempt = Result 'a | Raises provider_error | CancelledError

datatype 'a call_result =
    Returned 'a
  | Raised provider_error
  | Cancelled
  | CircuitOpen
  | CircuitHalfOpen
  | DidNotReturn

section \<open>Operations\<close>

definition before_call :: "circuit_settings \<Rightarrow> rat \<Rightarrow> circuit_state \<Rightarrow> 'a call_result + circuit_state" where
  "before_call cfg now c =
     (case opened_at c of
        None \<Rightarrow> Inr c
      | Some t \<Rightarrow>
          if fl (now - t) < reset_seconds cfg then Inl CircuitOpen
          else if half_open_in_flight c then Inl CircuitHalfOpen
          else Inr (c\<lparr>half_open_in_flight := True\<rparr>))"

definition count_failures :: "bool list \<Rightarrow> nat" where
  "count_failures os = length (filter Not os)"

definition push_outcome :: "circuit_settings \<Rightarrow> bool \<Rightarrow> bool list \<Rightarrow> bool list" where
  \<comment> \<open>\<open>append\<close> and then \<open>popleft\<close> while the window is exceeded\<close>
  "push_outcome cfg b os = last_n (window_size cfg) (os @ [b])"

definition on_success :: "circuit_settings \<Rightarrow> circuit_state \<Rightarrow> circuit_state" where
  "on_success cfg c =
     (let os = (if half_open_in_flight c then [] else push_outcome cfg True (outcomes c))
      in \<lparr>failures = count_failures os, opened_at = None, half_open_in_flight = False, outcomes = os\<rparr>)"

definition trips :: "circuit_settings \<Rightarrow> bool list \<Rightarrow> bool" where
  "trips cfg os =
     (let rate = (if os = [] then 0 else fl (of_nat (count_failures os) / of_nat (length os)))
      in failure_threshold cfg \<le> count_failures os
         \<or> min 5 (window_size cfg) \<le> length os \<and> failure_rate_limit cfg \<le> rate)"

definition on_failure :: "circuit_settings \<Rightarrow> rat \<Rightarrow> circuit_state \<Rightarrow> circuit_state" where
  "on_failure cfg now c =
     (let os = push_outcome cfg False (outcomes c)
      in \<lparr>failures = count_failures os,
          opened_at = (if trips cfg os then Some now else opened_at c),
          half_open_in_flight = False, outcomes = os\<rparr>)"

definition backoff :: "circuit_settings \<Rightarrow> nat \<Rightarrow> rat" where
  "backoff cfg attempt =
     min (retry_backoff_max_seconds cfg) (fl (retry_backoff_seconds cfg * fl (2 ^ attempt)))"

definition sleep_seconds :: "circuit_settings \<Rightarrow> (nat \<Rightarrow> rat) \<Rightarrow> nat \<Rightarrow> rat" where
  "sleep_seconds cfg jitter attempt =
     (let b = backoff cfg attempt in fl (b + fl (fl (b * (1 / 4)) * jitter attempt)))"

definition attempts :: "circuit_settings \<Rightarrow> nat" where
  "attempts cfg = nat (max 1 (retry_attempts cfg + 1))"

text \<open>The loop of \<open>execute\<close>: result, circuit, number of operations run, sleeps.\<close>

fun attempt_loop :: "circuit_settings \<Rightarrow> rat \<Rightarrow> (nat \<Rightarrow> 'a attempt) \<Rightarrow> (nat \<Rightarrow> rat) \<Rightarrow> nat \<Rightarrow> nat \<Rightarrow>
    circuit_state \<Rightarrow> 'a call_result \<times> circuit_state \<times> nat \<times> rat list" where
  "attempt_loop cfg now op jitter i 0 c = (DidNotReturn, c, 0, [])"
| "attempt_loop cfg now op jitter i (Suc left) c =
     (case op i of
        CancelledError \<Rightarrow> (Cancelled, c, 1, [])
      | Raises e \<Rightarrow>
          if \<not> retryable e \<or> i = attempts cfg - 1 then (Raised e, on_failure cfg now c, 1, [])
          else (case attempt_loop cfg now op jitter (Suc i) left c of
                  (r, c', n, sl) \<Rightarrow> (r, c', Suc n, sleep_seconds cfg jitter i # sl))
      | Result x \<Rightarrow> (Returned x, on_success cfg c, 1, []))"

definition execute :: "circuit_settings \<Rightarrow> rat \<Rightarrow> rat \<Rightarrow> (nat \<Rightarrow> 'a attempt) \<Rightarrow> (nat \<Rightarrow> rat) \<Rightarrow>
    circuit_state \<Rightarrow> 'a call_result \<times> circuit_state \<times> nat \<times> rat list" where
  \<comment> \<open>\<open>start\<close>: the time of \<open>_before_call\<close>, \<open>now\<close>: of the outcome\<close>
  "execute cfg start now op jitter c =
     (case before_call cfg start c of
        Inl e \<Rightarrow> (e, c, 0, [])
      | Inr c' \<Rightarrow> attempt_loop cfg now op jitter 0 (attempts cfg) c')"

section \<open>The registry\<close>

type_synonym registry = "pystr \<Rightarrow> circuit_state option"

definition state_of :: "registry \<Rightarrow> pystr \<Rightarrow> circuit_state" where
  "state_of reg provider = (case reg provider of Some c \<Rightarrow> c | None \<Rightarrow> new_circuit)"

definition execute_provider :: "circuit_settings \<Rightarrow> rat \<Rightarrow> rat \<Rightarrow> (nat \<Rightarrow> 'a attempt) \<Rightarrow> (nat \<Rightarrow> rat) \<Rightarrow>
    pystr \<Rightarrow> registry \<Rightarrow> 'a call_result \<times> registry \<times> nat \<times> rat list" where
  "execute_provider cfg start now op jitter provider reg =
     (case execute cfg start now op jitter (state_of reg provider) of
        (r, c, n, sl) \<Rightarrow> (r, reg(provider \<mapsto> c), n, sl))"

definition reset_registry :: "registry \<Rightarrow> registry" where
  "reset_registry reg = Map.empty"

section \<open>The window\<close>

lemma count_failures_le: "count_failures os \<le> length os"
  by (simp add: count_failures_def)

lemma count_failures_append: "count_failures (xs @ ys) = count_failures xs + count_failures ys"
  by (simp add: count_failures_def)

lemma length_push_outcome: "length (push_outcome cfg b os) = min (window_size cfg) (Suc (length os))"
  by (simp add: push_outcome_def)

lemma count_drop: "count_failures os \<le> count_failures (drop n os) + n"
proof -
  have "count_failures os = count_failures (take n os) + count_failures (drop n os)"
    by (metis append_take_drop_id count_failures_append)
  also have "count_failures (take n os) \<le> n" using count_failures_le [of "take n os"] by simp
  finally show ?thesis by simp
qed

lemma push_failure_count:
  assumes "length os \<le> window_size cfg" "1 \<le> window_size cfg"
  shows "count_failures os \<le> count_failures (push_outcome cfg False os)"
    and "length os < window_size cfg \<Longrightarrow> count_failures (push_outcome cfg False os) = Suc (count_failures os)"
proof -
  have 1: "push_outcome cfg False os = last_n (window_size cfg - 1) os @ [False]"
    using assms by (simp add: push_outcome_def last_n_snoc)
  show "count_failures os \<le> count_failures (push_outcome cfg False os)"
    using count_drop [of os "length os - (window_size cfg - 1)"] assms
    by (simp add: 1 last_n_def count_failures_append) (simp add: count_failures_def)
  show "length os < window_size cfg \<Longrightarrow> count_failures (push_outcome cfg False os) = Suc (count_failures os)"
    unfolding 1 count_failures_append by (simp add: last_n_all) (simp add: count_failures_def)
qed

definition circuit_ok :: "circuit_settings \<Rightarrow> circuit_state \<Rightarrow> bool" where
  "circuit_ok cfg c \<longleftrightarrow>
     length (outcomes c) \<le> window_size cfg \<and> failures c = count_failures (outcomes c)
     \<and> (opened_at c \<noteq> None \<longrightarrow> trips cfg (outcomes c))
     \<and> (half_open_in_flight c \<longrightarrow> opened_at c \<noteq> None)"

lemma rate_mono:
  assumes "count_failures xs \<le> count_failures ys" "length ys \<le> length xs \<or> count_failures ys = Suc (count_failures xs) \<and> length ys = Suc (length xs)"
    "xs \<noteq> []" "ys \<noteq> []"
  shows "fl (of_nat (count_failures xs) / of_nat (length xs)) \<le> fl (of_nat (count_failures ys) / of_nat (length ys))"
proof (rule double.rnd_mono)
  have pos: "(0 :: rat) < of_nat (length xs)" "(0 :: rat) < of_nat (length ys)" using assms by auto
  have "count_failures xs * length ys \<le> count_failures ys * length xs"
    using assms(2)
  proof (elim disjE conjE)
    assume "length ys \<le> length xs"
    then show ?thesis using assms(1) by (simp add: mult_le_mono)
  next
    assume "count_failures ys = Suc (count_failures xs)" "length ys = Suc (length xs)"
    then show ?thesis using count_failures_le [of xs] by simp
  qed
  then have "(of_nat (count_failures xs * length ys) :: rat) \<le> of_nat (count_failures ys * length xs)"
    by (simp only: of_nat_le_iff)
  then show "(of_nat (count_failures xs) / of_nat (length xs) :: rat) \<le> of_nat (count_failures ys) / of_nat (length ys)"
    using pos by (simp add: divide_le_eq pos_le_divide_eq field_simps)
qed

text \<open>Another failure never untrips the breaker.\<close>

lemma trips_push:
  assumes "length os \<le> window_size cfg" "1 \<le> window_size cfg" "trips cfg os"
  shows "trips cfg (push_outcome cfg False os)"
proof -
  note c = push_failure_count [OF assms(1,2)]
  show ?thesis
  proof (cases "failure_threshold cfg \<le> count_failures os")
    case True
    with c(1) show ?thesis by (simp add: trips_def)
  next
    case False
    with assms(3) have s: "min 5 (window_size cfg) \<le> length os" by (simp add: trips_def)
    then have "os \<noteq> []" using assms(2) by auto
    moreover have l: "length (push_outcome cfg False os) = min (window_size cfg) (Suc (length os))"
      by (rule length_push_outcome)
    moreover have ne: "push_outcome cfg False os \<noteq> []" using l assms(2) by auto
    ultimately have "fl (of_nat (count_failures os) / of_nat (length os))
        \<le> fl (of_nat (count_failures (push_outcome cfg False os)) / of_nat (length (push_outcome cfg False os)))"
      using c assms(1) by (intro rate_mono) (auto simp: min_def)
    then show ?thesis
      using False assms(3) s l ne \<open>os \<noteq> []\<close> assms(1) by (auto simp: trips_def Let_def min_def split: if_splits)
  qed
qed

lemma circuit_ok_new: "circuit_ok cfg new_circuit"
  by (simp add: circuit_ok_def new_circuit_def count_failures_def)

lemma circuit_ok_before: "circuit_ok cfg c \<Longrightarrow> before_call cfg now c = Inr c' \<Longrightarrow> circuit_ok cfg c'"
  by (auto simp: circuit_ok_def before_call_def split: option.splits if_splits)

lemma circuit_ok_success: "circuit_ok cfg (on_success cfg c)"
  by (simp add: circuit_ok_def on_success_def Let_def length_push_outcome)

lemma circuit_ok_failure: "circuit_ok cfg c \<Longrightarrow> 1 \<le> window_size cfg \<Longrightarrow> circuit_ok cfg (on_failure cfg now c)"
  by (auto simp: circuit_ok_def on_failure_def Let_def length_push_outcome intro: trips_push)

lemma circuit_ok_loop:
  "circuit_ok cfg c \<Longrightarrow> 1 \<le> window_size cfg \<Longrightarrow> attempt_loop cfg now op jitter i n c = (r, c', m, sl) \<Longrightarrow> circuit_ok cfg c'"
  by (induction n arbitrary: i c r c' m sl)
    (auto simp: circuit_ok_success circuit_ok_failure split: attempt.splits if_splits prod.splits)

lemma circuit_ok_execute:
  "circuit_ok cfg c \<Longrightarrow> 1 \<le> window_size cfg \<Longrightarrow> execute cfg start now op jitter c = (r, c', m, sl) \<Longrightarrow> circuit_ok cfg c'"
  by (simp add: execute_def split: sum.splits) (metis circuit_ok_before circuit_ok_loop One_nat_def)

section \<open>Properties\<close>

definition default_cfg :: circuit_settings where
  \<comment> \<open>the defaults of \<open>app/config.py\<close>\<close>
  "default_cfg = \<lparr>retry_attempts = 2, retry_backoff_seconds = 1, retry_backoff_max_seconds = 2,
     failure_threshold = 5, window_size = 20, failure_rate_limit = 1 / 2, reset_seconds = 30\<rparr>"

definition open_circuit :: circuit_state where
  "open_circuit = \<lparr>failures = 5, opened_at = Some 0, half_open_in_flight = False,
                   outcomes = replicate 5 False\<rparr>"

lemma open_circuit_ok: "circuit_ok default_cfg open_circuit"
  by (simp add: circuit_ok_def open_circuit_def default_cfg_def count_failures_def trips_def)

text \<open>
  A cancelled probe wedges the breaker: once the reset time has passed and the single
  half-open probe is cancelled (a task timeout cancels it), no outcome is recorded and the
  in-flight flag stays set, so every later call to that provider, at any time, is refused
  without running, and refusing leaves the circuit as it is.
\<close>

lemma cancelled_probe_wedges_circuit:
  fixes op :: "nat \<Rightarrow> 'a attempt"
  assumes "opened_at c = Some t" "\<not> half_open_in_flight c" "reset_seconds cfg \<le> fl (start - t)"
    "op 0 = CancelledError" "1 \<le> attempts cfg"
    "execute cfg start now op jitter c = (r, c', n, sl)"
  shows "r = Cancelled
    \<and> (\<forall>start' now' (op' :: nat \<Rightarrow> 'a attempt) jitter'. fst (execute cfg start' now' op' jitter' c') \<in> {CircuitOpen, CircuitHalfOpen}
        \<and> snd (execute cfg start' now' op' jitter' c') = (c', 0, []))"
proof -
  obtain k where k: "attempts cfg = Suc k" using assms(5) by (cases "attempts cfg") auto
  have "r = Cancelled" "c' = c\<lparr>half_open_in_flight := True\<rparr>"
    using assms k by (auto simp: execute_def before_call_def)
  then show ?thesis using assms(1) by (simp add: execute_def before_call_def)
qed

lemma attempts_default: "attempts default_cfg = 3"
  by (simp add: attempts_def default_cfg_def)

lemma fl_small_nat: "fl 30 = 30" "fl 60 = 60"
  using is_float_of_int [of 30] is_float_of_int [of 60] by (simp_all add: is_float_def)

lemma cancelled_probe_wedges_circuit_witness:
  "fst (execute default_cfg 1000 1001 (\<lambda>i. Result ()) (\<lambda>i. 0)
     (fst (snd (execute default_cfg 60 61 (\<lambda>i. CancelledError :: unit attempt) (\<lambda>i. 0) open_circuit))))
   \<in> {CircuitOpen, CircuitHalfOpen}"
proof -
  obtain r c' n sl where e: "execute default_cfg 60 61 (\<lambda>i. CancelledError :: unit attempt) (\<lambda>i. 0) open_circuit = (r, c', n, sl)"
    by (metis prod.exhaust)
  then show ?thesis
    using cancelled_probe_wedges_circuit [OF _ _ _ _ _ e, of 0]
    by (simp add: open_circuit_def default_cfg_def fl_small_nat attempts_default [unfolded default_cfg_def])
qed

lemma attempt_loop_final:
  assumes "i + n = attempts cfg" "0 < n"
    "\<forall>j \<ge> i. op j \<noteq> CancelledError" "\<forall>j \<ge> i. \<forall>x. op j \<noteq> Result x"
  shows "\<exists>e m sl. attempt_loop cfg now op jitter i n c = (Raised e, on_failure cfg now c, m, sl)"
  using assms
proof (induction n arbitrary: i)
  case (Suc n)
  obtain e where e: "op i = Raises e" using Suc.prems(3,4) by (cases "op i") auto
  show ?case
  proof (cases "\<not> retryable e \<or> i = attempts cfg - 1")
    case False
    then have "Suc i + n = attempts cfg" "0 < n" using Suc.prems(1) by auto
    from Suc.IH [OF this] Suc.prems(3,4) obtain e' m sl where
      "attempt_loop cfg now op jitter (Suc i) n c = (Raised e', on_failure cfg now c, m, sl)" by auto
    with e False show ?thesis by simp
  qed (simp add: e)
qed simp

text \<open>
  A failed probe re-opens the circuit: if the provider is still failing when the reset
  time has passed, the call is recorded as one failure and the quarantine starts again at
  that moment, so that the next call before another reset period is refused.
\<close>

lemma failed_probe_reopens:
  fixes op :: "nat \<Rightarrow> 'a attempt"
  assumes "circuit_ok cfg c" "1 \<le> window_size cfg" "opened_at c = Some t" "\<not> half_open_in_flight c"
    "reset_seconds cfg \<le> fl (start - t)"
    "\<forall>j x. op j \<noteq> CancelledError \<and> op j \<noteq> Result x"
  shows "\<exists>e c' n sl. execute cfg start now op jitter c = (Raised e, c', n, sl)
    \<and> opened_at c' = Some now \<and> \<not> half_open_in_flight c'
    \<and> (\<forall>later (op' :: nat \<Rightarrow> 'a attempt) jitter' now'. fl (later - now) < reset_seconds cfg \<longrightarrow>
         execute cfg later now' op' jitter' c' = (CircuitOpen, c', 0, []))"
proof -
  let ?c = "c\<lparr>half_open_in_flight := True\<rparr>"
  have b: "(before_call cfg start c :: 'a call_result + circuit_state) = Inr ?c" using assms(3-5) by (simp add: before_call_def)
  have a: "0 < attempts cfg" by (simp add: attempts_def)
  obtain e m sl where l: "attempt_loop cfg now op jitter 0 (attempts cfg) ?c = (Raised e, on_failure cfg now ?c, m, sl)"
    using attempt_loop_final [of 0 "attempts cfg" cfg op now jitter ?c] a assms(6) by auto
  have "trips cfg (push_outcome cfg False (outcomes c))"
    using assms(1-3) by (auto simp: circuit_ok_def intro: trips_push)
  then have "opened_at (on_failure cfg now ?c) = Some now" "\<not> half_open_in_flight (on_failure cfg now ?c)"
    by (simp_all add: on_failure_def Let_def)
  with b l show ?thesis by (auto simp: execute_def before_call_def)
qed

theorem failed_probe_reopens_witness:
  "\<exists>e c' n sl. execute default_cfg 60 61 (\<lambda>i. Raises TimeoutOrTransport :: unit attempt) (\<lambda>i. 0) open_circuit
     = (Raised e, c', n, sl) \<and> opened_at c' = Some 61"
  using failed_probe_reopens [OF open_circuit_ok, of 0 60 "\<lambda>i. Raises TimeoutOrTransport" 61 "\<lambda>i. 0"]
  by (auto simp: open_circuit_def default_cfg_def fl_small_nat)

lemma attempt_loop_bound:
  assumes "attempt_loop cfg now op jitter i n c = (r, c', m, sl)" "i + n = attempts cfg" "0 < n"
  shows "1 \<le> m \<and> m \<le> n \<and> Suc (length sl) = m \<and> r \<noteq> DidNotReturn \<and> r \<noteq> CircuitOpen \<and> r \<noteq> CircuitHalfOpen
    \<and> (\<forall>j. i \<le> j \<and> Suc j < i + m \<longrightarrow> (\<exists>e. op j = Raises e \<and> retryable e))
    \<and> (\<forall>x. r = Returned x \<longrightarrow> op (i + m - 1) = Result x \<and> c' = on_success cfg c)
    \<and> (\<forall>e. r = Raised e \<longrightarrow> op (i + m - 1) = Raises e \<and> c' = on_failure cfg now c)"
  using assms
proof (induction n arbitrary: i r c' m sl)
  case (Suc n)
  show ?case
  proof (cases "op i")
    case (Raises e)
    show ?thesis
    proof (cases "\<not> retryable e \<or> i = attempts cfg - 1")
      case True
      with Raises Suc.prems show ?thesis by auto
    next
      case False
      then have n: "Suc i + n = attempts cfg" "0 < n" using Suc.prems(2) by auto
      obtain r1 c1 m1 sl1 where l: "attempt_loop cfg now op jitter (Suc i) n c = (r1, c1, m1, sl1)"
        by (metis prod.exhaust)
      with Raises False Suc.prems(1) have eq: "r = r1" "c' = c1" "m = Suc m1" "sl = sleep_seconds cfg jitter i # sl1"
        by auto
      note ih = Suc.IH [OF l n]
      have "\<exists>e. op j = Raises e \<and> retryable e" if "i \<le> j" "Suc j < i + m" for j
        using that ih Raises False eq by (cases "j = i") auto
      with ih eq show ?thesis by auto
    qed
  qed (use Suc.prems in auto)
qed simp



end
