(* ===== verification/Security.thy ===== *)
theory Security
  imports Regex Json Config
begin

text \<open>
  \<open>app/security.py\<close> and \<open>app/runtime.py\<close>: the identity asserted by the gateway headers,
  the rate limiter, the redaction of tool output, answers and logs, and the release gate with
  its count of active tasks. SHA-256 and HMAC-SHA-256 are parameters (\<open>sha256\<close>: bytes to
  bytes, \<open>hmac\<close>: secret and payload to the hexadecimal digest).
\<close>

section \<open>Identity\<close>

datatype auth_error = IdentityRequired | SignatureInvalid | DigestTypeError

record principal =
  pr_user_id :: pystr
  pr_tenant_id :: pystr

definition identity_char :: "int \<Rightarrow> bool" where
  "identity_char c \<longleftrightarrow> 65 \<le> c \<and> c \<le> 90 \<or> 97 \<le> c \<and> c \<le> 122 \<or> 48 \<le> c \<and> c \<le> 57
     \<or> c \<in> {95, 46, 58, 64, 45}"

definition valid_identity :: "pystr \<Rightarrow> bool" where
  "valid_identity value \<longleftrightarrow> fullmatch (Many identity_char 1 (Some 160)) value"

definition signature_payload :: "pystr \<Rightarrow> pystr \<Rightarrow> pystr" where
  "signature_payload user_id tenant_id = tenant_id @ lit '':'' @ user_id"

definition principal_from_headers ::
  "(pystr \<Rightarrow> pystr \<Rightarrow> pystr) \<Rightarrow> settings \<Rightarrow> (pystr \<Rightarrow> pystr option) \<Rightarrow> auth_error + principal option" where
  \<comment> \<open>\<open>DigestTypeError\<close>: \<open>hmac.compare_digest\<close> raises TypeError on a non-ASCII string\<close>
  "principal_from_headers hmac s headers =
     (if \<not> auth_enabled s then Inr None
      else let user_id = py_strip (getenv headers (auth_user_header s) []);
               tenant_id = or_else (py_strip (getenv headers (auth_tenant_header s) (lit ''default''))) (lit ''default'')
           in if \<not> valid_identity user_id \<or> \<not> valid_identity tenant_id then Inl IdentityRequired
              else if auth_shared_secret s \<noteq> []
              then let provided = py_lower (py_strip (getenv headers (auth_signature_header s) []));
                       expected = hmac (auth_shared_secret s) (signature_payload user_id tenant_id)
                   in if provided = [] then Inl SignatureInvalid
                      else if \<exists>c \<in> set provided. 128 \<le> c then Inl DigestTypeError
                      else if provided \<noteq> expected then Inl SignatureInvalid
                      else Inr (Some \<lparr>pr_user_id = user_id, pr_tenant_id = tenant_id\<rparr>)
              else Inr (Some \<lparr>pr_user_id = user_id, pr_tenant_id = tenant_id\<rparr>))"

definition rate_limit_key :: "principal option \<Rightarrow> pystr option \<Rightarrow> pystr" where
  "rate_limit_key p client_host =
     (case p of
        Some q \<Rightarrow> lit ''tenant:'' @ pr_tenant_id q @ lit '':user:'' @ pr_user_id q
      | None \<Rightarrow> lit ''ip:'' @ (case client_host of Some h \<Rightarrow> or_else h (lit ''unknown'') | None \<Rightarrow> lit ''unknown''))"

lemma valid_identity_iff: "valid_identity v \<longleftrightarrow> 1 \<le> length v \<and> length v \<le> 160 \<and> list_all identity_char v"
  by (simp add: valid_identity_def fullmatch_Many)

lemma principal_signed:
  assumes "principal_from_headers hmac s headers = Inr (Some p)" "auth_shared_secret s \<noteq> []"
  shows "py_lower (py_strip (getenv headers (auth_signature_header s) [])) =
      hmac (auth_shared_secret s) (signature_payload (pr_user_id p) (pr_tenant_id p))"
    "valid_identity (pr_user_id p)" "valid_identity (pr_tenant_id p)"
  using assms by (auto simp: principal_from_headers_def Let_def split: if_splits)

text \<open>
  A signed identity is not unique: for every secret and every HMAC function, a
  signature that the gateway issued for one principal is accepted for another one, because
  the signed payload joins tenant and user by a colon and both may contain colons.
\<close>

lemma signature_confusion:
  assumes "auth_enabled s" "auth_shared_secret s \<noteq> []"
    and "distinct [auth_user_header s, auth_tenant_header s, auth_signature_header s]"
    and "sig = hmac (auth_shared_secret s) (signature_payload (lit ''b:c'') (lit ''a''))"
    and "sig \<noteq> []" "py_lower (py_strip sig) = sig" "\<forall>c \<in> set sig. c < 128"
  shows "principal_from_headers hmac s
      [auth_user_header s \<mapsto> lit ''b:c'', auth_tenant_header s \<mapsto> lit ''a'', auth_signature_header s \<mapsto> sig]
    = Inr (Some \<lparr>pr_user_id = lit ''b:c'', pr_tenant_id = lit ''a''\<rparr>)
    \<and> principal_from_headers hmac s
      [auth_user_header s \<mapsto> lit ''c'', auth_tenant_header s \<mapsto> lit ''a:b'', auth_signature_header s \<mapsto> sig]
    = Inr (Some \<lparr>pr_user_id = lit ''c'', pr_tenant_id = lit ''a:b''\<rparr>)"
proof -
  have s: "py_strip (lit ''b:c'') = lit ''b:c''" "py_strip (lit ''a'') = lit ''a''"
    "py_strip (lit ''c'') = lit ''c''" "py_strip (lit ''a:b'') = lit ''a:b''"
    and v: "valid_identity (lit ''b:c'')" "valid_identity (lit ''a'')" "valid_identity (lit ''c'')" "valid_identity (lit ''a:b'')"
    and p: "signature_payload (lit ''c'') (lit ''a:b'') = signature_payload (lit ''b:c'') (lit ''a'')"
    by (simp_all add: valid_identity_iff) (code_simp+)
  show ?thesis using assms s v p
    by (auto simp: principal_from_headers_def Let_def getenv_def or_else_def)
qed

definition sample_auth_settings :: "settings \<Rightarrow> settings" where
  "sample_auth_settings s = s\<lparr>auth_enabled := True, auth_user_header := lit ''u'', auth_tenant_header := lit ''t'',
     auth_signature_header := lit ''s'', auth_shared_secret := lit ''k''\<rparr>"

lemma signature_confusion_witness:
  "\<exists>s. principal_from_headers (\<lambda>k m. lit ''00'') s
      [auth_user_header s \<mapsto> lit ''c'', auth_tenant_header s \<mapsto> lit ''a:b'', auth_signature_header s \<mapsto> lit ''00'']
    = Inr (Some \<lparr>pr_user_id = lit ''c'', pr_tenant_id = lit ''a:b''\<rparr>)"
proof -
  obtain s0 where "from_env Map.empty = Inr s0" using default_settings by blast
  have "py_lower (py_strip (lit ''00'')) = lit ''00''" "\<forall>c \<in> set (lit ''00''). c < 128" by code_simp+
  then show ?thesis
    using signature_confusion [of "sample_auth_settings s0" "lit ''00''" "\<lambda>k m. lit ''00''"]
    by (intro exI [of _ "sample_auth_settings s0"]) (simp add: sample_auth_settings_def)
qed

section \<open>Rate limiting\<close>

type_synonym windows = "pystr \<Rightarrow> (rat \<times> int) option"

definition allow :: "int \<Rightarrow> rat \<Rightarrow> pystr \<Rightarrow> rat \<Rightarrow> windows \<Rightarrow> (bool \<times> rat) \<times> windows" where
  "allow limit window key now ws =
     (let (start0, count0) = (case ws key of Some w \<Rightarrow> w | None \<Rightarrow> (now, 0));
          (start, used) = (if window \<le> fl (now - start0) then (now, 0) else (start0, count0));
          retry = max 0 (fl (window - fl (now - start)))
      in if limit \<le> used then ((False, retry), ws)
         else ((True, retry), ws(key \<mapsto> (start, used + 1))))"

fun allow_times :: "int \<Rightarrow> rat \<Rightarrow> pystr \<Rightarrow> windows \<Rightarrow> rat list \<Rightarrow> bool list" where
  "allow_times limit window key ws [] = []"
| "allow_times limit window key ws (t # ts) =
     (case allow limit window key t ws of ((ok, _), ws') \<Rightarrow> ok # allow_times limit window key ws' ts)"

definition admitted :: "bool list \<Rightarrow> int" where
  "admitted bs = int (length (filter id bs))"

lemma admitted_simps [simp]: "admitted [] = 0" "admitted (b # bs) = (if b then 1 else 0) + admitted bs"
  by (simp_all add: admitted_def)

text \<open>Within the window that is open, at most the rest of its budget is admitted.\<close>

lemma allow_times_in_window:
  "ws key = Some (start, used) \<Longrightarrow> \<forall>t \<in> set ts. fl (t - start) < window \<Longrightarrow>
     admitted (allow_times limit window key ws ts) \<le> max 0 (limit - used)"
proof (induction ts arbitrary: ws used)
  case (Cons t ts)
  show ?case
  proof (cases "limit \<le> used")
    case True
    with Cons.prems Cons.IH [of ws used] show ?thesis by (simp add: allow_def Let_def not_le)
  next
    case False
    with Cons.prems have "allow_times limit window key ws (t # ts) =
        True # allow_times limit window key (ws(key \<mapsto> (start, used + 1))) ts"
      by (simp add: allow_def Let_def not_le)
    moreover have "admitted (allow_times limit window key (ws(key \<mapsto> (start, used + 1))) ts) \<le> max 0 (limit - (used + 1))"
      using Cons.prems(2) by (intro Cons.IH) simp_all
    ultimately show ?thesis using False by (simp del: allow_times.simps)
  qed
qed simp

lemma window_shift: "t \<le> t' \<Longrightarrow> fl (x - t) < w \<Longrightarrow> fl (x - t') < w"
  using double.rnd_mono [of "x - t'" "x - t"] by simp

lemma allow_times_two_windows:
  "0 \<le> limit \<Longrightarrow> 0 < window \<Longrightarrow> sorted ts \<Longrightarrow> ts \<noteq> [] \<Longrightarrow> \<forall>t \<in> set ts. fl (t - hd ts) < window
   \<Longrightarrow> (\<forall>start used. ws key = Some (start, used) \<longrightarrow> 0 \<le> used) \<Longrightarrow>
     admitted (allow_times limit window key ws ts) \<le>
       (case ws key of None \<Rightarrow> limit | Some (start, used) \<Rightarrow> max 0 (limit - used) + limit)"
proof (induction ts arbitrary: ws)
  case (Cons t ts)
  have w: "\<forall>u \<in> set ts. fl (u - t) < window" using Cons.prems(5) by simp
  note new = allow_times_in_window [OF _ w, of "ws(key \<mapsto> (t, 1))" key 1 limit]
  show ?case
  proof (cases "ws key")
    case None
    have "admitted (allow_times limit window key ws (t # ts)) \<le> limit"
    proof (cases "limit \<le> 0")
      case True
      then have "limit = 0" using Cons.prems(1) by simp
      have "admitted (allow_times 0 window key ws (t # ts)) = 0"
        if "ws key = None" for ts t
        using that by (induction ts arbitrary: t) (auto simp: allow_def Let_def)
      with None \<open>limit = 0\<close> show ?thesis by simp
    next
      case False
      with None new Cons.prems(2) show ?thesis by (simp add: allow_def Let_def)
    qed
    with None show ?thesis by simp
  next
    case (Some sc)
    obtain start used where sc: "sc = (start, used)" by force
    have c: "0 \<le> used" using Some sc Cons.prems(6) by simp
    show ?thesis
    proof (cases "window \<le> fl (t - start)")
      case True
      show ?thesis
      proof (cases "limit = 0")
        case True
        have "admitted (allow_times 0 window key ws ts) = 0" for ts
          using Some sc c by (induction ts) (auto simp: allow_def Let_def)
        with True c Some sc show ?thesis by (simp add: allow_def Let_def)
      next
        case False
        with True \<open>window \<le> fl (t - start)\<close> Some sc new Cons.prems(1) show ?thesis
          by (simp add: allow_def Let_def)
      qed
    next
      case False
      show ?thesis
      proof (cases ts)
        case Nil
        with Some sc False Cons.prems(1) show ?thesis by (simp add: allow_def Let_def)
      next
        case (Cons u us)
        have tu: "t \<le> u" using Cons.prems(3) Cons by simp
        have h: "\<forall>x \<in> set ts. fl (x - hd ts) < window"
          using w window_shift [OF tu] Cons Cons.prems(2) by simp
        let ?ws = "if limit \<le> used then ws else ws(key \<mapsto> (start, used + 1))"
        have "admitted (allow_times limit window key ?ws ts) \<le> (case ?ws key of None \<Rightarrow> limit
            | Some (start, used) \<Rightarrow> max 0 (limit - used) + limit)"
          using Cons.prems Cons c h Some sc by (intro Cons.IH) auto
        with Some sc False show ?thesis by (auto simp: allow_def Let_def split: if_splits)
      qed
    qed
  qed
qed simp

text \<open>
  The limiter bounds bursts, by twice the limit: over any nondecreasing times that span
  less than one window, from any state of its table, at most \<open>2 * limit\<close> requests of one key are
  admitted, and at most \<open>limit\<close> when the key was not seen before.
\<close>

lemma rate_limit_bound:
  assumes "0 \<le> limit" "0 < window" "sorted ts" "ts \<noteq> []" "\<forall>t \<in> set ts. fl (t - hd ts) < window"
    and "\<forall>start used. ws key = Some (start, used) \<longrightarrow> 0 \<le> used"
  shows "admitted (allow_times limit window key ws ts) \<le> 2 * limit
    \<and> (ws key = None \<longrightarrow> admitted (allow_times limit window key ws ts) \<le> limit)"
  using allow_times_two_windows [of limit window ts ws key] assms by (auto split: option.splits)

lemma rate_limit_bound_witness:
  "admitted (allow_times 2 60 (lit ''k'') Map.empty [0, 1, 2]) \<le> 2"
proof -
  have "fl 1 = 1" "fl 2 = 2" using is_float_of_int [of 2] by (simp_all add: is_float_def)
  then show ?thesis
    using rate_limit_bound [of 2 60 "[0, 1, 2]" Map.empty "lit ''k''"] by simp
qed

lemma allow_times_append:
  "allow_times l w k ws (ts @ us) = allow_times l w k ws ts @
     allow_times l w k (foldl (\<lambda>ws t. snd (allow l w k t ws)) ws ts) us"
  by (induction ts arbitrary: ws) (auto split: prod.splits)

lemma burst:
  "ws key = Some (start, used) \<Longrightarrow> fl (t - start) < window \<Longrightarrow> used + int n \<le> limit \<Longrightarrow>
     allow_times limit window key ws (replicate n t) = replicate n True
     \<and> foldl (\<lambda>ws t. snd (allow limit window key t ws)) ws (replicate n t) key = Some (start, used + int n)"
proof (induction n arbitrary: ws used)
  case (Suc n)
  then have a: "allow limit window key t ws = ((True, max 0 (fl (window - fl (t - start)))), ws(key \<mapsto> (start, used + 1)))"
    by (simp add: allow_def Let_def not_le)
  have "allow_times limit window key (ws(key \<mapsto> (start, used + 1))) (replicate n t) = replicate n True
     \<and> foldl (\<lambda>ws t. snd (allow limit window key t ws)) (ws(key \<mapsto> (start, used + 1))) (replicate n t) key
       = Some (start, used + 1 + int n)"
    using Suc.prems by (intro Suc.IH) simp_all
  with a show ?case by (simp add: add.assoc)
qed simp

text \<open>
  The bound is reached, so the window does not slide: for every limit \<open>n + 1\<close>, after one
  request at the start of a window, \<open>n\<close> requests just before its end and \<open>n + 1\<close> at its
  end are all admitted, \<open>2 * n + 1\<close> requests within any small interval.
\<close>

lemma fixed_window_burst:
  assumes "0 < window" "0 \<le> t" "fl t < window" "window \<le> fl u"
  shows "allow_times (int n + 1) window key Map.empty (0 # replicate n t @ replicate (Suc n) u)
    = replicate (2 * n + 2) True"
proof -
  let ?l = "int n + 1"
  have a: "allow ?l window key 0 Map.empty = ((True, max 0 (fl window)), [key \<mapsto> (0, 1)])"
    using assms(1) by (simp add: allow_def Let_def)
  define ws where "ws = foldl (\<lambda>ws t. snd (allow ?l window key t ws)) [key \<mapsto> (0, 1)] (replicate n t)"
  have 1: "allow_times ?l window key [key \<mapsto> (0, 1)] (replicate n t) = replicate n True"
    "ws key = Some (0, 1 + int n)"
    using burst [of "[key \<mapsto> (0, 1)]" key 0 1 t window n ?l] assms(3) by (simp_all add: ws_def)
  have b: "allow ?l window key u ws = ((True, max 0 (fl window)), ws(key \<mapsto> (u, 1)))"
    using 1(2) assms(4) by (simp add: allow_def Let_def)
  have 2: "allow_times ?l window key (ws(key \<mapsto> (u, 1))) (replicate n u) = replicate n True"
    using burst [of "ws(key \<mapsto> (u, 1))" key u 1 u window n ?l] assms(1) by simp
  have "allow_times ?l window key ws (replicate (Suc n) u) = replicate (Suc n) True"
    using b 2 by simp
  then have "allow_times ?l window key Map.empty (0 # replicate n t @ replicate (Suc n) u)
      = True # replicate n True @ replicate (Suc n) True"
    using a 1(1) by (simp add: allow_times_append ws_def del: replicate_Suc)
  also have "\<dots> = replicate (2 * n + 2) True"
    by (simp flip: replicate_add replicate_Suc add: mult_2)
  finally show ?thesis .
qed

lemma fixed_window_burst_witness:
  "allow_times 120 60 (lit ''k'') Map.empty (0 # replicate 119 59 @ replicate 120 60) = replicate 240 True"
proof -
  have "fl 59 = 59" "fl 60 = 60" using is_float_of_int [of 59] is_float_of_int [of 60] by (simp_all add: is_float_def)
  then show ?thesis using fixed_window_burst [of 60 59 60 119 "lit ''k''"] by simp
qed

section \<open>Redaction\<close>

definition spaces0 :: re where "spaces0 = Many py_space 0 None"
definition spaces1 :: re where "spaces1 = Many py_space 1 None"
definition gap10 :: re where "gap10 = Many dot 0 (Some 10)"

definition dangerous_patterns :: "re list" where
  "dangerous_patterns =
     [seq [istr ''ignore'', spaces1, Opt (seq [istr ''all'', spaces1]), istr ''previous'', spaces1,
           istr ''instruction'', Opt (istr ''s'')],
      seq [str [24573, 30053], gap10, alts [str [20043, 21069], str [20197, 19978], str [25152, 26377]], gap10,
           alts [str [25351, 20196], str [25351, 31034], str [35268, 21017]]],
      seq [istr ''system'', spaces0, istr ''prompt''],
      seq [istr ''you'', spaces1, istr ''are'', spaces1, istr ''now''],
      seq [str [25198, 28436], gap10, str [35282, 33394]],
      seq [istr ''output'', spaces1, alts [istr ''all'', istr ''every''], spaces1, alts [istr ''user'', istr ''system'']],
      seq [istr ''reveal'', spaces1, alts [istr ''your'', istr ''the''], spaces1,
           alts [istr ''api'', istr ''secret'', istr ''key'']]]"

definition filtered_text :: pystr where
  "filtered_text = [91, 20869, 23481, 24050, 36807, 28388, 65306, 30097, 20284, 27880, 20837, 93]"

definition sanitize_tool_output :: "pystr \<Rightarrow> pystr" where
  "sanitize_tool_output text = foldl (\<lambda>sanitized pattern. sub pattern filtered_text sanitized) text dangerous_patterns"

definition ascii_alnum :: "int \<Rightarrow> bool" where
  "ascii_alnum c \<longleftrightarrow> 65 \<le> c \<and> c \<le> 90 \<or> 97 \<le> c \<and> c \<le> 122 \<or> 48 \<le> c \<and> c \<le> 57"

definition sensitive_output_patterns :: "unicode \<Rightarrow> re list" where
  "sensitive_output_patterns u =
     (let sep = Cls (\<lambda>c. c \<in> {58, 61})
      in [seq [istr ''item_id'', spaces0, sep, spaces0, Many (word_char u) 1 None],
          seq [istr ''thread_id'', spaces0, sep, spaces0, Many (\<lambda>c. word_char u c \<or> c = 45) 1 None],
          seq [str (lit ''sk-''), Many ascii_alnum 20 None],
          seq [istr ''http'', Opt (istr ''s''), istr ''://'', alts [istr ''vllm'', istr ''reranker'', istr ''opensearch''],
               istr '':'', Many (decimal u) 1 None],
          seq [Boundary (word_char u), alts [str (lit ''dispatch_tool''), str (lit ''task_tool'')], Boundary (word_char u)]])"

definition hidden_text :: pystr where
  "hidden_text = [91, 20869, 37096, 20449, 24687, 24050, 38544, 34255, 93]"

definition audit_output :: "unicode \<Rightarrow> pystr \<Rightarrow> bool \<times> pystr" where
  "audit_output u text =
     (let (violations, audited) =
        foldl (\<lambda>(violations, audited) pattern.
                 if search pattern audited then (True, sub pattern hidden_text audited) else (violations, audited))
              (False, text) (sensitive_output_patterns u)
      in (\<not> violations, audited))"

definition sensitive_log_key :: "pystr \<Rightarrow> bool" where
  "sensitive_log_key key =
     search (alts [seq [istr ''api'', Opt (Cls (\<lambda>c. c \<in> {95, 45})), istr ''key''], istr ''authorization'',
                   istr ''credential'', istr ''password'', istr ''secret'', istr ''token'']) key"

definition user_id_log_key :: "pystr \<Rightarrow> bool" where
  "user_id_log_key key =
     search (seq [alts [AtStart, Cls ((=) 95)], alts [istr ''user'', istr ''tenant''], istr ''_id'', AtEnd]) key"

fun sanitize_value :: "(pystr \<Rightarrow> pystr) \<Rightarrow> pystr \<Rightarrow> json \<Rightarrow> json" where
  \<comment> \<open>\<open>hex\<close>: the hexadecimal SHA-256 digest of a string\<close>
  "sanitize_value hex key value =
     (if sensitive_log_key key then JStr (lit ''[REDACTED]'')
      else case value of
             JStr s \<Rightarrow> if user_id_log_key key then JStr (take 12 (hex s)) else JStr s
           | JMap m \<Rightarrow> JMap (map (\<lambda>(k, v). (k, sanitize_value hex k v)) m)
           | JList xs \<Rightarrow> JList (map (\<lambda>x. sanitize_value hex key x) xs)
           | other \<Rightarrow> other)"

declare sanitize_value.simps [simp del]

definition sanitize_log_fields :: "(pystr \<Rightarrow> pystr) \<Rightarrow> (pystr \<times> json) list \<Rightarrow> (pystr \<times> json) list" where
  "sanitize_log_fields hex entries = map (\<lambda>(k, v). (k, sanitize_value hex k v)) entries"

text \<open>\<open>occurs k v j\<close>: somewhere inside \<open>j\<close>, the key \<open>k\<close> has the value \<open>v\<close>.\<close>

inductive occurs :: "pystr \<Rightarrow> json \<Rightarrow> json \<Rightarrow> bool" where
  here: "(k, v) \<in> set m \<Longrightarrow> occurs k v (JMap m)"
| child: "(k', w) \<in> set m \<Longrightarrow> occurs k v w \<Longrightarrow> occurs k v (JMap m)"
| item: "x \<in> set xs \<Longrightarrow> occurs k v x \<Longrightarrow> occurs k v (JList xs)"

inductive_cases occurs_MapE: "occurs k v (JMap m)"
inductive_cases occurs_ListE: "occurs k v (JList xs)"
inductive_simps occurs_atom [simp]: "occurs k v JNull" "occurs k v (JBool b)" "occurs k v (JInt i)" "occurs k v (JNum q)" "occurs k v (JStr s)"

definition redacted :: "(pystr \<Rightarrow> pystr) \<Rightarrow> pystr \<Rightarrow> json \<Rightarrow> bool" where
  "redacted hex k v \<longleftrightarrow>
     (sensitive_log_key k \<longrightarrow> v = JStr (lit ''[REDACTED]''))
     \<and> (\<forall>s. user_id_log_key k \<and> \<not> sensitive_log_key k \<and> v = JStr s \<longrightarrow> (\<exists>raw. s = take 12 (hex raw)))"

lemma redacted_sanitize: "redacted hex k (sanitize_value hex k v)"
  by (auto simp: redacted_def sanitize_value.simps [of hex k v] split: json.splits if_splits)

lemma occurs_sanitize: "occurs k v (sanitize_value hex key j) \<Longrightarrow> redacted hex k v"
proof (induction j arbitrary: key)
  case (JList xs)
  show ?case
  proof (cases "sensitive_log_key key")
    case True
    with JList.prems show ?thesis by (simp add: sanitize_value.simps [of hex key])
  next
    case False
    with JList.prems have "occurs k v (JList (map (sanitize_value hex key) xs))"
      by (simp add: sanitize_value.simps [of hex key "JList xs"])
    then show ?thesis by (rule occurs_ListE) (use JList.IH in auto)
  qed
next
  case (JMap m)
  show ?case
  proof (cases "sensitive_log_key key")
    case True
    with JMap.prems show ?thesis by (simp add: sanitize_value.simps [of hex key])
  next
    case False
    with JMap.prems have "occurs k v (JMap (map (\<lambda>(k, v). (k, sanitize_value hex k v)) m))"
      by (simp add: sanitize_value.simps [of hex key "JMap m"])
    then show ?thesis
    proof (rule occurs_MapE)
      assume "(k, v) \<in> set (map (\<lambda>(k, v). (k, sanitize_value hex k v)) m)"
      then show ?thesis using redacted_sanitize by auto
    next
      fix k' w assume "(k', w) \<in> set (map (\<lambda>(k, v). (k, sanitize_value hex k v)) m)" "occurs k v w"
      then obtain w' where "(k', w') \<in> set m" "occurs k v (sanitize_value hex k' w')" by auto
      then show ?thesis using JMap.IH [of "(k', w')" w' k'] by (simp add: snds.simps)
    qed
  qed
qed (auto simp: sanitize_value.simps split: if_splits)

text \<open>
  Nothing sensitive reaches the log, at any depth: in a sanitized record every key
  that looks like a credential has the value \<open>[REDACTED]\<close>, and a user or tenant identifier
  that is a string is the 12-digit prefix of a digest.
\<close>

lemma log_fields_redacted:
  assumes "occurs k v (JMap (sanitize_log_fields hex entries))"
  shows "redacted hex k v"
proof -
  from assms show ?thesis
  proof (rule occurs_MapE)
    assume "(k, v) \<in> set (sanitize_log_fields hex entries)"
    then show ?thesis using redacted_sanitize by (auto simp: sanitize_log_fields_def)
  next
    fix k' w assume "(k', w) \<in> set (sanitize_log_fields hex entries)" "occurs k v w"
    then show ?thesis using occurs_sanitize by (auto simp: sanitize_log_fields_def)
  qed
qed

lemma log_fields_redacted_witness:
  "redacted (\<lambda>s. s) (lit ''api_key'')
     (sanitize_value (\<lambda>s. s) (lit ''api_key'') (JStr (lit ''x'')))"
  by (rule log_fields_redacted [of _ _ _ "[(lit ''api_key'', JStr (lit ''x''))]"])
    (simp add: sanitize_log_fields_def here)

lemma audit_fold:
  assumes "foldl (\<lambda>(b, a) p. if search p a then (True, sub p hidden_text a) else (b, a)) (b, a) ps = (b', a')"
  shows "\<not> b' \<longleftrightarrow> \<not> b \<and> (\<forall>p \<in> set ps. \<not> search p a)" "\<not> b' \<Longrightarrow> a' = a"
proof -
  have "(b \<longrightarrow> b') \<and> (\<not> b' \<longrightarrow> \<not> b \<and> (\<forall>p \<in> set ps. \<not> search p a) \<and> a' = a) \<and> (\<not> b \<and> (\<forall>p \<in> set ps. \<not> search p a) \<longrightarrow> \<not> b')"
    using assms by (induction ps arbitrary: b a) (auto split: if_splits)
  then show "\<not> b' \<longleftrightarrow> \<not> b \<and> (\<forall>p \<in> set ps. \<not> search p a)" "\<not> b' \<Longrightarrow> a' = a" by blast+
qed

text \<open>
  The audit of an answer is exact: it passes precisely when none of the patterns of
  internal information occurs in the text, and a text that passes is shown unchanged; a text
  without any instruction-like pattern passes the tool-output filter unchanged.
\<close>

lemma audit_exact:
  "(fst (audit_output u text) \<longleftrightarrow> (\<forall>p \<in> set (sensitive_output_patterns u). \<not> search p text))
   \<and> (fst (audit_output u text) \<longrightarrow> snd (audit_output u text) = text)
   \<and> ((\<forall>p \<in> set dangerous_patterns. \<not> search p text) \<longrightarrow> sanitize_tool_output text = text)"
proof -
  obtain b a where f: "foldl (\<lambda>(b, a) p. if search p a then (True, sub p hidden_text a) else (b, a)) (False, text)
      (sensitive_output_patterns u) = (b, a)" by force
  have "(\<forall>p \<in> set ps. \<not> search p text) \<longrightarrow> foldl (\<lambda>s p. sub p filtered_text s) text ps = text" for ps
    by (induction ps) (auto simp: sub_no_match)
  then show ?thesis using audit_fold [OF f] f by (auto simp: audit_output_def sanitize_tool_output_def)
qed

definition ascii_unicode :: unicode where
  "ascii_unicode = \<lparr>alnum = ascii_alnum, decimal = digit\<rparr>"

lemma audit_exact_witness:
  "snd (audit_output ascii_unicode (lit ''see item 7'')) = lit ''see item 7''
   \<and> \<not> fst (audit_output ascii_unicode (lit ''item_id: 7''))"
proof -
  have "fst (audit_output ascii_unicode (lit ''see item 7''))" by code_simp
  moreover have "search (hd (sensitive_output_patterns ascii_unicode)) (lit ''item_id: 7'')" by code_simp
  moreover have "hd (sensitive_output_patterns ascii_unicode) \<in> set (sensitive_output_patterns ascii_unicode)"
    by (simp add: sensitive_output_patterns_def Let_def)
  ultimately show ?thesis
    using audit_exact [of ascii_unicode "lit ''see item 7''"] audit_exact [of ascii_unicode "lit ''item_id: 7''"] by blast
qed

end
