(* ===== verification/Runtime.thy ===== *)
theory Runtime
  imports Security
begin

text \<open>
  \<open>app/runtime.py\<close>: the release gate and the graceful drain of one worker. The state is the
  draining flag, the number of active tasks and the idle events, one per event loop
  (\<open>True\<close>: set). \<open>sha256\<close> maps the UTF-8 bytes of the request id to the 32 bytes of the digest;
  the operations take the settings that \<open>get_settings\<close> returns at the call.
\<close>

section \<open>State and operations\<close>

record runtime_state =
  draining :: bool
  active_tasks :: int
  idle_events :: "nat \<Rightarrow> bool option"

definition initial_runtime :: runtime_state where
  "initial_runtime = \<lparr>draining = False, active_tasks = 0, idle_events = Map.empty\<rparr>"

definition utf8_char :: "int \<Rightarrow> int list" where
  "utf8_char c =
     (if c < 128 then [c]
      else if c < 2048 then [192 + c div 64, 128 + c mod 64]
      else if c < 65536 then [224 + c div 4096, 128 + c div 64 mod 64, 128 + c mod 64]
      else [240 + c div 262144, 128 + c div 4096 mod 64, 128 + c div 64 mod 64, 128 + c mod 64])"

definition utf8 :: "pystr \<Rightarrow> int list" where
  "utf8 s = concat (map utf8_char s)"

definition bucket :: "(int list \<Rightarrow> int list) \<Rightarrow> pystr \<Rightarrow> int" where
  "bucket sha256 request_id = foldl (\<lambda>n b. 256 * n + b) 0 (take 4 (sha256 (utf8 request_id))) mod 100"

definition idle_event :: "nat \<Rightarrow> runtime_state \<Rightarrow> runtime_state" where
  "idle_event loop r = r\<lparr>idle_events := (idle_events r)(loop \<mapsto> active_tasks r = 0)\<rparr>"

definition reset_for_startup :: "runtime_state \<Rightarrow> runtime_state" where
  "reset_for_startup r = r\<lparr>draining := False\<rparr>"

definition begin_drain :: "runtime_state \<Rightarrow> runtime_state" where
  "begin_drain r = r\<lparr>draining := True\<rparr>"

record runtime_snapshot =
  sn_release_channel :: pystr
  sn_release_id :: pystr
  sn_traffic_percent :: int
  sn_rollback :: bool
  sn_draining :: bool
  sn_active_tasks :: int

definition release_snapshot :: "settings \<Rightarrow> runtime_state \<Rightarrow> runtime_snapshot" where
  "release_snapshot s r =
     \<lparr>sn_release_channel = release_channel s, sn_release_id = release_id s,
      sn_traffic_percent = release_traffic_percent s, sn_rollback = release_rollback s,
      sn_draining = draining r, sn_active_tasks = active_tasks r\<rparr>"

definition selected_for :: "(int list \<Rightarrow> int list) \<Rightarrow> settings \<Rightarrow> pystr \<Rightarrow> runtime_state \<Rightarrow> bool" where
  "selected_for sha256 s request_id r =
     (let sn = release_snapshot s r
      in if sn_rollback sn \<or> sn_draining sn then False
         else if sn_release_channel sn = lit ''stable'' \<or> 100 \<le> sn_traffic_percent sn then True
         else bucket sha256 request_id < sn_traffic_percent sn)"

datatype not_accepting = RolledBack | WorkerDraining | ReleaseNotSelected

definition begin_task ::
  "(int list \<Rightarrow> int list) \<Rightarrow> settings \<Rightarrow> pystr \<Rightarrow> runtime_state \<Rightarrow> not_accepting + runtime_state" where
  "begin_task sha256 s request_id r =
     (let sn = release_snapshot s r
      in if sn_rollback sn then Inl RolledBack
         else if draining r then Inl WorkerDraining
         else if sn_release_channel sn = lit ''canary'' \<and> sn_traffic_percent sn < 100
            \<and> sn_traffic_percent sn \<le> bucket sha256 request_id
         then Inl ReleaseNotSelected
         else Inr (r\<lparr>active_tasks := active_tasks r + 1,
                     idle_events := (\<lambda>l. map_option (\<lambda>_. False) (idle_events r l))\<rparr>))"

definition finish_task :: "runtime_state \<Rightarrow> runtime_state" where
  "finish_task r =
     (let n = max 0 (active_tasks r - 1)
      in r\<lparr>active_tasks := n,
           idle_events := (if n = 0 then (\<lambda>l. map_option (\<lambda>_. True) (idle_events r l)) else idle_events r)\<rparr>)"

definition idle_now :: "nat \<Rightarrow> runtime_state \<Rightarrow> bool" where
  \<comment> \<open>what \<open>wait_for_idle\<close> finds without waiting: no active task, or its event set\<close>
  "idle_now loop r \<longleftrightarrow> active_tasks r = 0 \<or> idle_events r loop = Some True"

section \<open>Runs\<close>

text \<open>
  The calls of one worker, by the request they are for: \<open>Begin\<close> is an accepted
  \<open>begin_task\<close>, \<open>End\<close> the \<open>finish_task\<close> of a request that was accepted before.
  \<open>owed\<close> is the multiset of requests that were accepted and not finished.
\<close>

inductive runtime_step :: "(int list \<Rightarrow> int list) \<Rightarrow> runtime_state \<times> pystr multiset \<Rightarrow> runtime_state \<times> pystr multiset \<Rightarrow> bool"
  for sha256 where
  Begin: "begin_task sha256 s q r = Inr r' \<Longrightarrow> runtime_step sha256 (r, owed) (r', add_mset q owed)"
| Refused: "begin_task sha256 s q r = Inl e \<Longrightarrow> runtime_step sha256 (r, owed) (r, owed)"
| End: "runtime_step sha256 (r, add_mset q owed) (finish_task r, owed)"
| Drain: "runtime_step sha256 (r, owed) (begin_drain r, owed)"
| Startup: "runtime_step sha256 (r, owed) (reset_for_startup r, owed)"
| Event: "runtime_step sha256 (r, owed) (idle_event loop r, owed)"

inductive runtime_run :: "(int list \<Rightarrow> int list) \<Rightarrow> runtime_state \<times> pystr multiset \<Rightarrow> bool" for sha256 where
  initial: "runtime_run sha256 (initial_runtime, {#})"
| step: "runtime_run sha256 a \<Longrightarrow> runtime_step sha256 a b \<Longrightarrow> runtime_run sha256 b"

definition runtime_ok :: "runtime_state \<times> pystr multiset \<Rightarrow> bool" where
  "runtime_ok a \<longleftrightarrow> active_tasks (fst a) = int (size (snd a))
     \<and> (\<forall>l. idle_events (fst a) l \<in> {None, Some (active_tasks (fst a) = 0)})"

lemma begin_task_InrE:
  assumes "begin_task sha256 s q r = Inr r'"
  obtains "r' = r\<lparr>active_tasks := active_tasks r + 1, idle_events := (\<lambda>l. map_option (\<lambda>_. False) (idle_events r l))\<rparr>"
    "\<not> draining r" "\<not> release_rollback s"
  using assms by (auto simp: begin_task_def Let_def release_snapshot_def split: if_splits)

lemma runtime_ok_step: "runtime_step sha256 a b \<Longrightarrow> runtime_ok a \<Longrightarrow> runtime_ok b"
proof (induction rule: runtime_step.induct)
  case (Begin s q r r' owed)
  from Begin(1) show ?case
    by (rule begin_task_InrE) (use Begin(2) in \<open>auto simp: runtime_ok_def\<close>)
next
  case (End r q owed)
  then have "active_tasks r = int (size owed) + 1"
    and "\<forall>l. idle_events r l \<in> {None, Some False}" by (auto simp: runtime_ok_def)
  then show ?case by (auto simp: runtime_ok_def finish_task_def Let_def)
qed (auto simp: runtime_ok_def begin_drain_def reset_for_startup_def idle_event_def)

lemma runtime_run_ok: "runtime_run sha256 a \<Longrightarrow> runtime_ok a"
  by (induction rule: runtime_run.induct)
    (auto simp: runtime_ok_step, simp add: runtime_ok_def initial_runtime_def)

text \<open>
  The drain is exact as long as every accepted request is finished once: in every run
  the counter equals the number of requests accepted and not finished, so the worker is
  idle precisely when none is left, and every waiter's event says the same.
\<close>

lemma drain_exact:
  assumes "runtime_run sha256 (r, owed)"
  shows "active_tasks r = int (size owed) \<and> (active_tasks r = 0 \<longleftrightarrow> owed = {#})
    \<and> (\<forall>l. idle_now l r \<longleftrightarrow> owed = {#})"
proof -
  from runtime_run_ok [OF assms] have a: "active_tasks r = int (size owed)"
    and e: "idle_events r l \<in> {None, Some (active_tasks r = 0)}" for l
    unfolding runtime_ok_def fst_conv snd_conv by blast+
  have "idle_now l r \<longleftrightarrow> active_tasks r = 0" for l using e [of l] by (auto simp: idle_now_def)
  with a show ?thesis by simp
qed

lemma drain_exact_witness: "active_tasks initial_runtime = 0"
  using drain_exact [OF initial] by simp

text \<open>
  The advisory answer of \<open>selected_for\<close> and the decision of \<open>begin_task\<close> agree for both
  release channels, an accepted task adds exactly one to the counter, a draining worker accepts
  none, and a request that a canary accepts is still accepted when its traffic share grows.
\<close>

lemma release_gate:
  assumes "release_channel s \<in> {lit ''stable'', lit ''canary''}"
  shows "((\<exists>r'. begin_task sha256 s q r = Inr r' \<and> active_tasks r' = active_tasks r + 1 \<and> draining r' = draining r)
      \<longleftrightarrow> selected_for sha256 s q r)
    \<and> (draining r \<longrightarrow> \<not> selected_for sha256 s q r)
    \<and> (release_traffic_percent s \<le> p \<and> selected_for sha256 s q r \<longrightarrow>
         selected_for sha256 (s\<lparr>release_traffic_percent := p\<rparr>) q r)"
  using assms by (auto simp: begin_task_def selected_for_def Let_def release_snapshot_def)

lemma release_gate_witness:
  "\<exists>s. (\<exists>r'. begin_task (\<lambda>b. b) s (lit ''r'') initial_runtime = Inr r')"
proof -
  obtain s0 where s0: "from_env Map.empty = Inr s0" using default_settings by blast
  define s where "s = s0\<lparr>release_channel := lit ''stable'', release_rollback := False\<rparr>"
  have "selected_for (\<lambda>b. b) s (lit ''r'') initial_runtime"
    by (simp add: selected_for_def release_snapshot_def s_def initial_runtime_def)
  moreover have "release_channel s \<in> {lit ''stable'', lit ''canary''}" by (simp add: s_def)
  ultimately show ?thesis using release_gate by blast
qed

end
