(* ===== verification/Harness.thy ===== *)
theory Harness
  imports Json
begin

text \<open>
  \<open>app/harness/\<close>: the conversation phases and the tools each phase permits (\<open>phase.py\<close>), the
  hook pipeline around every tool call (\<open>middleware.py\<close>, \<open>defaults.py\<close>), the sequencing
  assertion (\<open>step_validation.py\<close>) and the drift signals (\<open>drift_detector.py\<close>). A hook context
  is a map from names to JSON values and the list of hook errors; hooks are functions on it. The
  schema and semantic assertions, which inspect Python result objects, are not modelled.
\<close>

section \<open>Phases\<close>

datatype phase = Planning | Searching | Comparing | Concluding

definition PHASE_TOOLS :: "phase \<Rightarrow> pystr list" where
  "PHASE_TOOLS p =
     (case p of
        Planning \<Rightarrow> [lit ''planner'', lit ''task_tool'', lit ''category_insight'', lit ''chat_fallback'']
      | Searching \<Rightarrow> [lit ''category_insight'', lit ''item_search'', lit ''recall'', lit ''task_tool'', lit ''web_search'']
      | Comparing \<Rightarrow> [lit ''item_search'', lit ''recall'', lit ''price_compare'', lit ''shipping_calc'', lit ''category_insight'']
      | Concluding \<Rightarrow> [lit ''item_picker'', lit ''shopping_summary'', lit ''chat_fallback''])"

record phase_state =
  current_phase :: phase
  tool_history :: "pystr list"

definition reset_phase :: phase_state where
  "reset_phase = \<lparr>current_phase = Planning, tool_history = []\<rparr>"

definition is_tool_allowed :: "phase_state \<Rightarrow> pystr \<Rightarrow> bool" where
  "is_tool_allowed st tool_name \<longleftrightarrow> tool_name \<in> set (PHASE_TOOLS (current_phase st))"

definition observe_tool :: "pystr \<Rightarrow> phase_state \<Rightarrow> phase_state" where
  "observe_tool tool_name st =
     \<lparr>current_phase =
        (if tool_name = lit ''planner'' then Searching
         else if tool_name = lit ''recall'' then Comparing
         else if tool_name = lit ''shipping_calc'' then Concluding
         else current_phase st),
      tool_history = last_n 32 (tool_history st @ [tool_name])\<rparr>"

definition transition :: "pystr \<Rightarrow> phase_state \<Rightarrow> bool \<times> phase_state" where
  "transition signal st =
     (let target =
        (if current_phase st = Planning \<and> signal = lit ''planner_output_ready'' then Some Searching
         else if current_phase st = Searching \<and> signal = lit ''candidates_available'' then Some Comparing
         else if current_phase st = Comparing \<and> signal = lit ''picks_ready'' then Some Concluding
         else if current_phase st = Comparing \<and> signal = lit ''search_more'' then Some Searching
         else None)
      in case target of None \<Rightarrow> (False, st) | Some p \<Rightarrow> (True, st\<lparr>current_phase := p\<rparr>))"

section \<open>Hooks\<close>

record hook_context =
  ctx_values :: "pystr \<Rightarrow> json option"
  hook_errors :: "(pystr \<times> pystr \<times> pystr) list"

datatype outcome =
    Reject pystr
  | Failed pystr pystr
  | Update "(pystr \<times> json) list"

record hook =
  hk_priority :: int
  hk_sequence :: nat
  hk_name :: pystr
  hk_fn :: "hook_context \<Rightarrow> outcome"

record middleware =
  hooks :: "pystr \<Rightarrow> hook list"
  hook_sequence :: nat

definition HOOK_POINTS :: "pystr list" where
  "HOOK_POINTS = [lit ''on_session_start'', lit ''pre_think'', lit ''pre_tool_call'', lit ''post_tool_call'',
                  lit ''post_reflect'', lit ''on_session_end'']"

datatype hook_error = UnknownHookPoint | EmptyHookName

definition register :: "pystr \<Rightarrow> pystr \<Rightarrow> (hook_context \<Rightarrow> outcome) \<Rightarrow> int \<Rightarrow> middleware \<Rightarrow> hook_error + middleware" where
  "register hook_point name fn priority m =
     (if hook_point \<notin> set HOOK_POINTS then Inl UnknownHookPoint
      else if py_strip name = [] then Inl EmptyHookName
      else let n = hook_sequence m + 1;
               h = \<lparr>hk_priority = priority, hk_sequence = n, hk_name = name, hk_fn = fn\<rparr>
           in Inr \<lparr>hooks = (hooks m)(hook_point :=
                       sort_key (\<lambda>h. (hk_priority h, hk_sequence h)) (hooks m hook_point @ [h])),
                   hook_sequence = n\<rparr>)"

definition clear_hooks :: "pystr option \<Rightarrow> middleware \<Rightarrow> hook_error + middleware" where
  "clear_hooks hook_point m =
     (case hook_point of
        None \<Rightarrow> Inr (m\<lparr>hooks := (\<lambda>_. [])\<rparr>)
      | Some p \<Rightarrow> if p \<notin> set HOOK_POINTS then Inl UnknownHookPoint else Inr (m\<lparr>hooks := (hooks m)(p := [])\<rparr>))"

definition registered :: "middleware \<Rightarrow> pystr \<Rightarrow> pystr list" where
  "registered m hook_point = map hk_name (hooks m hook_point)"

definition update_all :: "(pystr \<times> json) list \<Rightarrow> hook_context \<Rightarrow> hook_context" where
  "update_all kvs c = c\<lparr>ctx_values := foldl (\<lambda>m (k, v). m(k \<mapsto> v)) (ctx_values c) kvs\<rparr>"

fun run_hooks :: "hook list \<Rightarrow> hook_context \<Rightarrow> pystr + hook_context" where
  \<comment> \<open>\<open>Inl\<close>: the HookRejectSignal that is propagated\<close>
  "run_hooks [] c = Inr c"
| "run_hooks (h # hs) c =
     (case hk_fn h c of
        Reject msg \<Rightarrow> Inl msg
      | Failed err msg \<Rightarrow> run_hooks hs (c\<lparr>hook_errors := hook_errors c @ [(hk_name h, err, take 240 msg)]\<rparr>)
      | Update kvs \<Rightarrow> run_hooks hs (update_all kvs c))"

definition run :: "middleware \<Rightarrow> pystr \<Rightarrow> hook_context \<Rightarrow> pystr + hook_context" where
  "run m hook_point c =
     run_hooks (hooks m hook_point) (c\<lparr>ctx_values := (ctx_values c)(lit ''hook_point'' \<mapsto> JStr hook_point)\<rparr>)"

section \<open>The default hooks\<close>

fun text_of :: "json option \<Rightarrow> pystr" where
  "text_of (Some (JStr s)) = s"
| "text_of _ = []"

fun texts_of :: "json option \<Rightarrow> pystr list" where
  "texts_of (Some (JList xs)) = map (\<lambda>x. text_of (Some x)) xs"
| "texts_of _ = []"

definition phase_permission :: "phase_state \<Rightarrow> hook_context \<Rightarrow> outcome" where
  "phase_permission st c =
     (let tool_name = text_of (ctx_values c (lit ''tool_name''))
      in if is_tool_allowed st tool_name then Update [] else Reject tool_name)"

definition EXPECTED_PREDECESSORS :: "(pystr \<times> pystr list) list" where
  "EXPECTED_PREDECESSORS =
     [(lit ''category_insight'', [lit ''planner'', lit ''task_tool'', lit ''category_insight'']),
      (lit ''item_search'', [lit ''planner'', lit ''task_tool'', lit ''category_insight'', lit ''item_search'']),
      (lit ''recall'', [lit ''item_search'', lit ''category_insight'', lit ''recall'']),
      (lit ''price_compare'', [lit ''recall'', lit ''item_search'']),
      (lit ''shipping_calc'', [lit ''price_compare'', lit ''shipping_calc'']),
      (lit ''item_picker'', [lit ''shipping_calc'', lit ''item_picker'']),
      (lit ''shopping_summary'', [lit ''item_picker'', lit ''shopping_summary''])]"

definition sequence_ok :: "pystr list \<Rightarrow> pystr \<Rightarrow> bool" where
  "sequence_ok history tool_name =
     (case map_of EXPECTED_PREDECESSORS tool_name of
        None \<Rightarrow> True
      | Some expected \<Rightarrow> \<exists>item \<in> set (last_n 4 history). item \<in> set expected)"

definition missing_step_text :: pystr where
  "missing_step_text = [32, 21069, 32570, 23569, 21512, 27861, 30340, 21069, 32622, 27493, 39588, 12290]"

definition check_sequencing :: "hook_context \<Rightarrow> outcome" where
  "check_sequencing c =
     (let tool_name = text_of (ctx_values c (lit ''tool_name''));
          history = texts_of (ctx_values c (lit ''tool_history''));
          result = [(lit ''tool_history'', JList (map JStr (last_n 32 (history @ [tool_name]))))];
          failures = (case ctx_values c (lit ''assertions_failed'') of Some (JList xs) \<Rightarrow> xs | _ \<Rightarrow> [])
      in Update (result @ (if sequence_ok history tool_name then []
           else [(lit ''assertions_failed'',
                  JList (failures @ [JMap [(lit ''type'', JStr (lit ''sequencing'')), (lit ''explanation'', JStr (tool_name @ missing_step_text))]]))])))"

datatype drift_signal = CostUncontrolled | GoalFading | PreferenceLost | ExplorationLoop

definition drift_signals :: "pystr \<Rightarrow> pystr list \<Rightarrow> pystr \<Rightarrow> pystr list \<Rightarrow> drift_signal list" where
  "drift_signals query0 history result_text preference_values =
     (let query = py_strip query0
      in (if query \<noteq> [] \<and> 8 \<le> length history \<and> lit ''shopping_summary'' \<notin> set history then [CostUncontrolled] else [])
       @ (if query \<noteq> [] \<and> result_text \<noteq> [] \<and> \<not> (\<exists>token \<in> set (take 8 query). token \<in> set result_text)
          then [GoalFading] else [])
       @ (if preference_values \<noteq> [] \<and> result_text \<noteq> [] \<and> \<not> (\<exists>v \<in> set preference_values. str_in v result_text)
          then [PreferenceLost] else [])
       @ (if 4 \<le> length history \<and> length (dict_fromkeys (last_n 4 history)) = 1 then [ExplorationLoop] else []))"

datatype drift = NoDrift | MildDrift "drift_signal list" | SevereDrift "drift_signal list"

definition detect_drift :: "pystr \<Rightarrow> pystr list \<Rightarrow> pystr \<Rightarrow> pystr list \<Rightarrow> drift" where
  "detect_drift query history result_text preference_values =
     (let signals = drift_signals query history result_text preference_values
      in if signals = [] then NoDrift
         else if 2 \<le> length signals then SevereDrift signals else MildDrift signals)"

definition install_one :: "pystr \<Rightarrow> pystr \<Rightarrow> (hook_context \<Rightarrow> outcome) \<Rightarrow> int \<Rightarrow> middleware \<Rightarrow> middleware" where
  "install_one hook_point name fn priority m =
     (if name \<in> set (registered m hook_point) then m
      else case register hook_point name fn priority m of Inr m' \<Rightarrow> m' | Inl _ \<Rightarrow> m)"

definition install_default_hooks ::
  "phase_state \<Rightarrow> (hook_context \<Rightarrow> outcome) \<Rightarrow> (hook_context \<Rightarrow> outcome) \<Rightarrow> (hook_context \<Rightarrow> outcome) \<Rightarrow> middleware \<Rightarrow> middleware" where
  \<comment> \<open>the schema, semantic and drift hooks are given as functions\<close>
  "install_default_hooks st schema semantic drift_hook m =
     install_one (lit ''post_reflect'') (lit ''drift_detector'') drift_hook 20
      (install_one (lit ''post_tool_call'') (lit ''semantic_assertion'') semantic 45
      (install_one (lit ''post_tool_call'') (lit ''schema_assertion'') schema 40
      (install_one (lit ''pre_tool_call'') (lit ''sequencing_assertion'') check_sequencing 25
      (install_one (lit ''pre_tool_call'') (lit ''phase_permission'') (phase_permission st) 20 m))))"

section \<open>Guarded runs\<close>

text \<open>One tool call of \<open>_call_tool\<close> as far as phases go: refused, or run and observed.\<close>

definition guarded_call :: "pystr \<Rightarrow> phase_state \<Rightarrow> phase_state option" where
  "guarded_call tool_name st = (if is_tool_allowed st tool_name then Some (observe_tool tool_name st) else None)"

fun guarded_calls :: "pystr list \<Rightarrow> phase_state \<Rightarrow> phase_state option" where
  "guarded_calls [] st = Some st"
| "guarded_calls (t # ts) st = (case guarded_call t st of None \<Rightarrow> None | Some st' \<Rightarrow> guarded_calls ts st')"

inductive phase_step :: "phase_state \<Rightarrow> phase_state \<Rightarrow> bool" where
  call: "guarded_call t st = Some st' \<Longrightarrow> phase_step st st'"
| signal: "transition s st = (b, st') \<Longrightarrow> phase_step st st'"

inductive phase_run :: "phase_state \<Rightarrow> phase_state \<Rightarrow> bool" where
  refl: "phase_run st st"
| step: "phase_run st st' \<Longrightarrow> phase_step st' st'' \<Longrightarrow> phase_run st st''"

inductive_cases phase_stepE: "phase_step st st'"
inductive_simps phase_step_iff: "phase_step st st'"

lemma history_bounded_observe: "length (tool_history (observe_tool t st)) \<le> 32"
  by (simp add: observe_tool_def)

lemma concluding_step: "phase_step st st' \<Longrightarrow> current_phase st = Concluding \<Longrightarrow> current_phase st' = Concluding"
  by (auto simp: phase_step_iff guarded_call_def is_tool_allowed_def PHASE_TOOLS_def observe_tool_def
      transition_def Let_def split: if_splits)

text \<open>
  The conclusion is final: once a task is in the concluding phase, no sequence of tool
  calls that the phase hook admits, and no signal, leads out of it, and none of them is a
  search, a recall, a price comparison or a shipping calculation.
\<close>

lemma concluding_is_final:
  assumes "phase_run st st'" "current_phase st = Concluding"
  shows "current_phase st' = Concluding
    \<and> (\<forall>t. guarded_call t st' \<noteq> None \<longrightarrow> t \<in> {lit ''item_picker'', lit ''shopping_summary'', lit ''chat_fallback''})"
proof -
  from assms have "current_phase st' = Concluding"
    by (induction rule: phase_run.induct) (auto intro: concluding_step)
  then show ?thesis by (simp add: guarded_call_def is_tool_allowed_def PHASE_TOOLS_def)
qed

lemma concluding_is_final_witness:
  "current_phase (observe_tool (lit ''item_picker'') \<lparr>current_phase = Concluding, tool_history = []\<rparr>) = Concluding"
proof -
  have "phase_step \<lparr>current_phase = Concluding, tool_history = []\<rparr>
      (observe_tool (lit ''item_picker'') \<lparr>current_phase = Concluding, tool_history = []\<rparr>)"
    by (rule phase_step.call [of "lit ''item_picker''"]) (simp add: guarded_call_def is_tool_allowed_def PHASE_TOOLS_def)
  from concluding_is_final [OF phase_run.step [OF phase_run.refl this]] show ?thesis by simp
qed

definition DEFAULT_TOOLS :: "pystr list" where
  "DEFAULT_TOOLS = map lit [''planner'', ''category_insight'', ''item_search'', ''recall'', ''price_compare'',
                            ''shipping_calc'', ''item_picker'', ''shopping_summary'']"

fun sequences_ok :: "pystr list \<Rightarrow> pystr list \<Rightarrow> bool" where
  "sequences_ok history [] = True"
| "sequences_ok history (t # ts) = (sequence_ok history t \<and> sequences_ok (history @ [t]) ts)"

lemma guarded_repeat:
  "is_tool_allowed st t \<Longrightarrow> t \<notin> {lit ''planner'', lit ''recall'', lit ''shipping_calc''} \<Longrightarrow>
     \<exists>st'. guarded_calls (replicate n t) st = Some st' \<and> current_phase st' = current_phase st"
proof (induction n arbitrary: st)
  case (Suc n)
  have "is_tool_allowed (observe_tool t st) t" "current_phase (observe_tool t st) = current_phase st"
    using Suc.prems by (auto simp: is_tool_allowed_def observe_tool_def)
  with Suc.IH [of "observe_tool t st"] Suc.prems show ?case by (auto simp: guarded_call_def)
qed simp

lemma guarded_calls_append:
  "guarded_calls (ts @ us) st = (case guarded_calls ts st of None \<Rightarrow> None | Some st' \<Rightarrow> guarded_calls us st')"
  by (induction ts arbitrary: st) (auto split: option.splits)

text \<open>
  The deterministic pipeline is never refused by its own harness: the eight default steps,
  with any number of searches (one per marketplace), are all admitted by the phase hook, end in the concluding phase, and raise no sequencing
  failure when each marketplace is searched in turn.
\<close>

lemma default_pipeline_admitted:
  "\<exists>st. guarded_calls ([lit ''planner'', lit ''category_insight''] @ replicate n (lit ''item_search'')
        @ [lit ''recall'', lit ''price_compare'', lit ''shipping_calc'', lit ''item_picker'', lit ''shopping_summary''])
      reset_phase = Some st
    \<and> current_phase st = Concluding
    \<and> sequences_ok [] DEFAULT_TOOLS"
proof -
  let ?st = "observe_tool (lit ''category_insight'') (observe_tool (lit ''planner'') reset_phase)"
  have "is_tool_allowed ?st (lit ''item_search'')"
    by (simp add: is_tool_allowed_def observe_tool_def PHASE_TOOLS_def)
  from guarded_repeat [OF this, of n] obtain st where
    "guarded_calls (replicate n (lit ''item_search'')) ?st = Some st" "current_phase st = Searching"
    by (auto simp: observe_tool_def)
  moreover have "guarded_calls [lit ''planner'', lit ''category_insight''] reset_phase = Some ?st"
    by (simp add: guarded_call_def is_tool_allowed_def observe_tool_def PHASE_TOOLS_def reset_phase_def)
  moreover have "sequences_ok [] DEFAULT_TOOLS" by code_simp
  ultimately show ?thesis
    unfolding guarded_calls_append
    by (simp add: guarded_call_def is_tool_allowed_def observe_tool_def PHASE_TOOLS_def)
qed

section \<open>The hook pipeline\<close>

definition sorted_hooks :: "middleware \<Rightarrow> bool" where
  "sorted_hooks m \<longleftrightarrow> (\<forall>p. sorted (map (\<lambda>h. (hk_priority h, hk_sequence h)) (hooks m p))
     \<and> (\<forall>h \<in> set (hooks m p). hk_sequence h \<le> hook_sequence m))"

lemma sorted_register: "register p n f pr m = Inr m' \<Longrightarrow> sorted_hooks m \<Longrightarrow> sorted_hooks m'"
  by (auto simp: register_def sorted_hooks_def Let_def le_SucI split: if_splits)

lemma run_hooks_errors:
  "run_hooks hs c = Inr c' \<Longrightarrow> \<exists>es. hook_errors c' = hook_errors c @ es \<and> length es \<le> length hs"
proof (induction hs arbitrary: c)
  case (Cons h hs)
  then show ?case by (cases "hk_fn h c") (fastforce simp: update_all_def)+
qed simp

text \<open>
  Hooks run in order of priority, ties in order of registration, and they fail open: every
  list of hooks that registrations build is sorted, a hook that raises an ordinary error neither
  stops the later hooks nor undoes the earlier ones, and the pipeline ends with a rejection only
  if some hook rejects.
\<close>

lemma hooks_ordered_and_fail_open:
  assumes "sorted_hooks m" "register p n f pr m = Inr m'"
  shows "sorted_hooks m' \<and> mset (registered m' p) = add_mset n (mset (registered m p))
    \<and> (\<forall>q. q \<noteq> p \<longrightarrow> hooks m' q = hooks m q)
    \<and> (\<forall>hs hs' h c e msg c'. run_hooks hs c = Inr c' \<and> hk_fn h c' = Failed e msg \<longrightarrow>
         run_hooks (hs @ h # hs') c = run_hooks hs' (c'\<lparr>hook_errors := hook_errors c' @ [(hk_name h, e, take 240 msg)]\<rparr>))"
proof -
  have "run_hooks (hs @ h # hs') c = run_hooks hs' (c'\<lparr>hook_errors := hook_errors c' @ [(hk_name h, e, take 240 msg)]\<rparr>)"
    if "run_hooks hs c = Inr c'" "hk_fn h c' = Failed e msg" for hs hs' h c e msg c'
    using that by (induction hs arbitrary: c) (auto split: outcome.splits)
  moreover have "mset (registered m' p) = add_mset n (mset (registered m p))"
    using assms(2) by (auto simp: register_def registered_def Let_def split: if_splits)
  moreover have "\<forall>q. q \<noteq> p \<longrightarrow> hooks m' q = hooks m q"
    using assms(2) by (auto simp: register_def Let_def split: if_splits)
  ultimately show ?thesis using sorted_register [OF assms(2,1)] by blast
qed

definition empty_middleware :: middleware where
  "empty_middleware = \<lparr>hooks = (\<lambda>_. []), hook_sequence = 0\<rparr>"

lemma sorted_empty: "sorted_hooks empty_middleware"
  by (simp add: sorted_hooks_def empty_middleware_def)

lemma hooks_ordered_and_fail_open_witness:
  "\<exists>m. register (lit ''pre_think'') (lit ''h'') (\<lambda>c. Update []) 20 empty_middleware = Inr m \<and> sorted_hooks m"
proof -
  have "py_strip (lit ''h'') \<noteq> []" by code_simp
  then have "\<exists>m. register (lit ''pre_think'') (lit ''h'') (\<lambda>c. Update []) 20 empty_middleware = Inr m"
    by (simp add: register_def HOOK_POINTS_def Let_def)
  then show ?thesis using hooks_ordered_and_fail_open [OF sorted_empty] by blast
qed

end
