(* ===== verification/AgentControl.thy ===== *)
theory AgentControl
  imports Security
begin

text \<open>
  The bounds of one agent run: the tool-call guard (\<open>app/agent/guard.py\<close>), the token budget
  and model route (\<open>app/agent/budget.py\<close>), the fan-out of sub-agents
  (\<open>app/agent/dispatch_tool.py\<close>), the tool registry and \<open>task_tool\<close>
  (\<open>app/agent/tool_registry.py\<close>, with the allow-list check of \<open>app/security.py\<close>), and the
  cache breakpoint (\<open>app/compress/breakpoint.py\<close>). A context variable is a state that is passed
  and returned; the JSON rendering of arguments is the parameter \<open>stable_args\<close>.
\<close>

section \<open>Tool-call guard\<close>

record guard_state =
  total_calls :: int
  calls :: "(pystr \<times> pystr) list"

definition reset_tool_guard :: guard_state where
  "reset_tool_guard = \<lparr>total_calls = 0, calls = []\<rparr>"

datatype guard_error = ToolCallLimit | LoopDetected

definition record_tool_call ::
  "settings \<Rightarrow> ('a \<Rightarrow> pystr) \<Rightarrow> pystr \<Rightarrow> 'a \<Rightarrow> guard_state \<Rightarrow> guard_error + guard_state" where
  "record_tool_call s stable_args name args st =
     (let key = (name, stable_args args);
          same_calls = int (length (filter (\<lambda>previous. previous = key) (calls st)))
      in if agent_max_tool_calls s \<le> total_calls st then Inl ToolCallLimit
         else if agent_loop_detection_threshold s \<le> same_calls then Inl LoopDetected
         else Inr \<lparr>total_calls = total_calls st + 1, calls = calls st @ [key]\<rparr>)"

definition truncated_suffix :: pystr where
  "truncated_suffix = 8230 # lit '' [tool result truncated]''"

definition bounded_tool_result :: "settings \<Rightarrow> int option \<Rightarrow> pystr \<Rightarrow> pystr" where
  \<comment> \<open>of the rendered value\<close>
  "bounded_tool_result s max_chars rendered0 =
     (let limit = (case max_chars of Some m \<Rightarrow> if m = 0 then agent_tool_result_chars s else m
                   | None \<Rightarrow> agent_tool_result_chars s);
          rendered = sanitize_tool_output rendered0
      in if int (length rendered) \<le> limit then rendered
         else take (nat (max 0 (limit - int (length truncated_suffix)))) rendered @ truncated_suffix)"

inductive guard_run :: "settings \<Rightarrow> guard_state \<Rightarrow> bool" for s where
  initial: "guard_run s reset_tool_guard"
| call: "guard_run s st \<Longrightarrow> record_tool_call s (\<lambda>x. x) name args st = Inr st' \<Longrightarrow> guard_run s st'"

lemma guard_invariant:
  "guard_run s st \<Longrightarrow> 0 \<le> agent_max_tool_calls s \<Longrightarrow>
     total_calls st = int (length (calls st)) \<and> total_calls st \<le> agent_max_tool_calls s
     \<and> (\<forall>key. int (length (filter (\<lambda>k. k = key) (calls st))) \<le> max 0 (agent_loop_detection_threshold s))"
proof (induction rule: guard_run.induct)
  case (call st name args st')
  from call.hyps(2) have st': "st' = \<lparr>total_calls = total_calls st + 1, calls = calls st @ [(name, args)]\<rparr>"
    and lim: "total_calls st < agent_max_tool_calls s"
    and loop: "int (length (filter (\<lambda>k. k = (name, args)) (calls st))) < agent_loop_detection_threshold s"
    by (auto simp: record_tool_call_def Let_def not_le split: if_splits)
  from call.IH call.prems loop lim show ?case unfolding st' by (auto simp: le_max_iff_disj)
qed (simp add: reset_tool_guard_def)

text \<open>
  A model loop is bounded: whatever calls a run makes, the guard admits at most
  \<open>agent_max_tool_calls\<close> of them, and the same tool with the same arguments at most
  \<open>agent_loop_detection_threshold\<close> times.
\<close>

lemma tool_calls_bounded:
  assumes "guard_run s st" "0 \<le> agent_max_tool_calls s"
  shows "int (length (calls st)) \<le> agent_max_tool_calls s
    \<and> (\<forall>key. int (length (filter (\<lambda>k. k = key) (calls st))) \<le> max 0 (agent_loop_detection_threshold s))"
  using guard_invariant [OF assms] by auto

lemma length_bounded_tool_result:
  "256 \<le> agent_tool_result_chars s \<Longrightarrow> max_chars = None \<Longrightarrow>
     int (length (bounded_tool_result s max_chars r)) \<le> agent_tool_result_chars s"
  by (auto simp: bounded_tool_result_def Let_def truncated_suffix_def)

section \<open>Token budget\<close>

datatype route = Main | Lite | Minimal | Fallback

record budget_state =
  budget :: int
  used_tokens :: int
  route :: route

definition start_budget :: "settings \<Rightarrow> int option \<Rightarrow> budget_state" where
  "start_budget s b =
     (let value = (case b of Some v \<Rightarrow> if v = 0 then token_budget s else v | None \<Rightarrow> token_budget s)
      in \<lparr>budget = max 256 value, used_tokens = 0, route = Main\<rparr>)"

definition remaining :: "budget_state \<Rightarrow> int" where
  "remaining st = max 0 (budget st - used_tokens st)"

definition fallback_threshold :: "budget_state \<Rightarrow> int" where
  "fallback_threshold st = max 256 \<lfloor>fl (fl (of_int (budget st)) * fl (5 / 100))\<rfloor>"

definition route_for_rest :: "settings \<Rightarrow> int \<Rightarrow> int \<Rightarrow> route" where
  "route_for_rest s fallback rest =
     (if rest \<le> fallback then Fallback
      else if rest \<le> token_route_minimal_threshold s then Minimal
      else if rest \<le> token_route_lite_threshold s then Lite else Main)"

definition route_for :: "settings \<Rightarrow> budget_state \<Rightarrow> int \<Rightarrow> route" where
  "route_for s st estimated_tokens =
     route_for_rest s (fallback_threshold st) (max 0 (remaining st - max 0 estimated_tokens))"

definition choose_route :: "settings \<Rightarrow> int \<Rightarrow> budget_state \<Rightarrow> route \<times> budget_state" where
  "choose_route s estimated_tokens st = (let r = route_for s st estimated_tokens in (r, st\<lparr>route := r\<rparr>))"

definition record_usage :: "int \<Rightarrow> int \<Rightarrow> budget_state \<Rightarrow> bool \<times> budget_state" where
  \<comment> \<open>the flag: TokenBudgetExceeded is raised, after the state was set\<close>
  "record_usage input_tokens output_tokens st =
     (let next = st\<lparr>used_tokens := used_tokens st + (max 0 input_tokens + max 0 output_tokens)\<rparr>
      in (budget next < used_tokens next, next))"

definition route_model_name :: "(pystr \<Rightarrow> pystr option) \<Rightarrow> route \<Rightarrow> pystr" where
  "route_model_name env r =
     (case r of
        Fallback \<Rightarrow> []
      | Main \<Rightarrow> or_else (py_strip (getenv env (lit ''LLM_MAIN'') [])) (py_strip (getenv env (lit ''LLM_MAIN'') []))
      | Lite \<Rightarrow> or_else (py_strip (getenv env (lit ''LLM_LITE'') [])) (py_strip (getenv env (lit ''LLM_MAIN'') []))
      | Minimal \<Rightarrow> or_else (py_strip (getenv env (lit ''LLM_MINIMAL'') [])) (py_strip (getenv env (lit ''LLM_MAIN'') [])))"

fun route_rank :: "route \<Rightarrow> nat" where
  "route_rank Main = 0" | "route_rank Lite = 1" | "route_rank Minimal = 2" | "route_rank Fallback = 3"

fun spend :: "(int \<times> int) list \<Rightarrow> budget_state \<Rightarrow> bool list \<times> budget_state" where
  "spend [] st = ([], st)"
| "spend ((i, u) # us) st = (case record_usage i u st of (b, st') \<Rightarrow> case spend us st' of (bs, st'') \<Rightarrow> (b # bs, st''))"

lemma spend_used: "spend us st = (bs, st') \<Longrightarrow> budget st' = budget st \<and> used_tokens st \<le> used_tokens st'"
  by (induction us arbitrary: st bs st') (fastforce simp: record_usage_def Let_def split: prod.splits)+

lemma route_for_rest_mono:
  "rest' \<le> rest \<Longrightarrow> token_route_minimal_threshold s \<le> token_route_lite_threshold s \<Longrightarrow>
     route_rank (route_for_rest s f rest) \<le> route_rank (route_for_rest s f rest')"
  by (simp add: route_for_rest_def)

text \<open>
  Spending only degrades the route: after any further usage, or for a larger estimate, the
  chosen route is never better than before; it is the fallback once the budget is spent; and a
  usage raises the budget error exactly when the total spent exceeds the budget, after being counted.
\<close>

lemma route_degrades:
  assumes "spend us st = (bs, st')" "e \<le> e'"
    and "token_route_minimal_threshold s \<le> token_route_lite_threshold s"
  shows "route_rank (fst (choose_route s e st)) \<le> route_rank (fst (choose_route s e' st'))
    \<and> (budget st' \<le> used_tokens st' \<longrightarrow> fst (choose_route s e' st') = Fallback)
    \<and> (\<forall>i u. fst (record_usage i u st') \<longleftrightarrow> budget st' < used_tokens (snd (record_usage i u st')))"
proof -
  note sp = spend_used [OF assms(1)]
  have "fallback_threshold st' = fallback_threshold st" using sp by (simp add: fallback_threshold_def)
  moreover have m: "max 0 (remaining st' - max 0 e') \<le> max 0 (remaining st - max 0 e)"
    using sp assms(2) by (auto simp: remaining_def)
  ultimately have "route_rank (fst (choose_route s e st)) \<le> route_rank (fst (choose_route s e' st'))"
    using route_for_rest_mono [OF m assms(3)] by (simp add: choose_route_def route_for_def Let_def)
  moreover have "fst (choose_route s e' st') = Fallback" if "budget st' \<le> used_tokens st'"
    using that by (simp add: choose_route_def route_for_def Let_def remaining_def route_for_rest_def fallback_threshold_def)
  moreover have "fst (record_usage i u st') \<longleftrightarrow> budget st' < used_tokens (snd (record_usage i u st'))" for i u
    by (simp add: record_usage_def Let_def)
  ultimately show ?thesis by blast
qed

section \<open>Registry and plan\<close>

definition FULL_TOOL_SET :: "(pystr \<times> pystr \<times> bool) list" where
  \<comment> \<open>name, phase, model callable; the descriptions are prose\<close>
  "FULL_TOOL_SET =
     [(lit ''planner'', lit ''think'', True), (lit ''category_insight'', lit ''think'', False),
      (lit ''item_search'', lit ''act'', False), (lit ''recall'', lit ''act'', False),
      (lit ''price_compare'', lit ''observe'', False), (lit ''shipping_calc'', lit ''observe'', False),
      (lit ''item_picker'', lit ''reflect'', False), (lit ''shopping_summary'', lit ''reflect'', False),
      (lit ''web_search'', lit ''optional'', False), (lit ''task_tool'', lit ''orchestration'', True)]"

definition validate_tool_call :: "pystr \<Rightarrow> bool" where
  "validate_tool_call tool_name \<longleftrightarrow> tool_name \<noteq> [] \<and> tool_name \<in> fst ` set FULL_TOOL_SET"

definition pre_tool_check :: "pystr \<Rightarrow> pystr \<Rightarrow> (pystr \<times> pystr) option" where
  \<comment> \<open>of the name and id of the call: \<open>None\<close>, or the refused name and the id\<close>
  "pre_tool_check name call_id =
     (let tool_name = py_strip name
      in if validate_tool_call tool_name then None else Some (or_else tool_name (lit ''unknown''), call_id))"

definition DEFAULT_STEPS :: "pystr list" where
  "DEFAULT_STEPS = map lit [''planner'', ''category_insight'', ''item_search'', ''recall'', ''price_compare'',
                            ''shipping_calc'', ''item_picker'', ''shopping_summary'']"

fun select_platforms :: "pystr list \<Rightarrow> pystr list \<Rightarrow> pystr list" where
  "select_platforms selected [] = selected"
| "select_platforms selected (item # items) =
     (let name = py_lower (py_strip item)
      in select_platforms (if name \<in> set MARKETPLACES \<and> name \<notin> set selected then selected @ [name] else selected) items)"

definition platforms_of :: "pystr list option \<Rightarrow> pystr list" where
  "platforms_of value = select_platforms [] (case value of Some xs \<Rightarrow> xs | None \<Rightarrow> [])"

record execution_plan =
  plan_platforms :: "pystr list"
  plan_fork :: bool
  plan_steps :: "pystr list"
  plan_reason :: pystr

datatype task_tool_error = PlanValidation | GuardRefused guard_error

definition task_tool ::
  "settings \<Rightarrow> (pystr list \<times> bool \<times> pystr list \<Rightarrow> pystr) \<Rightarrow> pystr list option \<Rightarrow> bool \<Rightarrow> pystr list option \<Rightarrow> pystr \<Rightarrow>
     guard_state \<times> execution_plan option \<Rightarrow> task_tool_error + guard_state \<times> execution_plan option" where
  \<comment> \<open>\<open>PlanValidation\<close>: a bound of TaskToolCommand (8 steps, 1000 characters of reason) is exceeded\<close>
  "task_tool s stable_args platforms par steps reason st =
     (let command_platforms = platforms_of platforms;
          command_steps = filter (\<lambda>step. step \<in> set DEFAULT_STEPS) (case steps of Some xs \<Rightarrow> xs | None \<Rightarrow> []);
          command_reason = py_strip reason;
          enabled = enabled_marketplaces s;
          selected0 = filter (\<lambda>p. p \<in> set enabled) command_platforms;
          selected = (if selected0 = [] then enabled else selected0);
          steps0 = filter (\<lambda>step. step \<noteq> lit ''task_tool'') command_steps;
          normalized_steps = (if steps0 = [] then DEFAULT_STEPS else steps0);
          plan = \<lparr>plan_platforms = selected, plan_fork = par \<and> 1 < length selected,
                  plan_steps = normalized_steps, plan_reason = command_reason\<rparr>
      in if 8 < length command_steps \<or> 1000 < length command_reason then Inl PlanValidation
         else case record_tool_call s stable_args (lit ''task_tool'') (selected, par, normalized_steps) (fst st) of
                Inl e \<Rightarrow> Inl (GuardRefused e)
              | Inr g \<Rightarrow> Inr (g, Some plan))"

lemma select_platforms_spec:
  "distinct sel \<Longrightarrow> set sel \<subseteq> set MARKETPLACES \<Longrightarrow>
     distinct (select_platforms sel xs) \<and> set (select_platforms sel xs) \<subseteq> set MARKETPLACES"
  by (induction sel xs rule: select_platforms.induct) (auto simp: Let_def)

lemma distinct_MARKETPLACES: "distinct MARKETPLACES"
  by (simp add: MARKETPLACES_def)

lemma enabled_sub: "set (enabled_marketplaces s) \<subseteq> set MARKETPLACES" "distinct (enabled_marketplaces s)"
  using distinct_MARKETPLACES by (auto simp: enabled_marketplaces_def Let_def)

lemma length_sub_marketplaces: "distinct xs \<Longrightarrow> set xs \<subseteq> set MARKETPLACES \<Longrightarrow> length xs \<le> 4"
  using card_mono [of "set MARKETPLACES" "set xs"] distinct_card [of xs] card_length [of MARKETPLACES]
  by (simp add: MARKETPLACES_def)

text \<open>
  Whatever a model asks for, the plan it gets stays inside the deployment: its platforms
  are distinct enabled marketplaces (at most four), its steps are non-empty known steps and never
  \<open>task_tool\<close> itself, and it forks only when several platforms are selected in parallel.
\<close>

lemma task_tool_plan_bounded:
  assumes "task_tool s stable_args platforms par steps reason st = Inr (g, p)"
  shows "\<exists>plan. p = Some plan
    \<and> distinct (plan_platforms plan) \<and> set (plan_platforms plan) \<subseteq> set (enabled_marketplaces s)
    \<and> length (plan_platforms plan) \<le> 4
    \<and> plan_steps plan \<noteq> [] \<and> set (plan_steps plan) \<subseteq> set DEFAULT_STEPS \<and> lit ''task_tool'' \<notin> set (plan_steps plan)
    \<and> length (plan_steps plan) \<le> 8 \<and> length (plan_reason plan) \<le> 1000
    \<and> (plan_fork plan \<longrightarrow> par \<and> 2 \<le> length (plan_platforms plan))
    \<and> total_calls g = total_calls (fst st) + 1"
proof -
  let ?cp = "platforms_of platforms" and ?en = "enabled_marketplaces s"
  let ?sel0 = "filter (\<lambda>p. p \<in> set ?en) ?cp"
  let ?sel = "if ?sel0 = [] then ?en else ?sel0"
  have d: "distinct ?cp" using select_platforms_spec [of "[]"] by (simp add: platforms_of_def)
  then have ds: "distinct ?sel" "set ?sel \<subseteq> set ?en" using enabled_sub by auto
  then have l: "length ?sel \<le> 4" using enabled_sub(1) by (intro length_sub_marketplaces) (auto split: if_splits)
  have t: "lit ''task_tool'' \<notin> set DEFAULT_STEPS" "DEFAULT_STEPS \<noteq> []" "length DEFAULT_STEPS = 8"
    by (simp_all add: DEFAULT_STEPS_def)
  define cs where "cs = filter (\<lambda>step. step \<in> set DEFAULT_STEPS) (case steps of Some xs \<Rightarrow> xs | None \<Rightarrow> [])"
  define ns where "ns = (if filter (\<lambda>step. step \<noteq> lit ''task_tool'') cs = [] then DEFAULT_STEPS
      else filter (\<lambda>step. step \<noteq> lit ''task_tool'') cs)"
  have len: "length cs \<le> 8" "length (py_strip reason) \<le> 1000"
    and p: "p = Some \<lparr>plan_platforms = ?sel, plan_fork = par \<and> 1 < length ?sel, plan_steps = ns,
                     plan_reason = py_strip reason\<rparr>"
    and g: "record_tool_call s stable_args (lit ''task_tool'') (?sel, par, ns) (fst st) = Inr g"
    using assms unfolding task_tool_def Let_def cs_def ns_def by (auto split: if_splits sum.splits)
  have n: "ns \<noteq> []" "set ns \<subseteq> set DEFAULT_STEPS" "lit ''task_tool'' \<notin> set ns" "length ns \<le> 8"
    using t len(1) order_trans [OF length_filter_le len(1)] by (auto simp: ns_def cs_def)
  have "total_calls g = total_calls (fst st) + 1"
    using g by (auto simp: record_tool_call_def Let_def split: if_splits)
  with p ds l n len show ?thesis by simp
qed

definition bounded_settings :: "settings \<Rightarrow> settings" where
  "bounded_settings s = s\<lparr>sandbox_mode := True, agent_max_tool_calls := 24, agent_loop_detection_threshold := 4,
     agent_tool_result_chars := 16000, token_budget := 12000, token_route_lite_threshold := 8000,
     token_route_minimal_threshold := 4000, agent_max_fork_depth := 2, agent_max_children := 4\<rparr>"

lemma tool_calls_bounded_witness:
  "\<exists>s st. guard_run s st \<and> length (calls st) = 1 \<and> int (length (calls st)) \<le> 24"
proof -
  obtain s0 where s0: "from_env Map.empty = Inr s0" using default_settings by blast
  let ?s = "bounded_settings s0" and ?st = "\<lparr>total_calls = 1, calls = [(lit ''planner'', lit ''{}'')]\<rparr>"
  have "record_tool_call ?s (\<lambda>x. x) (lit ''planner'') (lit ''{}'') reset_tool_guard = Inr ?st"
    by (simp add: record_tool_call_def reset_tool_guard_def bounded_settings_def)
  then have r: "guard_run ?s ?st" using guard_run.intros by blast
  from tool_calls_bounded [OF r] r show ?thesis
    by (intro exI [of _ ?s] exI [of _ ?st]) (simp add: bounded_settings_def)
qed

theorem route_degrades_witness:
  "\<exists>s. fst (choose_route s 0 \<lparr>budget = 12000, used_tokens = 12000, route = Main\<rparr>) = Fallback"
proof -
  obtain s0 where s0: "from_env Map.empty = Inr s0" using default_settings by blast
  have "spend [(7000, 5000)] \<lparr>budget = 12000, used_tokens = 0, route = Main\<rparr>
      = ([False], \<lparr>budget = 12000, used_tokens = 12000, route = Main\<rparr>)"
    by (simp add: record_usage_def)
  from route_degrades [OF this, of 0 0 "bounded_settings s0"] show ?thesis
    by (intro exI [of _ "bounded_settings s0"]) (simp add: bounded_settings_def)
qed

lemma task_tool_plan_bounded_witness:
  "\<exists>s g plan. task_tool s (\<lambda>_. lit ''args'') (Some [lit ''ebay'', lit ''nowhere'']) True None []
      (reset_tool_guard, None) = Inr (g, Some plan) \<and> length (plan_platforms plan) \<le> 4"
proof -
  obtain s0 where s0: "from_env Map.empty = Inr s0" using default_settings by blast
  have "\<exists>g p. task_tool (bounded_settings s0) (\<lambda>_. lit ''args'') (Some [lit ''ebay'', lit ''nowhere'']) True None []
      (reset_tool_guard, None) = Inr (g, p)"
    by (simp add: task_tool_def Let_def record_tool_call_def reset_tool_guard_def bounded_settings_def py_strip_def)
  then obtain g p where e: "task_tool (bounded_settings s0) (\<lambda>_. lit ''args'') (Some [lit ''ebay'', lit ''nowhere'']) True None []
      (reset_tool_guard, None) = Inr (g, p)" by blast
  from task_tool_plan_bounded [OF this] e show ?thesis by blast
qed

section \<open>Sub-agents\<close>

datatype 'e dispatch_error = ForkDepth | ChildLimit | BranchFailed 'e

definition dispatch_tool ::
  "settings \<Rightarrow> int \<Rightarrow> nat list \<Rightarrow> ('d \<Rightarrow> 'e + 'a) \<Rightarrow> 'd list \<Rightarrow> 'e dispatch_error + 'a list" where
  \<comment> \<open>\<open>order\<close>: the order in which the branches complete; \<open>gather\<close> raises the first exception\<close>
  "dispatch_tool s parent_depth order worker demands =
     (if agent_max_fork_depth s \<le> parent_depth then Inl ForkDepth
      else if demands = [] then Inr []
      else if agent_max_children s < int (length demands) then Inl ChildLimit
      else case find (\<lambda>i. case worker (demands ! i) of Inl _ \<Rightarrow> True | Inr _ \<Rightarrow> False) order of
             Some i \<Rightarrow> (case worker (demands ! i) of Inl e \<Rightarrow> Inl (BranchFailed e) | Inr _ \<Rightarrow> Inr [])
           | None \<Rightarrow> Inr (map (\<lambda>d. projr (worker d)) demands))"

text \<open>
  Fan-out is bounded and honest: branches run only below the depth limit and for at
  most \<open>agent_max_children\<close> demands; the results are in the order of the demands, whatever
  order the branches complete in; and one failed branch fails the whole dispatch with an error
  that some branch raised, never with a partial list.
\<close>

lemma dispatch_bounded:
  assumes "set order = {..<length demands}"
  shows "case dispatch_tool s depth order worker demands of
      Inr rs \<Rightarrow> depth < agent_max_fork_depth s \<and> (demands = [] \<or> int (length demands) \<le> agent_max_children s)
        \<and> map worker demands = map Inr rs
    | Inl (BranchFailed e) \<Rightarrow> \<exists>d \<in> set demands. worker d = Inl e
    | Inl ForkDepth \<Rightarrow> agent_max_fork_depth s \<le> depth
    | Inl ChildLimit \<Rightarrow> agent_max_children s < int (length demands)"
proof (cases "depth < agent_max_fork_depth s \<and> demands \<noteq> [] \<and> int (length demands) \<le> agent_max_children s")
  case False
  then show ?thesis by (auto simp: dispatch_tool_def not_less not_le)
next
  case True
  let ?fails = "\<lambda>i. case worker (demands ! i) of Inl _ \<Rightarrow> True | Inr _ \<Rightarrow> False"
  show ?thesis
  proof (cases "find ?fails order")
    case None
    then have "\<forall>i < length demands. \<not> ?fails i" using assms by (auto simp: find_None_iff)
    then have "worker d = Inr (projr (worker d))" if "d \<in> set demands" for d
      using that by (cases "worker d") (auto simp: in_set_conv_nth)
    then have "map worker demands = map Inr (map (\<lambda>d. projr (worker d)) demands)" by simp
    with True None show ?thesis by (simp add: dispatch_tool_def)
  next
    case (Some i)
    then have "i \<in> set order" "?fails i" by (auto simp: find_Some_iff)
    then obtain e where "i < length demands" "worker (demands ! i) = Inl e"
      using assms by (auto split: sum.splits)
    with True Some show ?thesis by (auto simp: dispatch_tool_def)
  qed
qed

lemma dispatch_bounded_witness:
  "\<exists>s. dispatch_tool s 0 [1, 0] (\<lambda>d. if d = (0 :: nat) then Inl (lit ''x'') else Inr d) [0, 1] = Inl (BranchFailed (lit ''x''))
    \<and> (\<exists>d \<in> set [0 :: nat, 1]. (if d = 0 then Inl (lit ''x'') else Inr d) = Inl (lit ''x''))"
proof -
  obtain s0 where s0: "from_env Map.empty = Inr s0" using default_settings by blast
  have e: "dispatch_tool (bounded_settings s0) 0 [1, 0] (\<lambda>d. if d = (0 :: nat) then Inl (lit ''x'') else Inr d) [0, 1]
      = Inl (BranchFailed (lit ''x''))"
    by (simp add: dispatch_tool_def bounded_settings_def)
  from dispatch_bounded [of "[1, 0]" "[0 :: nat, 1]" "bounded_settings s0" 0
      "\<lambda>d. if d = (0 :: nat) then Inl (lit ''x'') else Inr d"] e
  show ?thesis by (intro exI [of _ "bounded_settings s0"]) (simp add: lessThan_Suc insert_commute)
qed

section \<open>The cache breakpoint\<close>

definition compute_breakpoint :: "pystr list \<Rightarrow> nat \<Rightarrow> nat option" where
  \<comment> \<open>of the roles of the messages; \<open>None\<close>: ValueError\<close>
  "compute_breakpoint roles keep_recent =
     (if keep_recent < 1 then None
      else let tool_indices = map fst (filter (\<lambda>(i, r). r = lit ''tool'') (enumerate_py roles))
           in if length tool_indices \<le> keep_recent then Some (length roles)
              else Some (tool_indices ! (length tool_indices - keep_recent)))"

datatype context_message = ContextMessage pystr pystr | DictMessage "(pystr \<times> json) list" | OtherMessage pystr pystr

fun message_role :: "context_message \<Rightarrow> pystr" where
  "message_role (ContextMessage role _) = role"
| "message_role (DictMessage m) =
     (case map_of m (lit ''role'') of
        Some (JStr r) \<Rightarrow> r | Some _ \<Rightarrow> []
      | None \<Rightarrow> (case map_of m (lit ''type'') of Some (JStr r) \<Rightarrow> r | _ \<Rightarrow> []))"
| "message_role (OtherMessage role _) = role"

fun message_content :: "(json \<Rightarrow> pystr) \<Rightarrow> context_message \<Rightarrow> pystr" where
  "message_content to_str (ContextMessage _ c) = c"
| "message_content to_str (DictMessage m) =
     (case map_of m (lit ''content'') of Some (JStr c) \<Rightarrow> c | Some v \<Rightarrow> to_str v | None \<Rightarrow> [])"
| "message_content to_str (OtherMessage _ c) = c"

definition set_key :: "pystr \<Rightarrow> json \<Rightarrow> (pystr \<times> json) list \<Rightarrow> (pystr \<times> json) list" where
  \<comment> \<open>\<open>{**m, k: v}\<close>\<close>
  "set_key k v m = (if k \<in> fst ` set m then map (\<lambda>(k', w). if k' = k then (k', v) else (k', w)) m else m @ [(k, v)])"

definition trimmed_suffix :: pystr where
  "trimmed_suffix = [10, 91, 46, 46, 46, 24037, 20855, 32467, 26524, 24050, 31934, 31616, 93]"

definition bound_message :: "(json \<Rightarrow> pystr) \<Rightarrow> nat \<Rightarrow> context_message \<Rightarrow> context_message" where
  "bound_message to_str max_tool_chars m =
     (let content = message_content to_str m
      in if message_role m \<noteq> lit ''tool'' \<or> length content \<le> max_tool_chars then m
         else let bounded = take (max_tool_chars - length trimmed_suffix) content @ trimmed_suffix
              in case m of
                   ContextMessage role _ \<Rightarrow> ContextMessage role bounded
                 | DictMessage d \<Rightarrow> DictMessage (set_key (lit ''content'') (JStr bounded) d)
                 | OtherMessage _ _ \<Rightarrow> m)"

definition compress_after_breakpoint ::
  "(json \<Rightarrow> pystr) \<Rightarrow> context_message list \<Rightarrow> int \<Rightarrow> int \<Rightarrow> context_message list option" where
  "compress_after_breakpoint to_str messages breakpoint_idx max_tool_chars =
     (if max_tool_chars < 1 then None
      else let boundary = nat (max 0 (min (int (length messages)) breakpoint_idx))
           in Some (take boundary messages @ map (bound_message to_str (nat max_tool_chars)) (drop boundary messages)))"

lemma role_bound_message: "message_role (bound_message f n m) = message_role m"
proof (cases m)
  case (DictMessage d)
  have 1: "map_of (set_key (lit ''content'') v d) k = map_of d k" if "k \<noteq> lit ''content''" for v k
  proof -
    have "map_of (map (\<lambda>(k', w). if k' = lit ''content'' then (k', v) else (k', w)) d) k = map_of d k"
      using that by (induction d) auto
    then show ?thesis using that by (auto simp: set_key_def map_add_def split: option.splits)
  qed
  have "message_role (DictMessage (set_key (lit ''content'') v d)) = message_role (DictMessage d)" for v
  proof -
    have "map_of (set_key (lit ''content'') v d) (lit ''role'') = map_of d (lit ''role'')"
      "map_of (set_key (lit ''content'') v d) (lit ''type'') = map_of d (lit ''type'')"
      by (simp_all add: 1)
    then show ?thesis unfolding message_role.simps by (simp only:)
  qed
  then show ?thesis unfolding DictMessage bound_message_def Let_def by simp
qed (auto simp: bound_message_def Let_def)

text \<open>
  Compression keeps the cached prefix and the shape of the conversation: at the computed
  breakpoint the messages before it are byte for byte the same, no message is added, dropped
  or changes its role, every message that is not a tool result is kept, and the suffix that may
  change holds exactly the last \<open>keep_recent\<close> tool results (none when there are no more of them).
\<close>

lemma compress_keeps_prefix:
  assumes "compute_breakpoint (map message_role messages) keep_recent = Some b"
    and "compress_after_breakpoint f messages (int b) max_chars = Some out"
  shows "take b out = take b messages \<and> length out = length messages
    \<and> map message_role out = map message_role messages
    \<and> (\<forall>i < length messages. message_role (messages ! i) \<noteq> lit ''tool'' \<longrightarrow> out ! i = messages ! i)
    \<and> b \<le> length messages"
proof -
  have b: "b \<le> length messages"
  proof -
    let ?is = "map fst (filter (\<lambda>(i, r). r = lit ''tool'') (enumerate_py (map message_role messages)))"
    have "\<forall>i \<in> set ?is. i < length messages" by (auto simp: set_enumerate)
    then have "?is ! (length ?is - keep_recent) \<le> length messages" if "keep_recent < length ?is" "1 \<le> keep_recent"
      using that by (meson diff_less less_imp_le nth_mem less_le_trans zero_less_one less_trans)
    then show ?thesis using assms(1) by (auto simp: compute_breakpoint_def Let_def not_le split: if_splits)
  qed
  then have "nat (max 0 (min (int (length messages)) (int b))) = b" by simp
  with assms(2) obtain n where o: "out = take b messages @ map (bound_message f n) (drop b messages)"
    by (auto simp: compress_after_breakpoint_def Let_def split: if_splits)
  have r: "map message_role out = map message_role messages"
    unfolding o by (simp add: comp_def role_bound_message) (simp flip: map_append take_map drop_map)
  have k: "bound_message f n m = m" if "message_role m \<noteq> lit ''tool''" for m
    using that by (simp add: bound_message_def)
  show ?thesis using b r k by (auto simp: o nth_append)
qed

lemma compress_keeps_prefix_witness:
  "\<exists>out. compress_after_breakpoint (\<lambda>_. []) [ContextMessage (lit ''user'') (lit ''hi''), ContextMessage (lit ''tool'') (lit ''a''),
      ContextMessage (lit ''tool'') (lit ''b'')] 2 1 = Some out \<and> length out = 3 \<and> take 2 out =
      [ContextMessage (lit ''user'') (lit ''hi''), ContextMessage (lit ''tool'') (lit ''a'')]"
proof -
  let ?ms = "[ContextMessage (lit ''user'') (lit ''hi''), ContextMessage (lit ''tool'') (lit ''a''), ContextMessage (lit ''tool'') (lit ''b'')]"
  have b: "compute_breakpoint (map message_role ?ms) 1 = Some 2"
    by (simp add: compute_breakpoint_def enumerate_py_def Let_def)
  obtain out where o: "compress_after_breakpoint (\<lambda>_. []) ?ms (int 2) 1 = Some out"
    by (simp add: compress_after_breakpoint_def)
  from compress_keeps_prefix [OF b o] o show ?thesis by auto
qed

end
