(* ===== verification/Schemas.thy ===== *)
theory Schemas
  imports Json Regex Config
begin

text \<open>
  The data of \<open>app/schemas.py\<close>: one record per model class (inheritance is record extension), one
  datatype per \<open>Literal\<close>, \<open>fields_<class>\<close> for the bounds and patterns of its fields and one
  definition per validator. A field whose type is a single literal is constant and left out.
  Timestamps are instants (seconds since the epoch, UTC); the ISO strings that the timestamp
  validators parse and print are not modelled. Floats are the rationals of theory Floats, so
  the exclusion of infinities and NaN (\<open>allow_inf_nan=False\<close>) holds by typing.
\<close>

section \<open>Literals\<close>

datatype platform = Amazon | Shopee | Aliexpress | Ebay

fun platform_name :: "platform \<Rightarrow> pystr" where
  "platform_name Amazon = lit ''amazon''" | "platform_name Shopee = lit ''shopee''"
| "platform_name Aliexpress = lit ''aliexpress''" | "platform_name Ebay = lit ''ebay''"

lemma platform_name_inj [simp]: "platform_name p = platform_name q \<longleftrightarrow> p = q"
  by (cases p; cases q; simp)

text \<open>Platforms are ordered by their names, the order of \<open>sorted\<close> on the strings.\<close>

instantiation platform :: linorder
begin

definition less_eq_platform :: "platform \<Rightarrow> platform \<Rightarrow> bool" where
  "less_eq_platform p q \<longleftrightarrow> platform_name p \<le> platform_name q"

definition less_platform :: "platform \<Rightarrow> platform \<Rightarrow> bool" where
  "less_platform p q \<longleftrightarrow> platform_name p < platform_name q"

instance
proof
  fix x y z :: platform
  show "x < y \<longleftrightarrow> x \<le> y \<and> \<not> y \<le> x"
    unfolding less_eq_platform_def less_platform_def by (rule less_le_not_le)
  show "x \<le> x" by (simp add: less_eq_platform_def)
  show "x \<le> y \<Longrightarrow> y \<le> z \<Longrightarrow> x \<le> z" unfolding less_eq_platform_def by (rule order_trans)
  show "x \<le> y \<Longrightarrow> y \<le> x \<Longrightarrow> x = y" unfolding less_eq_platform_def platform_name_inj [symmetric] by (rule antisym)
  show "x \<le> y \<or> y \<le> x" unfolding less_eq_platform_def by (rule linear)
qed

end

datatype scalar = ScStr pystr | ScInt int | ScFloat rat | ScBool bool | ScNone

datatype provider_source =
    SrcLive | SrcCurated | SrcFixture | SrcComputed

datatype provider_status =
    ProviderOk | ProviderDegraded | ProviderUnavailable

datatype provider_failure =
    FailureNotConfigured | FailureRequestFailed | FailureEmptyResponse | FailureSandboxForbidden | FailureCircuitOpen

datatype recall_channel_name =
    ChannelOpensearch | ChannelQueryTower | ChannelItemTower | ChannelFaiss

datatype recall_channel_state =
    StateConfigured | StateReady | StateDegraded | StateUnavailable

datatype personalization_input =
    InputRememberedPreference | InputNone

datatype preference_field =
    PrefMaterialPreferences | PrefStylePreferences | PrefSoftPreferences | PrefAvoid

datatype personalization_signal =
    SignalUserTower | SignalNone

datatype recall_mode =
    RecallHybrid | RecallPartialHybrid | RecallDeterministicFallback

datatype identity_decision =
    IdentityMatchingOffer | IdentityAlternativeCandidate | IdentityNotRequired

datatype identity_basis =
    ByIdentifier | ByMaterialVariantAttributes | ByInsufficient | ByNotRequired

datatype provenance_kind =
    ViaMarketplaceGateway | ViaSandboxFixture

datatype conversion_rate_type =
    ConvProviderQuote | ConvCardNetworkEstimate | ConvMidMarketReference | ConvSandboxFixture

datatype markup_status =
    MarkupIncluded | MarkupExcluded | MarkupUnknown

datatype shipping_quote_type =
    QuoteCarrierQuote | QuoteMarketplaceCheckout | QuoteMarketplaceEstimate | QuoteShippingIncluded | QuoteSandboxFixture

datatype customs_fx_rate_basis =
    BasisMonthlyCustomsAssessment | BasisCustomsPrescribedAdjustment

datatype import_regime =
    RegimeGeneralTrade | RegimeCrossBorderEcommerce | RegimePersonalPostal | RegimeSellerCollected

datatype tax_rate_type =
    RateMfn | RateAgreement | RatePreferential | RateTemporary | RateOrdinary | RateCrossBorderPolicy | RatePersonalPostal | RateProviderQuote

datatype constraint_kind =
    OnBudget | OnMaterial | OnAttribute | OnSpecification

datatype constraint_operator =
    OpLte | OpGte | OpEquals | OpNotEquals | OpContains | OpNotContains

datatype relaxation_action =
    WasRemoved | WasReplaced

datatype ranking_dimension =
    DimLandedCost | DimPreferenceMatch | DimEvidenceQuality | DimDeliveryTime

datatype calculation_exclusion_reason =
    ExclUnsupportedCurrency | ExclMissingFxEvidence | ExclInvalidFxEvidence | ExclInvalidAmount

datatype memory_action =
    DoRemember | DoForget

datatype decision_status =
    PrefApplied | PrefIgnored | PrefOverridden

datatype decision_source =
    PerCurrentRequest | PerRememberedPreference

datatype research_mode =
    ModeProductResearch | ModeExactOfferComparison

datatype offer_link_kind =
    LinkProductDetail | LinkMarketplaceSearch

datatype tax_method =
    MethodStatutoryFormula | MethodCrossBorderPolicy | MethodPersonalPostalRate | MethodProviderQuote

datatype tax_exclusion_reason =
    TaxMissingCustomsEvidence | TaxMissingCustomsValuation | TaxInvalidCustomsEvidence | TaxUnsupportedTaxDestination

datatype shipping_exclusion_reason =
    ShipMissingShippingQuote | ShipInvalidShippingQuote | ShipExpiredShippingQuote

datatype duty_tier =
    TierExempt | TierStandard | TierHigh | TierPending

datatype cost_status =
    CostComplete | CostProductPriceOnly

datatype cost_gap =
    GapShippingQuote | GapCustomsEvidence | GapCustomsValuation

datatype constraint_source =
    FromProductEvidence | FromComputed

datatype constraint_status =
    ConstraintSatisfied | ConstraintViolated | ConstraintUnknown

datatype offer_kind =
    OfferMatchingOffer | OfferResearchCandidate

datatype match_status =
    MatchMatched | MatchNoMatch

datatype report_format =
    FormatMarkdown | FormatJson | FormatPdf

datatype result_kind =
    KindLive | KindSandbox | KindPartial

datatype lineage_relation =
    ByRerun | ByConstraintRelaxation

datatype clarification_field =
    ClarifyMode | ClarifyProductVariant | ClarifyDestination

datatype clarification_reason =
    BecauseModeAmbiguous | BecauseProductVariantAmbiguous | BecauseDestinationAmbiguous

section \<open>Patterns\<close>

definition opt_all :: "('a \<Rightarrow> bool) \<Rightarrow> 'a option \<Rightarrow> bool" where
  "opt_all P x \<longleftrightarrow> (case x of None \<Rightarrow> True | Some y \<Rightarrow> P y)"

lemma opt_all_simps [simp]: "opt_all P None" "opt_all P (Some x) \<longleftrightarrow> P x"
  by (simp_all add: opt_all_def)

definition upper :: "int \<Rightarrow> bool" where "upper c \<longleftrightarrow> 65 \<le> c \<and> c \<le> 90"
definition lower :: "int \<Rightarrow> bool" where "lower c \<longleftrightarrow> 97 \<le> c \<and> c \<le> 122"
definition letter_or_digit :: "int \<Rightarrow> bool" where "letter_or_digit c \<longleftrightarrow> upper c \<or> lower c \<or> digit c"

definition currency_code :: "pystr \<Rightarrow> bool" where "currency_code = fullmatch (Many upper 3 (Some 3))"
definition hs_code_shape :: "pystr \<Rightarrow> bool" where "hs_code_shape = fullmatch (Many digit 6 (Some 10))"
definition code_token :: "pystr \<Rightarrow> bool" where
  "code_token = fullmatch (Many (\<lambda>c. lower c \<or> digit c \<or> c \<in> {95, 58, 45}) 1 None)"
definition thread_token :: "pystr \<Rightarrow> bool" where
  "thread_token = fullmatch (Many (\<lambda>c. letter_or_digit c \<or> c \<in> {95, 45}) 1 (Some 80))"
definition user_token :: "pystr \<Rightarrow> bool" where
  "user_token = fullmatch (Many (\<lambda>c. letter_or_digit c \<or> c \<in> {95, 45}) 1 None)"
definition tenant_token :: "pystr \<Rightarrow> bool" where
  "tenant_token = fullmatch (Many (\<lambda>c. letter_or_digit c \<or> c \<in> {95, 46, 58, 64, 45}) 1 None)"
definition run_token :: "pystr \<Rightarrow> bool" where
  "run_token = fullmatch (Alt (str (lit ''legacy'')) (Many (\<lambda>c. digit c \<or> 97 \<le> c \<and> c \<le> 102) 32 (Some 32)))"
definition file_id_token :: "pystr \<Rightarrow> bool" where
  "file_id_token = fullmatch (Many (\<lambda>c. letter_or_digit c \<or> c \<in> {95, 46, 58, 45}) 1 (Some 180))"
definition file_name_token :: "pystr \<Rightarrow> bool" where
  "file_name_token = fullmatch (Cat (Cls letter_or_digit) (Many (\<lambda>c. letter_or_digit c \<or> c \<in> {46, 95, 45}) 0 (Some 127)))"
definition iso_date_shape :: "pystr \<Rightarrow> bool" where
  "iso_date_shape = fullmatch (seq [Many digit 4 (Some 4), Cls ((=) 45), Many digit 2 (Some 2), Cls ((=) 45), Many digit 2 (Some 2)])"
definition iso_month_shape :: "pystr \<Rightarrow> bool" where
  "iso_month_shape = fullmatch (seq [Many digit 4 (Some 4), Cls ((=) 45), Many digit 2 (Some 2)])"

text \<open>
  \<open>str.upper()\<close> on ASCII letters and on the other characters whose upper case is ASCII; the
  rest upper to non-ASCII characters and are kept, which no ASCII pattern can tell apart.
\<close>

definition upper_chars :: "int \<Rightarrow> pystr" where
  "upper_chars c =
     (if 97 \<le> c \<and> c \<le> 122 then [c - 32]
      else case map_of [(223, lit ''SS''), (305, lit ''I''), (383, lit ''S''), (64256, lit ''FF''), (64257, lit ''FI''),
                        (64258, lit ''FL''), (64259, lit ''FFI''), (64260, lit ''FFL''), (64261, lit ''ST''), (64262, lit ''ST'')] c
           of Some s \<Rightarrow> s | None \<Rightarrow> [c])"

definition py_upper :: "pystr \<Rightarrow> pystr" where
  "py_upper s = concat (map upper_chars s)"

definition normalize_currency :: "pystr \<Rightarrow> pystr" where
  "normalize_currency value = py_upper (py_strip value)"

definition normalize_country :: "pystr \<Rightarrow> pystr" where
  "normalize_country value = (let normalized = py_strip value in if length normalized = 2 then py_upper normalized else normalized)"

text \<open>Calendar dates \<open>YYYY-MM-DD\<close>.\<close>

definition leap_year :: "int \<Rightarrow> bool" where
  "leap_year y \<longleftrightarrow> y mod 4 = 0 \<and> (y mod 100 \<noteq> 0 \<or> y mod 400 = 0)"

definition days_in_month :: "int \<Rightarrow> int \<Rightarrow> int" where
  "days_in_month y m = (if m = 2 then (if leap_year y then 29 else 28) else if m \<in> {4, 6, 9, 11} then 30 else 31)"

definition date_parts :: "pystr \<Rightarrow> (int \<times> int \<times> int) option" where
  \<comment> \<open>\<open>date.fromisoformat\<close> on a string of the shape \<open>YYYY-MM-DD\<close>; \<open>None\<close>: ValueError\<close>
  "date_parts s =
     (let y = digits_value (take 4 s); m = digits_value (take 2 (drop 5 s)); d = digits_value (take 2 (drop 8 s))
      in if iso_date_shape s \<and> 1 \<le> y \<and> 1 \<le> m \<and> m \<le> 12 \<and> 1 \<le> d \<and> d \<le> days_in_month y m then Some (y, m, d) else None)"

section \<open>Records\<close>

record provider_metadata =
  pm_source :: provider_source
  pm_provider :: pystr
  pm_status :: provider_status
  pm_fallback_reason :: "pystr option"
  pm_failure_reason :: "provider_failure option"

record recall_channel_report =
  rch_channel :: recall_channel_name
  rch_configured :: bool
  rch_state :: recall_channel_state
  rch_reason_code :: pystr
  rch_reason :: pystr
  rch_participated :: bool

record personalization_report =
  pz_configured :: bool
  pz_state :: recall_channel_state
  pz_input_source :: personalization_input
  pz_preference_fields :: "preference_field list"
  pz_preference_values :: "pystr list"
  pz_signal :: personalization_signal
  pz_dimension :: "int option"
  pz_matched_candidate_count :: int
  pz_reason_code :: pystr
  pz_reason :: pystr
  pz_participated :: bool

record recall_provenance =
  rp_mode :: recall_mode
  rp_channels :: "(recall_channel_name \<times> recall_channel_report) list"
  rp_participating_channels :: "recall_channel_name list"
  rp_fallback_reason :: "pystr option"
  rp_input_candidate_count :: int
  rp_selected_candidate_count :: int
  rp_personalization :: "personalization_report option"

record product_identity =
  pid_gtin :: "pystr option"
  pid_mpn :: "pystr option"
  pid_brand :: "pystr option"
  pid_model :: "pystr option"

record identity_evidence =
  ie_decision :: identity_decision
  ie_basis :: identity_basis
  ie_matched_fields :: "pystr list"
  ie_missing_fields :: "pystr list"
  ie_conflicting_fields :: "pystr list"
  ie_explanation :: pystr

record offer_provenance =
  op_kind :: provenance_kind
  op_provider :: "pystr option"
  op_upstream_source :: "pystr option"

record currency_conversion_evidence =
  cc_source_currency :: pystr
  cc_rate_to_cny :: rat
  cc_rate_type :: conversion_rate_type
  cc_markup_status :: markup_status
  cc_markup_bps :: "rat option"
  cc_provider :: pystr
  cc_source_reference :: pystr
  cc_observed_at :: rat
  cc_expires_at :: "rat option"

record shipping_quote_evidence =
  sq_quote_type :: shipping_quote_type
  sq_currency :: pystr
  sq_total_amount :: rat
  sq_base_amount :: "rat option"
  sq_surcharge_amount :: rat
  sq_discount_amount :: rat
  sq_actual_weight_kg :: "rat option"
  sq_dimensional_weight_kg :: "rat option"
  sq_chargeable_weight_kg :: "rat option"
  sq_length_cm :: "rat option"
  sq_width_cm :: "rat option"
  sq_height_cm :: "rat option"
  sq_dimensional_divisor :: "rat option"
  sq_origin_country :: pystr
  sq_destination_country :: pystr
  sq_service_name :: pystr
  sq_eta_min_days :: int
  sq_eta_max_days :: int
  sq_provider :: pystr
  sq_source_reference :: pystr
  sq_observed_at :: rat
  sq_expires_at :: "rat option"
  sq_currency_conversion :: "currency_conversion_evidence option"

record customs_exchange_rate_evidence =
  cx_source_currency :: pystr
  cx_rate_to_cny :: rat
  cx_rate_basis :: customs_fx_rate_basis
  cx_declaration_date :: pystr
  cx_assessment_month :: pystr
  cx_provider :: pystr
  cx_source_reference :: pystr

record customs_valuation_evidence =
  cv_goods_value_original :: rat
  cv_goods_currency :: pystr
  cv_goods_value_cny :: rat
  cv_international_shipping_cny :: rat
  cv_insurance_cny :: rat
  cv_customs_value_cny :: rat
  cv_customs_conversion :: "customs_exchange_rate_evidence option"
  cv_provider :: pystr
  cv_source_reference :: pystr

record customs_tax_evidence =
  ct_hs_code :: pystr
  ct_country_of_origin :: pystr
  ct_destination_country :: pystr
  ct_ship_from_country :: "pystr option"
  ct_import_regime :: import_regime
  ct_rate_type :: tax_rate_type
  ct_tariff_rate :: "rat option"
  ct_import_vat_rate :: "rat option"
  ct_consumption_tax_rate :: rat
  ct_personal_postal_tax_rate :: "rat option"
  ct_personal_postal_assessed_value_cny :: "rat option"
  ct_personal_postal_total_value_cny :: "rat option"
  ct_personal_postal_value_limit_cny :: "rat option"
  ct_personal_postal_tax_exemption_threshold_cny :: "rat option"
  ct_personal_postal_single_indivisible_item :: "bool option"
  ct_personal_postal_eligible :: "bool option"
  ct_seller_collected_tax_cny :: "rat option"
  ct_insurance_cny :: rat
  ct_valuation :: "customs_valuation_evidence option"
  ct_cross_border_ecommerce_eligible :: "bool option"
  ct_provider :: pystr
  ct_source_reference :: pystr
  ct_effective_date :: pystr

record hard_constraint =
  hc_id :: pystr
  hc_kind :: constraint_kind
  hc_field :: pystr
  hc_operator :: constraint_operator
  hc_value :: scalar
  hc_unit :: "pystr option"
  hc_label :: pystr

record constraint_relaxation_change =
  crc_constraint_id :: pystr
  crc_replacement :: "hard_constraint option"
  crc_reason :: pystr

record constraint_relaxation =
  cr_constraint_id :: pystr
  cr_previous :: hard_constraint
  cr_replacement :: "hard_constraint option"
  cr_action :: relaxation_action
  cr_reason :: pystr

record ranking_profile =
  rk_priority_order :: "ranking_dimension list"
  rk_explicit :: bool

record ranking_score_breakdown =
  sb_priority_order :: "ranking_dimension list"
  sb_landed_cost_cny :: rat
  sb_landed_cost_score :: rat
  sb_preference_match_score :: rat
  sb_evidence_quality_score :: rat
  sb_delivery_time_days :: int
  sb_delivery_time_score :: rat
  sb_semantic_relevance_score :: rat

record exchange_rate_provenance =
  xr_source :: pystr
  xr_effective_date :: pystr
  xr_calculation_basis :: pystr
  xr_providers :: "pystr list"
  xr_quote_count :: int
  xr_settlement_notice :: pystr

record calculation_exclusion =
  ce_item_id :: pystr
  ce_platform :: platform
  ce_title :: pystr
  ce_currency :: pystr
  ce_amount :: "rat option"
  ce_reason_code :: calculation_exclusion_reason
  ce_reason :: pystr

record estimate_disclosure =
  ed_estimated :: bool
  ed_source :: pystr
  ed_calculation_basis :: pystr

record working_assumption =
  wa_code :: pystr
  wa_field :: pystr
  wa_value :: pystr
  wa_reason :: pystr

record remembered_preference =
  rpref_material_preferences :: "pystr list"
  rpref_style_preferences :: "pystr list"
  rpref_soft_preferences :: "pystr list"
  rpref_avoid :: "pystr list"

record memory_command =
  mc_action :: memory_action
  mc_field :: preference_field
  mc_values :: "pystr list"

record preference_decision =
  pd_field :: preference_field
  pd_value :: pystr
  pd_status :: decision_status
  pd_source :: decision_source
  pd_reason :: pystr

record task_override =
  to_field :: preference_field
  to_value :: pystr
  to_overridden_values :: "pystr list"
  to_reason :: pystr

record shopping_plan =
  sp_mode :: research_mode
  sp_budget_cny :: "rat option"
  sp_category :: pystr
  sp_material_preferences :: "pystr list"
  sp_style_preferences :: "pystr list"
  sp_hard_constraints :: "hard_constraint list"
  sp_soft_preferences :: "pystr list"
  sp_destination :: pystr
  sp_ranking_profile :: ranking_profile
  sp_working_assumptions :: "working_assumption list"
  sp_source :: provider_source

record candidate =
  ca_item_id :: pystr
  ca_platform :: platform
  ca_title :: pystr
  ca_price :: rat
  ca_currency :: pystr
  ca_rating :: "rat option"
  ca_sales :: "int option"
  ca_image_url :: "pystr option"
  ca_product_url :: "pystr option"
  ca_attributes :: "(pystr \<times> json) list"
  ca_source :: provider_source
  ca_marketplace :: "platform option"
  ca_offer_id :: "pystr option"
  ca_identity :: product_identity
  ca_variant_attributes :: "(pystr \<times> scalar) list"
  ca_availability :: "pystr option"
  ca_retrieved_at :: "pystr option"
  ca_provenance :: "offer_provenance option"
  ca_link_kind :: "offer_link_kind option"
  ca_identity_evidence :: "identity_evidence option"
  ca_price_conversion :: "currency_conversion_evidence option"
  ca_shipping_quote :: "shipping_quote_evidence option"
  ca_customs :: "customs_tax_evidence option"

record item_search_output =
  iso_platform :: platform
  iso_candidates :: "candidate list"
  iso_total_recall :: int
  iso_truncated :: bool
  iso_provider :: provider_metadata
  iso_ann_used :: bool

record recall_result =
  rr_candidates :: "candidate list"
  rr_total_recall :: int
  rr_truncated :: bool
  rr_provenance :: recall_provenance
  rr_provider :: provider_metadata

record price_point =
  pp_item_id :: pystr
  pp_platform :: platform
  pp_title :: pystr
  pp_price :: rat
  pp_currency :: pystr
  pp_price_cny :: rat
  pp_rating :: "rat option"
  pp_sales :: "int option"
  pp_image_url :: "pystr option"
  pp_product_url :: "pystr option"
  pp_attributes :: "(pystr \<times> json) list"
  pp_source :: provider_source
  pp_note :: "pystr option"
  pp_marketplace :: "platform option"
  pp_offer_id :: "pystr option"
  pp_identity :: product_identity
  pp_variant_attributes :: "(pystr \<times> scalar) list"
  pp_availability :: "pystr option"
  pp_retrieved_at :: "pystr option"
  pp_provenance :: "offer_provenance option"
  pp_link_kind :: "offer_link_kind option"
  pp_identity_evidence :: "identity_evidence option"
  pp_price_conversion :: "currency_conversion_evidence option"
  pp_shipping_quote :: "shipping_quote_evidence option"
  pp_customs :: "customs_tax_evidence option"

record price_compare_output =
  pco_ranked :: "price_point list"
  pco_cheapest_per_platform :: "(pystr \<times> price_point) list"
  pco_rate_source :: pystr
  pco_rates_as_of :: pystr
  pco_exchange_rate :: exchange_rate_provenance
  pco_excluded_currencies :: "pystr list"
  pco_calculation_exclusions :: "calculation_exclusion list"

record import_tax_breakdown =
  tb_import_regime :: import_regime
  tb_calculation_method :: tax_method
  tb_hs_code :: pystr
  tb_country_of_origin :: pystr
  tb_destination_country :: pystr
  tb_customs_value_cny :: rat
  tb_customs_valuation :: "customs_valuation_evidence option"
  tb_rate_type :: tax_rate_type
  tb_tariff_rate :: "rat option"
  tb_import_vat_rate :: "rat option"
  tb_consumption_tax_rate :: "rat option"
  tb_personal_postal_tax_rate :: "rat option"
  tb_personal_postal_assessed_value_cny :: "rat option"
  tb_personal_postal_total_value_cny :: "rat option"
  tb_personal_postal_value_limit_cny :: "rat option"
  tb_personal_postal_tax_exemption_threshold_cny :: "rat option"
  tb_personal_postal_single_indivisible_item :: "bool option"
  tb_policy_factor :: rat
  tb_tariff_cny :: "rat option"
  tb_import_vat_cny :: "rat option"
  tb_consumption_tax_cny :: "rat option"
  tb_tax_before_exemption_cny :: "rat option"
  tb_tax_exemption_cny :: rat
  tb_tax_exemption_reason :: "pystr option"
  tb_total_import_tax_cny :: rat
  tb_provider :: pystr
  tb_source_reference :: pystr
  tb_effective_date :: pystr
  tb_calculation_basis :: pystr

record tax_calculation_exclusion =
  tx_item_id :: pystr
  tx_platform :: platform
  tx_title :: pystr
  tx_reason_code :: tax_exclusion_reason
  tx_reason :: pystr

record shipping_calculation_exclusion =
  sx_item_id :: pystr
  sx_platform :: platform
  sx_title :: pystr
  sx_reason_code :: shipping_exclusion_reason
  sx_reason :: pystr

record landed_cost = price_point +
  lc_shipping_cny :: rat
  lc_insurance_cny :: rat
  lc_duty_cny :: "rat option"
  lc_import_vat_cny :: "rat option"
  lc_consumption_tax_cny :: "rat option"
  lc_import_tax_cny :: "rat option"
  lc_landed_cny :: rat
  lc_eta_days :: int
  lc_duty_tier :: duty_tier
  lc_shipping_estimate :: estimate_disclosure
  lc_duty_estimate :: estimate_disclosure
  lc_tax_estimate :: estimate_disclosure
  lc_delivery_estimate :: estimate_disclosure
  lc_tax_breakdown :: "import_tax_breakdown option"
  lc_cost_status :: cost_status
  lc_cost_evidence_gaps :: "cost_gap list"

record constraint_evidence =
  cev_field_path :: pystr
  cev_value :: scalar
  cev_source :: constraint_source

record constraint_evaluation =
  cel_constraint :: hard_constraint
  cel_status :: constraint_status
  cel_reason_code :: pystr
  cel_explanation :: pystr
  cel_evidence :: "constraint_evidence list"

record constraint_exclusion =
  cex_item_id :: pystr
  cex_platform :: platform
  cex_title :: pystr
  cex_violated_count :: int
  cex_violated_constraints :: "constraint_evaluation list"

record constraint_relaxation_suggestion =
  crs_constraint :: hard_constraint
  crs_suggestion :: pystr
  crs_requires_confirmation :: bool

record unverified_candidate = landed_cost +
  uc_reason :: pystr
  uc_constraint_evaluations :: "constraint_evaluation list"

record alternative_candidate = landed_cost +
  ac_reason :: pystr

record shipping_calc_output =
  sco_destination :: pystr
  sco_items :: "landed_cost list"
  sco_calculation_basis :: pystr
  sco_estimated :: bool
  sco_shipping_exclusions :: "shipping_calculation_exclusion list"
  sco_tax_exclusions :: "tax_calculation_exclusion list"

record recommendation = landed_cost +
  rec_reason :: pystr
  rec_rank :: int
  rec_constraint_evaluations :: "constraint_evaluation list"
  rec_score_breakdown :: ranking_score_breakdown
  rec_offer_kind :: offer_kind

record item_picker_output =
  ipo_mode :: research_mode
  ipo_recommendations :: "recommendation list"
  ipo_matching_offers :: "landed_cost list"
  ipo_alternative_candidates :: "alternative_candidate list"
  ipo_unverified_candidates :: "unverified_candidate list"
  ipo_exclusions :: "constraint_exclusion list"
  ipo_working_assumptions :: "working_assumption list"
  ipo_relaxation_suggestions :: "constraint_relaxation_suggestion list"
  ipo_match_status :: match_status
  ipo_rejected_count :: int
  ipo_ranking_profile :: ranking_profile
  ipo_preference_decisions :: "preference_decision list"
  ipo_provider :: provider_metadata

record file_link =
  fk_file_id :: "pystr option"
  fk_format :: "report_format option"
  fk_name :: pystr
  fk_url :: pystr
  fk_content_type :: "pystr option"

record shopping_summary_output =
  so_thread_id :: pystr
  so_final_answer :: pystr
  so_resolved_query :: "pystr option"
  so_resolved_intent :: "shopping_plan option"
  so_applied_preferences :: remembered_preference
  so_task_overrides :: "task_override list"
  so_constraint_relaxations :: "constraint_relaxation list"
  so_product_evidence :: "candidate list"
  so_mode :: research_mode
  so_recommendations :: "recommendation list"
  so_comparison :: "landed_cost list"
  so_matching_offers :: "landed_cost list"
  so_alternative_candidates :: "alternative_candidate list"
  so_files :: "file_link list"
  so_provider_mode :: data_mode
  so_providers :: "(pystr \<times> provider_metadata) list"
  so_calculation_notice :: pystr
  so_exchange_rate :: exchange_rate_provenance
  so_calculation_exclusions :: "calculation_exclusion list"
  so_shipping_exclusions :: "shipping_calculation_exclusion list"
  so_tax_exclusions :: "tax_calculation_exclusion list"
  so_ranking_profile :: ranking_profile
  so_data_mode :: data_mode
  so_result_kind :: result_kind
  so_unavailable_marketplaces :: "pystr list"
  so_unverified_candidates :: "unverified_candidate list"
  so_exclusions :: "constraint_exclusion list"
  so_working_assumptions :: "working_assumption list"
  so_relaxation_suggestions :: "constraint_relaxation_suggestion list"
  so_match_status :: match_status
  so_preference_decisions :: "preference_decision list"
  so_recall_provenance :: "recall_provenance option"

record snapshot_lineage =
  ln_relation :: lineage_relation
  ln_parent_snapshot_id :: pystr
  ln_parent_thread_id :: pystr
  ln_parent_run_id :: pystr
  ln_root_snapshot_id :: pystr
  ln_depth :: int
  ln_command_idempotency_key :: pystr
  ln_changed_constraints :: "constraint_relaxation list"

record clarification_prompt =
  cp_field :: clarification_field
  cp_reason_code :: clarification_reason
  cp_question :: pystr

record task_tombstone =
  ts_thread_id :: pystr
  ts_user_id :: "pystr option"
  ts_tenant_id :: pystr
  ts_generation :: int
  ts_deleted_at :: pystr

section \<open>Field constraints\<close>

definition fields_recall_channel_report :: "recall_channel_report \<Rightarrow> bool" where
  "fields_recall_channel_report r \<longleftrightarrow>
     1 \<le> length (rch_reason_code r)
     \<and> code_token (rch_reason_code r)
     \<and> 1 \<le> length (rch_reason r)
     \<and> length (rch_reason r) \<le> 4000"

definition fields_personalization_report :: "personalization_report \<Rightarrow> bool" where
  "fields_personalization_report r \<longleftrightarrow>
     opt_all (\<lambda>x. 1 \<le> x) (pz_dimension r)
     \<and> 0 \<le> pz_matched_candidate_count r
     \<and> 1 \<le> length (pz_reason_code r)
     \<and> code_token (pz_reason_code r)
     \<and> 1 \<le> length (pz_reason r)
     \<and> length (pz_reason r) \<le> 4000"

definition fields_recall_provenance :: "recall_provenance \<Rightarrow> bool" where
  "fields_recall_provenance r \<longleftrightarrow>
     0 \<le> rp_input_candidate_count r
     \<and> 0 \<le> rp_selected_candidate_count r"

definition fields_currency_conversion_evidence :: "currency_conversion_evidence \<Rightarrow> bool" where
  "fields_currency_conversion_evidence r \<longleftrightarrow>
     currency_code (cc_source_currency r)
     \<and> 0 < cc_rate_to_cny r
     \<and> opt_all (\<lambda>x. 0 \<le> x) (cc_markup_bps r)
     \<and> opt_all (\<lambda>x. x \<le> 10000) (cc_markup_bps r)
     \<and> 1 \<le> length (cc_provider r)
     \<and> length (cc_provider r) \<le> 200
     \<and> 1 \<le> length (cc_source_reference r)
     \<and> length (cc_source_reference r) \<le> 500"

definition fields_shipping_quote_evidence :: "shipping_quote_evidence \<Rightarrow> bool" where
  "fields_shipping_quote_evidence r \<longleftrightarrow>
     currency_code (sq_currency r)
     \<and> 0 \<le> sq_total_amount r
     \<and> opt_all (\<lambda>x. 0 \<le> x) (sq_base_amount r)
     \<and> 0 \<le> sq_surcharge_amount r
     \<and> 0 \<le> sq_discount_amount r
     \<and> opt_all (\<lambda>x. 0 < x) (sq_actual_weight_kg r)
     \<and> opt_all (\<lambda>x. 0 < x) (sq_dimensional_weight_kg r)
     \<and> opt_all (\<lambda>x. 0 < x) (sq_chargeable_weight_kg r)
     \<and> opt_all (\<lambda>x. 0 < x) (sq_length_cm r)
     \<and> opt_all (\<lambda>x. 0 < x) (sq_width_cm r)
     \<and> opt_all (\<lambda>x. 0 < x) (sq_height_cm r)
     \<and> opt_all (\<lambda>x. 0 < x) (sq_dimensional_divisor r)
     \<and> 2 \<le> length (sq_origin_country r)
     \<and> length (sq_origin_country r) \<le> 80
     \<and> 2 \<le> length (sq_destination_country r)
     \<and> length (sq_destination_country r) \<le> 80
     \<and> 1 \<le> length (sq_service_name r)
     \<and> length (sq_service_name r) \<le> 200
     \<and> 0 \<le> sq_eta_min_days r
     \<and> 0 \<le> sq_eta_max_days r
     \<and> 1 \<le> length (sq_provider r)
     \<and> length (sq_provider r) \<le> 200
     \<and> 1 \<le> length (sq_source_reference r)
     \<and> length (sq_source_reference r) \<le> 500"

definition fields_customs_exchange_rate_evidence :: "customs_exchange_rate_evidence \<Rightarrow> bool" where
  "fields_customs_exchange_rate_evidence r \<longleftrightarrow>
     currency_code (cx_source_currency r)
     \<and> 0 < cx_rate_to_cny r
     \<and> iso_date_shape (cx_declaration_date r)
     \<and> iso_month_shape (cx_assessment_month r)
     \<and> 1 \<le> length (cx_provider r)
     \<and> length (cx_provider r) \<le> 200
     \<and> 1 \<le> length (cx_source_reference r)
     \<and> length (cx_source_reference r) \<le> 500"

definition fields_customs_valuation_evidence :: "customs_valuation_evidence \<Rightarrow> bool" where
  "fields_customs_valuation_evidence r \<longleftrightarrow>
     0 \<le> cv_goods_value_original r
     \<and> currency_code (cv_goods_currency r)
     \<and> 0 \<le> cv_goods_value_cny r
     \<and> 0 \<le> cv_international_shipping_cny r
     \<and> 0 \<le> cv_insurance_cny r
     \<and> 0 \<le> cv_customs_value_cny r
     \<and> 1 \<le> length (cv_provider r)
     \<and> length (cv_provider r) \<le> 200
     \<and> 1 \<le> length (cv_source_reference r)
     \<and> length (cv_source_reference r) \<le> 500"

definition fields_customs_tax_evidence :: "customs_tax_evidence \<Rightarrow> bool" where
  "fields_customs_tax_evidence r \<longleftrightarrow>
     hs_code_shape (ct_hs_code r)
     \<and> 2 \<le> length (ct_country_of_origin r)
     \<and> length (ct_country_of_origin r) \<le> 80
     \<and> 2 \<le> length (ct_destination_country r)
     \<and> length (ct_destination_country r) \<le> 80
     \<and> opt_all (\<lambda>x. 2 \<le> length (x)) (ct_ship_from_country r)
     \<and> opt_all (\<lambda>x. length (x) \<le> 80) (ct_ship_from_country r)
     \<and> opt_all (\<lambda>x. 0 \<le> x) (ct_tariff_rate r)
     \<and> opt_all (\<lambda>x. x \<le> 5) (ct_tariff_rate r)
     \<and> opt_all (\<lambda>x. 0 \<le> x) (ct_import_vat_rate r)
     \<and> opt_all (\<lambda>x. x \<le> 1) (ct_import_vat_rate r)
     \<and> 0 \<le> ct_consumption_tax_rate r
     \<and> ct_consumption_tax_rate r < 1
     \<and> opt_all (\<lambda>x. 0 \<le> x) (ct_personal_postal_tax_rate r)
     \<and> opt_all (\<lambda>x. x \<le> 5) (ct_personal_postal_tax_rate r)
     \<and> opt_all (\<lambda>x. 0 \<le> x) (ct_personal_postal_assessed_value_cny r)
     \<and> opt_all (\<lambda>x. 0 \<le> x) (ct_personal_postal_total_value_cny r)
     \<and> opt_all (\<lambda>x. 0 < x) (ct_personal_postal_value_limit_cny r)
     \<and> opt_all (\<lambda>x. 0 \<le> x) (ct_personal_postal_tax_exemption_threshold_cny r)
     \<and> opt_all (\<lambda>x. 0 \<le> x) (ct_seller_collected_tax_cny r)
     \<and> 0 \<le> ct_insurance_cny r
     \<and> 1 \<le> length (ct_provider r)
     \<and> length (ct_provider r) \<le> 200
     \<and> 1 \<le> length (ct_source_reference r)
     \<and> length (ct_source_reference r) \<le> 500
     \<and> iso_date_shape (ct_effective_date r)"

definition fields_hard_constraint :: "hard_constraint \<Rightarrow> bool" where
  "fields_hard_constraint r \<longleftrightarrow>
     1 \<le> length (hc_id r)
     \<and> code_token (hc_id r)
     \<and> 1 \<le> length (hc_field r)
     \<and> 1 \<le> length (hc_label r)"

definition fields_constraint_relaxation_change :: "constraint_relaxation_change \<Rightarrow> bool" where
  "fields_constraint_relaxation_change r \<longleftrightarrow>
     1 \<le> length (crc_constraint_id r)
     \<and> code_token (crc_constraint_id r)
     \<and> 1 \<le> length (crc_reason r)
     \<and> length (crc_reason r) \<le> 4000"

definition fields_constraint_relaxation :: "constraint_relaxation \<Rightarrow> bool" where
  "fields_constraint_relaxation r \<longleftrightarrow>
     1 \<le> length (cr_constraint_id r)
     \<and> code_token (cr_constraint_id r)
     \<and> 1 \<le> length (cr_reason r)
     \<and> length (cr_reason r) \<le> 4000"

definition fields_ranking_profile :: "ranking_profile \<Rightarrow> bool" where
  "fields_ranking_profile r \<longleftrightarrow>
     4 \<le> length (rk_priority_order r)
     \<and> length (rk_priority_order r) \<le> 4"

definition fields_ranking_score_breakdown :: "ranking_score_breakdown \<Rightarrow> bool" where
  "fields_ranking_score_breakdown r \<longleftrightarrow>
     4 \<le> length (sb_priority_order r)
     \<and> length (sb_priority_order r) \<le> 4
     \<and> 0 \<le> sb_landed_cost_cny r
     \<and> 0 \<le> sb_landed_cost_score r
     \<and> sb_landed_cost_score r \<le> 1
     \<and> 0 \<le> sb_preference_match_score r
     \<and> sb_preference_match_score r \<le> 1
     \<and> 0 \<le> sb_evidence_quality_score r
     \<and> sb_evidence_quality_score r \<le> 1
     \<and> 0 \<le> sb_delivery_time_days r
     \<and> 0 \<le> sb_delivery_time_score r
     \<and> sb_delivery_time_score r \<le> 1
     \<and> 0 \<le> sb_semantic_relevance_score r
     \<and> sb_semantic_relevance_score r \<le> 1"

definition fields_exchange_rate_provenance :: "exchange_rate_provenance \<Rightarrow> bool" where
  "fields_exchange_rate_provenance r \<longleftrightarrow>
     1 \<le> length (xr_source r)
     \<and> 1 \<le> length (xr_effective_date r)
     \<and> 1 \<le> length (xr_calculation_basis r)
     \<and> 0 \<le> xr_quote_count r
     \<and> 1 \<le> length (xr_settlement_notice r)"

definition fields_calculation_exclusion :: "calculation_exclusion \<Rightarrow> bool" where
  "fields_calculation_exclusion r \<longleftrightarrow>
     1 \<le> length (ce_item_id r)
     \<and> 1 \<le> length (ce_title r)
     \<and> 1 \<le> length (ce_currency r)
     \<and> 1 \<le> length (ce_reason r)"

definition fields_estimate_disclosure :: "estimate_disclosure \<Rightarrow> bool" where
  "fields_estimate_disclosure r \<longleftrightarrow>
     1 \<le> length (ed_source r)
     \<and> 1 \<le> length (ed_calculation_basis r)"

definition fields_working_assumption :: "working_assumption \<Rightarrow> bool" where
  "fields_working_assumption r \<longleftrightarrow>
     1 \<le> length (wa_code r)
     \<and> code_token (wa_code r)
     \<and> 1 \<le> length (wa_field r)
     \<and> 1 \<le> length (wa_value r)
     \<and> 1 \<le> length (wa_reason r)"

definition fields_memory_command :: "memory_command \<Rightarrow> bool" where
  "fields_memory_command r \<longleftrightarrow>
     1 \<le> length (mc_values r)
     \<and> length (mc_values r) \<le> 20"

definition fields_preference_decision :: "preference_decision \<Rightarrow> bool" where
  "fields_preference_decision r \<longleftrightarrow>
     1 \<le> length (pd_value r)
     \<and> 1 \<le> length (pd_reason r)"

definition fields_task_override :: "task_override \<Rightarrow> bool" where
  "fields_task_override r \<longleftrightarrow>
     1 \<le> length (to_value r)
     \<and> 1 \<le> length (to_reason r)"

definition fields_candidate :: "candidate \<Rightarrow> bool" where
  "fields_candidate r \<longleftrightarrow>
     0 \<le> ca_price r"

definition fields_recall_result :: "recall_result \<Rightarrow> bool" where
  "fields_recall_result r \<longleftrightarrow>
     0 \<le> rr_total_recall r"

definition fields_import_tax_breakdown :: "import_tax_breakdown \<Rightarrow> bool" where
  "fields_import_tax_breakdown r \<longleftrightarrow>
     0 \<le> tb_customs_value_cny r
     \<and> opt_all (\<lambda>x. 0 \<le> x) (tb_tariff_rate r)
     \<and> opt_all (\<lambda>x. x \<le> 5) (tb_tariff_rate r)
     \<and> opt_all (\<lambda>x. 0 \<le> x) (tb_import_vat_rate r)
     \<and> opt_all (\<lambda>x. x \<le> 1) (tb_import_vat_rate r)
     \<and> opt_all (\<lambda>x. 0 \<le> x) (tb_consumption_tax_rate r)
     \<and> opt_all (\<lambda>x. x < 1) (tb_consumption_tax_rate r)
     \<and> opt_all (\<lambda>x. 0 \<le> x) (tb_personal_postal_tax_rate r)
     \<and> opt_all (\<lambda>x. x \<le> 5) (tb_personal_postal_tax_rate r)
     \<and> opt_all (\<lambda>x. 0 \<le> x) (tb_personal_postal_assessed_value_cny r)
     \<and> opt_all (\<lambda>x. 0 \<le> x) (tb_personal_postal_total_value_cny r)
     \<and> opt_all (\<lambda>x. 0 < x) (tb_personal_postal_value_limit_cny r)
     \<and> opt_all (\<lambda>x. 0 \<le> x) (tb_personal_postal_tax_exemption_threshold_cny r)
     \<and> 0 \<le> tb_policy_factor r
     \<and> tb_policy_factor r \<le> 1
     \<and> opt_all (\<lambda>x. 0 \<le> x) (tb_tariff_cny r)
     \<and> opt_all (\<lambda>x. 0 \<le> x) (tb_import_vat_cny r)
     \<and> opt_all (\<lambda>x. 0 \<le> x) (tb_consumption_tax_cny r)
     \<and> opt_all (\<lambda>x. 0 \<le> x) (tb_tax_before_exemption_cny r)
     \<and> 0 \<le> tb_tax_exemption_cny r
     \<and> 0 \<le> tb_total_import_tax_cny r"

definition fields_constraint_evidence :: "constraint_evidence \<Rightarrow> bool" where
  "fields_constraint_evidence r \<longleftrightarrow>
     1 \<le> length (cev_field_path r)"

definition fields_constraint_evaluation :: "constraint_evaluation \<Rightarrow> bool" where
  "fields_constraint_evaluation r \<longleftrightarrow>
     1 \<le> length (cel_reason_code r)
     \<and> code_token (cel_reason_code r)
     \<and> 1 \<le> length (cel_explanation r)"

definition fields_constraint_exclusion :: "constraint_exclusion \<Rightarrow> bool" where
  "fields_constraint_exclusion r \<longleftrightarrow>
     1 \<le> cex_violated_count r
     \<and> 1 \<le> length (cex_violated_constraints r)"

definition fields_constraint_relaxation_suggestion :: "constraint_relaxation_suggestion \<Rightarrow> bool" where
  "fields_constraint_relaxation_suggestion r \<longleftrightarrow>
     1 \<le> length (crs_suggestion r)"

definition fields_unverified_candidate :: "unverified_candidate \<Rightarrow> bool" where
  "fields_unverified_candidate r \<longleftrightarrow>
     1 \<le> length (uc_reason r)
     \<and> 1 \<le> length (uc_constraint_evaluations r)"

definition fields_alternative_candidate :: "alternative_candidate \<Rightarrow> bool" where
  "fields_alternative_candidate r \<longleftrightarrow>
     1 \<le> length (ac_reason r)"

definition fields_file_link :: "file_link \<Rightarrow> bool" where
  "fields_file_link r \<longleftrightarrow>
     opt_all (\<lambda>x. file_id_token (x)) (fk_file_id r)
     \<and> file_name_token (fk_name r)"

definition fields_snapshot_lineage :: "snapshot_lineage \<Rightarrow> bool" where
  "fields_snapshot_lineage r \<longleftrightarrow>
     1 \<le> length (ln_parent_snapshot_id r)
     \<and> thread_token (ln_parent_snapshot_id r)
     \<and> 1 \<le> length (ln_parent_thread_id r)
     \<and> thread_token (ln_parent_thread_id r)
     \<and> run_token (ln_parent_run_id r)
     \<and> 1 \<le> length (ln_root_snapshot_id r)
     \<and> thread_token (ln_root_snapshot_id r)
     \<and> 1 \<le> ln_depth r
     \<and> 1 \<le> length (ln_command_idempotency_key r)
     \<and> length (ln_command_idempotency_key r) \<le> 120"

definition fields_clarification_prompt :: "clarification_prompt \<Rightarrow> bool" where
  "fields_clarification_prompt r \<longleftrightarrow>
     1 \<le> length (cp_question r)
     \<and> length (cp_question r) \<le> 4000"

definition fields_task_tombstone :: "task_tombstone \<Rightarrow> bool" where
  "fields_task_tombstone r \<longleftrightarrow>
     thread_token (ts_thread_id r)
     \<and> opt_all (\<lambda>x. length (x) \<le> 120) (ts_user_id r)
     \<and> opt_all (\<lambda>x. user_token (x)) (ts_user_id r)
     \<and> length (ts_tenant_id r) \<le> 160
     \<and> tenant_token (ts_tenant_id r)
     \<and> 1 \<le> ts_generation r
     \<and> 1 \<le> length (ts_deleted_at r)"

section \<open>Validators\<close>

abbreviation CNY :: pystr where "CNY \<equiv> lit ''CNY''"
abbreviation CN :: pystr where "CN \<equiv> lit ''CN''"

definition validate_quote :: "currency_conversion_evidence \<Rightarrow> bool" where
  "validate_quote q \<longleftrightarrow>
     cc_source_currency q \<noteq> CNY
     \<and> (cc_markup_bps q \<noteq> None \<longrightarrow> cc_markup_status q = MarkupIncluded)
     \<and> opt_all (\<lambda>expires. cc_observed_at q < expires) (cc_expires_at q)"

definition valid_currency_conversion :: "currency_conversion_evidence \<Rightarrow> bool" where
  "valid_currency_conversion q \<longleftrightarrow> fields_currency_conversion_evidence q \<and> validate_quote q"

definition all_given :: "'a option list \<Rightarrow> bool" where "all_given xs \<longleftrightarrow> (\<forall>x \<in> set xs. x \<noteq> None)"
definition any_given :: "'a option list \<Rightarrow> bool" where "any_given xs \<longleftrightarrow> (\<exists>x \<in> set xs. x \<noteq> None)"

definition validate_shipping_quote :: "shipping_quote_evidence \<Rightarrow> bool" where
  "validate_shipping_quote q \<longleftrightarrow>
     (let dims = [sq_length_cm q, sq_width_cm q, sq_height_cm q];
          known = map the (filter (\<lambda>w. w \<noteq> None) [sq_actual_weight_kg q, sq_dimensional_weight_kg q])
      in sq_destination_country q = CN
       \<and> sq_eta_min_days q \<le> sq_eta_max_days q
       \<and> opt_all (\<lambda>base. \<bar>fl (sq_total_amount q - fl (fl (base + sq_surcharge_amount q) - sq_discount_amount q))\<bar>
                      \<le> fl (1 / 100)) (sq_base_amount q)
       \<and> opt_all (\<lambda>w. \<forall>k \<in> set known. k \<le> w) (sq_chargeable_weight_kg q)
       \<and> (any_given dims \<longrightarrow> all_given dims)
       \<and> (sq_dimensional_divisor q \<noteq> None \<longrightarrow> all_given dims)
       \<and> (sq_currency q = CNY \<longrightarrow> sq_currency_conversion q = None)
       \<and> (sq_currency q \<noteq> CNY \<longrightarrow>
            (case sq_currency_conversion q of None \<Rightarrow> False | Some c \<Rightarrow> cc_source_currency c = sq_currency q))
       \<and> opt_all (\<lambda>expires. sq_observed_at q < expires) (sq_expires_at q))"

definition valid_shipping_quote :: "shipping_quote_evidence \<Rightarrow> bool" where
  "valid_shipping_quote q \<longleftrightarrow>
     fields_shipping_quote_evidence q \<and> opt_all valid_currency_conversion (sq_currency_conversion q)
     \<and> validate_shipping_quote q"

definition validate_customs_rate_period :: "customs_exchange_rate_evidence \<Rightarrow> bool" where
  "validate_customs_rate_period e \<longleftrightarrow>
     date_parts (cx_declaration_date e) \<noteq> None \<and> date_parts (cx_assessment_month e @ lit ''-01'') \<noteq> None
     \<and> take 7 (cx_declaration_date e) = cx_assessment_month e
     \<and> cx_source_currency e \<noteq> CNY"

definition valid_customs_exchange_rate :: "customs_exchange_rate_evidence \<Rightarrow> bool" where
  "valid_customs_exchange_rate e \<longleftrightarrow> fields_customs_exchange_rate_evidence e \<and> validate_customs_rate_period e"

definition within_cent :: "rat \<Rightarrow> rat option \<Rightarrow> bool" where
  \<comment> \<open>\<open>abs(expected - actual) <= Decimal("0.01")\<close>; \<open>None\<close>: the quantize raised\<close>
  "within_cent actual expected = (case expected of None \<Rightarrow> False | Some x \<Rightarrow> \<bar>dec (x - actual)\<bar> \<le> 1 / 100)"

definition reconcile_customs_value :: "customs_valuation_evidence \<Rightarrow> bool" where
  "reconcile_customs_value v \<longleftrightarrow>
     (case cv_customs_conversion v of
        None \<Rightarrow> cv_goods_currency v = CNY
          \<and> within_cent (dec_of_float (cv_goods_value_cny v)) (quantize_cent (dec_of_float (cv_goods_value_original v)))
      | Some c \<Rightarrow> cv_goods_currency v \<noteq> CNY \<and> cx_source_currency c = cv_goods_currency v
          \<and> within_cent (dec_of_float (cv_goods_value_cny v))
              (quantize_cent (dec (dec_of_float (cv_goods_value_original v) * dec_of_float (cx_rate_to_cny c)))))
     \<and> within_cent (dec_of_float (cv_customs_value_cny v))
         (quantize_cent (dec (dec (dec_of_float (cv_goods_value_cny v) + dec_of_float (cv_international_shipping_cny v))
            + dec_of_float (cv_insurance_cny v))))"

definition valid_customs_valuation :: "customs_valuation_evidence \<Rightarrow> bool" where
  "valid_customs_valuation v \<longleftrightarrow>
     fields_customs_valuation_evidence v \<and> opt_all valid_customs_exchange_rate (cv_customs_conversion v)
     \<and> reconcile_customs_value v"

definition validate_regime_evidence :: "customs_tax_evidence \<Rightarrow> bool" where
  "validate_regime_evidence t \<longleftrightarrow>
     ct_destination_country t = CN
     \<and> opt_all (\<lambda>v. \<bar>fl (ct_insurance_cny t - cv_insurance_cny v)\<bar> \<le> fl (1 / 100)) (ct_valuation t)
     \<and> (case ct_import_regime t of
          RegimeGeneralTrade \<Rightarrow>
            ct_rate_type t \<notin> {RateCrossBorderPolicy, RatePersonalPostal, RateProviderQuote}
            \<and> ct_tariff_rate t \<noteq> None \<and> ct_import_vat_rate t \<noteq> None
        | RegimeCrossBorderEcommerce \<Rightarrow>
            ct_rate_type t = RateCrossBorderPolicy \<and> ct_cross_border_ecommerce_eligible t = Some True
            \<and> ct_import_vat_rate t \<noteq> None \<and> ct_tariff_rate t \<in> {None, Some 0}
        | RegimePersonalPostal \<Rightarrow>
            ct_rate_type t = RatePersonalPostal \<and> ct_personal_postal_tax_rate t \<noteq> None
            \<and> ct_personal_postal_eligible t = Some True
            \<and> ct_personal_postal_assessed_value_cny t \<noteq> None \<and> ct_personal_postal_total_value_cny t \<noteq> None
            \<and> ct_personal_postal_value_limit_cny t \<noteq> None
            \<and> ct_personal_postal_tax_exemption_threshold_cny t \<noteq> None
            \<and> ct_personal_postal_single_indivisible_item t \<noteq> None
            \<and> (the (ct_personal_postal_value_limit_cny t) < the (ct_personal_postal_total_value_cny t) \<longrightarrow>
                 ct_personal_postal_single_indivisible_item t = Some True)
        | RegimeSellerCollected \<Rightarrow>
            ct_rate_type t = RateProviderQuote \<and> ct_seller_collected_tax_cny t \<noteq> None)"

definition valid_customs_tax :: "customs_tax_evidence \<Rightarrow> bool" where
  "valid_customs_tax t \<longleftrightarrow>
     fields_customs_tax_evidence t \<and> date_parts (ct_effective_date t) \<noteq> None
     \<and> opt_all valid_customs_valuation (ct_valuation t) \<and> validate_regime_evidence t"

definition ALL_DIMENSIONS :: "ranking_dimension list" where
  "ALL_DIMENSIONS = [DimLandedCost, DimPreferenceMatch, DimEvidenceQuality, DimDeliveryTime]"

definition each_dimension_once :: "ranking_dimension list \<Rightarrow> bool" where
  "each_dimension_once order \<longleftrightarrow>
     length order = 4 \<and> length (dict_fromkeys order) = length ALL_DIMENSIONS \<and> set order = set ALL_DIMENSIONS"

definition normalize_candidate_marketplace :: "candidate \<Rightarrow> candidate option" where
  "normalize_candidate_marketplace c =
     (case ca_marketplace c of
        None \<Rightarrow> Some (c\<lparr>ca_marketplace := Some (ca_platform c)\<rparr>)
      | Some m \<Rightarrow> if m = ca_platform c then Some c else None)"

definition normalize_point_marketplace :: "'a price_point_scheme \<Rightarrow> 'a price_point_scheme option" where
  "normalize_point_marketplace c =
     (case pp_marketplace c of
        None \<Rightarrow> Some (c\<lparr>pp_marketplace := Some (pp_platform c)\<rparr>)
      | Some m \<Rightarrow> if m = pp_platform c then Some c else None)"

definition normalize_memory_values :: "pystr list \<Rightarrow> pystr list" where
  "normalize_memory_values values = dict_fromkeys (filter (\<lambda>v. v \<noteq> []) (map py_strip values))"

definition evidence_sources :: "shopping_summary_output \<Rightarrow> provider_source set" where
  "evidence_sources o' =
     ca_source ` set (so_product_evidence o')
     \<union> pp_source ` set (so_recommendations o') \<union> pp_source ` set (so_comparison o')
     \<union> pm_source ` snd ` set (so_providers o')"

definition failing_providers :: "(pystr \<times> provider_metadata) list \<Rightarrow> pystr list" where
  "failing_providers ps =
     map fst (filter (\<lambda>(_, m). pm_status m = ProviderUnavailable \<or> pm_failure_reason m \<noteq> None) ps)"

definition normalize_result_contract :: "shopping_summary_output \<Rightarrow> shopping_summary_output option" where
  \<comment> \<open>\<open>None\<close>: ValueError\<close>
  "normalize_result_contract o' =
     (let product_sources = ca_source ` set (so_product_evidence o');
          sources = evidence_sources o';
          unavailable = sort (dict_fromkeys (so_unavailable_marketplaces o' @ failing_providers (so_providers o')))
      in if so_provider_mode o' = Live \<and> (\<exists>s \<in> product_sources. s \<noteq> SrcLive) then None
         else if so_provider_mode o' = Sandbox \<and> (\<exists>s \<in> product_sources. s \<noteq> SrcFixture) then None
         else if so_provider_mode o' = Live \<and> SrcFixture \<in> sources then None
         else if so_provider_mode o' = Sandbox \<and> (\<exists>s \<in> sources. s \<noteq> SrcFixture) then None
         else Some (o'\<lparr>
                so_matching_offers := (if so_matching_offers o' = [] then so_comparison o' else so_matching_offers o'),
                so_data_mode := so_provider_mode o',
                so_unavailable_marketplaces := unavailable,
                so_result_kind := (if so_provider_mode o' = Sandbox \<and> unavailable = [] then KindSandbox
                                   else if unavailable \<noteq> [] \<or> so_provider_mode o' = Mixed then KindPartial
                                   else KindLive)\<rparr>))"

text \<open>The defaults of the fields that a summary with no offers leaves out.\<close>

definition default_ranking_profile :: ranking_profile where
  "default_ranking_profile = \<lparr>rk_priority_order = ALL_DIMENSIONS, rk_explicit = False\<rparr>"

definition default_exchange_rate :: "pystr \<Rightarrow> exchange_rate_provenance" where
  "default_exchange_rate notice =
     \<lparr>xr_source = lit ''unspecified'', xr_effective_date = lit ''unspecified'',
      xr_calculation_basis = lit ''original_amount * rate_to_cny'', xr_providers = [],
      xr_quote_count = 0, xr_settlement_notice = notice\<rparr>"

definition no_preferences :: remembered_preference where
  "no_preferences = \<lparr>rpref_material_preferences = [], rpref_style_preferences = [],
     rpref_soft_preferences = [], rpref_avoid = []\<rparr>"

definition blank_summary :: "pystr \<Rightarrow> data_mode \<Rightarrow> (pystr \<times> provider_metadata) list \<Rightarrow> shopping_summary_output" where
  "blank_summary thread mode providers =
     \<lparr>so_thread_id = thread, so_final_answer = [], so_resolved_query = None, so_resolved_intent = None,
      so_applied_preferences = no_preferences, so_task_overrides = [], so_constraint_relaxations = [],
      so_product_evidence = [], so_mode = ModeProductResearch, so_recommendations = [], so_comparison = [],
      so_matching_offers = [], so_alternative_candidates = [], so_files = [], so_provider_mode = mode,
      so_providers = providers, so_calculation_notice = [], so_exchange_rate = default_exchange_rate [],
      so_calculation_exclusions = [], so_shipping_exclusions = [], so_tax_exclusions = [],
      so_ranking_profile = default_ranking_profile, so_data_mode = Live, so_result_kind = KindLive,
      so_unavailable_marketplaces = [], so_unverified_candidates = [], so_exclusions = [],
      so_working_assumptions = [], so_relaxation_suggestions = [], so_match_status = MatchMatched,
      so_preference_decisions = [], so_recall_provenance = None\<rparr>"

section \<open>Properties\<close>

lemma currency_code_iff: "currency_code s \<longleftrightarrow> length s = 3 \<and> list_all upper s"
  by (auto simp: currency_code_def fullmatch_Many)

lemma thread_token_iff:
  "thread_token s \<longleftrightarrow> 1 \<le> length s \<and> length s \<le> 80 \<and> list_all (\<lambda>c. letter_or_digit c \<or> c \<in> {95, 45}) s"
  by (simp add: thread_token_def fullmatch_Many)

text \<open>
  A ranking profile that validates is a permutation of the four dimensions.
\<close>

lemma ranking_profile_permutation:
  "each_dimension_once order \<longleftrightarrow> mset order = mset ALL_DIMENSIONS"
proof
  assume o: "each_dimension_once order"
  then have "distinct order"
    by (intro card_distinct) (simp add: each_dimension_once_def ALL_DIMENSIONS_def)
  moreover have "distinct ALL_DIMENSIONS" by (simp add: ALL_DIMENSIONS_def)
  ultimately show "mset order = mset ALL_DIMENSIONS"
    using o set_eq_iff_mset_eq_distinct [of order ALL_DIMENSIONS] by (simp add: each_dimension_once_def)
next
  assume m: "mset order = mset ALL_DIMENSIONS"
  then have s: "set order = set ALL_DIMENSIONS" by (rule mset_eq_setD)
  moreover have "length order = 4" using mset_eq_length [OF m] by (simp add: ALL_DIMENSIONS_def)
  moreover have "distinct order" using mset_eq_imp_distinct_iff [OF m] by (simp add: ALL_DIMENSIONS_def)
  ultimately show "each_dimension_once order"
    by (simp add: each_dimension_once_def dict_fromkeys_distinct ALL_DIMENSIONS_def)
qed

lemma if_None_SomeD:
  assumes "(if P then None else X) = Some r"
  shows "\<not> P" "X = Some r"
  using assms by (simp_all split: if_splits)

lemma sort_strict_idem: "sort (dict_fromkeys (sort (dict_fromkeys xs) @ ys)) = sort (dict_fromkeys xs)"
  if "set ys \<subseteq> set xs" for xs ys :: "'a :: linorder list"
proof -
  have "dict_fromkeys (sort (dict_fromkeys xs) @ ys) = sort (dict_fromkeys xs)"
    using that by (auto simp: dict_fromkeys_append dict_fromkeys_distinct filter_empty_conv)
  then show ?thesis by (simp add: sorted_sort_id)
qed

lemma result_contract_core:
  assumes "normalize_result_contract o' = Some r"
  shows "so_data_mode r = so_provider_mode r
    \<and> (so_provider_mode r = Live \<longrightarrow> SrcFixture \<notin> evidence_sources r \<and> ca_source ` set (so_product_evidence r) \<subseteq> {SrcLive})
    \<and> (so_provider_mode r = Sandbox \<longrightarrow> evidence_sources r \<subseteq> {SrcFixture})
    \<and> set (failing_providers (so_providers r)) \<subseteq> set (so_unavailable_marketplaces r)
    \<and> sorted (so_unavailable_marketplaces r) \<and> distinct (so_unavailable_marketplaces r)
    \<and> (so_result_kind r = KindLive \<longleftrightarrow> so_provider_mode r = Live \<and> so_unavailable_marketplaces r = [])
    \<and> normalize_result_contract r = Some r"
proof -
  define un where "un = sort (dict_fromkeys (so_unavailable_marketplaces o' @ failing_providers (so_providers o')))"
  define mo where "mo = (if so_matching_offers o' = [] then so_comparison o' else so_matching_offers o')"
  define k where "k = (if so_provider_mode o' = Sandbox \<and> un = [] then KindSandbox
         else if un \<noteq> [] \<or> so_provider_mode o' = Mixed then KindPartial else KindLive)"
  define r1 where "r1 = o'\<lparr>so_matching_offers := mo, so_data_mode := so_provider_mode o',
      so_unavailable_marketplaces := un, so_result_kind := k\<rparr>"
  have ev: "evidence_sources r1 = evidence_sources o'"
    and pe: "so_product_evidence r1 = so_product_evidence o'" "so_provider_mode r1 = so_provider_mode o'"
      "so_providers r1 = so_providers o'" "so_unavailable_marketplaces r1 = un"
      "so_comparison r1 = so_comparison o'" "so_matching_offers r1 = mo" "so_result_kind r1 = k"
      "so_data_mode r1 = so_provider_mode o'"
    by (simp_all add: r1_def evidence_sources_def)
  note a = if_None_SomeD [OF assms [unfolded normalize_result_contract_def Let_def]]
  note b = if_None_SomeD [OF a(2)]
  note c = if_None_SomeD [OF b(2)]
  note d = if_None_SomeD [OF c(2)]
  have r: "r1 = r"
    unfolding r1_def k_def mo_def un_def by (rule option.inject [THEN iffD1, OF d(2)])
  have idem: "sort (dict_fromkeys (un @ failing_providers (so_providers o'))) = un"
    unfolding un_def by (rule sort_strict_idem) simp
  have mo: "(if mo = [] then so_comparison o' else mo) = mo" by (simp add: mo_def)
  have self: "r1\<lparr>so_matching_offers := mo, so_data_mode := so_provider_mode o',
      so_unavailable_marketplaces := un, so_result_kind := k\<rparr> = r1" by (simp add: r1_def)
  have "normalize_result_contract r1 = Some r1"
    unfolding normalize_result_contract_def Let_def ev pe idem mo if_not_P [OF a(1)] if_not_P [OF b(1)]
      if_not_P [OF c(1)] if_not_P [OF d(1)] k_def [symmetric] self ..
  moreover have "so_data_mode r1 = so_provider_mode r1" by (simp add: pe)
  moreover have "so_provider_mode r1 = Live \<longrightarrow> SrcFixture \<notin> evidence_sources r1
      \<and> ca_source ` set (so_product_evidence r1) \<subseteq> {SrcLive}"
    unfolding ev pe using a(1) c(1) by auto
  moreover have "so_provider_mode r1 = Sandbox \<longrightarrow> evidence_sources r1 \<subseteq> {SrcFixture}"
    unfolding ev pe using d(1) by auto
  moreover have "set (failing_providers (so_providers r1)) \<subseteq> set (so_unavailable_marketplaces r1)"
    unfolding pe un_def by simp
  moreover have "sorted (so_unavailable_marketplaces r1) \<and> distinct (so_unavailable_marketplaces r1)"
    unfolding pe un_def by (simp add: distinct_sort)
  moreover have "so_result_kind r1 = KindLive \<longleftrightarrow> so_provider_mode r1 = Live \<and> so_unavailable_marketplaces r1 = []"
    unfolding pe k_def by (cases "so_provider_mode o'"; cases "un = []") simp_all
  ultimately show ?thesis unfolding r by blast
qed


definition ebay_down :: "(pystr \<times> provider_metadata) list" where
  "ebay_down = [(lit ''ebay'', \<lparr>pm_source = SrcLive, pm_provider = lit ''ebay'', pm_status = ProviderUnavailable,
     pm_fallback_reason = None, pm_failure_reason = Some FailureNotConfigured\<rparr>)]"

lemma ebay_down_facts:
  "evidence_sources (blank_summary t Live ebay_down) = {SrcLive}"
  "failing_providers ebay_down = [lit ''ebay'']"
  by (simp_all add: evidence_sources_def blank_summary_def ebay_down_def failing_providers_def)

lemma ebay_down_contract:
  "\<exists>r. normalize_result_contract (blank_summary t Live ebay_down) = Some r"
  unfolding normalize_result_contract_def Let_def ebay_down_facts
  by (simp add: blank_summary_def)


end
