(* ===== verification/Clarification.thy ===== *)
theory Clarification
  imports Regex Schemas
begin

text \<open>
  \<open>app/tools/destination.py\<close> and \<open>app/tools/clarification.py\<close>: which destinations are
  supported, which ambiguities of a query block a task, and the canonical form of the answers to
  them. Chinese literals are written as their code points. \<open>casefold\<close> is written out for the
  characters whose folding contains an ASCII letter, which is all that the comparisons with
  ASCII markers can see.
\<close>

section \<open>Destinations\<close>

definition SUPPORTED_DESTINATION :: pystr where
  "SUPPORTED_DESTINATION = [20013, 22269, 22823, 38470]"

definition MAINLAND_DESTINATION_ALIASES :: "pystr list" where
  "MAINLAND_DESTINATION_ALIASES =
     [[20013, 22269], [20013, 22269, 20869, 22320], [20013, 22269, 22823, 38470],
     [20013, 22269, 22823, 38470, 22320, 21306], [22823, 38470], [22823, 38470, 22320, 21306],
     [22269, 20869], [21271, 20140], [21271, 20140, 24066], [19978, 28023], [19978, 28023, 24066],
     [22825, 27941], [22825, 27941, 24066], [37325, 24198], [37325, 24198, 24066], [27827, 21271],
     [27827, 21271, 30465], [23665, 35199], [23665, 35199, 30465], [36797, 23425], [36797, 23425, 30465],
     [21513, 26519], [21513, 26519, 30465], [40657, 40857, 27743], [40657, 40857, 27743, 30465],
     [27743, 33487], [27743, 33487, 30465], [27993, 27743], [27993, 27743, 30465], [23433, 24509],
     [23433, 24509, 30465], [31119, 24314], [31119, 24314, 30465], [27743, 35199], [27743, 35199, 30465],
     [23665, 19996], [23665, 19996, 30465], [27827, 21335], [27827, 21335, 30465], [28246, 21271],
     [28246, 21271, 30465], [28246, 21335], [28246, 21335, 30465], [24191, 19996], [24191, 19996, 30465],
     [24191, 35199], [24191, 35199, 22766, 26063, 33258, 27835, 21306], [28023, 21335],
     [28023, 21335, 30465], [22235, 24029], [22235, 24029, 30465], [36149, 24030], [36149, 24030, 30465],
     [20113, 21335], [20113, 21335, 30465], [35199, 34255], [35199, 34255, 33258, 27835, 21306],
     [38485, 35199], [38485, 35199, 30465], [29976, 32899], [29976, 32899, 30465], [38738, 28023],
     [38738, 28023, 30465], [23425, 22799], [23425, 22799, 22238, 26063, 33258, 27835, 21306],
     [26032, 30086], [26032, 30086, 32500, 21566, 23572, 33258, 27835, 21306], [20869, 33945, 21476],
     [20869, 33945, 21476, 33258, 27835, 21306], [28145, 22323], [28145, 22323, 24066], [24191, 24030],
     [24191, 24030, 24066], [26477, 24030], [26477, 24030, 24066], [21335, 20140], [21335, 20140, 24066],
     [33487, 24030], [33487, 24030, 24066], [25104, 37117], [25104, 37117, 24066], [27494, 27721],
     [27494, 27721, 24066], [35199, 23433], [35199, 23433, 24066], [21414, 38376], [21414, 38376, 24066],
     [38738, 23707], [38738, 23707, 24066], [22823, 36830], [22823, 36830, 24066]]"

definition MAINLAND_DESTINATION_PREFIXES :: "pystr list" where
  "MAINLAND_DESTINATION_PREFIXES =
     sort_key (\<lambda>a. - int (length a)) (filter (\<lambda>a. a \<notin> set
     [[20013, 22269], [20013, 22269, 20869, 22320], [20013, 22269, 22823, 38470],
     [20013, 22269, 22823, 38470, 22320, 21306], [22823, 38470], [22823, 38470, 22320, 21306], [22269, 20869]])
     MAINLAND_DESTINATION_ALIASES)"

definition strip_chars :: "pystr \<Rightarrow> pystr \<Rightarrow> pystr" where
  \<comment> \<open>\<open>s.strip(cs)\<close>\<close>
  "strip_chars cs s = rev (dropWhile (\<lambda>c. c \<in> set cs) (rev (dropWhile (\<lambda>c. c \<in> set cs) s)))"

definition normalize_destination :: "pystr \<Rightarrow> pystr" where
  "normalize_destination value =
     (let destination = strip_chars [32, 58, 65306] (py_strip value);
          is_mainland_address = (\<exists>prefix \<in> set MAINLAND_DESTINATION_PREFIXES. starts_with prefix destination)
      in if destination \<in> set MAINLAND_DESTINATION_ALIASES \<or> starts_with [20013, 22269, 22823, 38470] destination \<or> is_mainland_address
         then SUPPORTED_DESTINATION else destination)"

definition is_supported_destination :: "pystr \<Rightarrow> bool" where
  "is_supported_destination value \<longleftrightarrow> normalize_destination value = SUPPORTED_DESTINATION"

section \<open>Ambiguities\<close>

record blocking_ambiguity =
  ba_field :: clarification_field
  ba_reason_code :: clarification_reason
  ba_question :: pystr

definition folded :: "(int \<Rightarrow> bool) \<Rightarrow> int \<Rightarrow> bool" where
  \<comment> \<open>an ASCII class under \<open>re.IGNORECASE\<close>\<close>
  "folded P c \<longleftrightarrow> P c \<or> P (fold_char c)"

abbreviation spaces :: re where "spaces \<equiv> Many py_space 0 None"

definition cjk :: "int \<Rightarrow> bool" where "cjk c \<longleftrightarrow> 19968 \<le> c \<and> c \<le> 40959"

definition clause_char :: "int \<Rightarrow> bool" where
  "clause_char c \<longleftrightarrow> c \<notin> set [65292, 12290, 65307, 44, 59, 65281, 65311, 33, 63]"

definition COMPARISON_PATTERN :: re where
  "COMPARISON_PATTERN =
     Cat (alts (map str [[27604, 36739], [23545, 27604], [27604, 20215]]))
       (NotAhead (alts (map str
     [[36731, 20415], [20415, 23452], [26041, 20415], [23481, 26131], [22797, 26434], [31616, 21333],
     [37325, 35201], [23433, 20840], [31283, 23450], [21512, 29702], [21916, 27426], [33298, 36866],
     [32784, 29992], [23454, 24800], [21010, 31639], [20540, 24471], [39640, 31471], [20302, 20215],
     [30465, 38065], [36866, 21512], [22909], [22351], [39640], [20302], [24555], [24930], [22823], [23567],
     [22810], [23569], [36731], [37325], [36149], [36828], [36817], [24378], [24369], [24230]])))"

definition EXPLICIT_PRODUCT_MODE_MARKERS :: "pystr list" where
  "EXPLICIT_PRODUCT_MODE_MARKERS = [[19981, 21516, 20135, 21697], [19981, 21516, 21830, 21697], [19981, 21516, 27454], [22810, 27454],
     [21508, 27454]]"

definition AMBIGUOUS_DESTINATION_MARKERS :: "pystr list" where
  "AMBIGUOUS_DESTINATION_MARKERS =
     [[28023, 22806], [22269, 22806], [22659, 22806], [20854, 20182, 22320, 21306],
     [20854, 20182, 22320, 26041], [37027, 37324], [19981, 30830, 23450], [26410, 30830, 23450],
     [19981, 26126, 30830], [19981, 28165, 26970]]"

definition IDENTITY_LABEL_PATTERN :: "unicode \<Rightarrow> re" where
  "IDENTITY_LABEL_PATTERN u =
     seq [alts ([str [22411, 21495]] @ map istr [''model'', ''mpn'', ''sku'', ''gtin'', ''ean'', ''upc'', ''isbn'']
            @ map str [[29256, 26412], [23481, 37327], [35268, 26684]]
            @ [seq [str [31532], spaces, Many (decimal u) 1 None, spaces, str [20195]]]),
          spaces, Opt (Cls (\<lambda>c. c \<in> set [26159, 20026, 58, 65306])), spaces,
          Cls (folded (\<lambda>c. letter_or_digit c \<or> cjk c)), Many clause_char 0 (Some 40)]"

definition token_char :: "int \<Rightarrow> bool" where "token_char c \<longleftrightarrow> letter_or_digit c \<or> c = 45"

definition letter :: "int \<Rightarrow> bool" where "letter c \<longleftrightarrow> upper c \<or> lower c"

definition IDENTITY_TOKEN_PATTERNS :: "unicode \<Rightarrow> re list" where
  "IDENTITY_TOKEN_PATTERNS u =
     [seq [Boundary (word_char u), Cls letter, Many token_char 0 None, Cls (decimal u), Many token_char 0 None,
           Boundary (word_char u)],
      seq [Many cjk 1 (Some 8), Many (decimal u) 1 (Some 4), Many token_char 0 None]]"

definition NON_IDENTITY_NUMBER_PATTERN :: "unicode \<Rightarrow> re" where
  "NON_IDENTITY_NUMBER_PATTERN u =
     Alt (seq [alts (map str [[39044, 31639], [20215, 26684], [20215, 20301], [19981, 36229, 36807], [20302, 20110], [23569, 20110],
     [33267, 22810], [33267, 23569], [25968, 37327], [20080], [25214], [36873]]),
               spaces, Opt (alts [str [20154, 27665, 24065], istr ''rmb'', istr ''cny'', Cls (\<lambda>c. c \<in> {165, 65509})]), spaces,
               Many (decimal u) 1 None, Opt (Cat (Cls ((=) 46)) (Many (decimal u) 1 None)), spaces,
               Opt (Cls (\<lambda>c. c \<in> set [20803, 22359, 20214, 20010, 27454, 21488, 37096, 21452, 22871, 21482, 26465, 31181]))])
         (seq [str [31532], spaces, Many (decimal u) 1 None, spaces, Cls (\<lambda>c. c \<in> set [20214, 20010, 27454, 31181])])"

definition VAGUE_IDENTITY_MARKERS :: "pystr list" where
  "VAGUE_IDENTITY_MARKERS = [[26410, 30693], [19981, 30830, 23450], [19981, 26126, 30830], [19981, 28165, 26970], [24453, 23450],
     [38543, 20415], [19981, 38480], [37117, 21487, 20197]]"

definition is_or_for :: re where
  "is_or_for = Opt (Cls (\<lambda>c. c \<in> set [26159, 20026]))"

definition DESTINATION_CLAUSE_PATTERN :: re where
  "DESTINATION_CLAUSE_PATTERN =
     seq [alts (map str [[23492, 21040], [36865, 21040], [37197, 36865, 21040], [37197, 36865, 33267], [23492, 24448],
     [36865, 24448], [21457, 24448]]
            @ [Cat (str [30446, 30340, 22320]) is_or_for,
               seq [str [25910, 36135, 22320], Opt (str [22336]), is_or_for],
               Cat (str [37197, 36865, 22320, 22336]) is_or_for, Cat (str [36865, 36135, 22320, 22336]) is_or_for]),
          Many (\<lambda>c. c = 65306 \<or> c = 58 \<or> py_space c) 0 None, Many clause_char 2 (Some 20)]"

definition VAGUE_RESPONSES :: "pystr list" where
  "VAGUE_RESPONSES = [[37117, 21487, 20197], [38543, 20415], [19981, 38480], [19981, 35774, 38480], [19981, 30693, 36947],
     [19981, 30830, 23450], [37117, 34892]]"

definition VARIANT_MODE_RESPONSES :: "pystr list" where
  "VARIANT_MODE_RESPONSES =
     [[27604, 36739, 19981, 21516, 20135, 21697], [27604, 36739, 19981, 21516, 21830, 21697],
     [19981, 21516, 20135, 21697], [19981, 21516, 21830, 21697], [19981, 21516, 27454], [22810, 27454],
     [21508, 27454], [21516, 19968, 27454], [21516, 27454], [21516, 22411, 21495]]"

definition any_in :: "pystr list \<Rightarrow> pystr \<Rightarrow> bool" where
  "any_in markers s \<longleftrightarrow> (\<exists>marker \<in> set markers. str_in marker s)"

definition is_explicit_comparison :: "pystr \<Rightarrow> bool" where
  "is_explicit_comparison query = search COMPARISON_PATTERN query"

definition has_exact_variant :: "unicode \<Rightarrow> pystr \<Rightarrow> bool" where
  "has_exact_variant u query =
     (let identity_query = sub (NON_IDENTITY_NUMBER_PATTERN u) [] query
      in (case search_text (IDENTITY_LABEL_PATTERN u) identity_query of
            Some label \<Rightarrow> \<not> any_in VAGUE_IDENTITY_MARKERS label | None \<Rightarrow> False)
         \<or> (\<exists>pattern \<in> set (IDENTITY_TOKEN_PATTERNS u). search pattern identity_query))"

definition has_ambiguous_destination :: "pystr \<Rightarrow> shopping_plan \<Rightarrow> bool" where
  "has_ambiguous_destination query plan \<longleftrightarrow>
     (\<exists>clause \<in> set (findall DESTINATION_CLAUSE_PATTERN query). any_in AMBIGUOUS_DESTINATION_MARKERS clause)
     \<or> any_in AMBIGUOUS_DESTINATION_MARKERS (sp_destination plan)"

definition detect_blocking_ambiguity ::
  "unicode \<Rightarrow> pystr \<Rightarrow> shopping_plan \<Rightarrow> clarification_field set \<Rightarrow> blocking_ambiguity option" where
  "detect_blocking_ambiguity u query plan resolved =
     (if ClarifyMode \<notin> resolved \<and> sp_mode plan = ModeProductResearch \<and> is_explicit_comparison query
         \<and> \<not> any_in EXPLICIT_PRODUCT_MODE_MARKERS query
      then Some \<lparr>ba_field = ClarifyMode, ba_reason_code = BecauseModeAmbiguous, ba_question =
        [20320, 35201, 27604, 36739, 19981, 21516, 20135, 21697, 65292, 36824, 26159, 21516, 19968, 32, 80, 114, 111, 100, 117, 99, 116, 32, 86, 97, 114, 105, 97, 110, 116, 32, 30340, 36328, 24179, 21488, 25253, 20215, 65311]\<rparr>
      else if ClarifyProductVariant \<notin> resolved \<and> sp_mode plan = ModeExactOfferComparison \<and> \<not> has_exact_variant u query
      then Some \<lparr>ba_field = ClarifyProductVariant, ba_reason_code = BecauseProductVariantAmbiguous, ba_question =
        [35831, 25552, 20379, 35201, 27604, 36739, 30340, 20855, 20307, 32, 80, 114, 111, 100, 117, 99, 116, 32, 86, 97, 114, 105, 97, 110, 116, 65292, 20363, 22914, 22411, 21495, 12289, 29256, 26412, 25110, 23481, 37327, 12290]\<rparr>
      else if ClarifyDestination \<notin> resolved \<and> has_ambiguous_destination query plan
      then Some \<lparr>ba_field = ClarifyDestination, ba_reason_code = BecauseDestinationAmbiguous, ba_question =
        [35831, 30830, 35748, 25910, 36135, 22320, 65292, 30446, 21069, 21040, 25163, 20215, 35745, 31639, 21482, 25903, 25345] @ SUPPORTED_DESTINATION @ [12290]\<rparr>
      else None)"

section \<open>Answers\<close>

definition casefold_char :: "int \<Rightarrow> pystr" where
  "casefold_char c =
     (if c = 223 \<or> c = 7838 then [115, 115] else if c = 383 then [115]
      else if c = 329 then [700, 110] else if c = 496 then [106, 780]
      else if c = 7830 then [104, 817] else if c = 7831 then [116, 776]
      else if c = 7832 then [119, 778] else if c = 7833 then [121, 778] else if c = 7834 then [97, 702]
      else if c = 64256 then [102, 102] else if c = 64257 then [102, 105] else if c = 64258 then [102, 108]
      else if c = 64259 then [102, 102, 105] else if c = 64260 then [102, 102, 108]
      else if c = 64261 \<or> c = 64262 then [115, 116] else lower_char c)"

definition casefold :: "pystr \<Rightarrow> pystr" where
  "casefold s = concat (map casefold_char s)"

datatype invalid_response = EmptyAnswer | ModeUnclear | TooVague | DestinationUnsupported | VariantUnclear

definition SAME_PRODUCT_MARKERS :: "pystr list" where
  "SAME_PRODUCT_MARKERS = [[21516, 19968, 27454], [21516, 27454], [21516, 22411, 21495], [21516, 19968, 20135, 21697],
     [21516, 19968, 32, 80, 114, 111, 100, 117, 99, 116, 32, 86, 97, 114, 105, 97, 110, 116]]"

definition EXACT :: pystr where "EXACT = lit ''exact_offer_comparison''"
definition RESEARCH :: pystr where "RESEARCH = lit ''product_research''"

definition normalize_clarification_response :: "clarification_field \<Rightarrow> pystr \<Rightarrow> invalid_response + pystr" where
  "normalize_clarification_response field response =
     (let value = py_strip response
      in if value = [] then Inl EmptyAnswer
         else if field = ClarifyMode then
           (if any_in [lit ''exact'', lit ''product_variant''] (casefold value) \<or> any_in SAME_PRODUCT_MARKERS value
            then Inr EXACT
            else if any_in EXPLICIT_PRODUCT_MODE_MARKERS value
              \<or> any_in [lit ''product_research'', lit ''different products''] (casefold value)
            then Inr RESEARCH
            else Inl ModeUnclear)
         else if value \<in> set VAGUE_RESPONSES then Inl TooVague
         else if field = ClarifyDestination then
           (if is_supported_destination (normalize_destination value) then Inr SUPPORTED_DESTINATION
            else Inl DestinationUnsupported)
         else if value \<in> set VARIANT_MODE_RESPONSES then Inl VariantUnclear
         else Inr value)"

fun join :: "pystr \<Rightarrow> pystr list \<Rightarrow> pystr" where
  "join sep [] = []"
| "join sep [s] = s"
| "join sep (s # t # ts) = s @ sep @ join sep (t # ts)"

definition given :: "pystr option \<Rightarrow> bool" where
  "given a \<longleftrightarrow> (case a of None \<Rightarrow> False | Some s \<Rightarrow> s \<noteq> [])"

definition apply_clarification_context :: "pystr \<Rightarrow> (clarification_field \<times> pystr) list \<Rightarrow> pystr" where
  "apply_clarification_context query answers =
     (let mode = (case map_of answers ClarifyMode of Some m \<Rightarrow> m | None \<Rightarrow> []);
          variant = map_of answers ClarifyProductVariant;
          destination = map_of answers ClarifyDestination;
          mode_context =
            (if mode = RESEARCH \<or> any_in EXPLICIT_PRODUCT_MODE_MARKERS mode then [[27604, 36739, 19981, 21516, 20135, 21697]]
             else if mode = EXACT \<or> any_in SAME_PRODUCT_MARKERS mode then [[27604, 36739, 21516, 27454]]
             else []);
          variant_context = (if given variant then [[22411, 21495, 32] @ the variant] else []);
          base_query = (if given destination
            then strip_chars [32, 9, 13, 10, 65292, 44, 65307, 59] (sub DESTINATION_CLAUSE_PATTERN [] query) else query);
          destination_context = (if given destination then [[37197, 36865, 33267, 32] @ the destination] else []);
          context = mode_context @ variant_context @ destination_context
      in if context \<noteq> [] then base_query @ [65292] @ join [65292] context else query)"

section \<open>Properties\<close>

lemma strip_chars_stable: "set s \<inter> set cs = {} \<Longrightarrow> strip_chars cs s = s"
proof -
  assume d: "set s \<inter> set cs = {}"
  have "dropWhile (\<lambda>c. c \<in> set cs) t = t" if "set t \<inter> set cs = {}" for t
    using that by (cases t) auto
  then show ?thesis using d by (simp add: strip_chars_def)
qed

lemma normalize_supported [simp]: "normalize_destination SUPPORTED_DESTINATION = SUPPORTED_DESTINATION"
proof -
  have "py_strip SUPPORTED_DESTINATION = SUPPORTED_DESTINATION"
    by (simp add: SUPPORTED_DESTINATION_def py_strip_def py_space_def)
  moreover have "strip_chars [32, 58, 65306] SUPPORTED_DESTINATION = SUPPORTED_DESTINATION"
    by (rule strip_chars_stable) (simp add: SUPPORTED_DESTINATION_def)
  moreover have "SUPPORTED_DESTINATION \<in> set MAINLAND_DESTINATION_ALIASES"
    by (simp add: SUPPORTED_DESTINATION_def MAINLAND_DESTINATION_ALIASES_def)
  ultimately show ?thesis by (simp add: normalize_destination_def Let_def)
qed

lemma normalized_mode:
  "normalize_clarification_response ClarifyMode EXACT = Inr EXACT"
  "normalize_clarification_response ClarifyMode RESEARCH = Inr RESEARCH"
  by (code_simp, code_simp)

lemma supported_not_vague: "SUPPORTED_DESTINATION \<notin> set VAGUE_RESPONSES" "py_strip SUPPORTED_DESTINATION = SUPPORTED_DESTINATION"
  "SUPPORTED_DESTINATION \<noteq> []"
  by (simp_all add: SUPPORTED_DESTINATION_def VAGUE_RESPONSES_def py_strip_def py_space_def)

text \<open>
  The canonical answer is a fixed point: an answer that is accepted normalises to a value
  that normalises to itself, is never empty, and is one of the two modes or the supported
  destination for the fields that decide them.
\<close>

lemma answers_canonical:
  assumes "normalize_clarification_response field response = Inr v"
  shows "normalize_clarification_response field v = Inr v \<and> v \<noteq> []
    \<and> (field = ClarifyMode \<longrightarrow> v \<in> {EXACT, RESEARCH})
    \<and> (field = ClarifyDestination \<longrightarrow> v = SUPPORTED_DESTINATION)"
proof (cases field)
  case ClarifyMode
  then have "v \<in> {EXACT, RESEARCH}"
    using assms by (auto simp: normalize_clarification_response_def Let_def split: if_splits)
  then show ?thesis using ClarifyMode normalized_mode by (auto simp: EXACT_def RESEARCH_def)
next
  case ClarifyDestination
  then have "v = SUPPORTED_DESTINATION"
    using assms by (auto simp: normalize_clarification_response_def Let_def split: if_splits)
  then show ?thesis using ClarifyDestination supported_not_vague
    by (simp add: normalize_clarification_response_def Let_def is_supported_destination_def)
next
  case ClarifyProductVariant
  then show ?thesis
    using assms by (auto simp: normalize_clarification_response_def Let_def split: if_splits)
qed

lemma answers_canonical_witness:
  "normalize_clarification_response ClarifyMode (lit ''  Exact match '') = Inr EXACT
   \<and> normalize_clarification_response ClarifyMode EXACT = Inr EXACT"
proof -
  have "normalize_clarification_response ClarifyMode (lit ''  Exact match '') = Inr EXACT" by code_simp
  then show ?thesis using answers_canonical by blast
qed

end
