(* ===== verification/Snapshots.thy ===== *)
theory Snapshots
  imports Clarification "HOL-Library.AList"
begin

text \<open>
  Task snapshots and their timeline: the event and snapshot models of \<open>app/schemas.py\<close>, and the
  part of \<open>app/api/server.py\<close> that reads, writes and advances snapshots (\<open>_persist_snapshot\<close>,
  \<open>_read_persisted_snapshot\<close>, \<open>_write_tombstone\<close>, \<open>_record_event\<close>, \<open>_record_task_result\<close>).

  The store of a worker is its table of records, the task directories (with the content of
  \<open>task.json\<close>) and the tombstone files. Writing and reading back a model is the identity on the
  fields, followed by its validators. Timestamps are instants. What the environment decides is
  an argument: whether a write succeeds (\<open>io\<close>), whether the reports can be rendered
  (\<open>report_outcome\<close>), the fresh identifiers and the time.
\<close>

section \<open>Events\<close>

datatype event_name =
    SessionCreated | QueueStatus | IntentResolved | AssistantCall | ContextCompression
  | ToolStart | ToolEnd | Fork | ReportGenerated | TaskResult | TaskCancelled
  | ClarificationRequired | ClarificationResolved | ErrorEvent

datatype reference_image =
    OwnedCopy (ri_upload_id: pystr) (ri_name: pystr) (ri_content_type: pystr) (ri_size: int) (ri_bound_at: pystr)
  | LegacyImage (ri_upload_id: pystr) (ri_name: pystr) (ri_content_type: pystr) (ri_size: int)

datatype queue_kind = NormalQueue | HeavyQueue
datatype compression_status = CompressionApplied | CompressionDegraded | CompressionNotNeeded
datatype tool_outcome = ToolSuccess | ToolDegraded | ToolFailure

record tool_end_data =
  te_tool_name :: pystr
  te_duration_ms :: int
  te_outcome :: tool_outcome
  te_source :: provider_source
  te_provider :: pystr
  te_status :: provider_status
  te_fallback_reason :: "pystr option"
  te_failure_reason :: "provider_failure option"
  te_recall_provenance :: "recall_provenance option"

record intent_resolved_data =
  ir_resolved_query :: pystr
  ir_resolved_intent :: shopping_plan
  ir_applied_preferences :: remembered_preference
  ir_task_overrides :: "task_override list"
  ir_constraint_relaxations :: "constraint_relaxation list"

record clarification_answer =
  ca'_field :: clarification_field
  ca'_reason_code :: clarification_reason
  ca'_response :: pystr
  ca'_resolved_value :: "pystr option"

datatype event_data =
    DCreated pystr "reference_image list"
  | DQueue pystr queue_kind int rat int
  | DIntent intent_resolved_data
  | DAssistant pystr "(pystr \<times> json) list"
  | DCompression compression_status pystr int int int "pystr list"
  | DToolStart pystr "(pystr \<times> json) list"
  | DToolEnd tool_end_data
  | DFork pystr platform platform pystr
  | DReports pystr rat "file_link list"
  | DResult shopping_summary_output
  | DCancelled pystr
  | DRequired clarification_prompt
  | DResolved clarification_answer
  | DError pystr "pystr option"

definition hex_char :: "int \<Rightarrow> bool" where "hex_char c \<longleftrightarrow> digit c \<or> 97 \<le> c \<and> c \<le> 102"

definition upload_token :: "pystr \<Rightarrow> bool" where
  "upload_token = fullmatch (Many hex_char 32 (Some 32))"

definition image_name_token :: "pystr \<Rightarrow> bool" where
  "image_name_token =
     fullmatch (seq [Many hex_char 32 (Some 32), Cls ((=) 46), alts (map (\<lambda>s. str (lit s)) [''jpg'', ''png'', ''webp''])])"

definition event_id_token :: "pystr \<Rightarrow> bool" where
  "event_id_token = fullmatch (Cat (str (lit ''evt-'')) (Many hex_char 32 (Some 32)))"

definition sub_thread_token :: "pystr \<Rightarrow> bool" where
  "sub_thread_token = fullmatch (Cat (str (lit ''sub-'')) (Many hex_char 8 (Some 8)))"

fun valid_reference_image :: "reference_image \<Rightarrow> bool" where
  "valid_reference_image (OwnedCopy upload name content_type bytes bound) \<longleftrightarrow>
     upload_token upload \<and> image_name_token name
     \<and> content_type \<in> {lit ''image/jpeg'', lit ''image/png'', lit ''image/webp''} \<and> 0 \<le> bytes \<and> bound \<noteq> []"
| "valid_reference_image (LegacyImage upload name content_type bytes) \<longleftrightarrow>
     upload_token upload \<and> image_name_token name \<and> content_type \<noteq> [] \<and> 0 \<le> bytes"

fun outcome_status :: "tool_outcome \<Rightarrow> provider_status" where
  "outcome_status ToolSuccess = ProviderOk"
| "outcome_status ToolDegraded = ProviderDegraded"
| "outcome_status ToolFailure = ProviderUnavailable"

definition valid_tool_end :: "tool_end_data \<Rightarrow> bool" where
  "valid_tool_end t \<longleftrightarrow>
     te_tool_name t \<noteq> [] \<and> 0 \<le> te_duration_ms t \<and> te_provider t \<noteq> []
     \<and> te_status t = outcome_status (te_outcome t)"

definition valid_answer :: "clarification_answer \<Rightarrow> bool" where
  "valid_answer a \<longleftrightarrow>
     1 \<le> length (ca'_response a) \<and> length (ca'_response a) \<le> 4000
     \<and> opt_all (\<lambda>v. 1 \<le> length v \<and> length v \<le> 4000) (ca'_resolved_value a)"

definition event_of_data :: "event_data \<Rightarrow> event_name" where
  \<comment> \<open>the event whose model has this data\<close>
  "event_of_data data =
     (case data of
        DCreated _ _ \<Rightarrow> SessionCreated | DQueue _ _ _ _ _ \<Rightarrow> QueueStatus | DIntent _ \<Rightarrow> IntentResolved
      | DAssistant _ _ \<Rightarrow> AssistantCall | DCompression _ _ _ _ _ _ \<Rightarrow> ContextCompression
      | DToolStart _ _ \<Rightarrow> ToolStart | DToolEnd _ \<Rightarrow> ToolEnd | DFork _ _ _ _ \<Rightarrow> Fork
      | DReports _ _ _ \<Rightarrow> ReportGenerated | DResult _ \<Rightarrow> TaskResult | DCancelled _ \<Rightarrow> TaskCancelled
      | DRequired _ \<Rightarrow> ClarificationRequired | DResolved _ \<Rightarrow> ClarificationResolved | DError _ _ \<Rightarrow> ErrorEvent)"

definition valid_event_data :: "event_data \<Rightarrow> bool" where
  "valid_event_data data =
     (case data of
        DCreated t images \<Rightarrow> thread_token t \<and> (\<forall>i \<in> set images. valid_reference_image i)
      | DQueue t k position wait turns \<Rightarrow> thread_token t \<and> 0 \<le> position \<and> 0 \<le> wait \<and> 0 \<le> turns
      | DIntent d \<Rightarrow> 1 \<le> length (ir_resolved_query d) \<and> length (ir_resolved_query d) \<le> 4000
      | DAssistant step extra \<Rightarrow> step \<noteq> []
      | DCompression st reason compressed retained tokens names \<Rightarrow>
          code_token reason \<and> 0 \<le> compressed \<and> 0 \<le> retained \<and> 0 \<le> tokens \<and> length names \<le> 32
      | DToolStart tool args \<Rightarrow> tool \<noteq> []
      | DToolEnd t \<Rightarrow> valid_tool_end t
      | DFork branch p demand_platform demand_query \<Rightarrow>
          sub_thread_token branch \<and> demand_query \<noteq> [] \<and> length demand_query \<le> 4000 \<and> demand_platform = p
      | DReports snapshot effective files \<Rightarrow>
          thread_token snapshot \<and> files \<noteq> [] \<and> (\<forall>f \<in> set files. fields_file_link f)
      | DResult r \<Rightarrow> normalize_result_contract r \<noteq> None
      | DCancelled t \<Rightarrow> thread_token t
      | DRequired p \<Rightarrow> fields_clarification_prompt p
      | DResolved a \<Rightarrow> valid_answer a
      | DError t code \<Rightarrow> thread_token t \<and> given code)"

definition typed_event_data :: "event_name \<Rightarrow> event_data \<Rightarrow> event_data option" where
  \<comment> \<open>\<open>None\<close>: ValidationError\<close>
  "typed_event_data event data =
     (if event_of_data data \<noteq> event \<or> \<not> valid_event_data data then None
      else case data of DResult r \<Rightarrow> map_option DResult (normalize_result_contract r) | _ \<Rightarrow> Some data)"

record monitor_event =
  me_event_id :: pystr
  me_thread_id :: pystr
  me_run_id :: pystr
  me_sequence :: int
  me_event :: event_name
  me_message :: pystr
  me_data :: event_data
  me_data_mode :: data_mode
  me_timestamp :: rat

definition make_event ::
  "pystr \<Rightarrow> pystr \<Rightarrow> pystr \<Rightarrow> int \<Rightarrow> event_name \<Rightarrow> pystr \<Rightarrow> event_data \<Rightarrow> data_mode \<Rightarrow> rat \<Rightarrow> monitor_event option" where
  \<comment> \<open>the construction of a \<open>MonitorEvent\<close>\<close>
  "make_event event_id thread run sequence event message data mode timestamp =
     (if event_id_token event_id \<and> thread_token thread \<and> run_token run \<and> 1 \<le> sequence
      then map_option (\<lambda>d. \<lparr>me_event_id = event_id, me_thread_id = thread, me_run_id = run, me_sequence = sequence,
             me_event = event, me_message = message, me_data = d, me_data_mode = mode, me_timestamp = timestamp\<rparr>)
           (typed_event_data event data)
      else None)"

section \<open>Snapshots\<close>

datatype task_status = StRunning | StAwaiting | StCompleted | StCancelled | StError

record task_snapshot =
  tk_snapshot_id :: pystr
  tk_thread_id :: pystr
  tk_run_id :: pystr
  tk_generation :: int
  tk_status :: task_status
  tk_query :: pystr
  tk_user_id :: pystr
  tk_tenant_id :: pystr
  tk_data_mode :: data_mode
  tk_created_at :: rat
  tk_updated_at :: rat
  tk_lineage :: "snapshot_lineage option"
  tk_resolved_query :: "pystr option"
  tk_resolved_intent :: "shopping_plan option"
  tk_mode :: "research_mode option"
  tk_working_assumptions :: "working_assumption list"
  tk_applied_preferences :: remembered_preference
  tk_task_overrides :: "task_override list"
  tk_constraint_relaxations :: "constraint_relaxation list"
  tk_provider_coverage :: "(pystr \<times> provider_metadata) list"
  tk_product_evidence :: "candidate list"
  tk_exchange_rate :: "exchange_rate_provenance option"
  tk_report_references :: "file_link list"
  tk_events :: "monitor_event list"
  tk_result :: "shopping_summary_output option"
  tk_clarification :: "clarification_prompt option"
  tk_clarification_answers :: "(clarification_field \<times> pystr) list"
  tk_error_code :: "pystr option"
  tk_error :: "pystr option"
  tk_recall_provenance :: "recall_provenance option"

definition evidence_fits_mode :: "data_mode \<Rightarrow> candidate list \<Rightarrow> bool" where
  "evidence_fits_mode mode evidence \<longleftrightarrow>
     (mode = Live \<longrightarrow> (\<forall>c \<in> set evidence. ca_source c = SrcLive))
     \<and> (mode = Sandbox \<longrightarrow> (\<forall>c \<in> set evidence. ca_source c = SrcFixture))"

definition agrees :: "'a option \<Rightarrow> 'a option \<Rightarrow> bool" where
  "agrees a b \<longleftrightarrow> (case (a, b) of (Some x, Some y) \<Rightarrow> x = y | _ \<Rightarrow> True)"

definition validate_snapshot :: "task_snapshot \<Rightarrow> bool" where
  "validate_snapshot s \<longleftrightarrow>
     evidence_fits_mode (tk_data_mode s) (tk_product_evidence s)
     \<and> (case tk_result s of None \<Rightarrow> True | Some r \<Rightarrow>
          so_data_mode r = tk_data_mode s
          \<and> (tk_mode s \<noteq> None \<longrightarrow> tk_mode s = Some (so_mode r))
          \<and> agrees (tk_resolved_intent s) (so_resolved_intent r)
          \<and> (tk_product_evidence s \<noteq> [] \<longrightarrow> tk_product_evidence s = so_product_evidence r)
          \<and> (tk_provider_coverage s \<noteq> [] \<longrightarrow> tk_provider_coverage s = so_providers r)
          \<and> agrees (tk_recall_provenance s) (so_recall_provenance r)
          \<and> (tk_report_references s \<noteq> [] \<longrightarrow> tk_report_references s = so_files r))"

text \<open>A fresh snapshot, as \<open>create_task\<close> builds it.\<close>

definition new_snapshot ::
  "pystr \<Rightarrow> pystr \<Rightarrow> pystr \<Rightarrow> pystr \<Rightarrow> pystr \<Rightarrow> data_mode \<Rightarrow> rat \<Rightarrow> task_snapshot" where
  "new_snapshot thread run query user tenant mode created =
     \<lparr>tk_snapshot_id = thread, tk_thread_id = thread, tk_run_id = run, tk_generation = 0,
      tk_status = StRunning, tk_query = query, tk_user_id = user, tk_tenant_id = tenant,
      tk_data_mode = mode, tk_created_at = created, tk_updated_at = created, tk_lineage = None,
      tk_resolved_query = None, tk_resolved_intent = None, tk_mode = None, tk_working_assumptions = [],
      tk_applied_preferences = no_preferences, tk_task_overrides = [], tk_constraint_relaxations = [],
      tk_provider_coverage = [], tk_product_evidence = [], tk_exchange_rate = None,
      tk_report_references = [], tk_events = [], tk_result = None, tk_clarification = None,
      tk_clarification_answers = [], tk_error_code = None, tk_error = None, tk_recall_provenance = None\<rparr>"

section \<open>The store\<close>

record task_record =
  tr_run_id :: pystr
  tr_snapshot :: task_snapshot
  tr_task :: nat
  tr_owner_handle :: "nat option"
  tr_generation :: int
  tr_deleting :: bool

datatype task_file = NoFile | Unreadable | Stored task_snapshot

datatype tombstone_file = Broken | Marked task_tombstone

record store =
  records :: "(pystr \<times> task_record) list"
  directories :: "(pystr \<times> task_file) list"
  tombstones :: "(pystr \<times> tombstone_file) list"

datatype io = CannotOpen | CannotWrite | Written

datatype task_error =
    TaskDeletedError | SnapshotPersistenceError | SupersededRun | TerminalTask | BadTransition
  | InvalidEvent | InvalidAnswer | DataModeMismatch | ReportGenerationError

definition DEFAULT_TENANT :: pystr where "DEFAULT_TENANT = lit ''default''"

definition fallback_tombstone :: "pystr \<Rightarrow> task_tombstone" where
  "fallback_tombstone thread =
     \<lparr>ts_thread_id = thread, ts_user_id = None, ts_tenant_id = DEFAULT_TENANT, ts_generation = 1,
      ts_deleted_at = lit ''now''\<rparr>"

definition read_tombstone :: "pystr \<Rightarrow> store \<Rightarrow> task_tombstone option" where
  \<comment> \<open>the time of reading in a substitute for an unreadable file is written \<open>now\<close>\<close>
  "read_tombstone thread st =
     (case map_of (tombstones st) thread of
        None \<Rightarrow> None
      | Some Broken \<Rightarrow> Some (fallback_tombstone thread)
      | Some (Marked t) \<Rightarrow>
          if ts_thread_id t = thread \<and> fields_task_tombstone t then Some t else Some (fallback_tombstone thread))"

definition task_is_deleted :: "pystr \<Rightarrow> store \<Rightarrow> bool" where
  "task_is_deleted thread st \<longleftrightarrow> read_tombstone thread st \<noteq> None"

definition ensure_directory :: "pystr \<Rightarrow> store \<Rightarrow> store" where
  "ensure_directory thread st =
     (if map_of (directories st) thread = None then st\<lparr>directories := directories st @ [(thread, NoFile)]\<rparr> else st)"

definition write_file :: "pystr \<Rightarrow> task_file \<Rightarrow> store \<Rightarrow> store" where
  "write_file thread f st = st\<lparr>directories := AList.update thread f (directories st)\<rparr>"

definition persist_snapshot :: "io \<Rightarrow> task_snapshot \<Rightarrow> store \<Rightarrow> task_error option \<times> store" where
  "persist_snapshot io snapshot st =
     (if task_is_deleted (tk_thread_id snapshot) st then (Some TaskDeletedError, st)
      else case io of
        CannotOpen \<Rightarrow> (Some SnapshotPersistenceError, st)
      | CannotWrite \<Rightarrow> (Some SnapshotPersistenceError, ensure_directory (tk_thread_id snapshot) st)
      | Written \<Rightarrow> (None, write_file (tk_thread_id snapshot) (Stored snapshot) st))"

definition read_persisted_snapshot :: "pystr \<Rightarrow> store \<Rightarrow> task_snapshot option" where
  "read_persisted_snapshot thread st =
     (if \<not> thread_token thread \<or> task_is_deleted thread st then None
      else case map_of (directories st) thread of
        Some (Stored s) \<Rightarrow> if validate_snapshot s then Some s else None
      | _ \<Rightarrow> None)"

definition write_tombstone ::
  "io \<Rightarrow> pystr \<Rightarrow> pystr option \<Rightarrow> pystr \<Rightarrow> int \<Rightarrow> pystr \<Rightarrow> store \<Rightarrow> (task_error + task_tombstone) \<times> store" where
  "write_tombstone io thread user tenant generation deleted_at st =
     (case read_tombstone thread st of
        Some existing \<Rightarrow> (Inr existing, st)
      | None \<Rightarrow>
          let payload = \<lparr>ts_thread_id = thread, ts_user_id = user, ts_tenant_id = tenant,
                         ts_generation = max 1 generation, ts_deleted_at = deleted_at\<rparr>
          in if io = Written
             then (Inr payload, st\<lparr>tombstones := AList.update thread (Marked payload) (tombstones st)\<rparr>)
             else (Inl SnapshotPersistenceError, st))"

definition remove_task_directory :: "pystr \<Rightarrow> store \<Rightarrow> store" where
  "remove_task_directory thread st = st\<lparr>directories := AList.delete thread (directories st)\<rparr>"

definition set_record :: "pystr \<Rightarrow> task_record \<Rightarrow> store \<Rightarrow> store" where
  "set_record thread r st = st\<lparr>records := AList.update thread r (records st)\<rparr>"

definition pop_record :: "pystr \<Rightarrow> store \<Rightarrow> store" where
  "pop_record thread st = st\<lparr>records := AList.delete thread (records st)\<rparr>"

section \<open>Recording events\<close>

record report_file_spec =
  rs_format :: report_format
  rs_name :: pystr
  rs_content_type :: pystr

definition REPORT_FILE_SPECS :: "report_file_spec list" where
  "REPORT_FILE_SPECS =
     [\<lparr>rs_format = FormatMarkdown, rs_name = lit ''shopping-report.md'', rs_content_type = lit ''text/markdown; charset=utf-8''\<rparr>,
      \<lparr>rs_format = FormatJson, rs_name = lit ''shopping-report.json'', rs_content_type = lit ''application/json; charset=utf-8''\<rparr>,
      \<lparr>rs_format = FormatPdf, rs_name = lit ''shopping-report.pdf'', rs_content_type = lit ''application/pdf''\<rparr>]"

fun format_name :: "report_format \<Rightarrow> pystr" where
  "format_name FormatMarkdown = lit ''markdown''" | "format_name FormatJson = lit ''json''" | "format_name FormatPdf = lit ''pdf''"

definition report_file_links :: "task_snapshot \<Rightarrow> file_link list" where
  "report_file_links s =
     map (\<lambda>spec. \<lparr>fk_file_id = Some (tk_snapshot_id s @ lit '':'' @ format_name (rs_format spec)),
                   fk_format = Some (rs_format spec), fk_name = rs_name spec,
                   fk_url = lit ''/api/files/'' @ tk_thread_id s @ lit ''/'' @ rs_name spec,
                   fk_content_type = Some (rs_content_type spec)\<rparr>) REPORT_FILE_SPECS"

datatype report_outcome = ReportsWritten | ReportsFailed

record emission =
  em_event_id :: pystr
  em_report_event_id :: pystr
  em_timestamp :: rat
  em_io :: io
  em_reports :: report_outcome

definition previous_sequence :: "task_snapshot \<Rightarrow> int" where
  "previous_sequence s = (if tk_events s = [] then 0 else me_sequence (last (tk_events s)))"

definition terminal_snapshot :: "rat \<Rightarrow> pystr \<Rightarrow> shopping_summary_output \<Rightarrow> file_link list \<Rightarrow> task_snapshot \<Rightarrow> task_snapshot" where
  "terminal_snapshot timestamp thread result files s =
     s\<lparr>tk_status := StCompleted, tk_updated_at := timestamp, tk_result := Some result,
       tk_snapshot_id := (if tk_snapshot_id s = [] then thread else tk_snapshot_id s),
       tk_resolved_query := (if given (so_resolved_query result) then so_resolved_query result else tk_resolved_query s),
       tk_resolved_intent := (if so_resolved_intent result \<noteq> None then so_resolved_intent result else tk_resolved_intent s),
       tk_mode := Some (so_mode result), tk_working_assumptions := so_working_assumptions result,
       tk_applied_preferences := so_applied_preferences result, tk_task_overrides := so_task_overrides result,
       tk_constraint_relaxations := so_constraint_relaxations result,
       tk_provider_coverage := so_providers result, tk_product_evidence := so_product_evidence result,
       tk_exchange_rate := Some (so_exchange_rate result), tk_report_references := files,
       tk_recall_provenance := so_recall_provenance result, tk_error_code := None, tk_error := None\<rparr>"

definition record_task_result ::
  "emission \<Rightarrow> pystr \<Rightarrow> pystr \<Rightarrow> event_data \<Rightarrow> task_record \<Rightarrow> store \<Rightarrow> (task_error + monitor_event list) \<times> store" where
  "record_task_result em thread message data r st =
     (let s = tr_snapshot r
      in if tr_deleting r \<or> task_is_deleted thread st then (Inl TaskDeletedError, st)
         else case typed_event_data TaskResult data of
           Some (DResult validated) \<Rightarrow>
             if so_data_mode validated \<noteq> tk_data_mode s then (Inl DataModeMismatch, st)
             else
               (let files = report_file_links s;
                    result = validated\<lparr>so_files := files\<rparr>;
                    terminal = terminal_snapshot (em_timestamp em) thread result files s;
                    st1 = ensure_directory thread st;
                    n = previous_sequence s
                in if em_reports em = ReportsFailed then (Inl ReportGenerationError, st1)
                   else case (make_event (em_report_event_id em) thread (tr_run_id r) (n + 1) ReportGenerated
                                [30740, 31350, 25253, 21578, 24050, 29983, 25104]
                                (DReports (tk_snapshot_id terminal) (em_timestamp em) files) (tk_data_mode s) (em_timestamp em),
                              make_event (em_event_id em) thread (tr_run_id r) (n + 2) TaskResult message
                                (DResult result) (tk_data_mode s) (em_timestamp em)) of
                     (Some report_event, Some envelope) \<Rightarrow>
                       (let s' = terminal\<lparr>tk_events := tk_events s @ [report_event, envelope]\<rparr>
                        in case persist_snapshot (em_io em) s' st1 of
                             (Some e, st2) \<Rightarrow> (Inl e, st2)
                           | (None, st2) \<Rightarrow> (Inr [report_event, envelope], set_record thread (r\<lparr>tr_snapshot := s'\<rparr>) st2))
                   | _ \<Rightarrow> (Inl InvalidEvent, st1))
         | _ \<Rightarrow> (Inl InvalidEvent, st))"

fun allowed_statuses :: "event_name \<Rightarrow> task_status list" where
  "allowed_statuses ReportGenerated = [StCompleted]"
| "allowed_statuses TaskCancelled = [StRunning, StAwaiting]"
| "allowed_statuses ClarificationResolved = [StAwaiting]"
| "allowed_statuses _ = [StRunning]"

definition terminal_status :: "task_status \<Rightarrow> bool" where
  "terminal_status s \<longleftrightarrow> s \<in> {StCompleted, StCancelled, StError}"

fun event_changes :: "event_data \<Rightarrow> pystr \<Rightarrow> task_snapshot \<Rightarrow> task_error + task_snapshot" where
  "event_changes (DIntent d) message s =
     Inr (s\<lparr>tk_resolved_query := Some (ir_resolved_query d), tk_resolved_intent := Some (ir_resolved_intent d),
            tk_mode := Some (sp_mode (ir_resolved_intent d)),
            tk_working_assumptions := sp_working_assumptions (ir_resolved_intent d),
            tk_applied_preferences := ir_applied_preferences d, tk_task_overrides := ir_task_overrides d,
            tk_constraint_relaxations := ir_constraint_relaxations d\<rparr>)"
| "event_changes (DCancelled t) message s =
     Inr (s\<lparr>tk_status := StCancelled, tk_result := None, tk_clarification := None, tk_error_code := None, tk_error := None\<rparr>)"
| "event_changes (DRequired p) message s =
     Inr (s\<lparr>tk_status := StAwaiting, tk_result := None, tk_clarification := Some p, tk_error_code := None, tk_error := None\<rparr>)"
| "event_changes (DResolved a) message s =
     (case (case ca'_resolved_value a of Some v \<Rightarrow> Inr v
            | None \<Rightarrow> normalize_clarification_response (ca'_field a) (ca'_response a)) of
        Inl _ \<Rightarrow> Inl InvalidAnswer
      | Inr v \<Rightarrow>
          Inr (s\<lparr>tk_status := StRunning, tk_clarification := None,
                 tk_clarification_answers := AList.update (ca'_field a) v (tk_clarification_answers s),
                 tk_error_code := None, tk_error := None\<rparr>))"
| "event_changes (DError t code) message s =
     Inr (s\<lparr>tk_status := StError, tk_result := None, tk_clarification := None,
            tk_error_code := Some (if given code then the code else lit ''task_failed''), tk_error := Some message\<rparr>)"
| "event_changes _ message s = Inr s"

definition record_event ::
  "emission \<Rightarrow> pystr \<Rightarrow> event_name \<Rightarrow> pystr \<Rightarrow> event_data \<Rightarrow> pystr option \<Rightarrow> store \<Rightarrow>
     (task_error + monitor_event list) \<times> store" where
  "record_event em thread event message data emitted_run_id st =
     (case map_of (records st) thread of
        None \<Rightarrow> (Inl TaskDeletedError, st)
      | Some r \<Rightarrow>
          let s = tr_snapshot r
          in if tr_deleting r \<or> task_is_deleted thread st then (Inl TaskDeletedError, st)
             else if emitted_run_id \<noteq> None \<and> emitted_run_id \<noteq> Some (tr_run_id r) then (Inl SupersededRun, st)
             else if tk_status s \<notin> set (allowed_statuses event)
             then (Inl (if terminal_status (tk_status s) then TerminalTask else BadTransition), st)
             else if event = TaskResult then record_task_result em thread message data r st
             else case make_event (em_event_id em) thread (tr_run_id r) (previous_sequence s + 1) event message data
                         (tk_data_mode s) (em_timestamp em) of
               None \<Rightarrow> (Inl InvalidEvent, st)
             | Some envelope \<Rightarrow>
                 (case event_changes (me_data envelope) message
                         (s\<lparr>tk_events := tk_events s @ [envelope], tk_updated_at := em_timestamp em\<rparr>) of
                    Inl e \<Rightarrow> (Inl e, st)
                  | Inr s' \<Rightarrow>
                      (case persist_snapshot (em_io em) s' st of
                         (Some e, st') \<Rightarrow> (Inl e, st')
                       | (None, st') \<Rightarrow> (Inr [envelope], set_record thread (r\<lparr>tr_snapshot := s'\<rparr>) st'))))"

section \<open>The timeline as an automaton\<close>

text \<open>
  The specification: the status of a task is what its sequence of event names says, whatever the
  events carry. \<open>next_status\<close> is written from the life cycle of a task, not from the table of the
  code.
\<close>

definition status_after :: "event_name \<Rightarrow> task_status \<Rightarrow> task_status" where
  "status_after event s =
     (case event of TaskResult \<Rightarrow> StCompleted | TaskCancelled \<Rightarrow> StCancelled | ClarificationRequired \<Rightarrow> StAwaiting
      | ClarificationResolved \<Rightarrow> StRunning | ErrorEvent \<Rightarrow> StError | _ \<Rightarrow> s)"

definition next_status :: "event_name \<Rightarrow> task_status \<Rightarrow> task_status option" where
  "next_status event s =
     (case s of
        StRunning \<Rightarrow> (case event of TaskResult \<Rightarrow> Some StCompleted | TaskCancelled \<Rightarrow> Some StCancelled
          | ClarificationRequired \<Rightarrow> Some StAwaiting | ErrorEvent \<Rightarrow> Some StError
          | ClarificationResolved \<Rightarrow> None | _ \<Rightarrow> Some StRunning)
      | StAwaiting \<Rightarrow> (case event of TaskCancelled \<Rightarrow> Some StCancelled | ClarificationResolved \<Rightarrow> Some StRunning | _ \<Rightarrow> None)
      | StCompleted \<Rightarrow> (if event = ReportGenerated then Some StCompleted else None)
      | StCancelled \<Rightarrow> None
      | StError \<Rightarrow> None)"

lemma next_status_allowed:
  "s \<in> set (allowed_statuses event) \<Longrightarrow> next_status event s = Some (status_after event s)"
  by (cases event) (auto simp: next_status_def status_after_def)

fun replay :: "event_name list \<Rightarrow> task_status \<Rightarrow> task_status option" where
  "replay [] s = Some s"
| "replay (e # es) s = (case next_status e s of None \<Rightarrow> None | Some s' \<Rightarrow> replay es s')"

lemma replay_append: "replay (es @ fs) s = (case replay es s of None \<Rightarrow> None | Some s' \<Rightarrow> replay fs s')"
  by (induction es arbitrary: s) (auto split: option.splits)

definition good_snapshot :: "task_snapshot \<Rightarrow> bool" where
  "good_snapshot s \<longleftrightarrow>
     replay (map me_event (tk_events s)) StRunning = Some (tk_status s)
     \<and> map me_sequence (tk_events s) = map int [1..<Suc (length (tk_events s))]
     \<and> (\<forall>e \<in> set (tk_events s). me_thread_id e = tk_thread_id s \<and> me_run_id e = tk_run_id s \<and> me_data_mode e = tk_data_mode s)
     \<and> (tk_status s = StAwaiting \<longleftrightarrow> tk_clarification s \<noteq> None)
     \<and> (tk_status s = StCompleted \<longleftrightarrow> tk_result s \<noteq> None)
     \<and> (tk_status s = StError \<longleftrightarrow> tk_error_code s \<noteq> None)
     \<and> validate_snapshot s"

definition good_record :: "pystr \<Rightarrow> task_record \<Rightarrow> bool" where
  "good_record thread r \<longleftrightarrow>
     good_snapshot (tr_snapshot r) \<and> tk_thread_id (tr_snapshot r) = thread \<and> tk_run_id (tr_snapshot r) = tr_run_id r"

definition good_store :: "store \<Rightarrow> bool" where
  "good_store st \<longleftrightarrow>
     (\<forall>thread r. map_of (records st) thread = Some r \<longrightarrow>
        good_record thread r
        \<and> (\<not> task_is_deleted thread st \<longrightarrow> map_of (directories st) thread = Some (Stored (tr_snapshot r))))"

subsection \<open>Frames\<close>

lemma event_changes_frame:
  assumes "event_changes d m s = Inr s'"
  shows "tk_events s' = tk_events s" "tk_thread_id s' = tk_thread_id s" "tk_run_id s' = tk_run_id s"
    "tk_data_mode s' = tk_data_mode s" "tk_product_evidence s' = tk_product_evidence s"
    "tk_snapshot_id s' = tk_snapshot_id s" "tk_user_id s' = tk_user_id s" "tk_tenant_id s' = tk_tenant_id s"
    "tk_lineage s' = tk_lineage s" "tk_updated_at s' = tk_updated_at s" "tk_query s' = tk_query s"
  using assms by (cases d; auto split: option.splits sum.splits)+

lemma event_changes_status:
  assumes "event_changes d m s = Inr s'" "event_of_data d \<noteq> TaskResult"
  shows "tk_status s' = status_after (event_of_data d) (tk_status s)"
  using assms by (cases d) (auto simp: status_after_def event_of_data_def split: option.splits sum.splits)

lemma event_changes_flags:
  assumes "event_changes d m s = Inr s'" "event_of_data d \<noteq> TaskResult"
    and "tk_status s \<in> set (allowed_statuses (event_of_data d))"
    and "tk_status s = StAwaiting \<longleftrightarrow> tk_clarification s \<noteq> None"
    and "tk_status s = StCompleted \<longleftrightarrow> tk_result s \<noteq> None"
    and "tk_status s = StError \<longleftrightarrow> tk_error_code s \<noteq> None"
  shows "(tk_status s' = StAwaiting \<longleftrightarrow> tk_clarification s' \<noteq> None)
    \<and> (tk_status s' = StCompleted \<longleftrightarrow> tk_result s' \<noteq> None)
    \<and> (tk_status s' = StError \<longleftrightarrow> tk_error_code s' \<noteq> None)"
  using assms by (cases d) (auto simp: event_of_data_def split: option.splits sum.splits)

lemma event_changes_reports:
  assumes "event_changes d m s = Inr s'" "event_of_data d = ReportGenerated" shows "s' = s"
  using assms by (cases d) (auto simp: event_of_data_def)

subsection \<open>The store\<close>

lemma set_record_simps [simp]:
  "map_of (records (set_record t r st)) = (map_of (records st))(t \<mapsto> r)"
  "directories (set_record t r st) = directories st" "tombstones (set_record t r st) = tombstones st"
  by (simp_all add: set_record_def update_conv')

lemma pop_record_simps [simp]:
  "map_of (records (pop_record t st)) = (map_of (records st))(t := None)"
  "directories (pop_record t st) = directories st" "tombstones (pop_record t st) = tombstones st"
  by (auto simp: pop_record_def delete_conv' fun_eq_iff restrict_map_def)

lemma write_file_simps [simp]:
  "map_of (directories (write_file t f st)) = (map_of (directories st))(t \<mapsto> f)"
  "records (write_file t f st) = records st" "tombstones (write_file t f st) = tombstones st"
  by (simp_all add: write_file_def update_conv')

lemma ensure_directory_simps [simp]:
  "records (ensure_directory t st) = records st" "tombstones (ensure_directory t st) = tombstones st"
  "map_of (directories (ensure_directory t st)) t' = Some (Stored s) \<longleftrightarrow> map_of (directories st) t' = Some (Stored s)"
  by (auto simp: ensure_directory_def map_add_def split: option.splits if_splits)

lemma remove_task_directory_simps [simp]:
  "map_of (directories (remove_task_directory t st)) = (map_of (directories st))(t := None)"
  "records (remove_task_directory t st) = records st" "tombstones (remove_task_directory t st) = tombstones st"
  by (auto simp: remove_task_directory_def delete_conv' fun_eq_iff restrict_map_def)

lemma task_is_deleted_cong: "tombstones st = tombstones st' \<Longrightarrow> task_is_deleted t st = task_is_deleted t st'"
  by (simp add: task_is_deleted_def read_tombstone_def)

lemma deleted_simps [simp]:
  "task_is_deleted t (set_record t' r st) = task_is_deleted t st"
  "task_is_deleted t (pop_record t' st) = task_is_deleted t st"
  "task_is_deleted t (write_file t' f st) = task_is_deleted t st"
  "task_is_deleted t (ensure_directory t' st) = task_is_deleted t st"
  "task_is_deleted t (remove_task_directory t' st) = task_is_deleted t st"
  by (rule task_is_deleted_cong, simp)+

lemma task_is_deleted_iff: "task_is_deleted t st \<longleftrightarrow> map_of (tombstones st) t \<noteq> None"
  by (auto simp: task_is_deleted_def read_tombstone_def split: option.splits tombstone_file.splits)

lemma persist_None_iff:
  "persist_snapshot io s st = (None, st') \<longleftrightarrow>
     \<not> task_is_deleted (tk_thread_id s) st \<and> io = Written \<and> st' = write_file (tk_thread_id s) (Stored s) st"
  by (cases io) (auto simp: persist_snapshot_def)

lemma read_persisted_iff:
  "read_persisted_snapshot t st = Some s \<longleftrightarrow>
     thread_token t \<and> \<not> task_is_deleted t st \<and> map_of (directories st) t = Some (Stored s) \<and> validate_snapshot s"
  by (auto simp: read_persisted_snapshot_def split: option.splits task_file.splits)

lemma option_eqI: "(\<And>x. a = Some x \<longleftrightarrow> b = Some x) \<Longrightarrow> a = b"
  by (cases a; cases b) auto

text \<open>What a step leaves as it was: the records, the tombstones and every readable file.\<close>

definition same_store :: "store \<Rightarrow> store \<Rightarrow> bool" where
  "same_store st st' \<longleftrightarrow> records st' = records st \<and> tombstones st' = tombstones st
     \<and> (\<forall>t s. map_of (directories st') t = Some (Stored s) \<longleftrightarrow> map_of (directories st) t = Some (Stored s))"

lemma same_store_refl [simp]: "same_store st st"
  by (simp add: same_store_def)

lemma same_store_ensure [simp]: "same_store st (ensure_directory t st)"
  by (simp add: same_store_def)

lemma same_store_trans: "same_store a b \<Longrightarrow> same_store b c \<Longrightarrow> same_store a c"
  by (simp add: same_store_def)

lemma same_store_good: "same_store st st' \<Longrightarrow> good_store st \<Longrightarrow> good_store st'"
  using task_is_deleted_cong [of st' st] by (simp add: same_store_def good_store_def)

lemma same_store_read:
  assumes "same_store st st'" shows "read_persisted_snapshot t st' = read_persisted_snapshot t st"
  using assms task_is_deleted_cong [of st' st t]
  by (intro option_eqI) (simp add: read_persisted_iff same_store_def)

lemma persist_error_same: "persist_snapshot io s st = (Some e, st') \<Longrightarrow> same_store st st'"
  by (cases io) (auto simp: persist_snapshot_def split: if_splits)

subsection \<open>A successful event\<close>

text \<open>
  The step that \<open>record_event\<close> takes when it succeeds: the record of the thread goes from
  \<open>r\<close> to \<open>r'\<close> and its new snapshot is the one on disk.
\<close>

definition advances :: "pystr \<Rightarrow> task_record \<Rightarrow> monitor_event list \<Rightarrow> task_record \<Rightarrow> store \<Rightarrow> store \<Rightarrow> bool" where
  "advances thread r es r' st st' \<longleftrightarrow>
     map_of (records st) thread = Some r \<and> \<not> task_is_deleted thread st \<and> \<not> tr_deleting r
     \<and> map_of (records st') = (map_of (records st))(thread \<mapsto> r')
     \<and> tombstones st' = tombstones st
     \<and> map_of (directories st') thread = Some (Stored (tr_snapshot r'))
     \<and> (\<forall>t s. t \<noteq> thread \<longrightarrow> (map_of (directories st') t = Some (Stored s) \<longleftrightarrow> map_of (directories st) t = Some (Stored s)))
     \<and> tk_events (tr_snapshot r') = tk_events (tr_snapshot r) @ es
     \<and> tr_run_id r' = tr_run_id r \<and> tr_deleting r' = tr_deleting r"

lemma advances_good_store:
  assumes "advances thread r es r' st st'" "good_store st" "good_record thread r'"
  shows "good_store st'"
  unfolding good_store_def
proof (intro allI impI)
  fix t q assume q: "map_of (records st') t = Some q"
  show "good_record t q \<and> (\<not> task_is_deleted t st' \<longrightarrow> map_of (directories st') t = Some (Stored (tr_snapshot q)))"
  proof (cases "t = thread")
    case True
    then show ?thesis using q assms by (auto simp: advances_def)
  next
    case False
    then have "map_of (records st) t = Some q" using q assms(1) by (simp add: advances_def)
    with assms(2) have "good_record t q"
      and "\<not> task_is_deleted t st \<longrightarrow> map_of (directories st) t = Some (Stored (tr_snapshot q))"
      by (simp_all add: good_store_def)
    moreover have "task_is_deleted t st' = task_is_deleted t st"
      using assms(1) by (intro task_is_deleted_cong) (simp add: advances_def)
    ultimately show ?thesis using False assms(1) by (simp add: advances_def)
  qed
qed

lemma record_event_error_same:
  assumes "record_event em thread event message data run st = (Inl e, st')"
  shows "same_store st st'"
  using assms
  by (auto simp: record_event_def record_task_result_def Let_def same_store_trans [OF same_store_ensure persist_error_same]
      dest: persist_error_same split: option.splits if_splits sum.splits prod.splits event_data.splits)

lemma make_event_Some:
  assumes "make_event i t r n ev m d mode ts = Some e"
  shows "me_thread_id e = t" "me_run_id e = r" "me_sequence e = n" "me_event e = ev" "me_data_mode e = mode"
    "me_timestamp e = ts" "typed_event_data ev d = Some (me_data e)"
  using assms by (auto simp: make_event_def split: if_splits)

lemma typed_event_of_data: "typed_event_data ev d = Some d' \<Longrightarrow> event_of_data d' = ev"
  by (auto simp: typed_event_data_def event_of_data_def split: event_data.splits if_splits)

lemma numbered_snoc:
  "map me_sequence (xs @ [e]) = map int [1..<Suc (length (xs @ [e]))] \<longleftrightarrow>
     map me_sequence xs = map int [1..<Suc (length xs)] \<and> me_sequence e = int (Suc (length xs))"
proof -
  have "map int [1..<Suc (length (xs @ [e]))] = map int [1..<Suc (length xs)] @ [int (Suc (length xs))]" by simp
  then show ?thesis by (simp only: map_append list.map append_eq_append_conv length_map) auto
qed

lemma previous_sequence_good:
  "good_snapshot s \<Longrightarrow> previous_sequence s = int (length (tk_events s))"
  by (cases "tk_events s" rule: rev_cases) (simp_all add: good_snapshot_def previous_sequence_def numbered_snoc)

lemma validate_snapshot_log [simp]:
  "validate_snapshot (s\<lparr>tk_events := es, tk_updated_at := ts\<rparr>) = validate_snapshot s"
  unfolding validate_snapshot_def by (cases "tk_result s") simp_all

lemma replay_snoc:
  "replay es s0 = Some s \<Longrightarrow> next_status e s = Some s' \<Longrightarrow> replay (es @ [e]) s0 = Some s'"
  by (simp add: replay_append)

lemma good_extend:
  assumes "good_snapshot s" "me_event e = ev" "me_sequence e = previous_sequence s + 1"
    and "me_thread_id e = tk_thread_id s" "me_run_id e = tk_run_id s" "me_data_mode e = tk_data_mode s"
    and "tk_status s \<in> set (allowed_statuses ev)" "ev \<noteq> TaskResult"
    and "event_of_data d = ev"
    and "event_changes d m (s\<lparr>tk_events := tk_events s @ [e], tk_updated_at := ts\<rparr>) = Inr s'"
  shows "good_snapshot s'"
proof -
  let ?s = "s\<lparr>tk_events := tk_events s @ [e], tk_updated_at := ts\<rparr>"
  note fr = event_changes_frame [OF assms(10)]
  have st: "tk_status s' = status_after ev (tk_status s)"
    using event_changes_status [OF assms(10)] assms(8,9) by simp
  have fl: "(tk_status s' = StAwaiting \<longleftrightarrow> tk_clarification s' \<noteq> None)
    \<and> (tk_status s' = StCompleted \<longleftrightarrow> tk_result s' \<noteq> None) \<and> (tk_status s' = StError \<longleftrightarrow> tk_error_code s' \<noteq> None)"
    using event_changes_flags [OF assms(10)] assms(1,7,8,9) by (simp add: good_snapshot_def)
  have "replay (map me_event (tk_events s')) StRunning = Some (tk_status s')"
    using assms(1,2) next_status_allowed [OF assms(7)] replay_snoc [of "map me_event (tk_events s)" StRunning "tk_status s" ev]
    by (simp add: fr good_snapshot_def st)
  moreover have "map me_sequence (tk_events s') = map int [1..<Suc (length (tk_events s'))]"
    using assms(1,3) previous_sequence_good [OF assms(1)] unfolding fr task_snapshot.simps numbered_snoc
    by (simp add: fr good_snapshot_def)
  moreover have "\<forall>x \<in> set (tk_events s'). me_thread_id x = tk_thread_id s' \<and> me_run_id x = tk_run_id s'
      \<and> me_data_mode x = tk_data_mode s'"
    using assms(1,4,5,6) by (auto simp: fr good_snapshot_def)
  moreover have "validate_snapshot s'"
  proof (cases "tk_result s' = None")
    case True
    then show ?thesis using assms(1) by (simp add: validate_snapshot_def good_snapshot_def fr)
  next
    case False
    with fl st have "status_after ev (tk_status s) = StCompleted" by simp
    with assms(7,8) have "ev = ReportGenerated" by (cases ev) (auto simp: status_after_def)
    with event_changes_reports [OF assms(10)] assms(9) have "s' = ?s" by simp
    then show ?thesis using assms(1) by (simp add: good_snapshot_def)
  qed
  ultimately show ?thesis using fl by (simp add: good_snapshot_def)
qed

lemma good_store_record:
  "good_store st \<Longrightarrow> map_of (records st) t = Some r \<Longrightarrow> good_record t r"
  by (simp add: good_store_def)

lemma record_event_other:
  assumes "record_event em thread event message data run st = (Inr es, st')" "event \<noteq> TaskResult" "good_store st"
  obtains r r' e where "es = [e]" "advances thread r es r' st st'" "good_record thread r'"
    "me_event e = event" "tk_status (tr_snapshot r) \<in> set (allowed_statuses event)"
    "tk_status (tr_snapshot r') = status_after event (tk_status (tr_snapshot r))"
    "event_changes (me_data e) message
       ((tr_snapshot r)\<lparr>tk_events := tk_events (tr_snapshot r) @ [e], tk_updated_at := em_timestamp em\<rparr>) = Inr (tr_snapshot r')"
    "run \<noteq> None \<longrightarrow> run = Some (tr_run_id r)" "r' = r\<lparr>tr_snapshot := tr_snapshot r'\<rparr>"
    "event_of_data (me_data e) = event"
proof -
  from assms(1,2) obtain r e s' where r: "map_of (records st) thread = Some r"
    and nd: "\<not> tr_deleting r" "\<not> task_is_deleted thread st"
    and run: "run \<noteq> None \<longrightarrow> run = Some (tr_run_id r)"
    and al: "tk_status (tr_snapshot r) \<in> set (allowed_statuses event)"
    and e: "make_event (em_event_id em) thread (tr_run_id r) (previous_sequence (tr_snapshot r) + 1) event message data
              (tk_data_mode (tr_snapshot r)) (em_timestamp em) = Some e"
    and ch: "event_changes (me_data e) message
       ((tr_snapshot r)\<lparr>tk_events := tk_events (tr_snapshot r) @ [e], tk_updated_at := em_timestamp em\<rparr>) = Inr s'"
    and p: "persist_snapshot (em_io em) s' st = (None, write_file (tk_thread_id s') (Stored s') st)"
    and out: "es = [e]" "st' = set_record thread (r\<lparr>tr_snapshot := s'\<rparr>) (write_file (tk_thread_id s') (Stored s') st)"
    by (auto simp: record_event_def Let_def persist_None_iff split: option.splits if_splits sum.splits prod.splits)
  have g: "good_record thread r" using good_store_record [OF assms(3) r] .
  note fr = event_changes_frame [OF ch]
  note me = make_event_Some [OF e]
  have od: "event_of_data (me_data e) = event" using typed_event_of_data [OF me(7)] .
  have gs: "good_snapshot s'"
    by (rule good_extend [OF _ me(4) me(3) _ _ _ al assms(2) od ch])
      (use g me in \<open>simp_all add: good_record_def\<close>)
  have t: "tk_thread_id s' = thread" using g fr by (simp add: good_record_def)
  have "advances thread r es (r\<lparr>tr_snapshot := s'\<rparr>) st st'"
    using r nd fr out t by (simp add: advances_def)
  moreover have "good_record thread (r\<lparr>tr_snapshot := s'\<rparr>)"
    using gs t g fr by (simp add: good_record_def)
  moreover have "tk_status s' = status_after event (tk_status (tr_snapshot r))"
    using event_changes_status [OF ch] assms(2) od by simp
  ultimately show ?thesis
    using out(1) me(4) al ch run od by (intro that [of e r "r\<lparr>tr_snapshot := s'\<rparr>"]) simp_all
qed

lemma terminal_snapshot_simps [simp]:
  "tk_status (terminal_snapshot ts t r fs s) = StCompleted" "tk_result (terminal_snapshot ts t r fs s) = Some r"
  "tk_thread_id (terminal_snapshot ts t r fs s) = tk_thread_id s" "tk_run_id (terminal_snapshot ts t r fs s) = tk_run_id s"
  "tk_data_mode (terminal_snapshot ts t r fs s) = tk_data_mode s" "tk_events (terminal_snapshot ts t r fs s) = tk_events s"
  "tk_clarification (terminal_snapshot ts t r fs s) = tk_clarification s"
  "tk_error_code (terminal_snapshot ts t r fs s) = None"
  "tk_product_evidence (terminal_snapshot ts t r fs s) = so_product_evidence r"
  "tk_provider_coverage (terminal_snapshot ts t r fs s) = so_providers r"
  "tk_recall_provenance (terminal_snapshot ts t r fs s) = so_recall_provenance r"
  "tk_report_references (terminal_snapshot ts t r fs s) = fs" "tk_mode (terminal_snapshot ts t r fs s) = Some (so_mode r)"
  "tk_user_id (terminal_snapshot ts t r fs s) = tk_user_id s" "tk_tenant_id (terminal_snapshot ts t r fs s) = tk_tenant_id s"
  by (simp_all add: terminal_snapshot_def)

lemma terminal_snapshot_intent:
  "agrees (tk_resolved_intent (terminal_snapshot ts t r fs s)) (so_resolved_intent r)"
  by (cases "so_resolved_intent r") (simp_all add: terminal_snapshot_def agrees_def split: option.splits)

lemma agrees_refl [simp]: "agrees x x"
  by (simp add: agrees_def split: option.splits)

lemma so_files_update [simp]:
  "so_data_mode (r\<lparr>so_files := fs\<rparr>) = so_data_mode r" "so_product_evidence (r\<lparr>so_files := fs\<rparr>) = so_product_evidence r"
  "so_files (r\<lparr>so_files := fs\<rparr>) = fs"
  by simp_all

lemma validated_evidence:
  assumes "normalize_result_contract raw = Some r"
  shows "evidence_fits_mode (so_data_mode r) (so_product_evidence r)"
proof -
  note c = result_contract_core [OF assms]
  have "ca_source x \<in> evidence_sources r" if "x \<in> set (so_product_evidence r)" for x
    using that by (simp add: evidence_sources_def)
  then show ?thesis using c by (auto simp: evidence_fits_mode_def)
qed

lemma good_complete:
  assumes "good_snapshot s" "tk_status s = StRunning"
    and "normalize_result_contract raw = Some validated" "so_data_mode validated = tk_data_mode s"
    and "result = validated\<lparr>so_files := fs\<rparr>" "s' = (terminal_snapshot ts t result fs s)\<lparr>tk_events := tk_events s @ [e1, e2]\<rparr>"
    and "me_event e1 = ReportGenerated" "me_event e2 = TaskResult"
    and "me_sequence e1 = previous_sequence s + 1" "me_sequence e2 = previous_sequence s + 2"
    and "me_thread_id e1 = tk_thread_id s" "me_run_id e1 = tk_run_id s" "me_data_mode e1 = tk_data_mode s"
    and "me_thread_id e2 = tk_thread_id s" "me_run_id e2 = tk_run_id s" "me_data_mode e2 = tk_data_mode s"
  shows "good_snapshot s'"
proof -
  let ?T = "terminal_snapshot ts t result fs s"
  have s': "tk_status s' = StCompleted" "tk_result s' = Some result" "tk_thread_id s' = tk_thread_id s"
    "tk_run_id s' = tk_run_id s" "tk_data_mode s' = tk_data_mode s" "tk_events s' = tk_events s @ [e1, e2]"
    "tk_clarification s' = tk_clarification s" "tk_error_code s' = None"
    "tk_product_evidence s' = so_product_evidence result" "tk_provider_coverage s' = so_providers result"
    "tk_recall_provenance s' = so_recall_provenance result" "tk_report_references s' = fs" "tk_mode s' = Some (so_mode result)"
    "tk_resolved_intent s' = tk_resolved_intent ?T"
    unfolding assms(6) by simp_all
  have res: "so_data_mode result = tk_data_mode s" "so_product_evidence result = so_product_evidence validated"
    "so_files result = fs" using assms(4,5) by simp_all
  have "replay (map me_event (tk_events s) @ [ReportGenerated] @ [TaskResult]) StRunning = Some StCompleted"
    using assms(1,2) by (simp add: good_snapshot_def replay_append next_status_def status_after_def)
  then have "replay (map me_event (tk_events s')) StRunning = Some (tk_status s')"
    using assms(7,8) by (simp add: s')
  moreover have "map me_sequence ((tk_events s @ [e1]) @ [e2]) = map int [1..<Suc (length ((tk_events s @ [e1]) @ [e2]))]"
    unfolding numbered_snoc using assms(1,9,10) previous_sequence_good [OF assms(1)]
    by (simp add: good_snapshot_def)
  moreover have "\<forall>x \<in> set (tk_events s'). me_thread_id x = tk_thread_id s' \<and> me_run_id x = tk_run_id s'
      \<and> me_data_mode x = tk_data_mode s'"
    using assms(1,11-16) by (auto simp: s' good_snapshot_def)
  moreover have "tk_clarification s' = None" using assms(1,2) by (simp add: s' good_snapshot_def)
  moreover have "validate_snapshot s'"
    using validated_evidence [OF assms(3)] assms(4) terminal_snapshot_intent [of ts t result fs s] res
    by (simp add: validate_snapshot_def s')
  ultimately show ?thesis by (simp add: good_snapshot_def s')
qed

lemma record_event_result:
  assumes "record_event em thread TaskResult message data run st = (Inr es, st')" "good_store st"
  obtains r r' e1 e2 where "es = [e1, e2]" "advances thread r es r' st st'" "good_record thread r'"
    "me_event e1 = ReportGenerated" "me_event e2 = TaskResult" "tk_status (tr_snapshot r) = StRunning"
    "tk_status (tr_snapshot r') = StCompleted" "run \<noteq> None \<longrightarrow> run = Some (tr_run_id r)"
    "tk_user_id (tr_snapshot r') = tk_user_id (tr_snapshot r)" "tk_tenant_id (tr_snapshot r') = tk_tenant_id (tr_snapshot r)"
    "r' = r\<lparr>tr_snapshot := tr_snapshot r'\<rparr>"
proof -
  from assms(1) obtain r raw validated e1 e2 s' where r: "map_of (records st) thread = Some r"
    and nd: "\<not> tr_deleting r" "\<not> task_is_deleted thread st"
    and run: "run \<noteq> None \<longrightarrow> run = Some (tr_run_id r)"
    and al: "tk_status (tr_snapshot r) = StRunning"
    and v: "normalize_result_contract raw = Some validated" "so_data_mode validated = tk_data_mode (tr_snapshot r)"
    and s': "s' = (terminal_snapshot (em_timestamp em) thread (validated\<lparr>so_files := report_file_links (tr_snapshot r)\<rparr>)
        (report_file_links (tr_snapshot r)) (tr_snapshot r))\<lparr>tk_events := tk_events (tr_snapshot r) @ [e1, e2]\<rparr>"
    and e1: "make_event (em_report_event_id em) thread (tr_run_id r) (previous_sequence (tr_snapshot r) + 1) ReportGenerated
        [30740, 31350, 25253, 21578, 24050, 29983, 25104]
        (DReports (tk_snapshot_id (terminal_snapshot (em_timestamp em) thread (validated\<lparr>so_files := report_file_links (tr_snapshot r)\<rparr>)
          (report_file_links (tr_snapshot r)) (tr_snapshot r))) (em_timestamp em) (report_file_links (tr_snapshot r)))
        (tk_data_mode (tr_snapshot r)) (em_timestamp em) = Some e1"
    and e2: "make_event (em_event_id em) thread (tr_run_id r) (previous_sequence (tr_snapshot r) + 2) TaskResult message
        (DResult (validated\<lparr>so_files := report_file_links (tr_snapshot r)\<rparr>)) (tk_data_mode (tr_snapshot r)) (em_timestamp em) = Some e2"
    and out: "es = [e1, e2]"
      "st' = set_record thread (r\<lparr>tr_snapshot := s'\<rparr>) (write_file (tk_thread_id s') (Stored s') (ensure_directory thread st))"
    by (auto simp: record_event_def record_task_result_def typed_event_data_def Let_def persist_None_iff
        split: option.splits if_splits sum.splits prod.splits event_data.splits)
  have g: "good_record thread r" using good_store_record [OF assms(2) r] .
  note m1 = make_event_Some [OF e1] and m2 = make_event_Some [OF e2]
  have gs: "good_snapshot s'"
    by (rule good_complete [OF _ al v refl s' m1(4) m2(4)]) (use g m1 m2 in \<open>simp_all add: good_record_def\<close>)
  have t: "tk_thread_id s' = thread" "tk_run_id s' = tr_run_id r" "tk_events s' = tk_events (tr_snapshot r) @ [e1, e2]"
    "tk_status s' = StCompleted" "tk_user_id s' = tk_user_id (tr_snapshot r)" "tk_tenant_id s' = tk_tenant_id (tr_snapshot r)"
    using g unfolding s' by (simp_all add: good_record_def)
  have "advances thread r es (r\<lparr>tr_snapshot := s'\<rparr>) st st'"
    using r nd t out by (simp add: advances_def)
  moreover have "good_record thread (r\<lparr>tr_snapshot := s'\<rparr>)" using gs t by (simp add: good_record_def)
  ultimately show ?thesis
    using out(1) m1(4) m2(4) al t run by (intro that [of e1 e2 r "r\<lparr>tr_snapshot := s'\<rparr>"]) simp_all
qed

section \<open>Runs of recorded events\<close>

text \<open>
  The label of a step is the thread and the events recorded for it; a call that raises has no
  events.
\<close>

inductive store_step :: "store \<Rightarrow> pystr \<times> event_name list \<Rightarrow> store \<Rightarrow> bool" where
  Recorded: "record_event em t ev m d run st = (Inr es, st') \<Longrightarrow> store_step st (t, map me_event es) st'"
| Refused: "record_event em t ev m d run st = (Inl e, st') \<Longrightarrow> store_step st (t, []) st'"

inductive_cases store_stepE: "store_step st l st'"

definition statuses :: "store \<Rightarrow> pystr \<Rightarrow> task_status option" where
  "statuses st t = map_option (\<lambda>r. tk_status (tr_snapshot r)) (map_of (records st) t)"

text \<open>The automaton, for every thread: it never forgets a task and only moves by \<open>next_status\<close>.\<close>

definition automaton_step ::
  "(pystr \<Rightarrow> task_status option) \<Rightarrow> pystr \<times> event_name list \<Rightarrow> (pystr \<Rightarrow> task_status option) \<Rightarrow> bool" where
  "automaton_step m l m' \<longleftrightarrow>
     (case l of (t, es) \<Rightarrow> es = [] \<and> m' = m
        \<or> (\<exists>s s'. m t = Some s \<and> replay es s = Some s' \<and> m' = m(t \<mapsto> s')))"

lemma same_store_statuses: "same_store st st' \<Longrightarrow> statuses st' = statuses st"
  by (simp add: same_store_def statuses_def fun_eq_iff)

lemma advances_statuses:
  "advances t r es r' st st' \<Longrightarrow>
     statuses st t = Some (tk_status (tr_snapshot r)) \<and> statuses st' = (statuses st)(t \<mapsto> tk_status (tr_snapshot r'))"
  by (simp add: advances_def statuses_def fun_eq_iff)

lemma same_but_log:
  "s' = s\<lparr>tk_events := es, tk_updated_at := ts\<rparr> \<Longrightarrow>
   s' = s\<lparr>tk_events := tk_events s', tk_updated_at := tk_updated_at s'\<rparr>"
  by simp

lemma recorded_cases:
  assumes "record_event em t ev m d run st = (Inr es, st')" "good_store st"
  obtains r r' where "advances t r es r' st st'" "good_record t r'" "r' = r\<lparr>tr_snapshot := tr_snapshot r'\<rparr>"
    "replay (map me_event es) (tk_status (tr_snapshot r)) = Some (tk_status (tr_snapshot r'))"
    "terminal_status (tk_status (tr_snapshot r)) \<longrightarrow> map me_event es = [ReportGenerated]
       \<and> tk_status (tr_snapshot r) = StCompleted
       \<and> tr_snapshot r' = (tr_snapshot r)\<lparr>tk_events := tk_events (tr_snapshot r'), tk_updated_at := tk_updated_at (tr_snapshot r')\<rparr>"
proof (cases "ev = TaskResult")
  case True
  obtain r r' e1 e2 where x: "es = [e1, e2]" "me_event e1 = ReportGenerated" "me_event e2 = TaskResult"
      "tk_status (tr_snapshot r) = StRunning" "tk_status (tr_snapshot r') = StCompleted"
    and y: "advances t r es r' st st'" "good_record t r'" "r' = r\<lparr>tr_snapshot := tr_snapshot r'\<rparr>"
    by (rule record_event_result [OF assms(1) [unfolded True] assms(2)])
  have "replay (map me_event es) (tk_status (tr_snapshot r)) = Some (tk_status (tr_snapshot r'))"
    unfolding x by (simp add: x next_status_def status_after_def)
  moreover have "\<not> terminal_status (tk_status (tr_snapshot r))" by (simp add: x terminal_status_def)
  ultimately show ?thesis using that [OF y] by blast
next
  case False
  obtain r r' e where x: "es = [e]" "me_event e = ev" "event_of_data (me_data e) = ev"
      "tk_status (tr_snapshot r) \<in> set (allowed_statuses ev)"
      "tk_status (tr_snapshot r') = status_after ev (tk_status (tr_snapshot r))"
    and c: "event_changes (me_data e) m
        ((tr_snapshot r)\<lparr>tk_events := tk_events (tr_snapshot r) @ [e], tk_updated_at := em_timestamp em\<rparr>) = Inr (tr_snapshot r')"
    and y: "advances t r es r' st st'" "good_record t r'" "r' = r\<lparr>tr_snapshot := tr_snapshot r'\<rparr>"
    by (rule record_event_other [OF assms(1) False assms(2)])
  have rp: "replay (map me_event es) (tk_status (tr_snapshot r)) = Some (tk_status (tr_snapshot r'))"
    unfolding x(1) using x(2,5) next_status_allowed [OF x(4)] by simp
  have tm: "map me_event es = [ReportGenerated] \<and> tk_status (tr_snapshot r) = StCompleted
       \<and> tr_snapshot r' = (tr_snapshot r)\<lparr>tk_events := tk_events (tr_snapshot r'), tk_updated_at := tk_updated_at (tr_snapshot r')\<rparr>"
    if "terminal_status (tk_status (tr_snapshot r))"
  proof -
    have "ev = ReportGenerated \<and> tk_status (tr_snapshot r) = StCompleted"
      using that x(4) by (cases ev) (auto simp: terminal_status_def)
    moreover from this event_changes_reports [OF c] x(3)
    have "tr_snapshot r' = (tr_snapshot r)\<lparr>tk_events := tk_events (tr_snapshot r'), tk_updated_at := tk_updated_at (tr_snapshot r')\<rparr>"
      by (intro same_but_log) simp
    ultimately show ?thesis using x(1,2) by simp
  qed
  show ?thesis by (rule that [OF y rp]) (intro impI tm)
qed

lemma store_step_keeps_good:
  assumes "good_store st" "store_step st l st'" shows "good_store st'"
  using assms(2)
proof (cases rule: store_step.cases)
  case (Recorded em t ev m d run es)
  obtain r r' where "advances t r es r' st st'" "good_record t r'"
    by (rule recorded_cases [OF Recorded(2) assms(1)])
  then show ?thesis using advances_good_store assms(1) by blast
next
  case (Refused em t ev m d run e)
  then show ?thesis using record_event_error_same same_store_good assms(1) by blast
qed

lemma store_step_automaton:
  assumes "good_store st" "store_step st l st'" shows "automaton_step (statuses st) l (statuses st')"
  using assms(2)
proof (cases rule: store_step.cases)
  case (Recorded em t ev m d run es)
  obtain r r' where "advances t r es r' st st'"
    and "replay (map me_event es) (tk_status (tr_snapshot r)) = Some (tk_status (tr_snapshot r'))"
    by (rule recorded_cases [OF Recorded(2) assms(1)])
  then show ?thesis using advances_statuses Recorded(1) by (fastforce simp: automaton_step_def)
next
  case (Refused em t ev m d run e)
  then have "statuses st' = statuses st" using record_event_error_same same_store_statuses by blast
  then show ?thesis using Refused(1) by (simp add: automaton_step_def)
qed

interpretation timeline: refinement good_store store_step statuses automaton_step
  using store_step_keeps_good store_step_automaton by unfold_locales

text \<open>
  C1. The timeline refines its automaton: whatever calls of \<open>_record_event\<close> the tasks, the
  handlers and the environment (failing disk, refused or malformed events) produce, from a
  consistent store every step of every thread is a step of the status automaton with the events
  that were recorded, and the store stays consistent: events numbered from 1 without gaps, all of
  the record's run and mode, the status is the replay of the event names, a prompt exactly while
  awaiting an answer, a result exactly when completed, an error code exactly after an error, and
  the file holds the same snapshot.
\<close>

theorem timeline_refines_automaton:
  assumes "good_store st" "runs store_step st ls st'"
  shows "runs automaton_step (statuses st) ls (statuses st')
    \<and> (\<forall>t r. map_of (records st') t = Some r \<longrightarrow>
         replay (map me_event (tk_events (tr_snapshot r))) StRunning = Some (tk_status (tr_snapshot r))
         \<and> map me_sequence (tk_events (tr_snapshot r)) = map int [1..<Suc (length (tk_events (tr_snapshot r)))]
         \<and> (tk_status (tr_snapshot r) = StAwaiting \<longleftrightarrow> tk_clarification (tr_snapshot r) \<noteq> None)
         \<and> (tk_status (tr_snapshot r) = StCompleted \<longleftrightarrow> tk_result (tr_snapshot r) \<noteq> None)
         \<and> (tk_status (tr_snapshot r) = StError \<longleftrightarrow> tk_error_code (tr_snapshot r) \<noteq> None))"
proof (intro conjI allI impI)
  show "runs automaton_step (statuses st) ls (statuses st')"
    by (rule timeline.refines [OF assms(2,1)])
next
  fix t r assume "map_of (records st') t = Some r"
  with timeline.inv_runs [OF assms(2,1)] have "good_snapshot (tr_snapshot r)"
    by (auto simp: good_store_def good_record_def)
  then show "replay (map me_event (tk_events (tr_snapshot r))) StRunning = Some (tk_status (tr_snapshot r))"
    "map me_sequence (tk_events (tr_snapshot r)) = map int [1..<Suc (length (tk_events (tr_snapshot r)))]"
    "tk_status (tr_snapshot r) = StAwaiting \<longleftrightarrow> tk_clarification (tr_snapshot r) \<noteq> None"
    "tk_status (tr_snapshot r) = StCompleted \<longleftrightarrow> tk_result (tr_snapshot r) \<noteq> None"
    "tk_status (tr_snapshot r) = StError \<longleftrightarrow> tk_error_code (tr_snapshot r) \<noteq> None"
    unfolding good_snapshot_def by blast+
qed

definition frozen :: "task_snapshot \<Rightarrow> task_snapshot \<Rightarrow> bool" where
  "frozen s s' \<longleftrightarrow> s' = s\<lparr>tk_events := tk_events s', tk_updated_at := tk_updated_at s'\<rparr>
     \<and> (tk_status s \<noteq> StCompleted \<longrightarrow> s' = s)"

lemma frozen_refl [simp]: "frozen s s"
  by (simp add: frozen_def)

lemma frozen_status: "frozen s s' \<Longrightarrow> tk_status s' = tk_status s"
proof -
  assume "frozen s s'"
  then have "tk_status s' = tk_status (s\<lparr>tk_events := tk_events s', tk_updated_at := tk_updated_at s'\<rparr>)"
    unfolding frozen_def by (elim conjE) (rule arg_cong [of s' _ tk_status])
  then show ?thesis by simp
qed

lemma frozen_trans:
  assumes "frozen a b" "frozen b c" shows "frozen a c"
proof -
  from assms(1) have b: "b = a\<lparr>tk_events := tk_events b, tk_updated_at := tk_updated_at b\<rparr>" by (simp only: frozen_def)
  have u: "b\<lparr>tk_events := E, tk_updated_at := U\<rparr> = a\<lparr>tk_events := E, tk_updated_at := U\<rparr>" for E U
    by (subst b) simp
  from assms(2) have "c = b\<lparr>tk_events := tk_events c, tk_updated_at := tk_updated_at c\<rparr>" by (simp only: frozen_def)
  then have "c = a\<lparr>tk_events := tk_events c, tk_updated_at := tk_updated_at c\<rparr>" unfolding u .
  then show ?thesis using assms frozen_status [OF assms(1)] by (simp only: frozen_def) blast
qed

definition keeps_finished :: "pystr \<Rightarrow> task_snapshot \<Rightarrow> store \<Rightarrow> bool" where
  "keeps_finished t s st \<longleftrightarrow> (\<exists>r. map_of (records st) t = Some r \<and> frozen s (tr_snapshot r))"

lemma store_step_keeps_finished:
  assumes "good_store st" "store_step st l st'" "keeps_finished t s st" "terminal_status (tk_status s)"
  shows "keeps_finished t s st'"
  using assms(2)
proof (cases rule: store_step.cases)
  case (Recorded em t' ev m d run es)
  obtain r r' where adv: "advances t' r es r' st st'"
    and tm: "terminal_status (tk_status (tr_snapshot r)) \<longrightarrow> map me_event es = [ReportGenerated]
       \<and> tk_status (tr_snapshot r) = StCompleted
       \<and> tr_snapshot r' = (tr_snapshot r)\<lparr>tk_events := tk_events (tr_snapshot r'), tk_updated_at := tk_updated_at (tr_snapshot r')\<rparr>"
    by (rule recorded_cases [OF Recorded(2) assms(1)])
  obtain q where q: "map_of (records st) t = Some q" "frozen s (tr_snapshot q)"
    using assms(3) by (auto simp: keeps_finished_def)
  show ?thesis
  proof (cases "t' = t")
    case True
    then have "q = r" using q adv by (simp add: advances_def)
    moreover have "terminal_status (tk_status (tr_snapshot r))"
      using assms(4) frozen_status [OF q(2)] \<open>q = r\<close> by simp
    with tm have "frozen (tr_snapshot r) (tr_snapshot r')" by (simp only: frozen_def) blast
    ultimately have "frozen s (tr_snapshot r')" using q(2) frozen_trans by blast
    then show ?thesis using True adv by (simp add: keeps_finished_def advances_def)
  next
    case False
    then show ?thesis using q adv by (auto simp: keeps_finished_def advances_def)
  qed
next
  case (Refused em t' ev m d run e)
  then have "same_store st st'" using record_event_error_same by blast
  then show ?thesis using assms(3) by (simp add: keeps_finished_def same_store_def)
qed


text \<open>
  C14. A refused event leaves no trace: when \<open>_record_event\<close> raises, for any of its nine
  reasons and wherever the write failed, no record, no tombstone and no readable snapshot of any
  thread has changed.
\<close>

theorem refused_event_leaves_no_trace:
  assumes "record_event em thread event message data run st = (Inl e, st')"
  shows "records st' = records st \<and> tombstones st' = tombstones st
    \<and> (\<forall>t. read_persisted_snapshot t st' = read_persisted_snapshot t st)"
  using record_event_error_same [OF assms] same_store_read by (auto simp: same_store_def)


section \<open>Concrete runs\<close>

definition a_thread :: pystr where "a_thread = lit ''thread-1''"

definition fresh :: task_snapshot where
  "fresh = new_snapshot a_thread (lit ''legacy'') (lit ''boots'') (lit ''ann'') DEFAULT_TENANT Live 0"

definition live_store :: store where
  "live_store = \<lparr>records = [(a_thread, \<lparr>tr_run_id = lit ''legacy'', tr_snapshot = fresh, tr_task = 0, tr_owner_handle = Some 0,
       tr_generation = 0, tr_deleting = False\<rparr>)],
     directories = [(a_thread, Stored fresh)], tombstones = []\<rparr>"

definition an_emission :: emission where
  "an_emission = \<lparr>em_event_id = lit ''evt-00000000000000000000000000000000'',
     em_report_event_id = lit ''evt-00000000000000000000000000000001'', em_timestamp = 1, em_io = Written,
     em_reports = ReportsWritten\<rparr>"

definition cancel_event :: monitor_event where
  "cancel_event = \<lparr>me_event_id = em_event_id an_emission, me_thread_id = a_thread, me_run_id = lit ''legacy'', me_sequence = 1,
     me_event = TaskCancelled, me_message = [], me_data = DCancelled a_thread, me_data_mode = Live, me_timestamp = 1\<rparr>"

definition cancel_call :: "(task_error + monitor_event list) \<times> store" where
  "cancel_call = record_event an_emission a_thread TaskCancelled [] (DCancelled a_thread) None live_store"

lemma tokens: "thread_token a_thread" "event_id_token (em_event_id an_emission)" "run_token (lit ''legacy'')"
  by code_simp+

lemma good_live_store: "good_store live_store"
  by (simp add: good_store_def live_store_def good_record_def good_snapshot_def fresh_def new_snapshot_def
      validate_snapshot_def evidence_fits_mode_def)

lemma live_store_simps:
  "map_of (records live_store) a_thread = Some \<lparr>tr_run_id = lit ''legacy'', tr_snapshot = fresh, tr_task = 0,
     tr_owner_handle = Some 0, tr_generation = 0, tr_deleting = False\<rparr>"
  "\<not> task_is_deleted t live_store" "tk_status fresh = StRunning" "tk_events fresh = []" "tk_data_mode fresh = Live"
  by (simp_all add: live_store_def task_is_deleted_iff fresh_def new_snapshot_def)

lemma cancel_call_ok: "\<exists>st'. cancel_call = (Inr [cancel_event], st')"
  using tokens
  by (simp add: cancel_call_def record_event_def live_store_simps make_event_def typed_event_data_def
      event_of_data_def valid_event_data_def previous_sequence_def persist_snapshot_def an_emission_def cancel_event_def)

definition cancelled_store :: store where
  "cancelled_store = snd cancel_call"

lemma cancel_run: "runs store_step live_store [(a_thread, [TaskCancelled])] cancelled_store"
proof -
  have "store_step live_store (a_thread, map me_event [cancel_event]) cancelled_store"
    using cancel_call_ok unfolding cancelled_store_def cancel_call_def by (metis Recorded snd_conv)
  then show ?thesis by (intro runs_single) (simp add: cancel_event_def)
qed

lemma cancelled_store_record: "\<exists>r. map_of (records cancelled_store) a_thread = Some r \<and> tk_status (tr_snapshot r) = StCancelled"
proof -
  obtain st' where c: "record_event an_emission a_thread TaskCancelled [] (DCancelled a_thread) None live_store = (Inr [cancel_event], st')"
    using cancel_call_ok unfolding cancel_call_def by blast
  obtain r r' where "advances a_thread r [cancel_event] r' live_store st'"
    "tk_status (tr_snapshot r') = status_after TaskCancelled (tk_status (tr_snapshot r))"
    by (rule record_event_other [OF c _ good_live_store]) simp_all
  then show ?thesis
    using c by (auto simp: cancelled_store_def cancel_call_def advances_def status_after_def)
qed

theorem timeline_refines_automaton_witness:
  "runs automaton_step (statuses live_store) [(a_thread, [TaskCancelled])] (statuses cancelled_store)"
  using timeline_refines_automaton [OF good_live_store cancel_run] by blast


theorem refused_event_leaves_no_trace_witness:
  "\<exists>st'. record_event an_emission a_thread ClarificationResolved [] (DCancelled a_thread) None live_store = (Inl BadTransition, st')
     \<and> records st' = records live_store"
proof -
  have "record_event an_emission a_thread ClarificationResolved [] (DCancelled a_thread) None live_store = (Inl BadTransition, live_store)"
    by (simp add: record_event_def live_store_simps terminal_status_def)
  then show ?thesis using refused_event_leaves_no_trace by blast
qed


end
