(* ===== verification/Connections.thy ===== *)
theory Connections
  imports Snapshots
begin

text \<open>
  \<open>app/api/connection.py\<close>: one live socket per thread, with the history of its events. Every
  operation runs under the lock of its thread and is one step; only \<open>connect\<close> has a part before
  the lock, the reading of the thread's generation, so it is two definitions. Whether a send
  reaches its socket within the timeout is an argument. \<open>sent\<close> logs what every socket was
  given, in order.
\<close>

section \<open>State\<close>

datatype message =
    SnapshotMessage task_snapshot
  | EventMessage monitor_event
  | Pong rat

datatype delivery = Delivered message | Closed nat

record transport =
  active_socket :: "pystr \<Rightarrow> nat option"
  buffered :: "pystr \<Rightarrow> message list"
  generations :: "pystr \<Rightarrow> nat"
  discarded :: "pystr set"
  sent :: "(nat \<times> delivery) list"

definition MAX_EVENTS :: nat where "MAX_EVENTS = 512"

definition empty_transport :: transport where
  "empty_transport = \<lparr>active_socket = Map.empty, buffered = (\<lambda>_. []), generations = (\<lambda>_. 0), discarded = {}, sent = []\<rparr>"

definition close_socket :: "nat \<Rightarrow> nat \<Rightarrow> transport \<Rightarrow> transport" where
  "close_socket code ws tr = tr\<lparr>sent := sent tr @ [(ws, Closed code)]\<rparr>"

definition set_active :: "pystr \<Rightarrow> nat option \<Rightarrow> transport \<Rightarrow> transport" where
  "set_active t ws tr = tr\<lparr>active_socket := (active_socket tr)(t := ws)\<rparr>"

definition deliver :: "nat \<Rightarrow> message \<Rightarrow> transport \<Rightarrow> transport" where
  "deliver ws m tr = tr\<lparr>sent := sent tr @ [(ws, Delivered m)]\<rparr>"

section \<open>Operations\<close>

definition begin_connect :: "pystr \<Rightarrow> transport \<Rightarrow> nat" where
  "begin_connect t tr = generations tr t"

fun replay_to :: "nat \<Rightarrow> message list \<Rightarrow> bool list \<Rightarrow> transport \<Rightarrow> bool \<times> transport" where
  \<comment> \<open>the sends of \<open>_replay\<close>, stopped by the first that fails\<close>
  "replay_to ws [] oks tr = (True, tr)"
| "replay_to ws (m # ms) oks tr =
     (if oks = [] \<or> hd oks then replay_to ws ms (tl oks) (deliver ws m tr) else (False, tr))"

definition attach :: "pystr \<Rightarrow> nat \<Rightarrow> transport \<Rightarrow> transport" where
  \<comment> \<open>the previous socket is closed as replaced\<close>
  "attach t ws tr =
     set_active t (Some ws)
       (case active_socket tr t of
          Some previous \<Rightarrow> if previous \<noteq> ws then close_socket 1000 previous tr else tr
        | None \<Rightarrow> tr)"

definition bootstrap_send ::
  "pystr \<Rightarrow> nat \<Rightarrow> (message \<times> message list) option option \<Rightarrow> bool list \<Rightarrow> transport \<Rightarrow> bool \<times> transport" where
  \<comment> \<open>\<open>bootstrap\<close>: \<open>None\<close> not given, \<open>Some None\<close> it raises, \<open>Some (Some (payload, events))\<close>\<close>
  "bootstrap_send t ws bootstrap oks tr =
     (case bootstrap of
        None \<Rightarrow> replay_to ws (buffered tr t) oks tr
      | Some None \<Rightarrow> (False, tr)
      | Some (Some (payload, events)) \<Rightarrow> replay_to ws (payload # events) oks tr)"

definition detach :: "pystr \<Rightarrow> nat \<Rightarrow> transport \<Rightarrow> transport" where
  "detach t ws tr = (if active_socket tr t = Some ws then set_active t None tr else tr)"

definition finish_connect ::
  "nat \<Rightarrow> pystr \<Rightarrow> nat \<Rightarrow> (message \<times> message list) option option \<Rightarrow> bool list \<Rightarrow> transport \<Rightarrow> bool \<times> transport" where
  "finish_connect generation t ws bootstrap oks tr =
     (if t \<in> discarded tr then (False, close_socket 1000 ws tr)
      else if generations tr t \<noteq> generation then (False, close_socket 1000 ws tr)
      else case bootstrap_send t ws bootstrap oks (attach t ws tr) of
        (ok, tr') \<Rightarrow> if ok then (True, tr') else (False, close_socket 1011 ws (detach t ws tr')))"

definition disconnect :: "pystr \<Rightarrow> nat \<Rightarrow> transport \<Rightarrow> transport" where
  "disconnect t ws tr = detach t ws tr"

definition push_buffer :: "message \<Rightarrow> message list \<Rightarrow> message list" where
  \<comment> \<open>a \<open>deque\<close> with \<open>maxlen\<close>\<close>
  "push_buffer m ms = (let xs = ms @ [m] in drop (length xs - MAX_EVENTS) xs)"

definition send_to_thread :: "pystr \<Rightarrow> message \<Rightarrow> bool \<Rightarrow> transport \<Rightarrow> transport" where
  "send_to_thread t m ok tr =
     (if t \<in> discarded tr then tr
      else let tr1 = tr\<lparr>buffered := (buffered tr)(t := push_buffer m (buffered tr t))\<rparr>
           in case active_socket tr1 t of
                None \<Rightarrow> tr1
              | Some ws \<Rightarrow> if ok then deliver ws m tr1 else set_active t None tr1)"

definition send_ephemeral :: "pystr \<Rightarrow> message \<Rightarrow> bool \<Rightarrow> transport \<Rightarrow> transport" where
  \<comment> \<open>without \<open>ok\<close> the send raises and nothing changes\<close>
  "send_ephemeral t m ok tr =
     (if t \<in> discarded tr then tr
      else case active_socket tr t of None \<Rightarrow> tr | Some ws \<Rightarrow> if ok then deliver ws m tr else tr)"

definition history :: "pystr \<Rightarrow> transport \<Rightarrow> message list" where
  "history t tr = (if t \<in> discarded tr then [] else buffered tr t)"

definition close_active :: "pystr \<Rightarrow> nat \<Rightarrow> transport \<Rightarrow> transport" where
  "close_active t code tr =
     (case active_socket tr t of
        None \<Rightarrow> tr
      | Some ws \<Rightarrow> close_socket code ws (set_active t None tr))"

definition clear_thread :: "pystr \<Rightarrow> bool \<Rightarrow> transport \<Rightarrow> transport" where
  "clear_thread t close tr =
     (let tr1 = tr\<lparr>discarded := discarded tr - {t}, buffered := (buffered tr)(t := [])\<rparr>
      in if close then close_active t 1012 tr1 else tr1)"

definition discard_thread :: "pystr \<Rightarrow> transport \<Rightarrow> transport" where
  "discard_thread t tr =
     (let tr1 = tr\<lparr>generations := (generations tr)(t := generations tr t + 1), discarded := insert t (discarded tr)\<rparr>
      in (close_active t 1000 tr1)\<lparr>buffered := (buffered tr)(t := [])\<rparr>)"

section \<open>Runs\<close>

datatype call =
    Connect nat pystr nat "(message \<times> message list) option option" "bool list"
  | Disconnect pystr nat
  | Send pystr message bool
  | Ephemeral pystr message bool
  | CloseActive pystr nat
  | Clear pystr bool
  | Discard pystr

fun perform :: "call \<Rightarrow> transport \<Rightarrow> transport" where
  "perform (Connect g t ws b oks) tr = snd (finish_connect g t ws b oks tr)"
| "perform (Disconnect t ws) tr = disconnect t ws tr"
| "perform (Send t m ok) tr = send_to_thread t m ok tr"
| "perform (Ephemeral t m ok) tr = send_ephemeral t m ok tr"
| "perform (CloseActive t code) tr = close_active t code tr"
| "perform (Clear t close) tr = clear_thread t close tr"
| "perform (Discard t) tr = discard_thread t tr"

definition performs :: "call list \<Rightarrow> transport \<Rightarrow> transport" where
  "performs cs tr = fold perform cs tr"

definition received :: "nat \<Rightarrow> transport \<Rightarrow> message list" where
  "received ws tr = [m. (w, Delivered m) \<leftarrow> sent tr, w = ws]"

section \<open>Lemmas\<close>

lemmas transport_defs = close_socket_def set_active_def deliver_def

lemma replay_to_frame:
  "replay_to ws ms oks tr = (ok, tr') \<Longrightarrow>
     active_socket tr' = active_socket tr \<and> buffered tr' = buffered tr \<and> generations tr' = generations tr
     \<and> discarded tr' = discarded tr"
  by (induction ws ms oks tr rule: replay_to.induct) (auto simp: deliver_def split: if_splits)

lemma close_active_frame [simp]:
  "generations (close_active t c tr) = generations tr" "discarded (close_active t c tr) = discarded tr"
  "active_socket (close_active t c tr) = (active_socket tr)(t := None)" "buffered (close_active t c tr) = buffered tr"
  by (auto simp: close_active_def transport_defs split: option.splits)

lemma close_socket_frame [simp]:
  "generations (close_socket c ws tr) = generations tr" "discarded (close_socket c ws tr) = discarded tr"
  "active_socket (close_socket c ws tr) = active_socket tr" "buffered (close_socket c ws tr) = buffered tr"
  by (simp_all add: close_socket_def)

lemma detach_frame [simp]:
  "generations (detach t ws tr) = generations tr" "discarded (detach t ws tr) = discarded tr"
  "buffered (detach t ws tr) = buffered tr"
  by (simp_all add: detach_def set_active_def)

lemma attach_frame [simp]:
  "generations (attach t ws tr) = generations tr" "discarded (attach t ws tr) = discarded tr"
  "buffered (attach t ws tr) = buffered tr" "active_socket (attach t ws tr) = (active_socket tr)(t \<mapsto> ws)"
  by (simp_all add: attach_def set_active_def split: option.splits)

lemma bootstrap_send_frame:
  "bootstrap_send t ws b oks tr = (ok, tr') \<Longrightarrow>
     active_socket tr' = active_socket tr \<and> buffered tr' = buffered tr \<and> generations tr' = generations tr
     \<and> discarded tr' = discarded tr"
  using replay_to_frame [of ws _ oks tr ok tr'] unfolding bootstrap_send_def
  by (cases b) (simp, cases "the b", auto simp del: replay_to.simps)

lemma finish_connect_frame:
  assumes "finish_connect g t ws b oks tr = (ok, tr')"
  shows "generations tr' = generations tr" "discarded tr' = discarded tr" "buffered tr' = buffered tr"
    "t' \<noteq> t \<Longrightarrow> active_socket tr' t' = active_socket tr t'"
    "t \<in> discarded tr \<Longrightarrow> active_socket tr' = active_socket tr"
proof -
  obtain o2 tr2 where b: "bootstrap_send t ws b oks (attach t ws tr) = (o2, tr2)" by (cases "bootstrap_send t ws b oks (attach t ws tr)")
  note f = bootstrap_send_frame [OF b]
  consider "tr' = close_socket 1000 ws tr" | "t \<notin> discarded tr" "tr' = tr2"
    | "t \<notin> discarded tr" "tr' = close_socket 1011 ws (detach t ws tr2)"
    using assms unfolding finish_connect_def b by (auto split: if_splits)
  note c = this
  show "generations tr' = generations tr" using c f by cases simp_all
  show "discarded tr' = discarded tr" using c f by cases simp_all
  show "buffered tr' = buffered tr" using c f by cases simp_all
  show "t \<in> discarded tr \<Longrightarrow> active_socket tr' = active_socket tr" using c by cases simp_all
  show "t' \<noteq> t \<Longrightarrow> active_socket tr' t' = active_socket tr t'"
    using c f by cases (simp_all add: detach_def set_active_def)
qed

lemma perform_generations: "generations tr t \<le> generations (perform c tr) t"
proof (cases c)
  case (Connect g t' ws b oks)
  then show ?thesis using finish_connect_frame(1) [of g t' ws b oks tr] by (metis order_refl perform.simps(1) prod.collapse)
qed (simp_all add: disconnect_def send_to_thread_def send_ephemeral_def clear_thread_def discard_thread_def
    deliver_def set_active_def Let_def split: option.splits)

lemma performs_generations: "generations tr t \<le> generations (performs cs tr) t"
proof (induction cs arbitrary: tr)
  case (Cons c cs)
  then show ?case using perform_generations [of tr t c] order_trans by (fastforce simp: performs_def)
qed (simp add: performs_def)

lemma replay_to_received:
  "replay_to ws ms oks tr = (True, tr') \<Longrightarrow> received ws tr' = received ws tr @ ms"
  by (induction ws ms oks tr rule: replay_to.induct) (auto simp: received_def deliver_def split: if_splits)

section \<open>Properties\<close>

text \<open>
  A connection that was opened before its task was deleted never comes to life: once the
  thread is discarded after the connection read its generation, whatever happens then (even the
  thread being cleared for reuse), the connection is refused, its socket closed, and it becomes
  the active socket of no thread.
\<close>

lemma stale_connection_refused:
  assumes "g = begin_connect t tr"
    and "finish_connect g t ws b oks (performs cs (discard_thread t (performs cs0 tr))) = (ok, tr')"
  shows "\<not> ok \<and> sent tr' = sent (performs cs (discard_thread t (performs cs0 tr))) @ [(ws, Closed 1000)]
    \<and> active_socket tr' = active_socket (performs cs (discard_thread t (performs cs0 tr)))"
proof -
  let ?tr1 = "discard_thread t (performs cs0 tr)"
  have "g \<le> generations (performs cs0 tr) t" using assms(1) performs_generations by (simp add: begin_connect_def)
  also have "\<dots> < generations ?tr1 t" by (simp add: discard_thread_def Let_def)
  also have "\<dots> \<le> generations (performs cs ?tr1) t" by (rule performs_generations)
  finally have "generations (performs cs ?tr1) t \<noteq> g" by simp
  then show ?thesis using assms(2) by (auto simp: finish_connect_def close_socket_def split: if_splits)
qed

lemma send_ok_received:
  assumes "t \<notin> discarded tr" "active_socket tr t = Some ws"
  shows "received ws (send_to_thread t m True tr) = received ws tr @ [m]
    \<and> t \<notin> discarded (send_to_thread t m True tr) \<and> active_socket (send_to_thread t m True tr) t = Some ws"
  using assms by (simp add: send_to_thread_def received_def deliver_def)


definition silent :: "pystr \<Rightarrow> transport \<Rightarrow> bool" where
  "silent t tr \<longleftrightarrow> t \<in> discarded tr \<and> active_socket tr t = None \<and> buffered tr t = []"

text \<open>
  A discarded thread is silent: after its deletion no call but \<open>clear\<close> delivers anything to
  any socket for that thread, opens a connection to it, or buffers one of its events.
\<close>

lemma discarded_thread_is_silent:
  assumes "\<forall>c \<in> set cs. \<forall>close. c \<noteq> Clear t close"
  shows "silent t (performs cs (discard_thread t tr)) \<and> history t (performs cs (discard_thread t tr)) = []"
proof -
  have "silent t (perform c u)" if s: "silent t u" and nc: "\<forall>close. c \<noteq> Clear t close" for c u
  proof (cases c)
    case (Connect g t' ws b oks)
    obtain ok u' where f: "finish_connect g t' ws b oks u = (ok, u')" by (cases "finish_connect g t' ws b oks u")
    have p: "perform c u = u'" by (simp add: Connect f)
    show ?thesis unfolding p using s finish_connect_frame [OF f] by (cases "t' = t") (auto simp: silent_def)
  qed (use s nc in \<open>auto simp: silent_def disconnect_def detach_def send_to_thread_def send_ephemeral_def
        clear_thread_def discard_thread_def deliver_def set_active_def Let_def split: option.splits\<close>)
  then have "silent t (performs cs u)" if "silent t u" for u
    using that assms by (induction cs arbitrary: u) (simp_all add: performs_def)
  moreover have "silent t (discard_thread t tr)"
    by (simp add: silent_def discard_thread_def Let_def)
  ultimately have "silent t (performs cs (discard_thread t tr))" by blast
  then show ?thesis by (simp add: silent_def history_def)
qed

lemma stale_connection_refused_witness:
  "\<not> fst (finish_connect 0 a_thread 7 None [] (performs [Clear a_thread True] (discard_thread a_thread empty_transport)))"
proof -
  have "0 = begin_connect a_thread empty_transport" by (simp add: begin_connect_def empty_transport_def)
  from stale_connection_refused [OF this, of 7 None "[]" "[Clear a_thread True]" "[]"]
  show ?thesis by (metis fold_simps(1) performs_def prod.collapse)
qed


lemma discarded_thread_is_silent_witness:
  "silent a_thread (performs [Send a_thread (Pong 1) True] (discard_thread a_thread empty_transport))"
  using discarded_thread_is_silent [of "[Send a_thread (Pong 1) True]" a_thread empty_transport] by simp

end
