(* ===== verification/TaskService.thy ===== *)
theory TaskService
  imports Connections Runtime
begin

text \<open>
  The handlers of \<open>app/api/server.py\<close>: one worker process with its store, the owner locks of the
  task threads (shared with other workers), the runtime gate, the transport and the background
  tasks. A handler returns its answer or the error it raises, and the state it leaves, so that
  what an error leaves behind is visible. Each runs under the asyncio lock of its thread; the
  cancellation of a background task that a handler awaits is the function \<open>execute_end\<close>, the
  end of \<open>_execute\<close>.

  Fresh identifiers, times, the outcome of writes and of the readiness check are arguments.
\<close>

section \<open>State\<close>

record job =
  jb_thread :: pystr
  jb_run :: pystr
  jb_handle :: "nat option"

record server =
  sv_store :: store
  sv_locks :: "(pystr \<times> nat) list"
  sv_next_handle :: nat
  sv_runtime :: runtime_state
  sv_transport :: transport
  sv_jobs :: "(nat \<times> job) list"
  sv_done :: "nat list"

datatype http_error =
    Http int pystr
  | Raised task_error
  | OSFailure

abbreviation store_of :: "server \<Rightarrow> store" where "store_of \<equiv> sv_store"

definition in_store :: "(store \<Rightarrow> store) \<Rightarrow> server \<Rightarrow> server" where
  "in_store f sv = sv\<lparr>sv_store := f (sv_store sv)\<rparr>"

definition in_transport :: "(transport \<Rightarrow> transport) \<Rightarrow> server \<Rightarrow> server" where
  "in_transport f sv = sv\<lparr>sv_transport := f (sv_transport sv)\<rparr>"

definition in_runtime :: "(runtime_state \<Rightarrow> runtime_state) \<Rightarrow> server \<Rightarrow> server" where
  "in_runtime f sv = sv\<lparr>sv_runtime := f (sv_runtime sv)\<rparr>"

definition record_of :: "pystr \<Rightarrow> server \<Rightarrow> task_record option" where
  "record_of t sv = map_of (records (sv_store sv)) t"

definition deleted :: "pystr \<Rightarrow> server \<Rightarrow> bool" where
  "deleted t sv = task_is_deleted t (sv_store sv)"

text \<open>
  A record names its asyncio task: a worker (from 1), or the request task that created the record
  (0), which has ended once its request has.
\<close>

definition request_task :: nat where "request_task = 0"

definition task_done :: "nat \<Rightarrow> server \<Rightarrow> bool" where
  "task_done n sv \<longleftrightarrow> n = request_task \<or> n \<in> set (sv_done sv)"

section \<open>Owner locks\<close>

definition try_acquire_owner_lock :: "pystr \<Rightarrow> server \<Rightarrow> nat option \<times> server" where
  "try_acquire_owner_lock t sv =
     (case map_of (sv_locks sv) t of
        Some _ \<Rightarrow> (None, sv)
      | None \<Rightarrow> (Some (sv_next_handle sv),
          sv\<lparr>sv_locks := (t, sv_next_handle sv) # sv_locks sv, sv_next_handle := Suc (sv_next_handle sv)\<rparr>))"

definition release_lock_handle :: "nat option \<Rightarrow> server \<Rightarrow> server" where
  "release_lock_handle h sv =
     (case h of None \<Rightarrow> sv | Some n \<Rightarrow> sv\<lparr>sv_locks := filter (\<lambda>(t, m). m \<noteq> n) (sv_locks sv)\<rparr>)"

section \<open>Principals\<close>

definition request_principal ::
  "settings \<Rightarrow> principal option \<Rightarrow> pystr option \<Rightarrow> http_error + principal option" where
  "request_principal s who declared =
     (if auth_enabled s then
        (case who of
           None \<Rightarrow> Inl (Http 401 (lit ''authentication_required''))
         | Some p \<Rightarrow> if declared \<noteq> None \<and> declared \<noteq> Some (pr_user_id p)
                     then Inl (Http 403 (lit ''user_identity_mismatch'')) else Inr (Some p))
      else if given declared then Inr (Some \<lparr>pr_user_id = the declared, pr_tenant_id = DEFAULT_TENANT\<rparr>)
      else Inr None)"

definition authorize ::
  "settings \<Rightarrow> principal option \<Rightarrow> pystr option \<Rightarrow> pystr option \<Rightarrow> pystr \<Rightarrow> http_error + principal option" where
  \<comment> \<open>the check that snapshots and tombstones share: their user and tenant\<close>
  "authorize s who declared user tenant =
     rbind (request_principal s who declared)
       (\<lambda>p. case p of
          None \<Rightarrow> Inr None
        | Some q \<Rightarrow> if \<not> auth_enabled s then Inr None
            else if user \<noteq> Some (pr_user_id q) \<or> tenant \<noteq> pr_tenant_id q
            then Inl (Http 404 (lit ''task_not_found'')) else Inr (Some q))"

definition authorize_snapshot where
  "authorize_snapshot s who declared snapshot =
     authorize s who declared (Some (tk_user_id snapshot)) (tk_tenant_id snapshot)"

definition authorize_tombstone where
  "authorize_tombstone s who declared tombstone =
     authorize s who declared (ts_user_id tombstone) (ts_tenant_id tombstone)"

section \<open>Emitting events and the end of a worker\<close>

definition emit ::
  "emission \<Rightarrow> pystr \<Rightarrow> event_name \<Rightarrow> pystr \<Rightarrow> event_data \<Rightarrow> pystr \<Rightarrow> bool \<Rightarrow> server \<Rightarrow> (task_error + monitor_event list) \<times> server" where
  \<comment> \<open>\<open>ok\<close>: whether the sends reach the socket\<close>
  "emit em t event message data run ok sv =
     (case record_event em t event message data (Some run) (sv_store sv) of
        (Inl e, st) \<Rightarrow> (Inl e, sv\<lparr>sv_store := st\<rparr>)
      | (Inr es, st) \<Rightarrow>
          (Inr es, in_transport (fold (\<lambda>e tr. send_to_thread t (EventMessage e) ok tr) es) (sv\<lparr>sv_store := st\<rparr>)))"

definition TIMEOUT_TEXT :: pystr where
  "TIMEOUT_TEXT =
     [30740, 31350, 20219, 21153, 36229, 36807, 36816, 34892, 26102, 38480, 65292, 35831, 32553,
     23567, 33539, 22260, 21518, 37325, 35797]"

definition PROVIDERS_TEXT :: pystr where
  "PROVIDERS_TEXT =
     [24050, 21551, 29992, 30340, 21830, 21697, 24179, 21488, 26242, 26102, 22343, 19981, 21487,
     29992, 65292, 35831, 31245, 21518, 37325, 35797]"

definition FX_TEXT_1 :: pystr where
  "FX_TEXT_1 =
     [20505, 36873, 21830, 21697, 32570, 23569, 25968, 25454, 36890, 36947, 36820, 22238, 30340,
     26377, 25928, 20154, 27665, 24065, 27719, 29575, 25253, 20215, 65288]"

definition FX_TEXT_2 :: pystr where
  "FX_TEXT_2 =
     [65289, 65292, 35831, 26816, 26597, 21830, 21697, 32423, 32, 112, 114, 105, 99, 101, 95, 99,
     111, 110, 118, 101, 114, 115, 105, 111, 110, 32, 35777, 25454, 21518, 37325, 35797]"

definition FAILED_TEXT :: pystr where
  "FAILED_TEXT =
     [30740, 31350, 20219, 21153, 25191, 34892, 22833, 36133, 65292, 35831, 31245, 21518, 37325,
     35797, 25110, 26816, 26597, 26381, 21153, 37197, 32622]"

definition CANCELLED_TEXT :: pystr where
  "CANCELLED_TEXT =
     [36141, 29289, 20219, 21153, 24050, 21462, 28040]"

definition RESULT_TEXT :: pystr where
  "RESULT_TEXT =
     [36141, 29289, 24314, 35758, 24050, 29983, 25104]"

definition INTERRUPTED_TEXT :: pystr where
  "INTERRUPTED_TEXT =
     [30740, 31350, 26381, 21153, 24050, 37325, 21551, 65292, 36825, 27425, 20219, 21153, 26410,
     33021, 32487, 32493, 65292, 35831, 37325, 26032, 25552, 20132]"

text \<open>What ends the body of \<open>_execute_task\<close>: the exceptions its handlers tell apart.\<close>

datatype failure =
    FDeleted | FCancelled | FAmbiguity blocking_ambiguity | FTimeout | FProviders
  | FUnsupported pystr | FExchangeRates pystr | FPreferenceStore pystr | FPersistence | FOther

datatype body_end = Completes shopping_summary_output | Fails failure

definition failure_of :: "task_error \<Rightarrow> failure" where
  "failure_of e = (if e = TaskDeletedError then FDeleted else if e = SnapshotPersistenceError then FPersistence else FOther)"

fun error_code_of :: "failure \<Rightarrow> pystr" where
  "error_code_of FTimeout = lit ''task_timeout''"
| "error_code_of FProviders = lit ''providers_unavailable''"
| "error_code_of (FUnsupported m) = lit ''unsupported_capability''"
| "error_code_of (FExchangeRates m) = lit ''fx_rates_unavailable''"
| "error_code_of (FPreferenceStore m) = lit ''preference_store_unavailable''"
| "error_code_of _ = lit ''task_failed''"

fun error_message_of :: "failure \<Rightarrow> pystr" where
  "error_message_of FTimeout = TIMEOUT_TEXT"
| "error_message_of FProviders = PROVIDERS_TEXT"
| "error_message_of (FUnsupported m) = m"
| "error_message_of (FExchangeRates currencies) = FX_TEXT_1 @ currencies @ FX_TEXT_2"
| "error_message_of (FPreferenceStore m) = lit ''Remembered Preference backend unavailable: '' @ m"
| "error_message_of _ = FAILED_TEXT"

definition prompt_of :: "blocking_ambiguity \<Rightarrow> clarification_prompt" where
  "prompt_of a = \<lparr>cp_field = ba_field a, cp_reason_code = ba_reason_code a, cp_question = ba_question a\<rparr>"

definition handle_failure :: "emission \<Rightarrow> bool \<Rightarrow> failure \<Rightarrow> job \<Rightarrow> server \<Rightarrow> task_error option \<times> server" where
  "handle_failure em ok f j sv =
     (let t = jb_thread j; run = jb_run j;
          emitting = (\<lambda>event message data.
            case emit em t event message data run ok sv of (Inl e, sv') \<Rightarrow> (Some e, sv') | (Inr _, sv') \<Rightarrow> (None, sv'))
      in case f of
           FDeleted \<Rightarrow> (None, sv)
         | FPersistence \<Rightarrow> (Some SnapshotPersistenceError, sv)
         | FCancelled \<Rightarrow>
             (case record_of t sv of
                Some r \<Rightarrow>
                  if \<not> tr_deleting r \<and> \<not> deleted t sv \<and> tr_run_id r = run \<and> tk_status (tr_snapshot r) = StRunning
                  then emitting TaskCancelled CANCELLED_TEXT (DCancelled t) else (None, sv)
              | None \<Rightarrow> (None, sv))
         | FAmbiguity a \<Rightarrow> emitting ClarificationRequired (ba_question a) (DRequired (prompt_of a))
         | FOther \<Rightarrow> if deleted t sv then (None, sv)
                   else emitting ErrorEvent (error_message_of f) (DError t (Some (error_code_of f)))
         | _ \<Rightarrow> emitting ErrorEvent (error_message_of f) (DError t (Some (error_code_of f))))"

definition execute_task_end :: "emission \<Rightarrow> emission \<Rightarrow> bool \<Rightarrow> body_end \<Rightarrow> job \<Rightarrow> server \<Rightarrow> task_error option \<times> server" where
  "execute_task_end em em' ok body j sv =
     (case body of
        Completes r \<Rightarrow>
          (case emit em (jb_thread j) TaskResult RESULT_TEXT (DResult r) (jb_run j) ok sv of
             (Inr _, sv1) \<Rightarrow> (None, sv1)
           | (Inl e, sv1) \<Rightarrow> handle_failure em' ok (failure_of e) j sv1)
      | Fails f \<Rightarrow> handle_failure em' ok f j sv)"

definition drop_owner :: "nat option \<Rightarrow> task_record \<Rightarrow> task_record" where
  "drop_owner h r = (if tr_owner_handle r = h then r\<lparr>tr_owner_handle := None\<rparr> else r)"

definition execute_finally :: "nat \<Rightarrow> job \<Rightarrow> server \<Rightarrow> server" where
  \<comment> \<open>the finally of \<open>_execute\<close> and the done callback of its asyncio task \<open>n\<close>\<close>
  "execute_finally n j sv =
     (let sv1 = (case record_of (jb_thread j) sv of
                   Some r \<Rightarrow> in_store (set_record (jb_thread j) (drop_owner (jb_handle j) r)) sv
                 | None \<Rightarrow> sv);
          sv2 = release_lock_handle (jb_handle j) sv1
      in (in_runtime finish_task sv2)\<lparr>sv_done := n # sv_done sv2\<rparr>)"

definition execute_end :: "emission \<Rightarrow> emission \<Rightarrow> bool \<Rightarrow> body_end \<Rightarrow> nat \<Rightarrow> job \<Rightarrow> server \<Rightarrow> server" where
  "execute_end em em' ok body n j sv =
     (case execute_task_end em em' ok body j sv of
        (e, sv1) \<Rightarrow>
          let sv2 = (if e = Some SnapshotPersistenceError then
                       (case record_of (jb_thread j) sv1 of
                          Some r \<Rightarrow> if tr_run_id r = jb_run j
                            then in_transport (close_active (jb_thread j) 1011) (in_store (pop_record (jb_thread j)) sv1)
                            else sv1
                        | None \<Rightarrow> sv1)
                     else sv1)
          in execute_finally n j sv2)"

section \<open>Recovery and reading\<close>

definition interrupted_snapshot :: "rat \<Rightarrow> monitor_event \<Rightarrow> task_snapshot \<Rightarrow> task_snapshot" where
  "interrupted_snapshot timestamp e s =
     s\<lparr>tk_status := StError, tk_updated_at := timestamp, tk_events := tk_events s @ [e],
       tk_error_code := Some (lit ''task_interrupted''), tk_error := Some INTERRUPTED_TEXT\<rparr>"

definition recover :: "emission \<Rightarrow> pystr \<Rightarrow> task_snapshot \<Rightarrow> server \<Rightarrow> (http_error + task_snapshot option) \<times> server" where
  \<comment> \<open>the owner lock is held\<close>
  "recover em t s sv =
     (case make_event (em_event_id em) t (tk_run_id s) (previous_sequence s + 1) ErrorEvent INTERRUPTED_TEXT
             (DError t (Some (lit ''task_interrupted''))) (tk_data_mode s) (em_timestamp em) of
        None \<Rightarrow> (Inl (Raised InvalidEvent), sv)
      | Some e \<Rightarrow>
          let s' = interrupted_snapshot (em_timestamp em) e s
          in case persist_snapshot (em_io em) s' (sv_store sv) of
               (None, st) \<Rightarrow> (Inr (Some s'), sv\<lparr>sv_store := st\<rparr>)
             | (Some err, st) \<Rightarrow>
                 (if err = TaskDeletedError then Inr None else Inl (Raised err), sv\<lparr>sv_store := st\<rparr>))"

definition load_snapshot :: "emission \<Rightarrow> pystr \<Rightarrow> server \<Rightarrow> (http_error + task_snapshot option) \<times> server" where
  "load_snapshot em t sv =
     (if deleted t sv then (Inr None, sv)
      else case read_persisted_snapshot t (sv_store sv) of
        None \<Rightarrow> (Inr None, sv)
      | Some s \<Rightarrow>
          if tk_status s = StRunning \<and> record_of t sv = None
          then case try_acquire_owner_lock t sv of
                 (None, sv1) \<Rightarrow> (Inr (Some s), sv1)
               | (Some h, sv1) \<Rightarrow> (case recover em t s sv1 of (res, sv2) \<Rightarrow> (res, release_lock_handle (Some h) sv2))
          else (Inr (Some s), sv))"

abbreviation not_found :: http_error where "not_found \<equiv> Http 404 (lit ''task_not_found'')"

definition authorized :: "settings \<Rightarrow> principal option \<Rightarrow> pystr option \<Rightarrow> task_snapshot \<Rightarrow> http_error + task_snapshot" where
  "authorized s who declared snapshot = rbind (authorize_snapshot s who declared snapshot) (\<lambda>_. Inr snapshot)"

definition get_task ::
  "settings \<Rightarrow> principal option \<Rightarrow> emission \<Rightarrow> pystr \<Rightarrow> server \<Rightarrow> (http_error + task_snapshot) \<times> server" where
  "get_task s who em t sv =
     (if \<not> thread_token t then (Inl (Http 422 (lit ''invalid thread id'')), sv)
      else if deleted t sv then (Inl not_found, sv)
      else case record_of t sv of
        Some r \<Rightarrow> if tr_deleting r then (Inl not_found, sv) else (authorized s who None (tr_snapshot r), sv)
      | None \<Rightarrow>
          (case load_snapshot em t sv of
             (Inl e, sv1) \<Rightarrow> (Inl e, sv1)
           | (Inr None, sv1) \<Rightarrow> (Inl not_found, sv1)
           | (Inr (Some snapshot), sv1) \<Rightarrow> (authorized s who None snapshot, sv1)))"

section \<open>Creating tasks\<close>

definition prune_records :: "rat \<Rightarrow> rat \<Rightarrow> server \<Rightarrow> server" where
  "prune_records retention now sv =
     fold (\<lambda>(t, r) u. release_lock_handle (tr_owner_handle r) (in_store (pop_record t) u))
       (filter (\<lambda>(t, r). task_done (tr_task r) sv \<and> tk_updated_at (tr_snapshot r) < now - retention)
         (records (sv_store sv))) sv"

fun not_accepting_code :: "not_accepting \<Rightarrow> pystr" where
  "not_accepting_code ReleaseNotSelected = lit ''release_not_selected''"
| "not_accepting_code _ = lit ''runtime_draining''"

definition spawn :: "job \<Rightarrow> server \<Rightarrow> nat \<times> server" where
  "spawn j sv = (let n = Suc (length (sv_jobs sv)) in (n, sv\<lparr>sv_jobs := sv_jobs sv @ [(n, j)]\<rparr>))"

definition cancel_job :: "emission \<Rightarrow> bool \<Rightarrow> nat \<Rightarrow> server \<Rightarrow> server" where
  \<comment> \<open>\<open>task.cancel()\<close> and awaiting the task\<close>
  "cancel_job em ok n sv =
     (case map_of (sv_jobs sv) n of
        Some j \<Rightarrow> execute_end em em ok (Fails FCancelled) n j sv
      | None \<Rightarrow> sv)"

record create_request =
  cq_query :: pystr
  cq_thread_id :: "pystr option"
  cq_user_id :: pystr

record create_environment =
  ce'_sha256 :: "int list \<Rightarrow> int list"
  ce'_ready :: bool
  ce'_retention :: rat
  ce'_now :: rat
  ce'_uploads :: "http_error + unit"
  ce'_request_id :: pystr
  ce'_new_thread :: pystr
  ce'_run :: pystr
  ce'_io :: io
  ce'_binds :: bool
  ce'_cancel :: emission

definition start_task ::
  "create_environment \<Rightarrow> pystr \<Rightarrow> task_snapshot \<Rightarrow> server \<Rightarrow> (http_error + pystr) \<times> server" where
  \<comment> \<open>from the directory and the owner lock to the record; the failing branch undoes what it began\<close>
  "start_task env t snapshot sv =
     (let existed = (map_of (directories (sv_store sv)) t \<noteq> None)
      in case try_acquire_owner_lock t sv of
           (None, sv1) \<Rightarrow> (Inl (Http 409 (lit ''task_active_elsewhere'')), sv1)
         | (Some h, sv1) \<Rightarrow>
             (let undo = (\<lambda>u. let u1 = release_lock_handle (Some h) (in_runtime finish_task u)
                   in if \<not> existed \<and> \<not> deleted t u1 then in_store (remove_task_directory t) u1 else u1)
              in if deleted t sv1 then (Inl (Http 409 (lit ''task_deleted'')), undo sv1)
                 else let sv2 = in_store (ensure_directory t) sv1
                      in if \<not> ce'_binds env then (Inl OSFailure, undo sv2)
                         else case persist_snapshot (ce'_io env) snapshot (sv_store sv2) of
                           (Some e, st) \<Rightarrow> (Inl (Raised e), undo (sv2\<lparr>sv_store := st\<rparr>))
                         | (None, st) \<Rightarrow>
                             (case spawn \<lparr>jb_thread = t, jb_run = tk_run_id snapshot, jb_handle = Some h\<rparr> (sv2\<lparr>sv_store := st\<rparr>) of
                                (n, sv3) \<Rightarrow>
                                  (Inr t, in_store (set_record t
                                     \<lparr>tr_run_id = tk_run_id snapshot, tr_snapshot = snapshot, tr_task = n,
                                      tr_owner_handle = Some h, tr_generation = tk_generation snapshot,
                                      tr_deleting = False\<rparr>) sv3))))"

definition create_locked ::
  "settings \<Rightarrow> create_environment \<Rightarrow> principal option \<Rightarrow> create_request \<Rightarrow> pystr \<Rightarrow> server \<Rightarrow> (http_error + pystr) \<times> server" where
  "create_locked s env p request t sv =
     (let immutable = (Inl (Http 409 (lit ''thread_id_immutable'')), sv)
      in if deleted t sv then (Inl (Http 409 (lit ''task_deleted'')), sv)
         else if (case record_of t sv of
                Some r \<Rightarrow> terminal_status (tk_status (tr_snapshot r))
              | None \<Rightarrow> (case read_persisted_snapshot t (sv_store sv) of
                          Some persisted \<Rightarrow> terminal_status (tk_status persisted) | None \<Rightarrow> False))
         then immutable
         else
           let sv1 = (case record_of t sv of
                 Some previous \<Rightarrow>
                   if \<not> task_done (tr_task previous) sv
                   then cancel_job (ce'_cancel env) True (tr_task previous) (in_store (pop_record t) sv) else sv
               | None \<Rightarrow> sv);
               sv2 = in_transport (clear_thread t True) sv1
           in start_task env t
                (new_snapshot t (ce'_run env) (cq_query request) (cq_user_id request)
                  (case p of Some q \<Rightarrow> pr_tenant_id q | None \<Rightarrow> DEFAULT_TENANT) (data_mode_of s) (ce'_now env)) sv2)"

definition create_task ::
  "settings \<Rightarrow> create_environment \<Rightarrow> principal option \<Rightarrow> create_request \<Rightarrow> server \<Rightarrow> (http_error + pystr) \<times> server" where
  "create_task s env who request sv =
     (case request_principal s who (Some (cq_user_id request)) of
        Inl e \<Rightarrow> (Inl e, sv)
      | Inr p \<Rightarrow>
          if \<not> ce'_ready env then
            (Inl (Http 503 (if draining (sv_runtime sv) \<or> release_rollback s
                            then lit ''runtime_draining'' else lit ''runtime_not_ready'')), sv)
          else
            let sv1 = prune_records (ce'_retention env) (ce'_now env) sv
            in case ce'_uploads env of
                 Inl e \<Rightarrow> (Inl e, sv1)
               | Inr _ \<Rightarrow>
                   (case begin_task (ce'_sha256 env) s (ce'_request_id env) (sv_runtime sv1) of
                      Inl e \<Rightarrow> (Inl (Http 503 (not_accepting_code e)), sv1)
                    | Inr rt \<Rightarrow>
                        create_locked s env p request
                          (if given (cq_thread_id request) then the (cq_thread_id request) else ce'_new_thread env)
                          (sv1\<lparr>sv_runtime := rt\<rparr>)))"

section \<open>Reruns and relaxations\<close>

fun load_all ::
  "(pystr \<Rightarrow> emission) \<Rightarrow> pystr \<Rightarrow> pystr \<Rightarrow> pystr list \<Rightarrow> (pystr \<times> task_snapshot) list \<Rightarrow> server \<Rightarrow>
     (http_error + (pystr \<times> task_snapshot) list) \<times> server" where
  "load_all em user tenant [] acc sv = (Inr acc, sv)"
| "load_all em user tenant (t # ts) acc sv =
     (if \<not> thread_token t \<or> record_of t sv \<noteq> None then load_all em user tenant ts acc sv
      else case load_snapshot (em t) t sv of
        (Inl e, sv1) \<Rightarrow> (Inl e, sv1)
      | (Inr None, sv1) \<Rightarrow> load_all em user tenant ts acc sv1
      | (Inr (Some s), sv1) \<Rightarrow>
          load_all em user tenant ts
            (if tk_user_id s = user \<and> tk_tenant_id s = tenant then AList.update (tk_thread_id s) s acc else acc) sv1)"

definition live_snapshots ::
  "pystr \<Rightarrow> pystr \<Rightarrow> (pystr \<times> task_record) list \<Rightarrow> (pystr \<times> task_snapshot) list \<Rightarrow> (pystr \<times> task_snapshot) list" where
  "live_snapshots user tenant rs acc =
     fold (\<lambda>(t, r) a. if tk_user_id (tr_snapshot r) = user \<and> tk_tenant_id (tr_snapshot r) = tenant
                      then AList.update t (tr_snapshot r) a else a) rs acc"

definition history_snapshots ::
  "(pystr \<Rightarrow> emission) \<Rightarrow> pystr \<Rightarrow> pystr \<Rightarrow> server \<Rightarrow> (http_error + task_snapshot list) \<times> server" where
  "history_snapshots em user tenant sv =
     (case load_all em user tenant (map fst (directories (sv_store sv))) [] sv of
        (Inl e, sv1) \<Rightarrow> (Inl e, sv1)
      | (Inr acc, sv1) \<Rightarrow>
          (Inr (sort_key (\<lambda>s. - tk_updated_at s) (map snd (live_snapshots user tenant (records (sv_store sv1)) acc))), sv1))"

definition is_child :: "pystr \<Rightarrow> pystr \<Rightarrow> lineage_relation \<Rightarrow> task_snapshot \<Rightarrow> bool" where
  "is_child parent key relation s \<longleftrightarrow>
     (case tk_lineage s of
        None \<Rightarrow> False
      | Some l \<Rightarrow> ln_parent_snapshot_id l = parent \<and> ln_command_idempotency_key l = key \<and> ln_relation l = relation)"

definition find_idempotent_child ::
  "(pystr \<Rightarrow> emission) \<Rightarrow> pystr \<Rightarrow> pystr \<Rightarrow> lineage_relation \<Rightarrow> pystr \<Rightarrow> pystr \<Rightarrow> server \<Rightarrow>
     (http_error + task_snapshot option) \<times> server" where
  "find_idempotent_child em parent key relation user tenant sv =
     (case history_snapshots em user tenant sv of
        (Inl e, sv1) \<Rightarrow> (Inl e, sv1)
      | (Inr ss, sv1) \<Rightarrow> (Inr (List.find (is_child parent key relation) ss), sv1))"

definition snapshot_key :: "task_snapshot \<Rightarrow> pystr" where
  "snapshot_key s = (if tk_snapshot_id s = [] then tk_thread_id s else tk_snapshot_id s)"

definition lineage_for_child ::
  "task_snapshot \<Rightarrow> lineage_relation \<Rightarrow> pystr \<Rightarrow> constraint_relaxation list \<Rightarrow> snapshot_lineage" where
  "lineage_for_child parent relation key changed =
     \<lparr>ln_relation = relation, ln_parent_snapshot_id = snapshot_key parent, ln_parent_thread_id = tk_thread_id parent,
      ln_parent_run_id = tk_run_id parent,
      ln_root_snapshot_id = (case tk_lineage parent of Some l \<Rightarrow> ln_root_snapshot_id l | None \<Rightarrow> snapshot_key parent),
      ln_depth = (case tk_lineage parent of Some l \<Rightarrow> ln_depth l + 1 | None \<Rightarrow> 1),
      ln_command_idempotency_key = key, ln_changed_constraints = changed\<rparr>"

record child_environment =
  ch_sha256 :: "int list \<Rightarrow> int list"
  ch_thread :: pystr
  ch_run :: pystr
  ch_now :: rat
  ch_io :: io
  ch_clones :: bool
  ch_loads :: "pystr \<Rightarrow> emission"
  ch_key :: pystr

definition child_snapshot :: "child_environment \<Rightarrow> task_snapshot \<Rightarrow> snapshot_lineage \<Rightarrow> task_snapshot" where
  "child_snapshot env parent lineage =
     (new_snapshot (ch_thread env) (ch_run env) (tk_query parent) (tk_user_id parent) (tk_tenant_id parent)
        (tk_data_mode parent) (ch_now env))
     \<lparr>tk_lineage := Some lineage, tk_resolved_query := tk_resolved_query parent,
      tk_resolved_intent := tk_resolved_intent parent, tk_mode := tk_mode parent,
      tk_working_assumptions := tk_working_assumptions parent,
      tk_applied_preferences := tk_applied_preferences parent, tk_task_overrides := tk_task_overrides parent,
      tk_constraint_relaxations := ln_changed_constraints lineage\<rparr>"

definition start_child_task ::
  "settings \<Rightarrow> child_environment \<Rightarrow> task_snapshot \<Rightarrow> snapshot_lineage \<Rightarrow> server \<Rightarrow> (http_error + task_snapshot) \<times> server" where
  "start_child_task s env parent lineage sv =
     (let t = ch_thread env; child = child_snapshot env parent lineage
      in if tk_resolved_intent parent = None then (Inl (Raised InvalidEvent), sv)
         else
           case try_acquire_owner_lock t (in_store (ensure_directory t) sv) of
             (None, sv1) \<Rightarrow> (Inl (Raised SnapshotPersistenceError), sv1)
           | (Some h, sv1) \<Rightarrow>
               (case begin_task (ch_sha256 env) s (ch_run env) (sv_runtime sv1) of
                  Inl e \<Rightarrow> (Inl (Http 503 (not_accepting_code e)), release_lock_handle (Some h) sv1)
                | Inr rt \<Rightarrow>
                    (let sv2 = sv1\<lparr>sv_runtime := rt\<rparr>;
                         undo = (\<lambda>u. release_lock_handle (Some h) (in_runtime finish_task u))
                     in if \<not> ch_clones env then (Inl OSFailure, undo sv2)
                        else case persist_snapshot (ch_io env) child (sv_store sv2) of
                          (Some e, st) \<Rightarrow> (Inl (Raised e), undo (sv2\<lparr>sv_store := st\<rparr>))
                        | (None, st) \<Rightarrow>
                            (case spawn \<lparr>jb_thread = t, jb_run = ch_run env, jb_handle = Some h\<rparr> (sv2\<lparr>sv_store := st\<rparr>) of
                               (n, sv3) \<Rightarrow>
                                 (Inr child, in_store (set_record t
                                    \<lparr>tr_run_id = ch_run env, tr_snapshot = child, tr_task = n, tr_owner_handle = Some h,
                                     tr_generation = tk_generation child, tr_deleting = False\<rparr>) sv3)))))"

record rerun_response =
  re_thread_id :: pystr
  re_parent_snapshot_id :: pystr
  re_lineage :: snapshot_lineage
  re_idempotent :: bool

abbreviation snapshot_not_found :: http_error where "snapshot_not_found \<equiv> Http 404 (lit ''research_snapshot_not_found'')"

definition owned_parent ::
  "settings \<Rightarrow> principal option \<Rightarrow> emission \<Rightarrow> pystr \<Rightarrow> pystr \<Rightarrow> server \<Rightarrow> (http_error + task_snapshot) \<times> server" where
  \<comment> \<open>the parent of a rerun or relaxation, owned by the user of the command\<close>
  "owned_parent s who em t user sv =
     (case (case record_of t sv of Some r \<Rightarrow> (Inr (Some (tr_snapshot r)), sv) | None \<Rightarrow> load_snapshot em t sv) of
        (Inl e, sv1) \<Rightarrow> (Inl e, sv1)
      | (Inr None, sv1) \<Rightarrow> (Inl snapshot_not_found, sv1)
      | (Inr (Some parent), sv1) \<Rightarrow>
          (case authorize_snapshot s who (Some user) parent of
             Inl e \<Rightarrow> (Inl e, sv1)
           | Inr _ \<Rightarrow> if tk_user_id parent \<noteq> user then (Inl snapshot_not_found, sv1) else (Inr parent, sv1)))"

definition child_command ::
  "settings \<Rightarrow> child_environment \<Rightarrow> pystr \<Rightarrow> lineage_relation \<Rightarrow> (task_snapshot \<Rightarrow> http_error + constraint_relaxation list) \<Rightarrow>
     task_snapshot \<Rightarrow> server \<Rightarrow> (http_error + rerun_response) \<times> server" where
  \<comment> \<open>under the command lock: an existing child of the same command, or a new one\<close>
  "child_command s env user relation changed parent sv =
     (case find_idempotent_child (ch_loads env) (snapshot_key parent) (ch_key env) relation user (tk_tenant_id parent) sv of
        (Inl e, sv1) \<Rightarrow> (Inl e, sv1)
      | (Inr (Some existing), sv1) \<Rightarrow>
          (Inr \<lparr>re_thread_id = tk_thread_id existing, re_parent_snapshot_id = snapshot_key parent,
                re_lineage = the (tk_lineage existing), re_idempotent = True\<rparr>, sv1)
      | (Inr None, sv1) \<Rightarrow>
          (case changed parent of
             Inl e \<Rightarrow> (Inl e, sv1)
           | Inr cs \<Rightarrow>
               (let lineage = lineage_for_child parent relation (ch_key env) cs
                in case start_child_task s env parent lineage sv1 of
                     (Inl e, sv2) \<Rightarrow> (Inl e, sv2)
                   | (Inr child, sv2) \<Rightarrow>
                       (Inr \<lparr>re_thread_id = tk_thread_id child, re_parent_snapshot_id = snapshot_key parent,
                             re_lineage = lineage, re_idempotent = False\<rparr>, sv2))))"

definition rerun_checks :: "task_snapshot \<Rightarrow> http_error + constraint_relaxation list" where
  "rerun_checks parent =
     (if tk_status parent \<noteq> StCompleted \<or> tk_result parent = None then Inl (Http 409 (lit ''rerun_not_available''))
      else if tk_resolved_intent parent = None then Inl (Http 409 (lit ''rerun_intent_missing''))
      else Inr [])"

definition rerun_task ::
  "settings \<Rightarrow> child_environment \<Rightarrow> principal option \<Rightarrow> emission \<Rightarrow> pystr \<Rightarrow> pystr \<Rightarrow> server \<Rightarrow>
     (http_error + rerun_response) \<times> server" where
  "rerun_task s env who em t user sv =
     (if \<not> thread_token t then (Inl (Http 422 (lit ''invalid thread id'')), sv)
      else case owned_parent s who em t user sv of
        (Inl e, sv1) \<Rightarrow> (Inl e, sv1)
      | (Inr parent, sv1) \<Rightarrow> child_command s env user ByRerun rerun_checks parent sv1)"

record relaxation_command =
  rx_user_id :: pystr
  rx_confirmed :: bool
  rx_constraint_ids :: "pystr list"
  rx_changes :: "constraint_relaxation_change list"

definition normalize_constraint_ids :: "relaxation_command \<Rightarrow> relaxation_command option" where
  \<comment> \<open>the validator of the command; \<open>None\<close>: ValueError\<close>
  "normalize_constraint_ids c =
     (if \<exists>ch \<in> set (rx_changes c). opt_all (\<lambda>r. hc_id r = crc_constraint_id ch) (crc_replacement ch) = False then None
      else Some (c\<lparr>rx_constraint_ids := dict_fromkeys (rx_constraint_ids c @ map crc_constraint_id (rx_changes c))\<rparr>))"

definition change_for :: "relaxation_command \<Rightarrow> pystr \<Rightarrow> constraint_relaxation_change" where
  "change_for c cid =
     (case map_of (rev (map (\<lambda>ch. (crc_constraint_id ch, ch)) (rx_changes c))) cid of
        Some ch \<Rightarrow> ch
      | None \<Rightarrow> \<lparr>crc_constraint_id = cid, crc_replacement = None, crc_reason = 
     [36141, 29289, 32773, 26126, 30830, 30830, 35748, 21518, 20462, 25913, 36825, 39033, 32, 72, 97, 114, 100, 32, 67, 111, 110, 115, 116, 114, 97, 105, 110, 116, 12290]\<rparr>)"

definition relaxation_for :: "hard_constraint list \<Rightarrow> constraint_relaxation_change \<Rightarrow> constraint_relaxation" where
  "relaxation_for constraints ch =
     \<lparr>cr_constraint_id = crc_constraint_id ch,
      cr_previous = the (map_of (rev (map (\<lambda>h. (hc_id h, h)) constraints)) (crc_constraint_id ch)),
      cr_replacement = crc_replacement ch,
      cr_action = (if crc_replacement ch \<noteq> None then WasReplaced else WasRemoved), cr_reason = crc_reason ch\<rparr>"

definition relaxation_checks :: "relaxation_command \<Rightarrow> task_snapshot \<Rightarrow> http_error + constraint_relaxation list" where
  "relaxation_checks c parent =
     (case tk_resolved_intent parent of
        None \<Rightarrow> Inl (Http 409 (lit ''relaxation_not_available''))
      | Some intent \<Rightarrow>
          if tk_status parent \<noteq> StCompleted \<or> tk_result parent = None
          then Inl (Http 409 (lit ''relaxation_not_available''))
          else if \<not> set (rx_constraint_ids c) \<subseteq> hc_id ` set (sp_hard_constraints intent)
          then Inl (Http 422 (lit ''constraint_relaxation_unknown_constraint''))
          else Inr (map (\<lambda>cid. relaxation_for (sp_hard_constraints intent) (change_for c cid)) (rx_constraint_ids c)))"

definition relax_task ::
  "settings \<Rightarrow> child_environment \<Rightarrow> principal option \<Rightarrow> emission \<Rightarrow> pystr \<Rightarrow> relaxation_command \<Rightarrow> server \<Rightarrow>
     (http_error + rerun_response) \<times> server" where
  "relax_task s env who em t c sv =
     (if \<not> thread_token t then (Inl (Http 422 (lit ''invalid thread id'')), sv)
      else if \<not> rx_confirmed c then (Inl (Http 409 (lit ''constraint_relaxation_confirmation_required'')), sv)
      else if rx_constraint_ids c = [] then (Inl (Http 422 (lit ''constraint_relaxation_missing_constraints'')), sv)
      else case owned_parent s who em t (rx_user_id c) sv of
        (Inl e, sv1) \<Rightarrow> (Inl e, sv1)
      | (Inr parent, sv1) \<Rightarrow> child_command s env (rx_user_id c) ByConstraintRelaxation (relaxation_checks c) parent sv1)"

section \<open>Clarification\<close>

fun field_name :: "clarification_field \<Rightarrow> pystr" where
  "field_name ClarifyMode = lit ''mode''"
| "field_name ClarifyProductVariant = lit ''product_variant''"
| "field_name ClarifyDestination = lit ''destination''"

definition answered :: "clarification_answer \<Rightarrow> invalid_response + pystr" where
  \<comment> \<open>the recorded value of an earlier answer\<close>
  "answered a =
     (if given (ca'_resolved_value a) then Inr (the (ca'_resolved_value a))
      else normalize_clarification_response (ca'_field a) (ca'_response a))"

definition duplicates :: "pystr \<Rightarrow> clarification_field option \<Rightarrow> monitor_event \<Rightarrow> clarification_field option" where
  "duplicates response field e =
     (case me_data e of
        DResolved a \<Rightarrow>
          if me_event e \<noteq> ClarificationResolved \<or> (field \<noteq> None \<and> field \<noteq> Some (ca'_field a)) then None
          else (case (normalize_clarification_response (ca'_field a) (py_strip response), answered a) of
                  (Inr v, Inr w) \<Rightarrow> if v = w then Some (ca'_field a) else None
                | _ \<Rightarrow> None)
      | _ \<Rightarrow> None)"

fun first_some :: "('a \<Rightarrow> 'b option) \<Rightarrow> 'a list \<Rightarrow> 'b option" where
  "first_some f [] = None"
| "first_some f (x # xs) = (case f x of Some y \<Rightarrow> Some y | None \<Rightarrow> first_some f xs)"

definition is_duplicate_clarification_response ::
  "task_snapshot \<Rightarrow> pystr \<Rightarrow> clarification_field option \<Rightarrow> clarification_field option" where
  "is_duplicate_clarification_response s response field = first_some (duplicates response field) (rev (tk_events s))"

record clarify_environment =
  cl_sha256 :: "int list \<Rightarrow> int list"
  cl_emission :: emission
  cl_delivers :: bool

record clarify_response =
  clr_thread_id :: pystr
  clr_field :: clarification_field
  clr_idempotent :: bool

definition claim_record ::
  "pystr \<Rightarrow> task_snapshot \<Rightarrow> server \<Rightarrow> (http_error + task_record \<times> bool) \<times> server" where
  \<comment> \<open>the record that the command works on, holding the owner lock, and whether it was created\<close>
  "claim_record t snapshot sv =
     (let elsewhere = Http 409 (lit ''task_active_elsewhere'')
      in case record_of t sv of
           None \<Rightarrow>
             (case try_acquire_owner_lock t sv of
                (None, sv1) \<Rightarrow> (Inl elsewhere, sv1)
              | (Some h, sv1) \<Rightarrow>
                  let r = \<lparr>tr_run_id = tk_run_id snapshot, tr_snapshot = snapshot, tr_task = request_task,
                           tr_owner_handle = Some h, tr_generation = 0, tr_deleting = False\<rparr>
                  in (Inr (r, True), in_store (set_record t r) sv1))
         | Some r \<Rightarrow>
             (case tr_owner_handle r of
                Some h \<Rightarrow> (Inr (r, False), sv)
              | None \<Rightarrow>
                  (case try_acquire_owner_lock t sv of
                     (None, sv1) \<Rightarrow> (Inl elsewhere, sv1)
                   | (Some h, sv1) \<Rightarrow>
                       let r' = r\<lparr>tr_owner_handle := Some h\<rparr> in (Inr (r', False), in_store (set_record t r') sv1))))"

definition resolved_text :: "clarification_field \<Rightarrow> pystr" where
  "resolved_text f = [24050, 34917, 20805] @ field_name f @ [20449, 24687, 65292, 32487, 32493, 30740, 31350]"

definition resume ::
  "settings \<Rightarrow> clarify_environment \<Rightarrow> pystr \<Rightarrow> clarification_prompt \<Rightarrow> pystr \<Rightarrow> pystr \<Rightarrow> task_record \<Rightarrow> bool \<Rightarrow> server \<Rightarrow>
     (http_error + clarify_response) \<times> server" where
  "resume s env t pending response value r created sv =
     (let h = tr_owner_handle r;
          undo = (\<lambda>u. let u1 = (if created then in_store (pop_record t) u
                      else case record_of t u of
                             Some q \<Rightarrow> in_store (set_record t (drop_owner h q)) u
                           | None \<Rightarrow> u)
                  in release_lock_handle h u1)
      in case emit (cl_emission env) t ClarificationResolved (resolved_text (cp_field pending))
                (DResolved \<lparr>ca'_field = cp_field pending, ca'_reason_code = cp_reason_code pending,
                   ca'_response = response, ca'_resolved_value = Some value\<rparr>) (tr_run_id r) (cl_delivers env) sv of
           (Inl e, sv1) \<Rightarrow> (Inl (Raised e), undo sv1)
         | (Inr _, sv1) \<Rightarrow>
             (case begin_task (cl_sha256 env) s (tr_run_id r) (sv_runtime sv1) of
                Inl e \<Rightarrow> (Inl (Http 503 (not_accepting_code e)), undo sv1)
              | Inr rt \<Rightarrow>
                  (case spawn \<lparr>jb_thread = t, jb_run = tr_run_id r, jb_handle = h\<rparr> (sv1\<lparr>sv_runtime := rt\<rparr>) of
                     (n, sv2) \<Rightarrow>
                       (Inr \<lparr>clr_thread_id = t, clr_field = cp_field pending, clr_idempotent = False\<rparr>,
                        case record_of t sv2 of
                          Some q \<Rightarrow> in_store (set_record t (q\<lparr>tr_task := n\<rparr>)) sv2
                        | None \<Rightarrow> sv2))))"

definition clarify_task_locked ::
  "settings \<Rightarrow> clarify_environment \<Rightarrow> principal option \<Rightarrow> pystr \<Rightarrow> pystr \<Rightarrow> server \<Rightarrow> (http_error + clarify_response) \<times> server" where
  "clarify_task_locked s env who t response sv =
     (case (case read_persisted_snapshot t (sv_store sv) of
              Some p \<Rightarrow> Some p | None \<Rightarrow> map_option tr_snapshot (record_of t sv)) of
        None \<Rightarrow> (Inl not_found, sv)
      | Some snapshot \<Rightarrow>
          (case authorize_snapshot s who None snapshot of
             Inl e \<Rightarrow> (Inl e, sv)
           | Inr _ \<Rightarrow>
               if tk_status snapshot \<noteq> StAwaiting then
                 (case is_duplicate_clarification_response snapshot response None of
                    Some field \<Rightarrow> (Inr \<lparr>clr_thread_id = t, clr_field = field, clr_idempotent = True\<rparr>, sv)
                  | None \<Rightarrow> (Inl (Http 409 (lit ''clarification_not_awaiting'')), sv))
               else case tk_clarification snapshot of
                 None \<Rightarrow> (Inl (Http 409 (lit ''clarification_state_missing'')), sv)
               | Some pending \<Rightarrow>
                   if is_duplicate_clarification_response snapshot response (Some (cp_field pending)) \<noteq> None
                   then (Inr \<lparr>clr_thread_id = t, clr_field = cp_field pending, clr_idempotent = True\<rparr>, sv)
                   else case normalize_clarification_response (cp_field pending) response of
                     Inl _ \<Rightarrow> (Inl (Http 422 (lit ''clarification_invalid_response'')), sv)
                   | Inr value \<Rightarrow>
                       (case claim_record t snapshot sv of
                          (Inl e, sv1) \<Rightarrow> (Inl e, sv1)
                        | (Inr (r, created), sv1) \<Rightarrow> resume s env t pending response value r created sv1)))"

definition clarify_task where
  "clarify_task s env who t response sv =
     (if \<not> thread_token t then (Inl (Http 422 (lit ''invalid thread id'')), sv)
      else clarify_task_locked s env who t response sv)"

section \<open>Deletion\<close>

record delete_environment =
  de_io :: io
  de_now :: pystr
  de_cancel :: emission
  de_removes :: bool

definition remove_task_control_files :: "pystr \<Rightarrow> server \<Rightarrow> server" where
  "remove_task_control_files t sv = sv\<lparr>sv_locks := filter (\<lambda>(u, _). u \<noteq> t) (sv_locks sv)\<rparr>"

definition set_deleting :: "bool \<Rightarrow> pystr \<Rightarrow> server \<Rightarrow> server" where
  "set_deleting b t sv =
     (case record_of t sv of
        Some r \<Rightarrow> in_store (set_record t (r\<lparr>tr_deleting := b\<rparr>)) sv
      | None \<Rightarrow> sv)"

definition erase_task :: "delete_environment \<Rightarrow> pystr \<Rightarrow> server \<Rightarrow> (http_error + pystr) \<times> server" where
  \<comment> \<open>after the tombstone: stop the worker, forget the task and remove its directory\<close>
  "erase_task env t sv =
     (let h = (case record_of t sv of Some r \<Rightarrow> tr_owner_handle r | None \<Rightarrow> None);
          sv1 = (case record_of t sv of
                   Some r \<Rightarrow> if \<not> task_done (tr_task r) sv
                             then cancel_job (de_cancel env) True (tr_task r) sv else sv
                 | None \<Rightarrow> sv);
          sv2 = (case record_of t sv1 of
                   Some r \<Rightarrow> if tr_owner_handle r = h
                             then release_lock_handle h (in_store (set_record t (r\<lparr>tr_owner_handle := None\<rparr>)) sv1) else sv1
                 | None \<Rightarrow> sv1);
          sv3 = in_transport (discard_thread t) (in_store (pop_record t) sv2)
      in if \<not> de_removes env then (Inl (Http 500 (lit ''task_deletion_failed'')), sv3)
         else (Inr t, remove_task_control_files t
                 (if deleted t sv3 then in_store (remove_task_directory t) sv3 else sv3)))"

definition delete_task ::
  "settings \<Rightarrow> delete_environment \<Rightarrow> principal option \<Rightarrow> pystr \<Rightarrow> pystr \<Rightarrow> server \<Rightarrow> (http_error + pystr) \<times> server" where
  "delete_task s env who t user sv =
     (if \<not> thread_token t then (Inl (Http 422 (lit ''invalid thread id'')), sv)
      else case request_principal s who (Some user) of
        Inl e \<Rightarrow> (Inl e, sv)
      | Inr _ \<Rightarrow>
          (case read_tombstone t (sv_store sv) of
             Some tombstone \<Rightarrow>
               (case authorize_tombstone s who (Some user) tombstone of
                  Inl e \<Rightarrow> (Inl e, sv)
                | Inr _ \<Rightarrow> if ts_user_id tombstone \<noteq> Some user then (Inl not_found, sv)
                           else erase_task env t (set_deleting True t sv))
           | None \<Rightarrow>
               (case (case record_of t sv of Some r \<Rightarrow> Some (tr_snapshot r)
                      | None \<Rightarrow> read_persisted_snapshot t (sv_store sv)) of
                  Some snapshot \<Rightarrow>
                    (case authorize_snapshot s who (Some user) snapshot of
                       Inl e \<Rightarrow> (Inl e, sv)
                     | Inr _ \<Rightarrow>
                         if tk_user_id snapshot \<noteq> user then (Inl not_found, sv)
                         else
                           let sv1 = set_deleting True t sv
                           in case write_tombstone (de_io env) t (Some (tk_user_id snapshot)) (tk_tenant_id snapshot)
                                     (tk_generation snapshot + 1) (de_now env) (sv_store sv1) of
                                (Inl e, st) \<Rightarrow> (Inl (Raised e), set_deleting False t (sv1\<lparr>sv_store := st\<rparr>))
                              | (Inr _, st) \<Rightarrow> erase_task env t (sv1\<lparr>sv_store := st\<rparr>))
                | None \<Rightarrow>
                    if map_of (directories (sv_store sv)) t \<noteq> None then (Inl not_found, sv) else (Inr t, sv))))"

section \<open>Cancellation\<close>

definition cancel_awaiting ::
  "emission \<Rightarrow> bool \<Rightarrow> pystr \<Rightarrow> pystr \<Rightarrow> nat option \<Rightarrow> server \<Rightarrow> (http_error + task_status) \<times> server" where
  "cancel_awaiting em ok t run h sv =
     (case emit em t TaskCancelled CANCELLED_TEXT (DCancelled t) run ok sv of
        (res, sv1) \<Rightarrow>
          (case res of Inl e \<Rightarrow> Inl (Raised e) | Inr _ \<Rightarrow> Inr StCancelled,
           release_lock_handle h
             (case record_of t sv1 of
                Some r \<Rightarrow> in_store (set_record t (drop_owner h r)) sv1
              | None \<Rightarrow> sv1)))"

definition cancelled_elsewhere :: "emission \<Rightarrow> pystr \<Rightarrow> server \<Rightarrow> (http_error + task_status) \<times> server" where
  "cancelled_elsewhere em t sv =
     (case load_snapshot em t sv of
        (Inl e, sv1) \<Rightarrow> (Inl e, sv1)
      | (Inr None, sv1) \<Rightarrow> (Inl (Http 500 (lit ''task state unavailable'')), sv1)
      | (Inr (Some persisted), sv1) \<Rightarrow> (Inr (tk_status persisted), sv1))"

definition cancel_task ::
  "settings \<Rightarrow> emission \<Rightarrow> emission \<Rightarrow> bool \<Rightarrow> principal option \<Rightarrow> pystr \<Rightarrow> server \<Rightarrow> (http_error + task_status) \<times> server" where
  \<comment> \<open>\<open>em'\<close>: the emission after the worker has ended\<close>
  "cancel_task s em em' ok who t sv =
     (let elsewhere = Http 409 (lit ''task_active_elsewhere'')
      in if \<not> thread_token t then (Inl (Http 422 (lit ''invalid thread id'')), sv)
         else if deleted t sv then (Inl not_found, sv)
         else case record_of t sv of
           None \<Rightarrow>
             (case load_snapshot em t sv of
                (Inl e, sv1) \<Rightarrow> (Inl e, sv1)
              | (Inr None, sv1) \<Rightarrow> (Inl (Http 404 (lit ''task not found'')), sv1)
              | (Inr (Some persisted), sv1) \<Rightarrow>
                  if tk_status persisted \<notin> {StRunning, StAwaiting}
                  then (rbind (authorize_snapshot s who None persisted) (\<lambda>_. Inr (tk_status persisted)), sv1)
                  else if tk_status persisted = StAwaiting then
                    (case try_acquire_owner_lock t sv1 of
                       (None, sv2) \<Rightarrow> (Inl elsewhere, sv2)
                     | (Some h, sv2) \<Rightarrow>
                         (let sv3 = in_store (set_record t
                                \<lparr>tr_run_id = tk_run_id persisted, tr_snapshot = persisted, tr_task = request_task,
                                 tr_owner_handle = Some h, tr_generation = 0, tr_deleting = False\<rparr>) sv2
                          in case authorize_snapshot s who None persisted of
                               Inl e \<Rightarrow> (Inl e, sv3)
                             | Inr _ \<Rightarrow> cancel_awaiting em' ok t (tk_run_id persisted) (Some h) sv3))
                  else (Inl elsewhere, sv1))
         | Some r \<Rightarrow>
             if tr_deleting r then (Inl not_found, sv)
             else case authorize_snapshot s who None (tr_snapshot r) of
               Inl e \<Rightarrow> (Inl e, sv)
             | Inr _ \<Rightarrow>
                 if tk_status (tr_snapshot r) = StAwaiting then
                   (case claim_record t (tr_snapshot r) sv of
                      (Inl e, sv1) \<Rightarrow> (Inl e, sv1)
                    | (Inr (r', _), sv1) \<Rightarrow> cancel_awaiting em ok t (tr_run_id r) (tr_owner_handle r') sv1)
                 else if tk_status (tr_snapshot r) \<noteq> StRunning \<or> task_done (tr_task r) sv
                 then (Inr (tk_status (tr_snapshot r)), sv)
                 else
                   let sv1 = cancel_job em ok (tr_task r) sv
                   in case record_of t sv1 of
                        Some current \<Rightarrow>
                          if tr_run_id current \<noteq> tr_run_id r then cancelled_elsewhere em' t sv1
                          else if tk_status (tr_snapshot current) = StRunning
                          then (case emit em' t TaskCancelled CANCELLED_TEXT (DCancelled t) (tr_run_id current) ok sv1 of
                                  (Inl e, sv2) \<Rightarrow> (Inl (Raised e), sv2)
                                | (Inr _, sv2) \<Rightarrow> (Inr StCancelled, sv2))
                          else (Inr (tk_status (tr_snapshot current)), sv1)
                      | None \<Rightarrow> cancelled_elsewhere em' t sv1)"

end
