(* ===== verification/TaskInvariants.thy ===== *)
theory TaskInvariants
  imports TaskService
begin

text \<open>
  What every handler of \<open>TaskService\<close> keeps: the store stays sound (records and files hold
  consistent snapshots of their own thread, and agree) and tombstones are permanent.
  \<open>evolves\<close> is proved once per operation and composed along the handlers.
\<close>

section \<open>Sound stores\<close>

definition sound :: "store \<Rightarrow> bool" where
  "sound st \<longleftrightarrow> good_store st
     \<and> (\<forall>t s. map_of (directories st) t = Some (Stored s) \<longrightarrow> good_snapshot s \<and> tk_thread_id s = t)"

definition evolves :: "server \<Rightarrow> server \<Rightarrow> bool" where
  "evolves sv sv' \<longleftrightarrow>
     (sound (sv_store sv) \<longrightarrow> sound (sv_store sv')) \<and> (\<forall>t. deleted t sv \<longrightarrow> deleted t sv')"

lemma evolves_refl [simp, intro!]: "evolves sv sv"
  by (simp add: evolves_def)

lemma evolves_trans [trans]: "evolves a b \<Longrightarrow> evolves b c \<Longrightarrow> evolves a c"
  by (simp add: evolves_def)

lemma evolves_same_store: "sv_store sv' = sv_store sv \<Longrightarrow> evolves sv sv'"
  by (simp add: evolves_def deleted_def)

lemma sound_record: "sound st \<Longrightarrow> map_of (records st) t = Some r \<Longrightarrow> good_record t r"
  by (simp add: sound_def good_store_def)

lemma sound_file:
  "sound st \<Longrightarrow> map_of (directories st) t = Some (Stored s) \<Longrightarrow> good_snapshot s \<and> tk_thread_id s = t"
  by (simp add: sound_def)

lemma sound_same_store: "same_store st st' \<Longrightarrow> sound st \<Longrightarrow> sound st'"
  using same_store_good by (auto simp: sound_def same_store_def)

lemma sound_advances:
  assumes "advances t r es r' st st'" "good_record t r'" "sound st" shows "sound st'"
  unfolding sound_def
proof (intro conjI allI impI)
  show "good_store st'" using advances_good_store assms by (simp add: sound_def)
  fix u s assume f: "map_of (directories st') u = Some (Stored s)"
  show "good_snapshot s" "tk_thread_id s = u"
    using f assms sound_file [OF assms(3), of u s]
    by (cases "u = t"; auto simp: advances_def good_record_def)+
qed

lemma record_event_sound:
  assumes "record_event em t ev m d run st = (res, st')" "sound st" shows "sound st' \<and> tombstones st' = tombstones st"
proof (cases res)
  case (Inl e)
  then show ?thesis using assms record_event_error_same sound_same_store by (metis same_store_def)
next
  case (Inr es)
  obtain r r' where a: "advances t r es r' st st'" "good_record t r'"
    by (rule recorded_cases [OF assms(1) [unfolded Inr]]) (use assms(2) in \<open>simp add: sound_def\<close>)
  show ?thesis using sound_advances [OF a assms(2)] a(1) by (simp add: advances_def)
qed

lemma record_event_tombstones: "record_event em t ev m d run st = (res, st') \<Longrightarrow> tombstones st' = tombstones st"
  by (auto simp: record_event_def record_task_result_def Let_def persist_snapshot_def
      split: option.splits if_splits sum.splits prod.splits event_data.splits io.splits)

lemma sound_set_record:
  assumes "sound st" "good_record t r" "\<not> task_is_deleted t st \<longrightarrow> map_of (directories st) t = Some (Stored (tr_snapshot r))"
  shows "sound (set_record t r st)"
  using assms by (auto simp: sound_def good_store_def)

lemma sound_update_record:
  assumes "sound st" "map_of (records st) t = Some r" "tr_snapshot r' = tr_snapshot r" "tr_run_id r' = tr_run_id r"
  shows "sound (set_record t r' st)"
  using assms by (intro sound_set_record) (auto simp: sound_def good_store_def good_record_def)

lemma sound_pop_record: "sound st \<Longrightarrow> sound (pop_record t st)"
  by (auto simp: sound_def good_store_def split: if_splits)

lemma sound_persist:
  assumes "sound st" "good_snapshot s" "map_of (records st) (tk_thread_id s) = None"
    and "persist_snapshot io s st = (e, st')"
  shows "sound st' \<and> tombstones st' = tombstones st"
proof (cases e)
  case None
  with assms(4) have "st' = write_file (tk_thread_id s) (Stored s) st" by (simp add: persist_None_iff)
  then show ?thesis using assms(1-3) by (auto simp: sound_def good_store_def)
next
  case (Some x)
  then show ?thesis using assms(1,4) persist_error_same sound_same_store by (metis same_store_def)
qed

section \<open>Each operation evolves\<close>

named_theorems evolving

lemma in_fields [simp]:
  "sv_store (in_transport f sv) = sv_store sv" "sv_store (in_runtime g sv) = sv_store sv"
  "sv_store (in_store h sv) = h (sv_store sv)" "sv_runtime (in_store h sv) = sv_runtime sv"
  "sv_locks (in_store h sv) = sv_locks sv" "sv_jobs (in_store h sv) = sv_jobs sv" "sv_done (in_store h sv) = sv_done sv"
  "sv_locks (in_transport f sv) = sv_locks sv" "sv_runtime (in_transport f sv) = sv_runtime sv"
  "sv_jobs (in_transport f sv) = sv_jobs sv" "sv_done (in_transport f sv) = sv_done sv"
  "sv_locks (in_runtime g sv) = sv_locks sv" "sv_runtime (in_runtime g sv) = g (sv_runtime sv)"
  "sv_jobs (in_runtime g sv) = sv_jobs sv" "sv_done (in_runtime g sv) = sv_done sv"
  by (simp_all add: in_store_def in_transport_def in_runtime_def)

lemma release_fields [simp]:
  "sv_store (release_lock_handle h sv) = sv_store sv" "sv_runtime (release_lock_handle h sv) = sv_runtime sv"
  "sv_jobs (release_lock_handle h sv) = sv_jobs sv" "sv_done (release_lock_handle h sv) = sv_done sv"
  by (simp_all add: release_lock_handle_def split: option.splits)

lemma try_acquire_fields:
  assumes "try_acquire_owner_lock t sv = (h, sv')"
  shows "sv_store sv' = sv_store sv" "sv_runtime sv' = sv_runtime sv" "sv_jobs sv' = sv_jobs sv" "sv_done sv' = sv_done sv"
    "h = None \<Longrightarrow> sv' = sv" "h = None \<longleftrightarrow> map_of (sv_locks sv) t \<noteq> None"
  using assms by (auto simp: try_acquire_owner_lock_def split: option.splits)

lemma record_of_fields [simp]:
  "record_of t (in_transport f sv) = record_of t sv" "record_of t (in_runtime g sv) = record_of t sv"
  "record_of t (release_lock_handle h sv) = record_of t sv"
  by (simp_all add: record_of_def)

lemma deleted_fields [simp]:
  "deleted t (in_transport f sv) = deleted t sv" "deleted t (in_runtime g sv) = deleted t sv"
  "deleted t (release_lock_handle h sv) = deleted t sv"
  "deleted t (in_store (set_record u r) sv) = deleted t sv" "deleted t (in_store (pop_record u) sv) = deleted t sv"
  "deleted t (in_store (ensure_directory u) sv) = deleted t sv"
  "deleted t (in_store (remove_task_directory u) sv) = deleted t sv"
  by (simp_all add: deleted_def)

lemma evolves_tombstones:
  assumes "sound (sv_store sv) \<Longrightarrow> sound (sv_store sv')" "tombstones (sv_store sv') = tombstones (sv_store sv)"
  shows "evolves sv sv'"
  using assms task_is_deleted_cong [OF assms(2)] by (auto simp: evolves_def deleted_def)

lemma evolves_fields [evolving, simp]:
  "evolves sv (in_transport f sv)" "evolves sv (in_runtime g sv)" "evolves sv (release_lock_handle h sv)"
  "evolves sv (in_store (pop_record t) sv)"
  by (rule evolves_tombstones; simp add: sound_pop_record)+

lemma evolves_emit: "emit em t ev m d run ok sv = (res, sv') \<Longrightarrow> evolves sv sv'"
proof (rule evolves_tombstones)
  assume e: "emit em t ev m d run ok sv = (res, sv')"
  obtain x st where r: "record_event em t ev m d (Some run) (sv_store sv) = (x, st)" by fastforce
  with e have "sv_store sv' = st" by (cases x) (auto simp: emit_def)
  then show "sound (sv_store sv) \<Longrightarrow> sound (sv_store sv')" "tombstones (sv_store sv') = tombstones (sv_store sv)"
    using record_event_sound [OF r] record_event_tombstones [OF r] by auto
qed

lemma evolves_handle_failure: "handle_failure em ok f j sv = (e, sv') \<Longrightarrow> evolves sv sv'"
  by (auto simp: handle_failure_def Let_def split: failure.splits option.splits if_splits prod.splits sum.splits
      dest: evolves_emit)

lemma evolves_execute_task_end: "execute_task_end em em' ok b j sv = (e, sv') \<Longrightarrow> evolves sv sv'"
  by (auto simp: execute_task_end_def split: body_end.splits prod.splits sum.splits
      dest: evolves_handle_failure evolves_emit intro: evolves_trans)

lemma evolves_update_record:
  "record_of t sv = Some r \<Longrightarrow> tr_snapshot r' = tr_snapshot r \<Longrightarrow> tr_run_id r' = tr_run_id r \<Longrightarrow>
   evolves sv (in_store (set_record t r') sv)"
  by (rule evolves_tombstones) (auto simp: record_of_def intro: sound_update_record)

lemma drop_owner_fields [simp]:
  "tr_snapshot (drop_owner h r) = tr_snapshot r" "tr_run_id (drop_owner h r) = tr_run_id r"
  "tr_deleting (drop_owner h r) = tr_deleting r" "tr_task (drop_owner h r) = tr_task r"
  by (simp_all add: drop_owner_def)

lemma evolves_execute_finally: "evolves sv (execute_finally n j sv)"
proof -
  have "evolves sv (case record_of (jb_thread j) sv of
       Some r \<Rightarrow> in_store (set_record (jb_thread j) (drop_owner (jb_handle j) r)) sv | None \<Rightarrow> sv)"
    by (auto split: option.splits intro: evolves_update_record)
  moreover have "sv_store (execute_finally n j sv) = sv_store (case record_of (jb_thread j) sv of
       Some r \<Rightarrow> in_store (set_record (jb_thread j) (drop_owner (jb_handle j) r)) sv | None \<Rightarrow> sv)"
    by (simp add: execute_finally_def Let_def)
  ultimately show ?thesis by (simp add: evolves_def deleted_def)
qed

lemma evolves_pop: "evolves sv sv' \<Longrightarrow> evolves sv (in_store (pop_record t) sv')"
  using evolves_fields(4) evolves_trans by blast

lemma evolves_execute_end: "evolves sv (execute_end em em' ok b n j sv)"
proof -
  obtain e sv1 where e: "execute_task_end em em' ok b j sv = (e, sv1)" by fastforce
  let ?sv2 = "if e = Some SnapshotPersistenceError then
       (case record_of (jb_thread j) sv1 of
          Some r \<Rightarrow> if tr_run_id r = jb_run j
            then in_transport (close_active (jb_thread j) 1011) (in_store (pop_record (jb_thread j)) sv1) else sv1
        | None \<Rightarrow> sv1) else sv1"
  have "evolves sv1 ?sv2"
    by (auto split: option.splits intro: evolves_trans [OF evolves_fields(4) evolves_fields(1)])
  with evolves_execute_task_end [OF e] have "evolves sv ?sv2" by (rule evolves_trans)
  then have "evolves sv (execute_finally n j ?sv2)" by (rule evolves_trans [OF _ evolves_execute_finally])
  then show ?thesis by (simp add: execute_end_def e Let_def)
qed

lemma evolves_cancel_job: "evolves sv (cancel_job em ok n sv)"
  by (auto simp: cancel_job_def split: option.splits intro: evolves_execute_end)

lemma good_interrupted:
  assumes "good_snapshot s" "tk_status s = StRunning" "tk_thread_id s = t"
    and "make_event i t (tk_run_id s) (previous_sequence s + 1) ErrorEvent m d (tk_data_mode s) ts = Some e"
  shows "good_snapshot (interrupted_snapshot ts e s)" "tk_thread_id (interrupted_snapshot ts e s) = t"
proof -
  note me = make_event_Some [OF assms(4)]
  have v: "validate_snapshot (interrupted_snapshot ts e s)"
    using assms(1) unfolding good_snapshot_def validate_snapshot_def interrupted_snapshot_def by (cases "tk_result s") simp_all
  have "replay (map me_event (tk_events s @ [e])) StRunning = Some StError"
    using assms(1,2) me(4) replay_snoc [of "map me_event (tk_events s)" StRunning StRunning ErrorEvent StError]
    by (simp add: good_snapshot_def next_status_def)
  moreover have "map me_sequence (tk_events s @ [e]) = map int [1..<Suc (length (tk_events s @ [e]))]"
    unfolding numbered_snoc using assms(1) me(3) previous_sequence_good [OF assms(1)] by (simp add: good_snapshot_def)
  moreover have "tk_clarification s = None" "tk_result s = None" using assms(1,2) by (auto simp: good_snapshot_def)
  ultimately show "good_snapshot (interrupted_snapshot ts e s)" using assms(1,3) me v
    unfolding good_snapshot_def by (simp add: interrupted_snapshot_def del: upt_Suc)
  show "tk_thread_id (interrupted_snapshot ts e s) = t" using assms(3) by (simp add: interrupted_snapshot_def)
qed

lemma read_sound: "sound st \<Longrightarrow> read_persisted_snapshot t st = Some s \<Longrightarrow> good_snapshot s \<and> tk_thread_id s = t"
  by (auto simp: read_persisted_iff dest: sound_file)

lemma recover_sound:
  assumes "recover em t s sv = (res, sv')" "sound (sv_store sv)" "good_snapshot s" "tk_thread_id s = t"
    "tk_status s = StRunning" "record_of t sv = None"
  shows "sound (sv_store sv') \<and> tombstones (sv_store sv') = tombstones (sv_store sv)"
proof (cases "make_event (em_event_id em) t (tk_run_id s) (previous_sequence s + 1) ErrorEvent INTERRUPTED_TEXT
             (DError t (Some (lit ''task_interrupted''))) (tk_data_mode s) (em_timestamp em)")
  case None
  then show ?thesis using assms by (simp add: recover_def)
next
  case (Some e)
  let ?s = "interrupted_snapshot (em_timestamp em) e s"
  note g = good_interrupted [OF assms(3,5,4) Some]
  obtain x st where p: "persist_snapshot (em_io em) ?s (sv_store sv) = (x, st)" by fastforce
  have "sound st \<and> tombstones st = tombstones (sv_store sv)"
    by (rule sound_persist [OF assms(2) g(1) _ p]) (use g(2) assms(6) in \<open>simp add: record_of_def\<close>)
  moreover have "sv_store sv' = st" using assms(1) Some p by (cases x) (auto simp: recover_def)
  ultimately show ?thesis by simp
qed

lemma recover_tombstones: "recover em t s sv = (res, sv') \<Longrightarrow> tombstones (sv_store sv') = tombstones (sv_store sv)"
  by (auto simp: recover_def persist_snapshot_def Let_def split: option.splits if_splits io.splits)

lemma evolves_load_snapshot: "load_snapshot em t sv = (res, sv') \<Longrightarrow> evolves sv sv'"
proof (rule evolves_tombstones)
  assume l: "load_snapshot em t sv = (res, sv')"
  consider "sv_store sv' = sv_store sv" | s h sv1 sv2 r2 where "read_persisted_snapshot t (sv_store sv) = Some s"
      "tk_status s = StRunning" "record_of t sv = None" "try_acquire_owner_lock t sv = (Some h, sv1)"
      "recover em t s sv1 = (r2, sv2)" "sv_store sv' = sv_store sv2"
    using l by (auto simp: load_snapshot_def dest: try_acquire_fields(1) split: if_splits option.splits prod.splits)
  note c = this
  show "tombstones (sv_store sv') = tombstones (sv_store sv)"
    using c
  proof cases
    case (2 s0 h sv1 sv2 r2)
    then show ?thesis using recover_tombstones [OF 2(5)] try_acquire_fields(1) [OF 2(4)] by simp
  qed simp
  assume s: "sound (sv_store sv)"
  show "sound (sv_store sv')"
    using c
  proof cases
    case 1
    then show ?thesis using s by simp
  next
    case (2 s0 h sv1 sv2 r2)
    then have "sound (sv_store sv1)" "record_of t sv1 = None"
      using s try_acquire_fields(1) [OF 2(4)] by (simp_all add: record_of_def)
    then show ?thesis using recover_sound [OF 2(5)] read_sound [OF s 2(1)] 2 by simp
  qed
qed

lemma evolves_prune: "evolves sv (prune_records retention now sv)"
proof -
  have "evolves sv (fold (\<lambda>(t, r) u. release_lock_handle (tr_owner_handle r) (in_store (pop_record t) u)) rs sv)" for rs
  proof (induction rs arbitrary: sv)
    case (Cons a rs)
    obtain t r where a: "a = (t, r)" by fastforce
    have "evolves sv (release_lock_handle (tr_owner_handle r) (in_store (pop_record t) sv))"
      using evolves_fields evolves_trans by blast
    then show ?case using Cons.IH evolves_trans by (simp add: a)
  qed simp
  then show ?thesis by (simp add: prune_records_def)
qed

lemma good_new [simp]: "good_snapshot (new_snapshot t run q u tn m c)"
  by (simp add: good_snapshot_def validate_snapshot_def new_snapshot_def evidence_fits_mode_def)

lemma good_child [simp]: "good_snapshot (child_snapshot env parent l)"
  by (simp add: good_snapshot_def validate_snapshot_def new_snapshot_def child_snapshot_def evidence_fits_mode_def)

lemma new_fields [simp]:
  "tk_thread_id (new_snapshot t run q u tn m c) = t" "tk_run_id (new_snapshot t run q u tn m c) = run"
  "tk_thread_id (child_snapshot env parent l) = ch_thread env" "tk_run_id (child_snapshot env parent l) = ch_run env"
  "tk_lineage (child_snapshot env parent l) = Some l" "tk_status (child_snapshot env parent l) = StRunning"
  by (simp_all add: new_snapshot_def child_snapshot_def)

lemma persist_tombstones: "persist_snapshot io s st = (e, st') \<Longrightarrow> tombstones st' = tombstones st"
  by (auto simp: persist_snapshot_def split: if_splits io.splits)

lemma sound_persist_record:
  assumes "sound st" "persist_snapshot io s st = (None, st')" "good_record t r" "tr_snapshot r = s"
  shows "sound (set_record t r st')"
proof -
  have s: "st' = write_file t (Stored s) st" "good_snapshot s" "tk_thread_id s = t"
    using assms(2-4) by (auto simp: persist_None_iff good_record_def)
  show ?thesis using assms(1,3,4) s by (auto simp: sound_def good_store_def)
qed

lemma sound_ensure [simp]: "sound st \<Longrightarrow> sound (ensure_directory t st)"
  using sound_same_store same_store_ensure by blast

lemma sound_remove:
  assumes "sound st" "map_of (records st) t = None \<or> task_is_deleted t st"
  shows "sound (remove_task_directory t st)"
  using assms by (auto simp: sound_def good_store_def)

lemma spawn_fields:
  assumes "spawn j sv = (n, sv')"
  shows "sv_store sv' = sv_store sv" "sv_runtime sv' = sv_runtime sv" "sv_locks sv' = sv_locks sv" "sv_done sv' = sv_done sv"
    "n = Suc (length (sv_jobs sv))" "sv_jobs sv' = sv_jobs sv @ [(n, j)]"
  using assms by (auto simp: spawn_def Let_def)

lemma undo_evolves:
  assumes "sound st0 \<Longrightarrow> sound (sv_store sv)" "tombstones (sv_store sv) = tombstones st0"
    and "records (sv_store sv) = records st0" "\<not> existed \<Longrightarrow> map_of (directories st0) t = None"
  shows "(let u1 = release_lock_handle (Some h) (in_runtime finish_task sv)
          in sound st0 \<longrightarrow> sound (sv_store (if \<not> existed \<and> \<not> deleted t u1 then in_store (remove_task_directory t) u1 else u1)))"
    "(let u1 = release_lock_handle (Some h) (in_runtime finish_task sv)
      in tombstones (sv_store (if \<not> existed \<and> \<not> deleted t u1 then in_store (remove_task_directory t) u1 else u1)) = tombstones st0)"
proof -
  have "map_of (records st0) t = None" if "sound st0" "\<not> existed" "\<not> deleted t sv"
    using that assms(2,4) task_is_deleted_cong [OF assms(2)]
    by (cases "map_of (records st0) t") (auto simp: sound_def good_store_def deleted_def)
  then show "(let u1 = release_lock_handle (Some h) (in_runtime finish_task sv)
          in sound st0 \<longrightarrow> sound (sv_store (if \<not> existed \<and> \<not> deleted t u1 then in_store (remove_task_directory t) u1 else u1)))"
    using assms by (auto simp: Let_def intro!: sound_remove)
qed (use assms in \<open>auto simp: Let_def\<close>)

lemma evolves_start_task: "start_task env t s sv = (res, sv') \<Longrightarrow> good_snapshot s \<Longrightarrow> tk_thread_id s = t \<Longrightarrow> evolves sv sv'"
proof (rule evolves_tombstones)
  assume a: "start_task env t s sv = (res, sv')" "good_snapshot s" "tk_thread_id s = t"
  let ?st = "sv_store sv"
  have *: "(sound ?st \<longrightarrow> sound (sv_store sv')) \<and> tombstones (sv_store sv') = tombstones ?st"
  proof (cases "try_acquire_owner_lock t sv")
    case (Pair h sv1)
    note f = try_acquire_fields(1) [OF Pair]
    show ?thesis
    proof (cases h)
      case None
      then show ?thesis using a Pair f by (simp add: start_task_def)
    next
      case (Some h')
      let ?sv2 = "in_store (ensure_directory t) sv1"
      consider "deleted t sv1" | "\<not> deleted t sv1" "\<not> ce'_binds env"
        | e st where "\<not> deleted t sv1" "ce'_binds env" "persist_snapshot (ce'_io env) s (sv_store ?sv2) = (Some e, st)"
        | st where "\<not> deleted t sv1" "ce'_binds env" "persist_snapshot (ce'_io env) s (sv_store ?sv2) = (None, st)"
        by (metis option.exhaust surj_pair)
      then show ?thesis
      proof cases
        case 1
        then show ?thesis using a(1) Pair Some f by (auto simp: start_task_def Let_def)
      next
        case 2
        then show ?thesis using a(1) Pair Some f undo_evolves [of ?st ?sv2 "map_of (directories ?st) t \<noteq> None" t h']
          by (simp add: start_task_def Let_def)
      next
        case (3 e st)
        from persist_error_same [OF 3(3)] have "same_store ?st st"
          using f same_store_ensure same_store_trans by (metis in_fields(3))
        then show ?thesis
          using a(1) Pair Some f 3 undo_evolves [of ?st "?sv2\<lparr>sv_store := st\<rparr>" "map_of (directories ?st) t \<noteq> None" t h']
            sound_same_store [of ?st st]
          by (simp add: start_task_def Let_def same_store_def)
      next
        case (4 st)
        let ?r = "\<lambda>n. \<lparr>tr_run_id = tk_run_id s, tr_snapshot = s, tr_task = n, tr_owner_handle = Some h',
          tr_generation = tk_generation s, tr_deleting = False\<rparr>"
        obtain n sv3 where sp: "spawn \<lparr>jb_thread = t, jb_run = tk_run_id s, jb_handle = Some h'\<rparr> (?sv2\<lparr>sv_store := st\<rparr>) = (n, sv3)"
          by fastforce
        have "good_record t (?r n)" using a(2,3) by (simp add: good_record_def)
        note this sound_persist_record [OF _ 4(3) this] persist_tombstones [OF 4(3)]
        then show ?thesis using a(1) Pair Some f 4 sp spawn_fields(1) [OF sp]
          by (auto simp: start_task_def Let_def)
      qed
    qed
  qed
  then show "sound ?st \<Longrightarrow> sound (sv_store sv')" "tombstones (sv_store sv') = tombstones ?st" by auto
qed

lemma evolves_create_locked: "create_locked s env p q t sv = (res, sv') \<Longrightarrow> evolves sv sv'"
proof -
  assume c: "create_locked s env p q t sv = (res, sv')"
  define sv1 where "sv1 = (case record_of t sv of
       Some previous \<Rightarrow>
         if \<not> task_done (tr_task previous) sv
         then cancel_job (ce'_cancel env) True (tr_task previous) (in_store (pop_record t) sv) else sv
     | None \<Rightarrow> sv)"
  have e: "evolves sv sv1"
    unfolding sv1_def by (auto split: option.splits intro: evolves_trans [OF evolves_fields(4) evolves_cancel_job])
  let ?s = "new_snapshot t (ce'_run env) (cq_query q) (cq_user_id q)
      (case p of Some q \<Rightarrow> pr_tenant_id q | None \<Rightarrow> DEFAULT_TENANT) (data_mode_of s) (ce'_now env)"
  have "evolves sv (snd (start_task env t ?s (in_transport (clear_thread t True) sv1)))"
    by (rule evolves_trans [OF e], rule evolves_trans [OF evolves_fields(1)], rule evolves_start_task [OF surjective_pairing])
      simp_all
  moreover have "sv' = sv \<or> sv' = snd (start_task env t ?s (in_transport (clear_thread t True) sv1))"
    using c unfolding create_locked_def sv1_def by (auto simp: Let_def split: if_splits)
  ultimately show ?thesis by auto
qed

lemma evolves_runtime: "evolves sv (sv\<lparr>sv_runtime := r\<rparr>)"
  by (rule evolves_same_store) simp

lemma evolves_create_task: "create_task s env who q sv = (res, sv') \<Longrightarrow> evolves sv sv'"
  by (auto simp: create_task_def Let_def split: sum.splits if_splits
      intro: evolves_prune evolves_trans [OF evolves_prune evolves_trans [OF evolves_runtime evolves_create_locked]])

lemma evolves_load_all: "load_all em u tn ts acc sv = (res, sv') \<Longrightarrow> evolves sv sv'"
proof (induction ts arbitrary: acc sv)
  case (Cons t ts)
  show ?case
  proof (cases "\<not> thread_token t \<or> record_of t sv \<noteq> None")
    case True
    then show ?thesis using Cons by simp
  next
    case False
    obtain r sv1 where l: "load_snapshot (em t) t sv = (r, sv1)" by fastforce
    then show ?thesis using False Cons.prems Cons.IH evolves_load_snapshot [OF l]
      by (auto split: sum.splits option.splits intro: evolves_trans)
  qed
qed simp

lemma evolves_find_child: "find_idempotent_child em p k rel u tn sv = (res, sv') \<Longrightarrow> evolves sv sv'"
  by (auto simp: find_idempotent_child_def history_snapshots_def split: prod.splits sum.splits dest: evolves_load_all)

lemma evolves_start_child: "start_child_task s env parent l sv = (res, sv') \<Longrightarrow> evolves sv sv'"
proof (rule evolves_tombstones)
  assume a: "start_child_task s env parent l sv = (res, sv')"
  let ?st = "sv_store sv" and ?t = "ch_thread env" and ?c = "child_snapshot env parent l"
  let ?r = "\<lambda>h n. \<lparr>tr_run_id = ch_run env, tr_snapshot = ?c, tr_task = n, tr_owner_handle = Some h,
      tr_generation = tk_generation ?c, tr_deleting = False\<rparr>"
  have g: "good_record ?t (?r h n)" for h n by (simp add: good_record_def)
  consider "sv_store sv' = ?st" | "sv_store sv' = ensure_directory ?t ?st"
    | e where "persist_snapshot (ch_io env) ?c (ensure_directory ?t ?st) = (Some e, sv_store sv')"
    | st h n where "persist_snapshot (ch_io env) ?c (ensure_directory ?t ?st) = (None, st)"
        "sv_store sv' = set_record ?t (?r h n) st"
  proof -
    obtain h sv1 where l: "try_acquire_owner_lock ?t (in_store (ensure_directory ?t) sv) = (h, sv1)" by fastforce
    have f: "sv_store sv1 = ensure_directory ?t ?st" using try_acquire_fields(1) [OF l] by simp
    obtain x st where p: "persist_snapshot (ch_io env) ?c (sv_store sv1) = (x, st)" by fastforce
    show ?thesis
    proof (cases "tk_resolved_intent parent = None \<or> h = None \<or> isl (begin_task (ch_sha256 env) s (ch_run env) (sv_runtime sv1))
        \<or> \<not> ch_clones env")
      case True
      then have "sv_store sv' = ?st \<or> sv_store sv' = ensure_directory ?t ?st"
        using a l f by (cases h; cases "begin_task (ch_sha256 env) s (ch_run env) (sv_runtime sv1)")
          (auto simp: start_child_task_def Let_def split: if_splits)
      then show ?thesis using that by blast
    next
      case False
      then obtain y h' rt where w: "tk_resolved_intent parent = Some y" "h = Some h'" "ch_clones env"
          "begin_task (ch_sha256 env) s (ch_run env) (sv_runtime sv1) = Inr rt"
        by (cases "begin_task (ch_sha256 env) s (ch_run env) (sv_runtime sv1)") auto
      obtain n sv3 where sp: "spawn \<lparr>jb_thread = ?t, jb_run = ch_run env, jb_handle = Some h'\<rparr> (sv1\<lparr>sv_runtime := rt, sv_store := st\<rparr>) = (n, sv3)"
        by fastforce
      note sp1 = spawn_fields(1) [OF sp]
      show ?thesis
      proof (cases x)
        case None
        then have "sv_store sv' = set_record ?t (?r h' n) st"
          using a l w p sp sp1 by (simp add: start_child_task_def Let_def) (auto simp: spawn_def Let_def)
        then show ?thesis using that(4) p None f by simp
      next
        case (Some e)
        then have "sv_store sv' = st" using a l w p by (simp add: start_child_task_def Let_def) auto
        then show ?thesis using that(3) p Some f by simp
      qed
    qed
  qed
  note c = this
  show "tombstones (sv_store sv') = tombstones ?st"
    using c by cases (auto dest: persist_tombstones)
  assume s: "sound ?st"
  show "sound (sv_store sv')"
    using c
  proof cases
    case (3 e)
    show ?thesis using sound_same_store [OF persist_error_same [OF 3]] s by simp
  next
    case (4 st h n)
    show ?thesis using sound_persist_record [OF _ 4(1) g] s 4(2) by simp
  qed (use s in auto)
qed

lemma evolves_child_command: "child_command s env u rel ch parent sv = (res, sv') \<Longrightarrow> evolves sv sv'"
  by (auto simp: child_command_def Let_def split: prod.splits sum.splits option.splits
      dest: evolves_find_child evolves_start_child intro: evolves_trans)

lemma evolves_owned_parent: "owned_parent s who em t u sv = (res, sv') \<Longrightarrow> evolves sv sv'"
  by (auto simp: owned_parent_def split: prod.splits sum.splits option.splits if_splits dest: evolves_load_snapshot)

lemma evolves_rerun: "rerun_task s env who em t u sv = (res, sv') \<Longrightarrow> evolves sv sv'"
  by (auto simp: rerun_task_def split: prod.splits sum.splits if_splits
      dest: evolves_owned_parent evolves_child_command intro: evolves_trans)

lemma evolves_relax: "relax_task s env who em t c sv = (res, sv') \<Longrightarrow> evolves sv sv'"
  by (auto simp: relax_task_def split: prod.splits sum.splits if_splits
      dest: evolves_owned_parent evolves_child_command intro: evolves_trans)

lemma evolves_get_task: "get_task s who em t sv = (res, sv') \<Longrightarrow> evolves sv sv'"
  by (auto simp: get_task_def split: prod.splits sum.splits option.splits if_splits dest: evolves_load_snapshot)

text \<open>The record that a command claims holds the snapshot the command has read.\<close>

definition read_here :: "pystr \<Rightarrow> task_snapshot \<Rightarrow> server \<Rightarrow> bool" where
  "read_here t s sv \<longleftrightarrow>
     (record_of t sv = None \<longrightarrow> read_persisted_snapshot t (sv_store sv) = Some s)"

lemma sound_claimed:
  assumes "sound st" "read_persisted_snapshot t st = Some s" "tr_snapshot r = s" "tr_run_id r = tk_run_id s"
  shows "sound (set_record t r st)"
  using assms read_sound [OF assms(1,2)]
  by (intro sound_set_record) (auto simp: good_record_def read_persisted_iff)

lemma evolves_claimed:
  assumes "read_persisted_snapshot t (sv_store sv) = Some s" "tr_snapshot r = s" "tr_run_id r = tk_run_id s"
  shows "evolves sv (in_store (set_record t r) sv)"
  by (rule evolves_tombstones) (use assms sound_claimed in auto)

lemma evolves_acquire: "try_acquire_owner_lock t sv = (h, sv') \<Longrightarrow> evolves sv sv'"
  by (rule evolves_same_store) (rule try_acquire_fields(1))

lemma acquire_reads [simp]:
  assumes "try_acquire_owner_lock t sv = (h, sv')"
  shows "record_of u sv' = record_of u sv" "deleted u sv' = deleted u sv"
  using try_acquire_fields(1) [OF assms] by (simp_all add: record_of_def deleted_def)

lemma evolves_claim: "claim_record t s sv = (res, sv') \<Longrightarrow> read_here t s sv \<Longrightarrow> evolves sv sv'"
proof (cases "record_of t sv")
  case None
  assume a: "claim_record t s sv = (res, sv')" "read_here t s sv"
  obtain h sv1 where l: "try_acquire_owner_lock t sv = (h, sv1)" by fastforce
  have "read_persisted_snapshot t (sv_store sv1) = Some s"
    using a(2) None try_acquire_fields(1) [OF l] by (simp add: read_here_def)
  then show ?thesis using a(1) None l
    by (cases h) (auto simp: claim_record_def Let_def intro: evolves_acquire evolves_trans [OF evolves_acquire evolves_claimed])
next
  case (Some r)
  assume a: "claim_record t s sv = (res, sv')"
  show ?thesis
  proof (cases "tr_owner_handle r")
    case None
    obtain h sv1 where l: "try_acquire_owner_lock t sv = (h, sv1)" by fastforce
    then show ?thesis using a Some None acquire_reads(1) [OF l, of t]
      by (cases h) (auto simp: claim_record_def Let_def
          intro: evolves_acquire evolves_trans [OF evolves_acquire evolves_update_record])
  next
    case (Some h)
    then show ?thesis using a \<open>record_of t sv = _\<close> by (simp add: claim_record_def Let_def)
  qed
qed

lemma evolves_update:
  "(\<And>r. tr_snapshot (f r) = tr_snapshot r \<and> tr_run_id (f r) = tr_run_id r) \<Longrightarrow>
   evolves sv (case record_of t sv of Some r \<Rightarrow> in_store (set_record t (f r)) sv | None \<Rightarrow> sv)"
  by (auto split: option.splits intro: evolves_update_record)

lemma evolves_spawn: "spawn j sv = (n, sv') \<Longrightarrow> evolves sv sv'"
  by (rule evolves_same_store) (rule spawn_fields(1))

lemma evolves_undo_resume:
  "evolves sv (release_lock_handle h (if created then in_store (pop_record t) sv
      else case record_of t sv of Some q \<Rightarrow> in_store (set_record t (drop_owner h q)) sv | None \<Rightarrow> sv))"
  using evolves_fields(4) evolves_update [of "drop_owner h"]
  by (auto intro: evolves_trans [OF _ evolves_fields(3)])

lemma evolves_resume: "resume s env t pending response v r created sv = (res, sv') \<Longrightarrow> evolves sv sv'"
proof -
  assume a: "resume s env t pending response v r created sv = (res, sv')"
  obtain x sv1 where e: "emit (cl_emission env) t ClarificationResolved (resolved_text (cp_field pending))
      (DResolved \<lparr>ca'_field = cp_field pending, ca'_reason_code = cp_reason_code pending,
         ca'_response = response, ca'_resolved_value = Some v\<rparr>) (tr_run_id r) (cl_delivers env) sv = (x, sv1)" by fastforce
  note undo = evolves_trans [OF evolves_emit [OF e] evolves_undo_resume]
  show ?thesis
  proof (cases "isl x \<or> isl (begin_task (cl_sha256 env) s (tr_run_id r) (sv_runtime sv1))")
    case True
    then show ?thesis using a undo [of "tr_owner_handle r" created t]
      by (cases x; cases "begin_task (cl_sha256 env) s (tr_run_id r) (sv_runtime sv1)") (auto simp: resume_def Let_def e)
  next
    case False
    then obtain y rt where w: "x = Inr y" "begin_task (cl_sha256 env) s (tr_run_id r) (sv_runtime sv1) = Inr rt"
      by (cases x; cases "begin_task (cl_sha256 env) s (tr_run_id r) (sv_runtime sv1)") auto
    obtain n sv2 where sp: "spawn \<lparr>jb_thread = t, jb_run = tr_run_id r, jb_handle = tr_owner_handle r\<rparr> (sv1\<lparr>sv_runtime := rt\<rparr>) = (n, sv2)"
      by fastforce
    have "sv' = (case record_of t sv2 of Some q \<Rightarrow> in_store (set_record t (q\<lparr>tr_task := n\<rparr>)) sv2 | None \<Rightarrow> sv2)"
      using a e w sp by (simp add: resume_def Let_def)
    moreover have "evolves sv2 \<dots>" by (rule evolves_update) simp
    ultimately show ?thesis
      using evolves_trans [OF evolves_emit [OF e] evolves_trans [OF evolves_runtime evolves_trans [OF evolves_spawn [OF sp]]]]
      by simp
  qed
qed

lemma evolves_clarify_locked: "clarify_task_locked s env who t response sv = (res, sv') \<Longrightarrow> evolves sv sv'"
  by (auto simp: clarify_task_locked_def read_here_def split: option.splits prod.splits sum.splits if_splits
      dest!: evolves_resume evolves_claim intro: evolves_trans)

lemma evolves_clarify: "clarify_task s env who t response sv = (res, sv') \<Longrightarrow> evolves sv sv'"
  by (auto simp: clarify_task_def split: if_splits dest: evolves_clarify_locked)

lemma evolves_set_deleting: "evolves sv (set_deleting b t sv)"
  unfolding set_deleting_def by (rule evolves_update) simp

lemma write_tombstone_store:
  assumes "write_tombstone io t u tn g d st = (res, st')"
  shows "sound st \<longrightarrow> sound st'" "task_is_deleted u' st \<longrightarrow> task_is_deleted u' st'"
    "res = Inr ts \<Longrightarrow> task_is_deleted t st'" "records st' = records st" "isl res \<Longrightarrow> st' = st"
proof -
  have "st' = st \<or> (\<exists>x. st' = st\<lparr>tombstones := AList.update t x (tombstones st)\<rparr>)"
    using assms by (auto simp: write_tombstone_def Let_def split: option.splits if_splits)
  then show "sound st \<longrightarrow> sound st'" "task_is_deleted u' st \<longrightarrow> task_is_deleted u' st'"
    by (auto simp: sound_def good_store_def task_is_deleted_iff update_conv' split: if_splits)
  show "res = Inr ts \<Longrightarrow> task_is_deleted t st'"
    using assms by (auto simp: write_tombstone_def Let_def task_is_deleted_iff read_tombstone_def update_conv'
        split: option.splits if_splits)
  show "records st' = records st" "isl res \<Longrightarrow> st' = st"
    using assms by (auto simp: write_tombstone_def Let_def split: option.splits if_splits)
qed

lemma evolves_erase: "erase_task env t sv = (res, sv') \<Longrightarrow> evolves sv sv'"
proof -
  assume a: "erase_task env t sv = (res, sv')"
  define h where "h = (case record_of t sv of Some r \<Rightarrow> tr_owner_handle r | None \<Rightarrow> None)"
  define sv1 where "sv1 = (case record_of t sv of
       Some r \<Rightarrow> if \<not> task_done (tr_task r) sv
                 then cancel_job (de_cancel env) True (tr_task r) sv else sv
     | None \<Rightarrow> sv)"
  define sv2 where "sv2 = (case record_of t sv1 of
       Some r \<Rightarrow> if tr_owner_handle r = h
                 then release_lock_handle h (in_store (set_record t (r\<lparr>tr_owner_handle := None\<rparr>)) sv1) else sv1
     | None \<Rightarrow> sv1)"
  define sv3 where "sv3 = in_transport (discard_thread t) (in_store (pop_record t) sv2)"
  have "evolves sv sv1" unfolding sv1_def by (auto split: option.splits intro: evolves_cancel_job)
  also have "evolves sv1 sv2" unfolding sv2_def
    by (auto split: option.splits intro: evolves_trans [OF evolves_update_record evolves_fields(3)])
  also have "evolves sv2 sv3" unfolding sv3_def by (rule evolves_trans [OF evolves_fields(4) evolves_fields(1)])
  finally have e: "evolves sv sv3" .
  have "evolves sv3 (remove_task_control_files t (if deleted t sv3 then in_store (remove_task_directory t) sv3 else sv3))"
    by (rule evolves_tombstones) (auto simp: remove_task_control_files_def deleted_def intro!: sound_remove)
  then show ?thesis using a e evolves_trans [OF e]
    unfolding erase_task_def Let_def h_def [symmetric] sv1_def [symmetric] sv2_def [symmetric] sv3_def [symmetric]
    by (auto split: if_splits)
qed

lemma evolves_write_tombstone:
  "write_tombstone io t u tn g d (sv_store sv) = (res, st) \<Longrightarrow> evolves sv (sv\<lparr>sv_store := st\<rparr>)"
  using write_tombstone_store(1,2) by (auto simp: evolves_def deleted_def)

lemma evolves_delete: "delete_task s env who t u sv = (res, sv') \<Longrightarrow> evolves sv sv'"
  by (auto simp: delete_task_def Let_def split: option.splits prod.splits sum.splits if_splits
      dest!: evolves_erase evolves_write_tombstone
      intro: evolves_trans [OF evolves_set_deleting] evolves_trans [OF evolves_trans [OF evolves_set_deleting]]
        evolves_trans [OF evolves_trans [OF evolves_set_deleting] evolves_set_deleting])

lemma evolves_cancel_awaiting: "cancel_awaiting em ok t run h sv = (res, sv') \<Longrightarrow> evolves sv sv'"
proof -
  assume a: "cancel_awaiting em ok t run h sv = (res, sv')"
  obtain x sv1 where e: "emit em t TaskCancelled CANCELLED_TEXT (DCancelled t) run ok sv = (x, sv1)" by fastforce
  have "evolves sv1 (case record_of t sv1 of Some r \<Rightarrow> in_store (set_record t (drop_owner h r)) sv1 | None \<Rightarrow> sv1)"
    by (rule evolves_update) simp
  then show ?thesis using a evolves_trans [OF evolves_emit [OF e] evolves_trans [OF _ evolves_fields(3)]]
    by (auto simp: cancel_awaiting_def e)
qed

lemma load_reads:
  assumes "load_snapshot em t sv = (Inr (Some s), sv')" "tk_status s = StAwaiting" 
  shows "sv_store sv' = sv_store sv \<and> read_persisted_snapshot t (sv_store sv) = Some s"
  using assms by (auto simp: load_snapshot_def recover_def interrupted_snapshot_def Let_def
      dest: try_acquire_fields(1) split: if_splits option.splits prod.splits)

lemma evolves_cancelled_elsewhere: "cancelled_elsewhere em t sv = (res, sv') \<Longrightarrow> evolves sv sv'"
  by (auto simp: cancelled_elsewhere_def split: prod.splits sum.splits option.splits dest: evolves_load_snapshot)

lemma evolves_cancel_unheld:
  assumes "load_snapshot em t sv = (Inr (Some persisted), sv1)" "tk_status persisted = StAwaiting"
    and "try_acquire_owner_lock t sv1 = (h, sv2)" "tr_snapshot r = persisted" "tr_run_id r = tk_run_id persisted"
  shows "evolves sv (in_store (set_record t r) sv2)"
proof -
  have "read_persisted_snapshot t (sv_store sv2) = Some persisted"
    using load_reads [OF assms(1,2)] try_acquire_fields(1) [OF assms(3)] by simp
  then have "evolves sv2 (in_store (set_record t r) sv2)" using assms(4,5) by (rule evolves_claimed)
  then show ?thesis using evolves_load_snapshot [OF assms(1)] evolves_acquire [OF assms(3)] evolves_trans by blast
qed

lemma evolves_cancel_running:
  "(case record_of t sv of
      Some current \<Rightarrow>
        if tr_run_id current \<noteq> run then cancelled_elsewhere em' t sv
        else if tk_status (tr_snapshot current) = StRunning
        then (case emit em' t TaskCancelled CANCELLED_TEXT (DCancelled t) (tr_run_id current) ok sv of
                (Inl e, sv2) \<Rightarrow> (Inl (Raised e), sv2)
              | (Inr _, sv2) \<Rightarrow> (Inr StCancelled, sv2))
        else (Inr (tk_status (tr_snapshot current)), sv)
    | None \<Rightarrow> cancelled_elsewhere em' t sv) = (res, sv') \<Longrightarrow> evolves sv sv'"
  by (auto split: option.splits if_splits prod.splits sum.splits dest: evolves_cancelled_elsewhere evolves_emit)

lemma evolves_cancel: "cancel_task s em em' ok who t sv = (res, sv') \<Longrightarrow> evolves sv sv'"
proof (cases "record_of t sv")
  case None
  assume a: "cancel_task s em em' ok who t sv = (res, sv')"
  obtain x sv1 where l: "load_snapshot em t sv = (x, sv1)" by fastforce
  note el = evolves_load_snapshot [OF l]
  show ?thesis
  proof (cases "\<exists>p. x = Inr (Some p) \<and> tk_status p = StAwaiting")
    case False
    then show ?thesis using a None l el
      by (auto simp: cancel_task_def Let_def split: if_splits sum.splits option.splits)
  next
    case True
    then obtain p where p: "x = Inr (Some p)" "tk_status p = StAwaiting" by auto
    obtain h sv2 where k: "try_acquire_owner_lock t sv1 = (h, sv2)" by fastforce
    note u = evolves_cancel_unheld [OF l [unfolded p(1)] p(2) k]
    have "evolves sv sv2" using el evolves_acquire [OF k] by (rule evolves_trans)
    then show ?thesis using a None l p k
      by (auto simp: cancel_task_def Let_def split: if_splits sum.splits option.splits
          intro!: u evolves_trans [OF u] dest!: evolves_cancel_awaiting)
  qed
next
  case (Some r)
  assume a: "cancel_task s em em' ok who t sv = (res, sv')"
  have "evolves sv sv1" if "claim_record t (tr_snapshot r) sv = (x, sv1)" for x sv1
    using evolves_claim [OF that] Some by (simp add: read_here_def)
  note c = this evolves_trans [OF this evolves_cancel_awaiting]
  show ?thesis using a Some
    by (auto simp: cancel_task_def Let_def split: if_splits sum.splits prod.splits
        dest: evolves_cancel_running intro: c evolves_trans [OF evolves_cancel_job])
qed

section \<open>The server as a transition system\<close>

datatype server_call =
    CGet settings "principal option" emission pystr
  | CCreate settings create_environment "principal option" create_request
  | CRerun settings child_environment "principal option" emission pystr pystr
  | CRelax settings child_environment "principal option" emission pystr relaxation_command
  | CClarify settings clarify_environment "principal option" pystr pystr
  | CDelete settings delete_environment "principal option" pystr pystr
  | CCancel settings emission emission bool "principal option" pystr
  | CEmit emission pystr event_name pystr event_data pystr bool
  | CEnd emission emission bool body_end nat job

fun serve :: "server_call \<Rightarrow> server \<Rightarrow> server" where
  "serve (CGet s who em t) sv = snd (get_task s who em t sv)"
| "serve (CCreate s env who q) sv = snd (create_task s env who q sv)"
| "serve (CRerun s env who em t u) sv = snd (rerun_task s env who em t u sv)"
| "serve (CRelax s env who em t c) sv = snd (relax_task s env who em t c sv)"
| "serve (CClarify s env who t response) sv = snd (clarify_task s env who t response sv)"
| "serve (CDelete s env who t u) sv = snd (delete_task s env who t u sv)"
| "serve (CCancel s em em' ok who t) sv = snd (cancel_task s em em' ok who t sv)"
| "serve (CEmit em t ev m d run ok) sv = snd (emit em t ev m d run ok sv)"
| "serve (CEnd em em' ok b n j) sv = execute_end em em' ok b n j sv"

lemma evolves_serve: "evolves sv (serve c sv)"
  by (cases c)
    (auto intro: evolves_get_task evolves_create_task evolves_rerun evolves_relax evolves_clarify evolves_delete
      evolves_cancel evolves_emit evolves_execute_end surjective_pairing)

inductive server_step :: "server \<Rightarrow> server_call \<Rightarrow> server \<Rightarrow> bool" where
  step: "server_step sv c (serve c sv)"

lemma evolves_runs: "runs server_step sv cs sv' \<Longrightarrow> evolves sv sv'"
  by (induction rule: runs.induct) (auto elim!: server_step.cases intro: evolves_serve evolves_trans)

end
