(* ===== verification/TaskProperties.thy ===== *)
theory TaskProperties
  imports TaskInvariants
begin

text \<open>
  What the task service promises its users, proved of the handlers of \<open>TaskService\<close>: deletion is
  final, the files always agree with the records, a task belongs to its principal, a worker never
  leaves its task running, and the ways in which a handler leaves a lock, a counter or a status
  behind.
\<close>

section \<open>The end of a worker\<close>

lemma emit_ending:
  assumes "record_of t sv = Some r" "good_record t r" "\<not> tr_deleting r" "\<not> deleted t sv"
    and "tk_status (tr_snapshot r) = StRunning" "ev \<in> {TaskCancelled, ClarificationRequired, ErrorEvent}"
    and "event_of_data d = ev" "valid_event_data d"
    and "event_id_token (em_event_id em)" "thread_token t" "run_token (tr_run_id r)"
    and "emit em t ev m d (tr_run_id r) ok sv = (res, sv')"
  shows "(res = Inl SnapshotPersistenceError \<and> record_of t sv' = Some r \<and> em_io em \<noteq> Written)
    \<or> (\<exists>es r'. res = Inr es \<and> record_of t sv' = Some r' \<and> tk_status (tr_snapshot r') = status_after ev StRunning
         \<and> tr_owner_handle r' = tr_owner_handle r \<and> tr_run_id r' = tr_run_id r \<and> em_io em = Written)"
proof -
  let ?s = "tr_snapshot r"
  have g: "tk_thread_id ?s = t" "0 \<le> previous_sequence ?s"
    using assms(2) previous_sequence_good by (auto simp: good_record_def)
  obtain e where e: "make_event (em_event_id em) t (tr_run_id r) (previous_sequence ?s + 1) ev m d (tk_data_mode ?s) (em_timestamp em) = Some e"
      "me_data e = d"
    using assms(6-11) g by (auto simp: make_event_def typed_event_data_def event_of_data_def split: event_data.splits)
  obtain s' where s': "event_changes d m (?s\<lparr>tk_events := tk_events ?s @ [e], tk_updated_at := em_timestamp em\<rparr>) = Inr s'"
      "tk_status s' = status_after ev StRunning" "tk_thread_id s' = t"
    using assms(6,7) g by (cases d) (auto simp: event_of_data_def status_after_def)
  obtain x st where p: "persist_snapshot (em_io em) s' (sv_store sv) = (x, st)" by fastforce
  have rec: "map_of (records (sv_store sv)) t = Some r" using assms(1) by (simp add: record_of_def)
  have nd: "\<not> task_is_deleted t (sv_store sv)" using assms(4) by (simp add: deleted_def)
  have ev: "StRunning \<in> set (allowed_statuses ev)" "ev \<noteq> TaskResult" using assms(6) by auto
  have x: "record_event em t ev m d (Some (tr_run_id r)) (sv_store sv)
      = (case x of Some e \<Rightarrow> (Inl e, st) | None \<Rightarrow> (Inr [e], set_record t (r\<lparr>tr_snapshot := s'\<rparr>) st))"
    using rec nd assms(3,5) ev e s' p by (simp add: record_event_def split: option.splits)
  show ?thesis
  proof (cases "em_io em = Written")
    case True
    then have "x = None" using p nd s'(3) by (auto simp: persist_snapshot_def)
    then show ?thesis using assms(12) x True s' by (auto simp: emit_def record_of_def)
  next
    case False
    then have "x = Some SnapshotPersistenceError" "records st = records (sv_store sv)"
      using p nd s'(3) by (auto simp: persist_snapshot_def split: io.splits)
    then show ?thesis using assms(12) x False rec by (auto simp: emit_def record_of_def)
  qed
qed

definition live :: "pystr \<Rightarrow> task_record \<Rightarrow> server \<Rightarrow> bool" where
  \<comment> \<open>a running task that nobody has deleted\<close>
  "live t r sv \<longleftrightarrow> record_of t sv = Some r \<and> \<not> tr_deleting r \<and> \<not> deleted t sv
     \<and> tk_status (tr_snapshot r) = StRunning \<and> thread_token t \<and> run_token (tr_run_id r)"

definition settled :: "pystr \<Rightarrow> task_record \<Rightarrow> task_error option \<Rightarrow> server \<Rightarrow> bool" where
  "settled t r e sv \<longleftrightarrow>
     (e = Some SnapshotPersistenceError \<and> record_of t sv = Some r)
     \<or> (e = None \<and> (\<exists>r'. record_of t sv = Some r' \<and> tk_status (tr_snapshot r') \<noteq> StRunning
          \<and> tr_owner_handle r' = tr_owner_handle r \<and> tr_run_id r' = tr_run_id r))"

lemma settled_persistence [simp]: "record_of t sv = Some r \<Longrightarrow> settled t r (Some SnapshotPersistenceError) sv"
  by (simp add: settled_def)

lemma persist_not_deleted:
  "persist_snapshot io s st = (Some e, st') \<Longrightarrow> \<not> task_is_deleted (tk_thread_id s) st \<Longrightarrow> e = SnapshotPersistenceError"
  by (cases io) (auto simp: persist_snapshot_def)

lemma result_not_deleted:
  assumes "record_event em t TaskResult m d run st = (Inl e, st')" "map_of (records st) t = Some r" "good_record t r"
    "\<not> tr_deleting r" "\<not> task_is_deleted t st"
  shows "e \<noteq> TaskDeletedError"
  using assms
  by (auto simp: record_event_def record_task_result_def Let_def good_record_def
      split: if_splits option.splits event_data.splits prod.splits dest!: persist_not_deleted)

definition prompts :: "body_end \<Rightarrow> bool" where
  \<comment> \<open>the question of a clarification is a valid prompt\<close>
  "prompts b \<longleftrightarrow> (case b of Fails (FAmbiguity a) \<Rightarrow> fields_clarification_prompt (prompt_of a) | _ \<Rightarrow> True)"

lemma error_code_given [simp]: "given (Some (error_code_of f))"
  by (cases f) (simp_all add: given_def lit_def)

lemma handle_failure_settles:
  assumes "live (jb_thread j) r sv" "good_record (jb_thread j) r" "jb_run j = tr_run_id r"
    and "event_id_token (em_event_id em)" "f \<noteq> FDeleted" "prompts (Fails f)"
    and "handle_failure em ok f j sv = (e, sv')"
  shows "settled (jb_thread j) r e sv'"
proof -
  let ?t = "jb_thread j"
  have l: "record_of ?t sv = Some r" "\<not> tr_deleting r" "\<not> deleted ?t sv" "tk_status (tr_snapshot r) = StRunning"
      "thread_token ?t" "run_token (tr_run_id r)"
    using assms(1) by (simp_all add: live_def)
  have *: "settled ?t r e' sv''"
    if "ev \<in> {TaskCancelled, ClarificationRequired, ErrorEvent}" "event_of_data d = ev" "valid_event_data d"
      "(case emit em ?t ev m d (tr_run_id r) ok sv of (Inl e, u) \<Rightarrow> (Some e, u) | (Inr _, u) \<Rightarrow> (None, u)) = (e', sv'')"
    for ev m d e' sv''
  proof -
    obtain x u where x: "emit em ?t ev m d (tr_run_id r) ok sv = (x, u)" by fastforce
    have "status_after ev StRunning \<noteq> StRunning" using that(1) by (auto simp: status_after_def)
    then show ?thesis
      using emit_ending [OF l(1) assms(2) l(2,3,4) that(1,2,3) assms(4) l(5,6) x] that(4) x
      by (auto simp: settled_def)
  qed
  have cancels: "(case emit em ?t TaskCancelled m (DCancelled ?t) (tr_run_id r) ok sv of (Inl e, u) \<Rightarrow> (Some e, u) | (Inr _, u) \<Rightarrow> (None, u))
      = (e', sv'') \<Longrightarrow> settled ?t r e' sv''" for m e' sv''
    by (rule * [of TaskCancelled]) (simp_all add: event_of_data_def valid_event_data_def l)
  have errs: "(case emit em ?t ErrorEvent m (DError ?t (Some (error_code_of g))) (tr_run_id r) ok sv of (Inl e, u) \<Rightarrow> (Some e, u) | (Inr _, u) \<Rightarrow> (None, u))
      = (e', sv'') \<Longrightarrow> settled ?t r e' sv''" for m g e' sv''
    by (rule * [of ErrorEvent "DError ?t (Some (error_code_of g))"]) (simp_all add: event_of_data_def valid_event_data_def l)
  have asks: "fields_clarification_prompt p \<Longrightarrow>
      (case emit em ?t ClarificationRequired m (DRequired p) (tr_run_id r) ok sv of (Inl e, u) \<Rightarrow> (Some e, u) | (Inr _, u) \<Rightarrow> (None, u))
      = (e', sv'') \<Longrightarrow> settled ?t r e' sv''" for m p e' sv''
    by (rule * [of ClarificationRequired]) (simp_all add: event_of_data_def valid_event_data_def)
  show ?thesis
    using assms(3,5,6,7) l
    by (cases f) (auto simp: handle_failure_def prompts_def Let_def split: if_splits
        intro: cancels asks errs [where g = f])
qed

lemma execute_task_end_settles:
  assumes "live (jb_thread j) r sv" "good_record (jb_thread j) r" "jb_run j = tr_run_id r" "good_store (sv_store sv)"
    and "event_id_token (em_event_id em')" "b \<noteq> Fails FDeleted" "prompts b"
    and "execute_task_end em em' ok b j sv = (e, sv')"
  shows "settled (jb_thread j) r e sv'"
proof (cases b)
  case (Completes s)
  let ?t = "jb_thread j"
  obtain x sv1 where x: "emit em ?t TaskResult RESULT_TEXT (DResult s) (jb_run j) ok sv = (x, sv1)" by fastforce
  obtain y st where y: "record_event em ?t TaskResult RESULT_TEXT (DResult s) (Some (jb_run j)) (sv_store sv) = (y, st)"
    by fastforce
  show ?thesis
  proof (cases y)
    case (Inr es)
    obtain q q' where a: "advances ?t q es q' (sv_store sv) st" "tk_status (tr_snapshot q') = StCompleted"
        "q' = q\<lparr>tr_snapshot := tr_snapshot q'\<rparr>"
      by (rule record_event_result [OF y [unfolded Inr] assms(4)])
    have "q = r" using a(1) assms(1) by (simp add: advances_def live_def record_of_def)
    moreover have "x = Inr es" "sv_store sv1 = st" using x y Inr by (auto simp: emit_def)
    moreover have "e = None" "sv' = sv1" using assms(8) x Completes \<open>x = Inr es\<close> by (simp_all add: execute_task_end_def)
    moreover have "tr_owner_handle q' = tr_owner_handle q" by (subst a(3)) simp
    ultimately show ?thesis using a
      by (auto simp: settled_def record_of_def advances_def)
  next
    case (Inl z)
    have ss: "same_store (sv_store sv) st" using record_event_error_same [OF y [unfolded Inl]] .
    have w: "x = Inl z" "sv_store sv1 = st" using x y Inl by (auto simp: emit_def)
    have "live ?t r sv1" using assms(1) ss w task_is_deleted_cong [of st "sv_store sv"]
      by (simp add: live_def record_of_def deleted_def same_store_def)
    have nd: "z \<noteq> TaskDeletedError"
      by (rule result_not_deleted [OF y [unfolded Inl] _ assms(2)])
        (use assms(1) in \<open>simp_all add: live_def record_of_def deleted_def\<close>)
    have "handle_failure em' ok (failure_of z) j sv1 = (e, sv')"
      using assms(8) x w Completes by (simp add: execute_task_end_def)
    then show ?thesis
      using nd by (intro handle_failure_settles [OF \<open>live ?t r sv1\<close> assms(2,3,5)]) (simp_all add: failure_of_def prompts_def)
  qed
next
  case (Fails f)
  then show ?thesis using handle_failure_settles [OF assms(1,2,3,5)] assms(6-8) by (simp add: execute_task_end_def)
qed

definition same_work :: "server \<Rightarrow> server \<Rightarrow> bool" where
  "same_work sv sv' \<longleftrightarrow> sv_locks sv' = sv_locks sv \<and> sv_runtime sv' = sv_runtime sv \<and> sv_jobs sv' = sv_jobs sv
     \<and> sv_done sv' = sv_done sv"

lemma emit_same_work: "emit em t ev m d run ok sv = (res, sv') \<Longrightarrow> same_work sv sv'"
  by (auto simp: emit_def same_work_def split: prod.splits sum.splits)

lemma same_work_refl [simp]: "same_work sv sv"
  by (simp add: same_work_def)

lemma handle_failure_same_work: "handle_failure em ok f j sv = (e, sv') \<Longrightarrow> same_work sv sv'"
  by (auto simp: handle_failure_def Let_def split: failure.splits option.splits if_splits prod.splits sum.splits
      dest: emit_same_work)

lemma execute_task_end_same_work: "execute_task_end em em' ok b j sv = (e, sv') \<Longrightarrow> same_work sv sv'"
  by (auto simp: execute_task_end_def same_work_def split: body_end.splits prod.splits sum.splits
      dest!: handle_failure_same_work emit_same_work)

lemma execute_finally_frees:
  "(\<forall>h. jb_handle j = Some h \<longrightarrow> h \<notin> snd ` set (sv_locks (execute_finally n j sv)))
   \<and> sv_done (execute_finally n j sv) = n # sv_done sv
   \<and> sv_runtime (execute_finally n j sv) = finish_task (sv_runtime sv)
   \<and> record_of (jb_thread j) (execute_finally n j sv)
     = map_option (drop_owner (jb_handle j)) (record_of (jb_thread j) sv)"
  by (auto simp: execute_finally_def Let_def release_lock_handle_def record_of_def split: option.splits)

lemma execute_end_settles:
  assumes "sound (sv_store sv)" "live (jb_thread j) r sv" "jb_run j = tr_run_id r" "tr_owner_handle r = jb_handle j"
    and "event_id_token (em_event_id em')" "b \<noteq> Fails FDeleted" "prompts b"
    and "sv' = execute_end em em' ok b n j sv"
  shows "(\<forall>r'. record_of (jb_thread j) sv' = Some r' \<longrightarrow> tk_status (tr_snapshot r') \<noteq> StRunning \<and> tr_owner_handle r' = None)
    \<and> (\<forall>h. jb_handle j = Some h \<longrightarrow> h \<notin> snd ` set (sv_locks sv')) \<and> n \<in> set (sv_done sv')
    \<and> sv_runtime sv' = finish_task (sv_runtime sv)"
proof -
  let ?t = "jb_thread j"
  obtain e sv1 where e: "execute_task_end em em' ok b j sv = (e, sv1)" by fastforce
  have g: "good_record ?t r" using assms(1,2) sound_record by (simp add: live_def record_of_def)
  have st: "settled ?t r e sv1"
    by (rule execute_task_end_settles [OF assms(2) g assms(3) _ assms(5-7) e]) (use assms(1) in \<open>simp add: sound_def\<close>)
  note w = execute_task_end_same_work [OF e, unfolded same_work_def]
  let ?u = "in_transport (close_active ?t 1011) (in_store (pop_record ?t) sv1)"
  show ?thesis
  proof (cases "e = Some SnapshotPersistenceError")
    case True
    then have "sv' = execute_finally n j ?u"
      using st assms(3,8) by (auto simp: settled_def execute_end_def e Let_def)
    then show ?thesis using execute_finally_frees [of j n ?u] w by (simp add: record_of_def)
  next
    case False
    then have "sv' = execute_finally n j sv1" using assms(8) by (simp add: execute_end_def e Let_def)
    moreover obtain r' where "record_of ?t sv1 = Some r'" "tk_status (tr_snapshot r') \<noteq> StRunning" "tr_owner_handle r' = jb_handle j"
      using st False assms(4) by (auto simp: settled_def)
    ultimately show ?thesis using execute_finally_frees [of j n sv1] w by (simp add: drop_owner_def)
  qed
qed

text \<open>
  C4. A worker settles its task: whatever ends the body of a worker on a live task (a result, a
  timeout, a cancellation, a question, a full disk or any other error), after \<open>_execute\<close> the record
  of the task is gone or no longer running and without its owner handle, the owner lock is
  released, the worker is done and the runtime counts one task less.
\<close>

theorem worker_settles_its_task:
  assumes "sound (sv_store sv)" "live (jb_thread j) r sv" "jb_run j = tr_run_id r" "tr_owner_handle r = jb_handle j"
    and "event_id_token (em_event_id em')" "b \<noteq> Fails FDeleted" "prompts b"
    and "sv' = execute_end em em' ok b n j sv"
  shows "(\<forall>r'. record_of (jb_thread j) sv' = Some r' \<longrightarrow> tk_status (tr_snapshot r') \<noteq> StRunning \<and> tr_owner_handle r' = None)
    \<and> (\<forall>h. jb_handle j = Some h \<longrightarrow> h \<notin> snd ` set (sv_locks sv')) \<and> n \<in> set (sv_done sv')
    \<and> active_tasks (sv_runtime sv') = max 0 (active_tasks (sv_runtime sv) - 1)"
  using execute_end_settles [OF assms] by (simp add: finish_task_def Let_def)

section \<open>Recovery\<close>

lemma recovered:
  assumes "sound (sv_store sv)" "record_of t sv = None" "read_persisted_snapshot t (sv_store sv) = Some s"
    and "tk_status s = StRunning" "map_of (sv_locks sv) t = None"
    and "event_id_token (em_event_id em)" "em_io em = Written" "run_token (tk_run_id s)"
  shows "\<exists>e. let s' = interrupted_snapshot (em_timestamp em) e s; out = load_snapshot em t sv
     in fst out = Inr (Some s') \<and> read_persisted_snapshot t (sv_store (snd out)) = Some s' \<and> me_event e = ErrorEvent
        \<and> map_of (sv_locks (snd out)) t = None \<and> record_of t (snd out) = None"
proof -
  have f: "thread_token t" "\<not> task_is_deleted t (sv_store sv)" using assms(3) by (auto simp: read_persisted_iff)
  note g = read_sound [OF assms(1,3)]
  have n: "0 \<le> previous_sequence s" using previous_sequence_good g by simp
  obtain e where e: "make_event (em_event_id em) t (tk_run_id s) (previous_sequence s + 1) ErrorEvent INTERRUPTED_TEXT
      (DError t (Some (lit ''task_interrupted''))) (tk_data_mode s) (em_timestamp em) = Some e"
    using assms f n by (simp add: make_event_def typed_event_data_def event_of_data_def valid_event_data_def given_def lit_def)
  let ?s = "interrupted_snapshot (em_timestamp em) e s"
  note gi = good_interrupted [OF conjunct1 [OF g] assms(4) conjunct2 [OF g] e]
  obtain h sv1 where l: "try_acquire_owner_lock t sv = (Some h, sv1)" "sv_locks sv1 = (t, h) # sv_locks sv"
    using assms(5) by (simp add: try_acquire_owner_lock_def)
  note st = try_acquire_fields(1) [OF l(1)]
  have p: "persist_snapshot (em_io em) ?s (sv_store sv) = (None, write_file t (Stored ?s) (sv_store sv))"
    using assms(7) f gi by (simp add: persist_snapshot_def)
  have rec: "recover em t s sv1 = (Inr (Some ?s), sv1\<lparr>sv_store := write_file t (Stored ?s) (sv_store sv)\<rparr>)"
    using e p st by (simp add: recover_def Let_def)
  have free: "map_of (filter (\<lambda>(u, m). m \<noteq> h) ((t, h) # sv_locks sv)) t = None"
    using assms(5) by (auto simp: map_of_eq_None_iff)
  have out: "load_snapshot em t sv
      = (Inr (Some ?s), release_lock_handle (Some h) (sv1\<lparr>sv_store := write_file t (Stored ?s) (sv_store sv)\<rparr>))"
    using f(2) assms(2-4) l(1) rec by (simp add: load_snapshot_def deleted_def)
  have "read_persisted_snapshot t (write_file t (Stored ?s) (sv_store sv)) = Some ?s"
    using f gi by (simp add: read_persisted_iff good_snapshot_def)
  moreover have "record_of t (snd (load_snapshot em t sv)) = None" using out assms(2) by (simp add: record_of_def)
  ultimately show ?thesis
    using out l(2) free make_event_Some(4) [OF e] by (intro exI [of _ e]) (simp add: Let_def release_lock_handle_def)
qed

text \<open>
  C6. Recovery: a task that its worker left running on disk (the process died, or its last write
  failed) is found by the next read when no worker holds its lock: it becomes an error with the
  code \<open>task_interrupted\<close> and one more event, is written back so, and its lock is free again; a
  second read changes nothing and answers the same.
\<close>

theorem interrupted_task_recovers:
  assumes "sound (sv_store sv)" "record_of t sv = None" "read_persisted_snapshot t (sv_store sv) = Some s"
    and "tk_status s = StRunning" "map_of (sv_locks sv) t = None"
    and "event_id_token (em_event_id em)" "em_io em = Written" "run_token (tk_run_id s)"
  shows "\<exists>e s' sv'. load_snapshot em t sv = (Inr (Some s'), sv') \<and> me_event e = ErrorEvent
    \<and> tk_events s' = tk_events s @ [e] \<and> tk_status s' = StError \<and> tk_error_code s' = Some (lit ''task_interrupted'')
    \<and> map_of (sv_locks sv') t = None \<and> load_snapshot em' t sv' = (Inr (Some s'), sv')"
proof -
  obtain e where e: "fst (load_snapshot em t sv) = Inr (Some (interrupted_snapshot (em_timestamp em) e s))"
      "read_persisted_snapshot t (sv_store (snd (load_snapshot em t sv))) = Some (interrupted_snapshot (em_timestamp em) e s)"
      "me_event e = ErrorEvent" "map_of (sv_locks (snd (load_snapshot em t sv))) t = None"
    using recovered [OF assms] by (auto simp: Let_def)
  define s' sv' where d: "s' = interrupted_snapshot (em_timestamp em) e s" "sv' = snd (load_snapshot em t sv)"
  have 1: "load_snapshot em t sv = (Inr (Some s'), sv')" using e(1) unfolding d by (simp add: prod_eq_iff)
  have 2: "tk_events s' = tk_events s @ [e]" "tk_status s' = StError" "tk_error_code s' = Some (lit ''task_interrupted'')"
    by (simp_all add: d interrupted_snapshot_def)
  have "read_persisted_snapshot t (sv_store sv') = Some s'" "\<not> deleted t sv'"
    using e(2) unfolding d by (auto simp: deleted_def read_persisted_iff)
  then have "load_snapshot em' t sv' = (Inr (Some s'), sv')" by (simp add: load_snapshot_def 2)
  with 1 2 e(3,4) show ?thesis unfolding d(2) [symmetric] by blast
qed

section \<open>Deletion\<close>

lemma erase_evolves: "evolves sv (snd (erase_task env t sv))"
  using evolves_erase surjective_pairing by metis

lemma delete_marks:
  assumes "delete_task s env who t u sv = (Inr x, sv')" "record_of t sv = Some r"
  shows "deleted t sv'"
proof (cases "deleted t sv")
  case True
  then show ?thesis using evolves_delete [OF assms(1)] by (simp add: evolves_def)
next
  case False
  then have n: "read_tombstone t (sv_store sv) = None" by (simp add: deleted_def task_is_deleted_def)
  have "\<exists>ts st. write_tombstone (de_io env) t (Some (tk_user_id (tr_snapshot r))) (tk_tenant_id (tr_snapshot r))
       (tk_generation (tr_snapshot r) + 1) (de_now env) (sv_store (set_deleting True t sv)) = (Inr ts, st)
     \<and> sv' = snd (erase_task env t ((set_deleting True t sv)\<lparr>sv_store := st\<rparr>))"
    using assms n by (auto simp: delete_task_def Let_def split: sum.splits prod.splits if_splits)
  then obtain ts st where "write_tombstone (de_io env) t (Some (tk_user_id (tr_snapshot r))) (tk_tenant_id (tr_snapshot r))
       (tk_generation (tr_snapshot r) + 1) (de_now env) (sv_store (set_deleting True t sv)) = (Inr ts, st)"
    "sv' = snd (erase_task env t ((set_deleting True t sv)\<lparr>sv_store := st\<rparr>))" by blast
  moreover from this(1) have "deleted t ((set_deleting True t sv)\<lparr>sv_store := st\<rparr>)"
    using write_tombstone_store(3) by (fastforce simp: deleted_def)
  ultimately show ?thesis using erase_evolves by (simp add: evolves_def)
qed

lemma deleted_refuses:
  assumes "deleted t sv" "thread_token t"
  shows "get_task s who em t sv = (Inl not_found, sv)" "cancel_task s em em' ok who t sv = (Inl not_found, sv)"
    "create_locked s cenv p q t sv = (Inl (Http 409 (lit ''task_deleted'')), sv)"
    "read_persisted_snapshot t (sv_store sv) = None" "fst (emit em t ev m d run ok sv) = Inl TaskDeletedError"
  using assms
  by (auto simp: get_task_def cancel_task_def create_locked_def deleted_def read_persisted_snapshot_def emit_def
      record_event_def Let_def split: option.splits)


section \<open>Files and records\<close>

text \<open>
  C3. From a sound store, after any sequence of requests (creations, reruns, relaxations,
  clarifications, cancellations, deletions, reads), events and worker ends, with any write
  failing: the file of every task held in memory and not deleted reads back as exactly the
  snapshot of its record, whose events are numbered from 1 without a gap and replay to its status.
\<close>

theorem files_agree_with_records:
  assumes "sound (sv_store sv)" "runs server_step sv calls sv'" "record_of t sv' = Some r" "\<not> deleted t sv'"
    and "thread_token t"
  shows "read_persisted_snapshot t (sv_store sv') = Some (tr_snapshot r)
    \<and> map me_sequence (tk_events (tr_snapshot r)) = map int [1..<Suc (length (tk_events (tr_snapshot r)))]
    \<and> replay (map me_event (tk_events (tr_snapshot r))) StRunning = Some (tk_status (tr_snapshot r))"
proof -
  have "sound (sv_store sv')" using evolves_runs [OF assms(2)] assms(1) by (simp add: evolves_def)
  then show ?thesis using assms(3-5)
    by (auto simp: sound_def good_store_def record_of_def deleted_def read_persisted_iff good_record_def good_snapshot_def)
qed

section \<open>Principals\<close>

definition foreign :: "principal option \<Rightarrow> task_snapshot \<Rightarrow> bool" where
  "foreign who s \<longleftrightarrow> (\<forall>p. who = Some p \<longrightarrow> pr_user_id p \<noteq> tk_user_id s \<or> pr_tenant_id p \<noteq> tk_tenant_id s)"

definition refused :: "(http_error + 'a) \<times> server \<Rightarrow> server \<Rightarrow> bool" where
  "refused out sv \<longleftrightarrow> isl (fst out) \<and> snd out = sv"

lemma foreign_not_authorized:
  "auth_enabled s \<Longrightarrow> foreign who snap \<Longrightarrow> \<exists>e. authorize_snapshot s who declared snap = Inl e"
  by (auto simp: authorize_snapshot_def authorize_def request_principal_def foreign_def split: option.splits)

text \<open>
  C7. With authentication on, a request without a principal, or with a principal of another user or
  tenant, cannot read, cancel, delete, answer, rerun or relax a task held in memory: each is
  refused and changes nothing at all.
\<close>

theorem foreign_principals_refused:
  assumes "auth_enabled s" "foreign who (tr_snapshot r)" "sound (sv_store sv)" "record_of t sv = Some r"
    and "\<not> deleted t sv"
  shows "refused (get_task s who em t sv) sv \<and> refused (cancel_task s em em' ok who t sv) sv
    \<and> refused (delete_task s denv who t u sv) sv \<and> refused (clarify_task s cenv who t response sv) sv
    \<and> refused (rerun_task s env who em t u sv) sv \<and> refused (relax_task s env who em t c sv) sv"
proof -
  have no: "\<exists>e. authorize_snapshot s who declared (tr_snapshot r) = Inl e" for declared
    by (rule foreign_not_authorized [OF assms(1,2)])
  obtain e0 where e0: "authorize_snapshot s who None (tr_snapshot r) = Inl e0" using no by blast
  have same: "snap = tr_snapshot r" if "read_persisted_snapshot t (sv_store sv) = Some snap" for snap
    using that assms(3-5) by (auto simp: sound_def good_store_def record_of_def deleted_def read_persisted_iff)
  have n: "read_tombstone t (sv_store sv) = None" using assms(5) by (simp add: deleted_def task_is_deleted_def)
  have "refused (get_task s who em t sv) sv"
    using assms(4,5) e0 by (simp add: refused_def get_task_def authorized_def)
  moreover have "refused (cancel_task s em em' ok who t sv) sv"
    using assms(4,5) e0 by (simp add: refused_def cancel_task_def Let_def)
  moreover have "refused (delete_task s denv who t u sv) sv"
    using assms(4) n no [of "Some u"] by (auto simp: refused_def delete_task_def split: sum.split)
  moreover have "refused (clarify_task s cenv who t response sv) sv"
    using assms(4) e0 same by (auto simp: refused_def clarify_task_def clarify_task_locked_def split: option.split)
  moreover have "refused (rerun_task s env who em t u sv) sv"
    using assms(4) no [of "Some u"] by (auto simp: refused_def rerun_task_def owned_parent_def)
  moreover have "refused (relax_task s env who em t c sv) sv"
    using assms(4) no [of "Some (rx_user_id c)"] by (auto simp: refused_def relax_task_def owned_parent_def)
  ultimately show ?thesis by simp
qed

section \<open>Commands with an idempotency key\<close>

lemma live_snapshots_keeps:
  "t \<notin> fst ` set rs \<Longrightarrow> map_of (live_snapshots user tenant rs acc) t = map_of acc t"
  unfolding live_snapshots_def by (induction rs arbitrary: acc) (auto simp: update_conv')

lemma live_snapshots_has:
  assumes "distinct (map fst rs)" "(t, r) \<in> set rs" "tk_user_id (tr_snapshot r) = user" "tk_tenant_id (tr_snapshot r) = tenant"
  shows "map_of (live_snapshots user tenant rs acc) t = Some (tr_snapshot r)"
  using assms
proof (induction rs arbitrary: acc)
  case (Cons a rs)
  show ?case
  proof (cases "a = (t, r)")
    case True
    then have "t \<notin> fst ` set rs" using Cons.prems(1) by auto
    then show ?thesis using live_snapshots_keeps [of t rs user tenant] True Cons.prems(3,4)
      by (simp add: live_snapshots_def update_conv')
  next
    case False
    then show ?thesis using Cons by (simp add: live_snapshots_def)
  qed
qed simp

lemma load_snapshot_records: "load_snapshot em t sv = (res, sv') \<Longrightarrow> records (sv_store sv') = records (sv_store sv) \<and> sv_jobs sv' = sv_jobs sv"
  by (auto simp: load_snapshot_def recover_def try_acquire_owner_lock_def persist_snapshot_def Let_def
      split: if_splits option.splits prod.splits io.splits)

lemma load_all_records:
  "load_all em u tn ts acc sv = (res, sv') \<Longrightarrow> records (sv_store sv') = records (sv_store sv) \<and> sv_jobs sv' = sv_jobs sv"
proof (induction ts arbitrary: acc sv)
  case (Cons t ts)
  obtain r sv1 where l: "load_snapshot (em t) t sv = (r, sv1)" by fastforce
  then show ?case using Cons load_snapshot_records [OF l]
    by (fastforce split: if_splits sum.splits option.splits)
qed simp

definition has_child :: "pystr \<Rightarrow> pystr \<Rightarrow> lineage_relation \<Rightarrow> pystr \<Rightarrow> pystr \<Rightarrow> server \<Rightarrow> bool" where
  \<comment> \<open>a child of the command is held in memory\<close>
  "has_child parent key rel user tenant sv \<longleftrightarrow> distinct (map fst (records (sv_store sv)))
     \<and> (\<exists>(t, r) \<in> set (records (sv_store sv)). is_child parent key rel (tr_snapshot r)
          \<and> tk_user_id (tr_snapshot r) = user \<and> tk_tenant_id (tr_snapshot r) = tenant)"

lemma finds_child:
  assumes "has_child parent key rel user tenant sv" "find_idempotent_child em parent key rel user tenant sv = (Inr c, sv')"
  shows "\<exists>s. c = Some s \<and> is_child parent key rel s"
proof -
  obtain t r where r: "distinct (map fst (records (sv_store sv)))" "(t, r) \<in> set (records (sv_store sv))"
      "is_child parent key rel (tr_snapshot r)" "tk_user_id (tr_snapshot r) = user" "tk_tenant_id (tr_snapshot r) = tenant"
    using assms(1) by (auto simp: has_child_def)
  obtain ss where h: "history_snapshots em user tenant sv = (Inr ss, sv')" "c = List.find (is_child parent key rel) ss"
    using assms(2) by (auto simp: find_idempotent_child_def split: prod.splits sum.splits)
  obtain acc where l: "load_all em user tenant (map fst (directories (sv_store sv))) [] sv = (Inr acc, sv')"
      "ss = sort_key (\<lambda>s. - tk_updated_at s) (map snd (live_snapshots user tenant (records (sv_store sv')) acc))"
    using h(1) by (auto simp: history_snapshots_def split: prod.splits sum.splits)
  have "map_of (live_snapshots user tenant (records (sv_store sv')) acc) t = Some (tr_snapshot r)"
    using live_snapshots_has [OF r(1,2,4,5)] load_all_records [OF l(1)] by simp
  then have "tr_snapshot r \<in> set ss" unfolding l(2) by (auto dest!: map_of_SomeD intro: rev_image_eqI)
  then have "c \<noteq> None" using r(3) h(2) by (auto simp: find_None_iff)
  then show ?thesis using h(2) by (auto simp: find_Some_iff)
qed

lemma find_child_records:
  "find_idempotent_child em p k rel u tn sv = (res, sv') \<Longrightarrow> records (sv_store sv') = records (sv_store sv) \<and> sv_jobs sv' = sv_jobs sv"
  by (auto simp: find_idempotent_child_def history_snapshots_def split: prod.splits sum.splits dest: load_all_records)

lemma start_child_records:
  assumes "start_child_task s env parent l sv = (Inr c, sv')"
  shows "\<exists>r. records (sv_store sv') = AList.update (ch_thread env) r (records (sv_store sv)) \<and> tr_snapshot r = c"
    "c = child_snapshot env parent l"
  using assms
  by (auto simp: start_child_task_def spawn_def try_acquire_owner_lock_def Let_def set_record_def persist_None_iff
      in_store_def ensure_directory_def write_file_def
      split: if_splits option.splits prod.splits sum.splits)


section \<open>What refused requests leave behind\<close>

lemma release_keeps_free: "map_of (sv_locks sv) t = None \<Longrightarrow> map_of (sv_locks (release_lock_handle h sv)) t = None"
  by (auto simp: release_lock_handle_def map_of_eq_None_iff split: option.splits)

lemma record_of_pop [simp]: "record_of t (in_store (pop_record u) sv) = (if t = u then None else record_of t sv)"
  by (simp add: record_of_def)

lemma prune_keeps:
  "sv_runtime (prune_records q now sv) = sv_runtime sv" "sv_jobs (prune_records q now sv) = sv_jobs sv"
  "deleted t (prune_records q now sv) = deleted t sv"
  "record_of t sv = None \<Longrightarrow> record_of t (prune_records q now sv) = None"
  "read_persisted_snapshot t (sv_store (prune_records q now sv)) = read_persisted_snapshot t (sv_store sv)"
  "map_of (sv_locks sv) t = None \<Longrightarrow> map_of (sv_locks (prune_records q now sv)) t = None"
proof -
  define f where "f = (\<lambda>(t :: pystr, r :: task_record) (u :: server). release_lock_handle (tr_owner_handle r) (in_store (pop_record t) u))"
  define keeps where "keeps u u' \<longleftrightarrow> sv_runtime u' = sv_runtime u \<and> sv_jobs u' = sv_jobs u \<and> deleted t u' = deleted t u
    \<and> (record_of t u = None \<longrightarrow> record_of t u' = None)
    \<and> read_persisted_snapshot t (sv_store u') = read_persisted_snapshot t (sv_store u)
    \<and> (map_of (sv_locks u) t = None \<longrightarrow> map_of (sv_locks u') t = None)" for u u' :: server
  have step: "keeps u (f a u)" for a u
    using release_keeps_free by (cases a) (simp add: f_def keeps_def read_persisted_snapshot_def)
  have "keeps u (fold f rs u)" for rs u
  proof (induction rs arbitrary: u)
    case (Cons a rs)
    then show ?case using step [of u a] by (simp add: keeps_def)
  qed (simp add: keeps_def)
  then have "keeps sv (prune_records q now sv)" unfolding prune_records_def f_def [symmetric] by blast
  then show "sv_runtime (prune_records q now sv) = sv_runtime sv" "sv_jobs (prune_records q now sv) = sv_jobs sv"
    "deleted t (prune_records q now sv) = deleted t sv"
    "record_of t sv = None \<Longrightarrow> record_of t (prune_records q now sv) = None"
    "read_persisted_snapshot t (sv_store (prune_records q now sv)) = read_persisted_snapshot t (sv_store sv)"
    "map_of (sv_locks sv) t = None \<Longrightarrow> map_of (sv_locks (prune_records q now sv)) t = None"
    by (simp_all add: keeps_def)
qed

text \<open>
  A creation refused because its thread has been deleted leaves the runtime counting one task
  more for ever: the task is accepted before the conflict is checked and nothing finishes it, so
  that a drain of the worker never ends.
\<close>

lemma refused_creation_leaks_count:
  assumes "request_principal s who (Some (cq_user_id q)) = Inr p" "ce'_ready env" "ce'_uploads env = Inr ()"
    and "begin_task (ce'_sha256 env) s (ce'_request_id env) (sv_runtime sv) = Inr rt"
    and "cq_thread_id q = Some t" "t \<noteq> []" "deleted t sv"
  shows "\<exists>sv'. create_task s env who q sv = (Inl (Http 409 (lit ''task_deleted'')), sv')
    \<and> active_tasks (sv_runtime sv') = active_tasks (sv_runtime sv) + 1 \<and> sv_jobs sv' = sv_jobs sv"
proof -
  let ?u = "prune_records (ce'_retention env) (ce'_now env) sv"
  have k: "sv_runtime ?u = sv_runtime sv" "sv_jobs ?u = sv_jobs sv" "deleted t ?u" "deleted t (?u\<lparr>sv_runtime := rt\<rparr>)"
    using prune_keeps(1-3) assms(7) by (simp_all add: deleted_def)
  have "active_tasks rt = active_tasks (sv_runtime sv) + 1"
    using assms(4) by (auto simp: begin_task_def Let_def split: if_splits)
  then show ?thesis using assms k by (auto simp: create_task_def create_locked_def Let_def given_def)
qed

text \<open>
  C16. Creation does not ask whose thread it takes: when the unfinished task of another principal
  is on disk, any principal whose request names its thread replaces it, and its snapshot, its
  events and its owner are gone.
\<close>

theorem creation_takes_over_foreign_task:
  assumes "request_principal s who (Some (cq_user_id q)) = Inr p" "ce'_ready env" "ce'_uploads env = Inr ()"
    and "begin_task (ce'_sha256 env) s (ce'_request_id env) (sv_runtime sv) = Inr rt"
    and "cq_thread_id q = Some t" "t \<noteq> []" "ce'_binds env" "ce'_io env = Written"
    and "record_of t sv = None" "read_persisted_snapshot t (sv_store sv) = Some snap" "\<not> terminal_status (tk_status snap)"
    and "map_of (sv_locks sv) t = None" "foreign who snap"
  shows "\<exists>sv' s'. create_task s env who q sv = (Inr t, sv') \<and> read_persisted_snapshot t (sv_store sv') = Some s'
    \<and> tk_user_id s' = cq_user_id q \<and> tk_events s' = [] \<and> tk_run_id s' = ce'_run env"
proof -
  let ?u = "(prune_records (ce'_retention env) (ce'_now env) sv)\<lparr>sv_runtime := rt\<rparr>"
  let ?v = "in_transport (clear_thread t True) ?u"
  let ?s = "new_snapshot t (ce'_run env) (cq_query q) (cq_user_id q)
      (case p of Some q \<Rightarrow> pr_tenant_id q | None \<Rightarrow> DEFAULT_TENANT) (data_mode_of s) (ce'_now env)"
  have nd: "\<not> deleted t sv" "thread_token t" using assms(10) by (simp_all add: deleted_def read_persisted_iff)
  have u: "record_of t ?u = None" "\<not> deleted t ?u" "read_persisted_snapshot t (sv_store ?u) = Some snap"
      "map_of (sv_locks ?u) t = None"
    using prune_keeps(3-6) assms nd by (simp_all add: record_of_def deleted_def)
  have c: "create_task s env who q sv = start_task env t ?s ?v"
    using assms(1-6,11) u by (simp add: create_task_def create_locked_def prune_keeps given_def Let_def)
  obtain h sv1 where l: "try_acquire_owner_lock t ?v = (Some h, sv1)" using u(4) by (simp add: try_acquire_owner_lock_def)
  have "\<not> deleted t sv1" using acquire_reads(2) [OF l] u(2) by simp
  moreover have "persist_snapshot Written ?s (ensure_directory t (sv_store sv1))
      = (None, write_file t (Stored ?s) (ensure_directory t (sv_store sv1)))"
    using calculation by (simp add: persist_snapshot_def deleted_def)
  ultimately have "\<exists>sv'. start_task env t ?s ?v = (Inr t, sv') \<and> map_of (directories (sv_store sv')) t = Some (Stored ?s)
      \<and> \<not> task_is_deleted t (sv_store sv')"
    using l assms(7,8) by (simp add: start_task_def spawn_def Let_def deleted_def)
  moreover have "validate_snapshot ?s" using good_new unfolding good_snapshot_def by blast
  ultimately show ?thesis using c nd(2)
    by (auto simp: read_persisted_iff) (simp_all add: new_snapshot_def)
qed

text \<open>
  C17. A clarification refused because the worker drains has already been recorded: the task says it
  is running, no worker is started, its owner handle is gone, the answer cannot be given again
  (the repetition is answered as done) and a cancellation changes nothing.
\<close>

theorem refused_resume_strands_task:
  assumes "good_store (sv_store sv)" "record_of t sv = Some r" "task_done (tr_task r) sv" "deleted t sv = False"
    and "emit (cl_emission env) t ClarificationResolved (resolved_text (cp_field pending))
           (DResolved \<lparr>ca'_field = cp_field pending, ca'_reason_code = cp_reason_code pending,
              ca'_response = response, ca'_resolved_value = Some v\<rparr>) (tr_run_id r) (cl_delivers env) sv = (Inr es, sv1)"
    and "begin_task (cl_sha256 env) s (tr_run_id r) (sv_runtime sv1) = Inl e"
    and "thread_token t" "authorize_snapshot s who None (tr_snapshot r) = Inr p"
  shows "\<exists>sv' r'. resume s env t pending response v r False sv = (Inl (Http 503 (not_accepting_code e)), sv')
    \<and> record_of t sv' = Some r' \<and> tk_status (tr_snapshot r') = StRunning \<and> tr_owner_handle r' = None
    \<and> sv_jobs sv' = sv_jobs sv \<and> cancel_task s em em' ok who t sv' = (Inr StRunning, sv')"
proof -
  let ?d = "DResolved \<lparr>ca'_field = cp_field pending, ca'_reason_code = cp_reason_code pending,
      ca'_response = response, ca'_resolved_value = Some v\<rparr>"
  obtain st where st: "record_event (cl_emission env) t ClarificationResolved (resolved_text (cp_field pending)) ?d
      (Some (tr_run_id r)) (sv_store sv) = (Inr es, st)" "sv_store sv1 = st"
    using assms(5) by (auto simp: emit_def split: prod.splits sum.splits)
  obtain q q' ev where a: "advances t q es q' (sv_store sv) st"
      "tk_status (tr_snapshot q') = status_after ClarificationResolved (tk_status (tr_snapshot q))"
      "event_changes (me_data ev) (resolved_text (cp_field pending))
         ((tr_snapshot q)\<lparr>tk_events := tk_events (tr_snapshot q) @ [ev], tk_updated_at := em_timestamp (cl_emission env)\<rparr>)
       = Inr (tr_snapshot q')"
      "q' = q\<lparr>tr_snapshot := tr_snapshot q'\<rparr>"
    by (rule record_event_other [OF st(1) _ assms(1)]) (simp, metis)
  have q: "q = r" using a(1) assms(2) by (simp add: advances_def record_of_def)
  have owner: "tr_owner_handle q' = tr_owner_handle r" "tr_task q' = tr_task r" "\<not> tr_deleting q'"
    using a(1) q by (subst a(4), simp add: advances_def)+ 
  note w = emit_same_work [OF assms(5), unfolded same_work_def]
  have rec: "record_of t sv1 = Some q'" using a(1) st(2) by (simp add: advances_def record_of_def)
  let ?h = "tr_owner_handle r" and ?sv' = "release_lock_handle (tr_owner_handle r) (in_store (set_record t (drop_owner (tr_owner_handle r) q')) sv1)"
  have out: "resume s env t pending response v r False sv = (Inl (Http 503 (not_accepting_code e)), ?sv')"
    using assms(5,6) rec by (simp add: resume_def Let_def)
  have r': "record_of t ?sv' = Some (drop_owner ?h q')" by (simp add: record_of_def)
  have run: "tk_status (tr_snapshot (drop_owner ?h q')) = StRunning" using a(2) by (simp add: status_after_def)
  have nd: "\<not> deleted t ?sv'"
    using assms(4) st(2) a(1) task_is_deleted_cong [of st "sv_store sv"] by (simp add: deleted_def advances_def)
  have au: "authorize_snapshot s who None (tr_snapshot q') = Inr p"
    using assms(8) event_changes_frame [OF a(3)] q by (simp add: authorize_snapshot_def)
  have "task_done (tr_task (drop_owner ?h q')) ?sv'" using assms(3) owner w by (simp add: task_done_def)
  then have "cancel_task s em em' ok who t ?sv' = (Inr StRunning, ?sv')"
    using assms(7) nd r' run au owner by (simp add: cancel_task_def Let_def)
  then show ?thesis using out r' run owner w
    by (intro exI [of _ ?sv'] exI [of _ "drop_owner ?h q'"]) (simp add: drop_owner_def)
qed

text \<open>
  A refused cancellation takes the owner lock: when a task waits for an answer on disk only,
  a foreign principal who asks to cancel it is refused, but the worker that refuses has taken the
  lock and put a record of the task in memory, and keeps both.
\<close>

lemma refused_cancel_keeps_lock:
  assumes "auth_enabled s" "thread_token t" "record_of t sv = None" "read_persisted_snapshot t (sv_store sv) = Some snap"
    and "tk_status snap = StAwaiting" "map_of (sv_locks sv) t = None" "foreign who snap"
  shows "\<exists>e sv' h r. cancel_task s em em' ok who t sv = (Inl e, sv') \<and> map_of (sv_locks sv') t = Some h
    \<and> record_of t sv' = Some r \<and> tr_owner_handle r = Some h"
proof -
  have nd: "\<not> deleted t sv" using assms(4) by (simp add: deleted_def read_persisted_iff)
  have l: "load_snapshot em t sv = (Inr (Some snap), sv)" using assms(3-5) nd by (simp add: load_snapshot_def)
  obtain e where "authorize_snapshot s who None snap = Inl e" using foreign_not_authorized [OF assms(1,7)] by blast
  then show ?thesis using assms nd l
    by (simp add: cancel_task_def Let_def try_acquire_owner_lock_def record_of_def)
qed

section \<open>Concrete servers\<close>

definition a_record :: "nat \<Rightarrow> nat option \<Rightarrow> task_snapshot \<Rightarrow> task_record" where
  "a_record n h s = \<lparr>tr_run_id = lit ''legacy'', tr_snapshot = s, tr_task = n, tr_owner_handle = h, tr_generation = 0,
     tr_deleting = False\<rparr>"

definition a_job :: job where
  "a_job = \<lparr>jb_thread = a_thread, jb_run = lit ''legacy'', jb_handle = Some 0\<rparr>"

definition serving :: "store \<Rightarrow> (pystr \<times> nat) list \<Rightarrow> bool \<Rightarrow> server" where
  "serving st locks drains = \<lparr>sv_store = st, sv_locks = locks, sv_next_handle = 1,
     sv_runtime = \<lparr>draining = drains, active_tasks = 1, idle_events = Map.empty\<rparr>, sv_transport = empty_transport,
     sv_jobs = [(1, a_job)], sv_done = []\<rparr>"

definition on_disk :: "(pystr \<times> task_record) list \<Rightarrow> task_snapshot \<Rightarrow> store" where
  "on_disk rs s = \<lparr>records = rs, directories = [(a_thread, Stored s)], tombstones = []\<rparr>"

definition required :: monitor_event where
  "required = \<lparr>me_event_id = em_event_id an_emission, me_thread_id = a_thread, me_run_id = lit ''legacy'', me_sequence = 1,
     me_event = ClarificationRequired, me_message = [],
     me_data = DRequired \<lparr>cp_field = ClarifyMode, cp_reason_code = BecauseModeAmbiguous, cp_question = lit ''which''\<rparr>,
     me_data_mode = Live, me_timestamp = 1\<rparr>"

definition asked :: task_snapshot where
  "asked = fresh\<lparr>tk_status := StAwaiting,
     tk_clarification := Some \<lparr>cp_field = ClarifyMode, cp_reason_code = BecauseModeAmbiguous, cp_question = lit ''which''\<rparr>,
     tk_events := [required]\<rparr>"

lemma serving_fields [simp]:
  "sv_store (serving st l d) = st" "sv_locks (serving st l d) = l" "sv_jobs (serving st l d) = [(1, a_job)]"
  "sv_done (serving st l d) = []" "sv_runtime (serving st l d) = \<lparr>draining = d, active_tasks = 1, idle_events = Map.empty\<rparr>"
  by (simp_all add: serving_def)

lemma record_fields [simp]:
  "tr_snapshot (a_record n h s) = s" "tr_run_id (a_record n h s) = lit ''legacy''" "tr_task (a_record n h s) = n"
  "tr_owner_handle (a_record n h s) = h" "\<not> tr_deleting (a_record n h s)"
  by (simp_all add: a_record_def)

lemma disk_fields [simp]:
  "records (on_disk rs s) = rs" "directories (on_disk rs s) = [(a_thread, Stored s)]" "tombstones (on_disk rs s) = []"
  "\<not> task_is_deleted t (on_disk rs s)"
  by (simp_all add: on_disk_def task_is_deleted_iff)

lemma sample_snapshots [simp]:
  "good_snapshot fresh" "good_snapshot asked" "tk_thread_id fresh = a_thread" "tk_thread_id asked = a_thread"
  "tk_run_id fresh = lit ''legacy''" "tk_run_id asked = lit ''legacy''" "tk_status fresh = StRunning" "tk_status asked = StAwaiting"
  "tk_user_id fresh = lit ''ann''" "tk_tenant_id fresh = DEFAULT_TENANT" "tk_user_id asked = lit ''ann''" "tk_tenant_id asked = DEFAULT_TENANT"
  "tk_generation fresh = 0"
  by (simp_all add: fresh_def asked_def new_snapshot_def required_def good_snapshot_def validate_snapshot_def evidence_fits_mode_def
      next_status_def)

lemma sound_on_disk [simp]:
  assumes "s \<in> {fresh, asked}" "rs = [] \<or> rs = [(a_thread, a_record n h s)]" shows "sound (on_disk rs s)"
  using assms by (auto simp: sound_def good_store_def good_record_def split: if_splits)

lemma record_of_serving [simp]:
  "record_of t (serving (on_disk rs s) l d) = map_of rs t" "\<not> deleted t (serving (on_disk rs s) l d)"
  by (simp_all add: record_of_def deleted_def)

theorem worker_settles_its_task_witness:
  "1 \<in> set (sv_done (execute_end an_emission an_emission True (Fails FTimeout) 1 a_job
          (serving (on_disk [(a_thread, a_record 1 (Some 0) fresh)] fresh) [(a_thread, 0)] False)))"
proof -
  let ?sv = "serving (on_disk [(a_thread, a_record 1 (Some 0) fresh)] fresh) [(a_thread, 0)] False"
  have "live (jb_thread a_job) (a_record 1 (Some 0) fresh) ?sv" using tokens by (simp add: live_def a_job_def)
  then show ?thesis
    using worker_settles_its_task [of ?sv a_job "a_record 1 (Some 0) fresh" an_emission "Fails FTimeout" _ an_emission True 1] tokens
    by (simp add: a_job_def prompts_def)
qed

theorem interrupted_task_recovers_witness:
  "\<exists>s' sv'. load_snapshot an_emission a_thread (serving (on_disk [] fresh) [] False) = (Inr (Some s'), sv') \<and> tk_status s' = StError"
proof -
  have "read_persisted_snapshot a_thread (on_disk [] fresh) = Some fresh"
    using tokens sample_snapshots(1) unfolding good_snapshot_def by (simp add: read_persisted_iff)
  then show ?thesis
    using interrupted_task_recovers [of "serving (on_disk [] fresh) [] False" a_thread fresh an_emission an_emission] tokens
    by (auto simp: an_emission_def)
qed

definition busy :: server where
  "busy = serving (on_disk [(a_thread, a_record 1 (Some 0) fresh)] fresh) [(a_thread, 0)] False"

definition a_cancellation :: server_call where
  "a_cancellation = CEmit an_emission a_thread TaskCancelled [] (DCancelled a_thread) (lit ''legacy'') True"

lemma emit_keeps_deleted: "emit em t ev m d run ok sv = (res, sv') \<Longrightarrow> deleted u sv' = deleted u sv"
  by (auto simp: emit_def deleted_def task_is_deleted_iff split: prod.splits sum.splits dest!: record_event_tombstones)

theorem files_agree_with_records_witness:
  "\<exists>sv' r. runs server_step busy [a_cancellation] sv' \<and> record_of a_thread sv' = Some r
     \<and> tk_status (tr_snapshot r) = StCancelled \<and> read_persisted_snapshot a_thread (sv_store sv') = Some (tr_snapshot r)"
proof -
  obtain res sv' where e: "emit an_emission a_thread TaskCancelled [] (DCancelled a_thread) (lit ''legacy'') True busy = (res, sv')"
    by fastforce
  have run: "runs server_step busy [a_cancellation] sv'"
    by (rule runs_single) (use server_step.step [of busy a_cancellation] e in \<open>simp add: a_cancellation_def\<close>)
  obtain r where r: "record_of a_thread sv' = Some r" "tk_status (tr_snapshot r) = StCancelled"
    using emit_ending [of a_thread busy "a_record 1 (Some 0) fresh" TaskCancelled "DCancelled a_thread" an_emission "[]" True res sv'] e tokens
    by (auto simp: busy_def good_record_def event_of_data_def valid_event_data_def an_emission_def status_after_def)
  have "\<not> deleted a_thread sv'" using emit_keeps_deleted [OF e] by (simp add: busy_def)
  then show ?thesis
    using files_agree_with_records [OF _ run r(1) _ tokens(1)] run r by (auto simp: busy_def)
qed

theorem foreign_principals_refused_witness:
  "\<exists>s. auth_enabled s \<and> refused (get_task s None an_emission a_thread (serving (on_disk [(a_thread, a_record 1 None fresh)] fresh) [] False))
     (serving (on_disk [(a_thread, a_record 1 None fresh)] fresh) [] False)"
proof -
  obtain s0 where "from_env Map.empty = Inr s0" using default_settings by blast
  let ?s = "s0\<lparr>auth_enabled := True\<rparr>"
  show ?thesis
    using foreign_principals_refused [of ?s None "a_record 1 None fresh" "serving (on_disk [(a_thread, a_record 1 None fresh)] fresh) [] False" a_thread]
    by (intro exI [of _ ?s]) (simp add: foreign_def)
qed

definition quiet :: server where
  "quiet = serving (on_disk [(a_thread, a_record 0 None fresh)] fresh) [] False"

definition a_deletion :: delete_environment where
  "a_deletion = \<lparr>de_io = Written, de_now = lit ''now'', de_cancel = an_emission, de_removes = True\<rparr>"

lemma ann_deletes:
  assumes "\<not> auth_enabled s"
  shows "\<exists>sv'. delete_task s a_deletion None a_thread (lit ''ann'') quiet = (Inr a_thread, sv')"
proof -
  have rp: "request_principal s None (Some (lit ''ann'')) = Inr (Some \<lparr>pr_user_id = lit ''ann'', pr_tenant_id = DEFAULT_TENANT\<rparr>)"
    using assms by (simp add: request_principal_def given_def lit_def)
  have n: "read_tombstone a_thread (sv_store quiet) = None" by (simp add: quiet_def read_tombstone_def)
  have au: "authorize_snapshot s None (Some (lit ''ann'')) fresh = Inr None"
    using assms by (simp add: authorize_snapshot_def authorize_def rp)
  have rec: "record_of a_thread quiet = Some (a_record 0 None fresh)" by (simp add: quiet_def)
  show ?thesis
    using tokens rp n au rec
    by (simp add: delete_task_def a_deletion_def Let_def)
      (simp add: write_tombstone_def quiet_def erase_task_def read_tombstone_def set_deleting_def Let_def)
qed


definition no_bytes :: "int list \<Rightarrow> int list" where "no_bytes b = []"

definition a_creation :: "create_environment" where
  "a_creation = \<lparr>ce'_sha256 = no_bytes, ce'_ready = True, ce'_retention = 0, ce'_now = 0, ce'_uploads = Inr (),
     ce'_request_id = lit ''r'', ce'_new_thread = a_thread, ce'_run = lit ''legacy'', ce'_io = Written, ce'_binds = True,
     ce'_cancel = an_emission\<rparr>"

lemma stable_begins:
  "release_channel s = lit ''stable'' \<Longrightarrow> \<not> release_rollback s \<Longrightarrow> \<not> draining r \<Longrightarrow>
   \<exists>rt. begin_task sha256 s q r = Inr rt"
  by (simp add: begin_task_def release_snapshot_def Let_def lit_def)

lemma refused_creation_leaks_count_witness:
  "\<exists>s sv'. create_task s a_creation None \<lparr>cq_query = lit ''boots'', cq_thread_id = Some a_thread, cq_user_id = lit ''ann''\<rparr>
       (quiet\<lparr>sv_store := (sv_store quiet)\<lparr>tombstones := [(a_thread, Broken)]\<rparr>\<rparr>)
     = (Inl (Http 409 (lit ''task_deleted'')), sv') \<and> active_tasks (sv_runtime sv') = 2"
proof -
  obtain s0 where "from_env Map.empty = Inr s0" using default_settings by blast
  let ?s = "s0\<lparr>auth_enabled := False, release_channel := lit ''stable'', release_rollback := False\<rparr>"
  let ?sv = "quiet\<lparr>sv_store := (sv_store quiet)\<lparr>tombstones := [(a_thread, Broken)]\<rparr>\<rparr>"
  have "deleted a_thread ?sv" by (simp add: deleted_def task_is_deleted_iff)
  moreover obtain rt where "begin_task no_bytes ?s (lit ''r'') (sv_runtime ?sv) = Inr rt"
    using stable_begins [of ?s "sv_runtime ?sv" no_bytes "lit ''r''"] by (auto simp: quiet_def)
  moreover have "request_principal ?s None (Some (lit ''ann'')) = Inr (Some \<lparr>pr_user_id = lit ''ann'', pr_tenant_id = DEFAULT_TENANT\<rparr>)"
    by (simp add: request_principal_def given_def lit_def)
  ultimately show ?thesis
    using refused_creation_leaks_count [of ?s None "\<lparr>cq_query = lit ''boots'', cq_thread_id = Some a_thread, cq_user_id = lit ''ann''\<rparr>"
        _ a_creation ?sv rt a_thread]
    by (fastforce simp: a_creation_def a_thread_def lit_def quiet_def)
qed

theorem creation_takes_over_foreign_task_witness:
  "\<exists>s sv' s'. auth_enabled s
     \<and> create_task s a_creation (Some \<lparr>pr_user_id = lit ''bob'', pr_tenant_id = DEFAULT_TENANT\<rparr>)
         \<lparr>cq_query = lit ''hats'', cq_thread_id = Some a_thread, cq_user_id = lit ''bob''\<rparr>
         (serving (on_disk [] asked) [] False) = (Inr a_thread, sv')
     \<and> read_persisted_snapshot a_thread (sv_store sv') = Some s' \<and> tk_user_id s' = lit ''bob''"
proof -
  obtain s0 where "from_env Map.empty = Inr s0" using default_settings by blast
  let ?s = "s0\<lparr>auth_enabled := True, release_channel := lit ''stable'', release_rollback := False\<rparr>"
  let ?bob = "\<lparr>pr_user_id = lit ''bob'', pr_tenant_id = DEFAULT_TENANT\<rparr>" and ?sv = "serving (on_disk [] asked) [] False"
  let ?q = "\<lparr>cq_query = lit ''hats'', cq_thread_id = Some a_thread, cq_user_id = lit ''bob''\<rparr>"
  obtain rt where "begin_task no_bytes ?s (lit ''r'') (sv_runtime ?sv) = Inr rt"
    using stable_begins [of ?s "sv_runtime ?sv" no_bytes "lit ''r''"] by auto
  moreover have "read_persisted_snapshot a_thread (on_disk [] asked) = Some asked"
    using tokens sample_snapshots(2) unfolding good_snapshot_def by (simp add: read_persisted_iff)
  moreover have "request_principal ?s (Some ?bob) (Some (lit ''bob'')) = Inr (Some ?bob)" by (simp add: request_principal_def)
  moreover have "foreign (Some ?bob) asked" by (simp add: foreign_def lit_def)
  ultimately obtain sv' s' where "create_task ?s a_creation (Some ?bob) ?q ?sv = (Inr a_thread, sv')"
      "read_persisted_snapshot a_thread (sv_store sv') = Some s'" "tk_user_id s' = lit ''bob''"
    using creation_takes_over_foreign_task [of ?s "Some ?bob" ?q "Some ?bob" a_creation ?sv rt a_thread asked]
    by (auto simp: a_creation_def terminal_status_def a_thread_def lit_def)
  then show ?thesis by (intro exI [of _ ?s]) auto
qed

definition a_clarification :: clarify_environment where
  "a_clarification = \<lparr>cl_sha256 = no_bytes, cl_emission = an_emission, cl_delivers = True\<rparr>"

definition waiting :: "(pystr \<times> task_record) list \<Rightarrow> server" where
  "waiting rs = serving (on_disk rs asked) [] True"

lemma asked_resolves:
  "\<exists>es sv'. emit an_emission a_thread ClarificationResolved (resolved_text ClarifyMode)
     (DResolved \<lparr>ca'_field = ClarifyMode, ca'_reason_code = BecauseModeAmbiguous, ca'_response = lit ''x'',
        ca'_resolved_value = Some (lit ''x'')\<rparr>) (lit ''legacy'') True (waiting [(a_thread, a_record 0 None asked)]) = (Inr es, sv')
     \<and> sv_runtime sv' = \<lparr>draining = True, active_tasks = 1, idle_events = Map.empty\<rparr>"
proof -
  let ?a = "\<lparr>ca'_field = ClarifyMode, ca'_reason_code = BecauseModeAmbiguous, ca'_response = lit ''x'',
        ca'_resolved_value = Some (lit ''x'')\<rparr>"
  have v: "valid_answer ?a" by (simp add: valid_answer_def lit_def)
  have f: "tk_events asked = [required]" "tk_data_mode asked = Live" "me_sequence required = 1"
    by (simp_all add: asked_def required_def fresh_def new_snapshot_def)
  have io: "em_io an_emission = Written" by (simp add: an_emission_def)
  obtain e where e: "make_event (em_event_id an_emission) a_thread (lit ''legacy'') (previous_sequence asked + 1) ClarificationResolved
      (resolved_text ClarifyMode) (DResolved ?a) Live (em_timestamp an_emission) = Some e" "me_data e = DResolved ?a"
    using tokens v f by (simp add: make_event_def typed_event_data_def event_of_data_def valid_event_data_def previous_sequence_def)
  show ?thesis
    using e f io by (simp add: emit_def record_event_def waiting_def persist_snapshot_def)
qed

theorem refused_resume_strands_task_witness:
  "\<exists>s e sv'. resume s a_clarification a_thread \<lparr>cp_field = ClarifyMode, cp_reason_code = BecauseModeAmbiguous, cp_question = lit ''which''\<rparr>
       (lit ''x'') (lit ''x'') (a_record 0 None asked) False (waiting [(a_thread, a_record 0 None asked)]) = (Inl (Http 503 e), sv')"
proof -
  obtain s0 where "from_env Map.empty = Inr s0" using default_settings by blast
  let ?s = "s0\<lparr>auth_enabled := False\<rparr>"
  let ?sv = "waiting [(a_thread, a_record 0 None asked)]"
  obtain es sv1 where e: "emit an_emission a_thread ClarificationResolved (resolved_text ClarifyMode)
     (DResolved \<lparr>ca'_field = ClarifyMode, ca'_reason_code = BecauseModeAmbiguous, ca'_response = lit ''x'',
        ca'_resolved_value = Some (lit ''x'')\<rparr>) (lit ''legacy'') True ?sv = (Inr es, sv1)"
      "sv_runtime sv1 = \<lparr>draining = True, active_tasks = 1, idle_events = Map.empty\<rparr>"
    using asked_resolves by blast
  obtain x where "begin_task no_bytes ?s (lit ''legacy'') (sv_runtime sv1) = Inl x"
    by (cases "begin_task no_bytes ?s (lit ''legacy'') (sv_runtime sv1)")
      (auto simp: begin_task_def e(2) release_snapshot_def Let_def split: if_splits)
  moreover have "good_store (sv_store ?sv)" using sound_on_disk [of asked "[(a_thread, a_record 0 None asked)]"]
    by (auto simp: waiting_def sound_def)
  moreover have "authorize_snapshot ?s None None asked = Inr None"
    by (simp add: authorize_snapshot_def authorize_def request_principal_def given_def)
  ultimately show ?thesis
    using refused_resume_strands_task [of ?sv a_thread "a_record 0 None asked" a_clarification
        "\<lparr>cp_field = ClarifyMode, cp_reason_code = BecauseModeAmbiguous, cp_question = lit ''which''\<rparr>" "lit ''x''" "lit ''x''" es sv1 ?s]
      e tokens
    by (fastforce simp: a_clarification_def waiting_def task_done_def request_task_def)
qed

lemma refused_cancel_keeps_lock_witness:
  "\<exists>s e sv' h. auth_enabled s \<and> cancel_task s an_emission an_emission True None a_thread (waiting []) = (Inl e, sv')
     \<and> map_of (sv_locks sv') a_thread = Some h"
proof -
  obtain s0 where "from_env Map.empty = Inr s0" using default_settings by blast
  let ?s = "s0\<lparr>auth_enabled := True\<rparr>"
  have "read_persisted_snapshot a_thread (on_disk [] asked) = Some asked"
    using tokens sample_snapshots(2) unfolding good_snapshot_def by (simp add: read_persisted_iff)
  then show ?thesis
    using refused_cancel_keeps_lock [of ?s a_thread "waiting []" asked None an_emission an_emission True] tokens
    by (intro exI [of _ ?s]) (auto simp: waiting_def foreign_def)
qed

definition a_plan :: shopping_plan where
  "a_plan = \<lparr>sp_mode = ModeProductResearch, sp_budget_cny = None, sp_category = lit ''boots'', sp_material_preferences = [],
     sp_style_preferences = [], sp_hard_constraints = [], sp_soft_preferences = [], sp_destination = lit ''CN'',
     sp_ranking_profile = default_ranking_profile, sp_working_assumptions = [], sp_source = SrcComputed\<rparr>"

definition a_parent :: task_snapshot where
  "a_parent = fresh\<lparr>tk_resolved_intent := Some a_plan\<rparr>"

definition a_rerun :: child_environment where
  "a_rerun = \<lparr>ch_sha256 = no_bytes, ch_thread = lit ''thread-2'', ch_run = lit ''run'', ch_now = 1, ch_io = Written,
     ch_clones = True, ch_loads = (\<lambda>_. an_emission), ch_key = lit ''key''\<rparr>"

definition idle_server :: server where
  "idle_server = serving \<lparr>records = [], directories = [], tombstones = []\<rparr> [] False"

lemma first_rerun:
  assumes "release_channel s = lit ''stable''" "\<not> release_rollback s"
  shows "\<exists>first sv1. child_command s a_rerun (lit ''ann'') ByRerun (\<lambda>_. Inr []) a_parent idle_server = (Inr first, sv1)
     \<and> \<not> re_idempotent first"
proof -
  have "find_idempotent_child (ch_loads a_rerun) (snapshot_key a_parent) (ch_key a_rerun) ByRerun (lit ''ann'')
      (tk_tenant_id a_parent) idle_server = (Inr None, idle_server)"
    by (simp add: find_idempotent_child_def history_snapshots_def idle_server_def live_snapshots_def)
  moreover obtain rt where "begin_task no_bytes s (lit ''run'') \<lparr>draining = False, active_tasks = 1, idle_events = Map.empty\<rparr> = Inr rt"
    using stable_begins [OF assms] by fastforce
  ultimately show ?thesis
    by (simp add: child_command_def start_child_task_def a_parent_def try_acquire_owner_lock_def idle_server_def
        persist_snapshot_def task_is_deleted_iff spawn_def Let_def a_rerun_def)
qed


end
