(* ===== verification/LandedCost.thy ===== *)
theory LandedCost
  imports Clarification
begin

text \<open>
  From an offer to what it costs in China: \<open>app/tools/price_compare.py\<close> (prices in CNY),
  \<open>app/tools/import_tax.py\<close> (taxes from customs evidence) and \<open>app/tools/shipping_calc.py\<close> (landed
  cost). Amounts are floats on the outside and 28-digit decimals inside, as the code has them; a
  \<open>quantize\<close> that needs more digits raises. The time of the calculation and the text of a
  timestamp (\<open>stamp\<close>) are arguments.
\<close>

section \<open>Money\<close>

datatype money_error =
    InvalidOperation | ValidationFailed | BadBaseCurrency | MissingExchangeRates "pystr list"
  | UnsupportedDestination pystr

definition cent :: "rat \<Rightarrow> money_error + rat" where
  "cent d = (case quantize_cent d of None \<Rightarrow> Inl InvalidOperation | Some r \<Rightarrow> Inr r)"

definition money :: "rat \<Rightarrow> rat \<Rightarrow> money_error + rat" where
  \<comment> \<open>\<open>_money\<close> of an amount and the decimal of a rate\<close>
  "money amount rate = rbind (cent (dec (dec_of_float amount * rate))) (\<lambda>d. Inr (fl d))"

definition or_zero :: "rat option \<Rightarrow> rat" where
  "or_zero x = (case x of None \<Rightarrow> 0 | Some y \<Rightarrow> y)"

fun show_nat :: "nat \<Rightarrow> pystr" where
  "show_nat n = (if n < 10 then [48 + int n] else show_nat (n div 10) @ [48 + int (n mod 10)])"

declare show_nat.simps [simp del]

fun grouped :: "nat \<Rightarrow> pystr" where
  \<comment> \<open>decimal digits with a comma before each group of three\<close>
  "grouped n =
     (if n < 1000 then show_nat n
      else grouped (n div 1000) @ [44, 48 + int (n div 100 mod 10), 48 + int (n div 10 mod 10), 48 + int (n mod 10)])"

declare grouped.simps [simp del]

definition two_places :: "(nat \<Rightarrow> pystr) \<Rightarrow> rat \<Rightarrow> pystr" where
  \<comment> \<open>\<open>:.2f\<close>, or \<open>:,.2f\<close> with \<open>grouped\<close>\<close>
  "two_places whole x =
     (let n = round_half_even (\<bar>x\<bar> * 100)
      in (if x < 0 then [45] else []) @ whole (nat (n div 100)) @ [46, 48 + n div 10 mod 10, 48 + n mod 10])"

section \<open>Import tax\<close>

record tax_parts =
  tp_customs_value :: rat
  tp_tariff :: "rat option"
  tp_import_vat :: "rat option"
  tp_consumption :: "rat option"
  tp_before_exemption :: "rat option"
  tp_exemption :: rat
  tp_exemption_reason :: "pystr option"
  tp_policy_factor :: rat
  tp_method :: tax_method
  tp_basis :: pystr
  tp_total :: rat

definition customs_value :: "customs_tax_evidence \<Rightarrow> rat \<Rightarrow> rat \<Rightarrow> money_error + rat" where
  "customs_value e price shipping =
     cent (case ct_valuation e of
             Some v \<Rightarrow> dec_of_float (cv_customs_value_cny v)
           | None \<Rightarrow> dec (dec (dec_of_float price + dec_of_float shipping) + dec_of_float (ct_insurance_cny e)))"

definition CBEC_POLICY_FACTOR :: rat where "CBEC_POLICY_FACTOR = 7 / 10"

definition STATUTORY_BASIS :: pystr where
  "STATUTORY_BASIS = 
     [23436, 31246, 20215, 26684, 61, 21830, 21697, 20215, 43, 22269, 38469, 36816, 36153, 43, 20445,
      38505, 36153, 65307, 20851, 31246, 61, 23436, 31246, 20215, 26684, 215, 36866, 29992, 31246,
      29575, 65307, 28040, 36153, 31246, 61, 65288, 23436, 31246, 20215, 26684, 43, 20851, 31246,
      65289, 247, 65288, 49, 45, 28040, 36153, 31246, 29575, 65289, 215, 28040, 36153, 31246, 29575,
      65307, 36827, 21475, 22686, 20540, 31246, 61, 65288, 23436, 31246, 20215, 26684, 43, 20851,
      31246, 43, 28040, 36153, 31246, 65289, 215, 22686, 20540, 31246, 29575]"

definition CROSS_BORDER_BASIS :: pystr where
  "CROSS_BORDER_BASIS = 
     [22312, 25968, 25454, 36890, 36947, 26126, 30830, 30830, 35748, 28165, 21333, 19982, 39069,
      24230, 36164, 26684, 21518, 65292, 20851, 31246, 31246, 29575, 26242, 35774, 20026, 48, 37,
      65307, 36827, 21475, 29615, 33410, 22686, 20540, 31246, 12289, 28040, 36153, 31246, 25353,
      27861, 23450, 24212, 32435, 31246, 39069, 30340, 55, 48, 37, 24449, 25910, 65307, 23436, 31246,
      20215, 26684, 21253, 21547, 21830, 21697, 38646, 21806, 20215, 12289, 36816, 36153, 21644,
      20445, 38505, 36153]"

definition QUOTE_BASIS :: pystr where
  "QUOTE_BASIS = 
     [20351, 29992, 25968, 25454, 36890, 36947, 36820, 22238, 30340, 21334, 23478, 47, 32467, 31639,
      39029, 24050, 20195, 25910, 36827, 21475, 31246, 36153, 25253, 20215, 65292, 19981, 25286,
      20998, 31246, 31181]"

definition general_trade_tax :: "customs_tax_evidence \<Rightarrow> rat \<Rightarrow> money_error + tax_parts" where
  "general_trade_tax e value =
     (let c = dec_of_float (ct_consumption_tax_rate e)
      in rbind (cent (dec (value * dec_of_float (or_zero (ct_tariff_rate e))))) (\<lambda>tariff.
         rbind (cent (dec (dec (dec (value + tariff) / dec (1 - c)) * c))) (\<lambda>consumption.
         rbind (cent (dec (dec (dec (value + tariff) + consumption) * dec_of_float (or_zero (ct_import_vat_rate e))))) (\<lambda>vat.
         Inr \<lparr>tp_customs_value = value, tp_tariff = Some tariff, tp_import_vat = Some vat, tp_consumption = Some consumption,
              tp_before_exemption = None, tp_exemption = 0, tp_exemption_reason = None, tp_policy_factor = 1,
              tp_method = MethodStatutoryFormula, tp_basis = STATUTORY_BASIS,
              tp_total = dec (dec (tariff + consumption) + vat)\<rparr>))))"

definition cross_border_tax :: "customs_tax_evidence \<Rightarrow> rat \<Rightarrow> money_error + tax_parts" where
  "cross_border_tax e value =
     (let c = dec_of_float (ct_consumption_tax_rate e);
          base = dec (value / dec (1 - c))
      in rbind (cent (dec (dec (base * c) * CBEC_POLICY_FACTOR))) (\<lambda>consumption.
         rbind (cent (dec (dec (base * dec_of_float (or_zero (ct_import_vat_rate e))) * CBEC_POLICY_FACTOR))) (\<lambda>vat.
         Inr \<lparr>tp_customs_value = value, tp_tariff = Some 0, tp_import_vat = Some vat, tp_consumption = Some consumption,
              tp_before_exemption = None, tp_exemption = 0, tp_exemption_reason = None,
              tp_policy_factor = CBEC_POLICY_FACTOR, tp_method = MethodCrossBorderPolicy, tp_basis = CROSS_BORDER_BASIS,
              tp_total = dec (dec (0 + consumption) + vat)\<rparr>)))"

definition personal_postal_tax :: "customs_tax_evidence \<Rightarrow> money_error + tax_parts" where
  "personal_postal_tax e =
     rbind (cent (dec_of_float (or_zero (ct_personal_postal_assessed_value_cny e)))) (\<lambda>value.
     rbind (cent (dec (value * dec_of_float (or_zero (ct_personal_postal_tax_rate e))))) (\<lambda>before.
     rbind (cent (dec_of_float (or_zero (ct_personal_postal_tax_exemption_threshold_cny e)))) (\<lambda>threshold.
     let text = two_places grouped threshold; exempt = before \<le> threshold
     in Inr \<lparr>tp_customs_value = value, tp_tariff = None, tp_import_vat = None, tp_consumption = None,
             tp_before_exemption = Some before, tp_exemption = (if exempt then before else 0),
             tp_exemption_reason = (if exempt then Some (
     [20010, 20154, 23492, 36882, 29289, 21697, 24212, 24449, 31246, 39069, 19981, 36229, 36807, 32,
      165] @ text @ [65292, 20813, 31246, 25918, 34892]) else None),
             tp_policy_factor = 1, tp_method = MethodPersonalPostalRate,
             tp_basis = 
     [28023, 20851, 26680, 23450, 35745, 31246, 20215, 26684, 215, 25968, 25454, 36890, 36947, 25353,
      29289, 21697, 20998, 31867, 36820, 22238, 30340, 32508, 21512, 31246, 29575, 65307, 24212,
      24449, 31246, 39069, 19981, 36229, 36807, 165] @ text @ [26102, 20813, 31246],
             tp_total = (if exempt then 0 else before)\<rparr>)))"

definition seller_collected_tax :: "customs_tax_evidence \<Rightarrow> rat \<Rightarrow> money_error + tax_parts" where
  "seller_collected_tax e value =
     rbind (cent (dec_of_float (or_zero (ct_seller_collected_tax_cny e)))) (\<lambda>total.
     Inr \<lparr>tp_customs_value = value, tp_tariff = None, tp_import_vat = None, tp_consumption = None,
          tp_before_exemption = None, tp_exemption = 0, tp_exemption_reason = None, tp_policy_factor = 1,
          tp_method = MethodProviderQuote, tp_basis = QUOTE_BASIS, tp_total = total\<rparr>)"

definition tax_parts_of :: "customs_tax_evidence \<Rightarrow> rat \<Rightarrow> rat \<Rightarrow> money_error + tax_parts" where
  "tax_parts_of e price shipping =
     rbind (customs_value e price shipping)
       (\<lambda>value. case ct_import_regime e of
          RegimeGeneralTrade \<Rightarrow> general_trade_tax e value
        | RegimeCrossBorderEcommerce \<Rightarrow> cross_border_tax e value
        | RegimePersonalPostal \<Rightarrow> personal_postal_tax e
        | RegimeSellerCollected \<Rightarrow> seller_collected_tax e value)"

definition tax_breakdown :: "customs_tax_evidence \<Rightarrow> tax_parts \<Rightarrow> rat \<Rightarrow> import_tax_breakdown" where
  "tax_breakdown e p due =
     \<lparr>tb_import_regime = ct_import_regime e, tb_calculation_method = tp_method p, tb_hs_code = ct_hs_code e,
      tb_country_of_origin = ct_country_of_origin e, tb_destination_country = ct_destination_country e,
      tb_customs_value_cny = fl (tp_customs_value p), tb_customs_valuation = ct_valuation e,
      tb_rate_type = ct_rate_type e, tb_tariff_rate = ct_tariff_rate e, tb_import_vat_rate = ct_import_vat_rate e,
      tb_consumption_tax_rate = Some (ct_consumption_tax_rate e),
      tb_personal_postal_tax_rate = ct_personal_postal_tax_rate e,
      tb_personal_postal_assessed_value_cny = ct_personal_postal_assessed_value_cny e,
      tb_personal_postal_total_value_cny = ct_personal_postal_total_value_cny e,
      tb_personal_postal_value_limit_cny = ct_personal_postal_value_limit_cny e,
      tb_personal_postal_tax_exemption_threshold_cny = ct_personal_postal_tax_exemption_threshold_cny e,
      tb_personal_postal_single_indivisible_item = ct_personal_postal_single_indivisible_item e,
      tb_policy_factor = fl (tp_policy_factor p), tb_tariff_cny = map_option fl (tp_tariff p),
      tb_import_vat_cny = map_option fl (tp_import_vat p), tb_consumption_tax_cny = map_option fl (tp_consumption p),
      tb_tax_before_exemption_cny = map_option fl (tp_before_exemption p), tb_tax_exemption_cny = fl (tp_exemption p),
      tb_tax_exemption_reason = tp_exemption_reason p, tb_total_import_tax_cny = fl due,
      tb_provider = ct_provider e, tb_source_reference = ct_source_reference e,
      tb_effective_date = ct_effective_date e, tb_calculation_basis = tp_basis p\<rparr>"

definition calculate_import_tax :: "customs_tax_evidence \<Rightarrow> rat \<Rightarrow> rat \<Rightarrow> money_error + import_tax_breakdown" where
  "calculate_import_tax e price shipping =
     rbind (tax_parts_of e price shipping) (\<lambda>p.
     rbind (cent (tp_total p)) (\<lambda>total.
     let r = tax_breakdown e p total
     in if fields_import_tax_breakdown r then Inr r else Inl ValidationFailed))"

section \<open>Prices in CNY\<close>

datatype price_verdict = Priced price_point | NotPriced calculation_exclusion

definition currency_of :: "candidate \<Rightarrow> pystr" where
  "currency_of c = (let s = py_upper (py_strip (ca_currency c)) in if s = [] then lit ''UNKNOWN'' else s)"

definition expired :: "rat \<Rightarrow> rat option \<Rightarrow> bool" where
  "expired now expires = (case expires of None \<Rightarrow> False | Some t \<Rightarrow> t \<le> now)"

definition fx_rate :: "(rat \<Rightarrow> pystr) \<Rightarrow> rat \<Rightarrow> pystr \<Rightarrow> candidate \<Rightarrow> (calculation_exclusion_reason \<times> pystr) + rat" where
  \<comment> \<open>the rate of a candidate in another currency, or why it has none\<close>
  "fx_rate stamp now currency c =
     (case ca_price_conversion c of
        None \<Rightarrow> Inl (ExclMissingFxEvidence, 
     [25968, 25454, 36890, 36947, 26410, 25552, 20379, 24102, 26469, 28304, 21644, 35266, 27979,
      26102, 38388, 30340, 20154, 27665, 24065, 25442, 31639, 25253, 20215, 65292, 24050, 25490,
      38500, 35745, 31639, 21644, 25490, 24207, 12290])
      | Some q \<Rightarrow>
          if ca_source c = SrcLive \<and> cc_expires_at q = None then
            Inl (ExclInvalidFxEvidence, 
     [32447, 19978, 20154, 27665, 24065, 25442, 31639, 25253, 20215, 26410, 25552, 20379, 26377,
      25928, 26399, 65292, 24050, 25490, 38500, 35745, 31639, 21644, 25490, 24207, 12290])
          else if cc_source_currency q \<noteq> currency then
            Inl (ExclInvalidFxEvidence, [25442, 31639, 25253, 20215, 28304, 24065, 31181, 20026, 32] @ cc_source_currency q @ [65292, 19982, 21830, 21697, 24065, 31181, 32] @ currency
              @ [32, 19981, 19968, 33268, 65292, 24050, 25490, 38500, 35745, 31639, 21644, 25490, 24207, 12290])
          else if expired now (cc_expires_at q) then
            Inl (ExclInvalidFxEvidence, 
     [20154, 27665, 24065, 25442, 31639, 25253, 20215, 24050, 36807, 26399, 65288, 26377, 25928,
      26399, 33267, 32] @ stamp (the (cc_expires_at q)) @ [65289, 65292, 24050, 25490, 38500, 35745, 31639, 21644, 25490, 24207, 12290])
          else Inr (cc_rate_to_cny q))"

definition exclusion :: "candidate \<Rightarrow> pystr \<Rightarrow> calculation_exclusion_reason \<Rightarrow> pystr \<Rightarrow> calculation_exclusion" where
  "exclusion c currency code reason =
     \<lparr>ce_item_id = ca_item_id c, ce_platform = ca_platform c, ce_title = ca_title c, ce_currency = currency,
      ce_amount = Some (ca_price c), ce_reason_code = code, ce_reason = reason\<rparr>"

definition point_of :: "candidate \<Rightarrow> pystr \<Rightarrow> rat \<Rightarrow> price_point" where
  "point_of c currency cny =
     \<lparr>pp_item_id = ca_item_id c, pp_platform = ca_platform c, pp_title = ca_title c, pp_price = ca_price c,
      pp_currency = currency, pp_price_cny = cny, pp_rating = ca_rating c, pp_sales = ca_sales c,
      pp_image_url = ca_image_url c, pp_product_url = ca_product_url c, pp_attributes = ca_attributes c,
      pp_source = ca_source c, pp_note = None, pp_marketplace = ca_marketplace c, pp_offer_id = ca_offer_id c,
      pp_identity = ca_identity c, pp_variant_attributes = ca_variant_attributes c, pp_availability = ca_availability c,
      pp_retrieved_at = ca_retrieved_at c, pp_provenance = ca_provenance c, pp_link_kind = ca_link_kind c,
      pp_identity_evidence = ca_identity_evidence c,
      pp_price_conversion = (if currency \<noteq> CNY then ca_price_conversion c else None),
      pp_shipping_quote = ca_shipping_quote c, pp_customs = ca_customs c\<rparr>"

definition price_of :: "(rat \<Rightarrow> pystr) \<Rightarrow> rat \<Rightarrow> candidate \<Rightarrow> money_error + price_verdict" where
  \<comment> \<open>one turn of the loop over the candidates\<close>
  "price_of stamp now c =
     (let currency = currency_of c;
          excluded = (\<lambda>code reason. let x = exclusion c currency code reason
                        in if fields_calculation_exclusion x then Inr (NotPriced x) else Inl ValidationFailed)
      in if ca_price c < 0 then excluded ExclInvalidAmount 
     [21830, 21697, 21407, 22987, 37329, 39069, 19981, 26159, 26377, 38480, 30340, 38750, 36127,
      25968, 65292, 24050, 25490, 38500, 35745, 31639, 21644, 25490, 24207, 12290]
         else case (if currency = CNY then Inr 1 else fx_rate stamp now currency c) of
           Inl (code, reason) \<Rightarrow> excluded code reason
         | Inr rate \<Rightarrow>
             rbind (money (ca_price c) (dec_of_float rate)) (\<lambda>cny.
             case normalize_point_marketplace (point_of c currency cny) of
               None \<Rightarrow> Inl ValidationFailed
             | Some p \<Rightarrow> Inr (Priced p)))"

definition priced :: "price_verdict list \<Rightarrow> price_point list" where
  "priced vs = concat (map (\<lambda>v. case v of Priced p \<Rightarrow> [p] | NotPriced x \<Rightarrow> []) vs)"

definition not_priced :: "price_verdict list \<Rightarrow> calculation_exclusion list" where
  "not_priced vs = concat (map (\<lambda>v. case v of Priced p \<Rightarrow> [] | NotPriced x \<Rightarrow> [x]) vs)"

definition price_key :: "price_point \<Rightarrow> rat \<times> platform \<times> pystr" where
  "price_key p = (pp_price_cny p, pp_platform p, pp_item_id p)"

definition cheapest_per_platform :: "price_point list \<Rightarrow> (pystr \<times> price_point) list" where
  "cheapest_per_platform ps =
     fold (\<lambda>p d. if map_of d (platform_name (pp_platform p)) = None then d @ [(platform_name (pp_platform p), p)] else d) ps []"

definition SETTLEMENT_NOTICE :: pystr where
  "SETTLEMENT_NOTICE = 
     [20154, 27665, 24065, 37329, 39069, 20165, 29992, 20110, 30740, 31350, 26102, 28857, 27604,
      20215, 65307, 26368, 32456, 25903, 20184, 37329, 39069, 20197, 32467, 31639, 39029, 12289,
      21457, 21345, 34892, 25110, 25903, 20184, 26426, 26500, 30340, 23454, 38469, 27719, 29575,
      12289, 36153, 29992, 21644, 21160, 24577, 36135, 24065, 36716, 25442, 36873, 25321, 20026,
      20934, 12290]"

definition price_compare ::
  "(rat \<Rightarrow> pystr) \<Rightarrow> rat \<Rightarrow> pystr \<Rightarrow> int \<Rightarrow> candidate list \<Rightarrow> money_error + price_compare_output" where
  "price_compare stamp now base limit candidates =
     (if base \<noteq> CNY then Inl BadBaseCurrency
      else rbind (mapM_r (price_of stamp now) (take 100 candidates)) (\<lambda>vs.
        let ranked = priced vs; exclusions = not_priced vs;
            fx = filter (\<lambda>x. ce_reason_code x \<noteq> ExclInvalidAmount) exclusions;
            currencies = sort (dict_fromkeys (map ce_currency fx));
            valid = length ranked + length fx;
            all_ranked = sort_key price_key ranked;
            quotes = concat (map (\<lambda>p. if py_upper (pp_currency p) = CNY then []
                                      else case pp_price_conversion p of None \<Rightarrow> [] | Some q \<Rightarrow> [q]) all_ranked);
            source = (if quotes \<noteq> [] then lit ''offer-level-quotes'' else lit ''native-CNY'');
            as_of = (if quotes = [] then lit ''not-applicable'' else Max (set (map (\<lambda>q. stamp (cc_observed_at q)) quotes)))
        in if candidates \<noteq> [] \<and> ranked = [] \<and> 0 < valid \<and> length fx = valid
           then Inl (MissingExchangeRates currencies)
           else Inr \<lparr>pco_ranked = take (nat (max 1 (min limit 30))) all_ranked,
              pco_cheapest_per_platform = cheapest_per_platform all_ranked,
              pco_rate_source = source, pco_rates_as_of = as_of,
              pco_exchange_rate = \<lparr>xr_source = source, xr_effective_date = as_of,
                xr_calculation_basis = lit ''original_amount * rate_to_cny'',
                xr_providers = sort (dict_fromkeys (map cc_provider quotes)), xr_quote_count = int (length quotes),
                xr_settlement_notice = SETTLEMENT_NOTICE\<rparr>,
              pco_excluded_currencies = currencies, pco_calculation_exclusions = exclusions\<rparr>))"

section \<open>Landed cost\<close>

definition disclosure :: "bool \<Rightarrow> pystr \<Rightarrow> pystr \<Rightarrow> estimate_disclosure" where
  "disclosure estimated source basis = \<lparr>ed_estimated = estimated, ed_source = source, ed_calculation_basis = basis\<rparr>"

fun gap_label :: "cost_gap \<Rightarrow> pystr" where
  "gap_label GapShippingQuote = [36816, 36153, 25253, 20215]"
| "gap_label GapCustomsEvidence = [31246, 21153, 35777, 25454]"
| "gap_label GapCustomsValuation = [28023, 20851, 20272, 20540]"

fun joined :: "pystr \<Rightarrow> pystr list \<Rightarrow> pystr" where
  "joined sep [] = []"
| "joined sep [x] = x"
| "joined sep (x # y # ys) = x @ sep @ joined sep (y # ys)"

definition product_price_only_cost :: "price_point \<Rightarrow> cost_gap list \<Rightarrow> landed_cost" where
  "product_price_only_cost item gaps =
     (let pending = (\<lambda>basis. disclosure False [24453, 34917, 20805] basis);
          tax_basis = 
     [26410, 25910, 21040, 21487, 26680, 39564, 30340, 32, 72, 83, 32, 67, 111, 100, 101, 12289,
      21407, 20135, 22320, 25110, 31246, 29575, 20272, 20540, 35777, 25454, 12290]
      in price_point.extend
           (item\<lparr>pp_note := Some ([24403, 21069, 20165, 25353, 20154, 27665, 24065, 21830, 21697, 20215, 25490, 24207, 65307] @ joined [12289] (map gap_label gaps) @ [24453, 34917, 20805, 65292, 19981, 26159, 26368, 32456, 21040, 25163, 20215, 12290])\<rparr>)
           (landed_cost.fields 0 0 None None None None (pp_price_cny item) 999 TierPending
              (pending 
     [26410, 25910, 21040, 38754, 21521, 20013, 22269, 22823, 38470, 30340, 32447, 36335, 47, 26381,
      21153, 36816, 36153, 25253, 20215, 12290]) (pending tax_basis) (pending tax_basis)
              (pending 
     [26410, 25910, 21040, 38754, 21521, 20013, 22269, 22823, 38470, 30340, 37197, 36865, 26102,
      25928, 25253, 20215, 12290]) None CostProductPriceOnly gaps))"

definition show_int :: "int \<Rightarrow> pystr" where
  "show_int i = (if i < 0 then 45 # show_nat (nat (- i)) else show_nat (nat i))"

definition shipping_basis :: "shipping_quote_evidence \<Rightarrow> pystr" where
  "shipping_basis q =
     (let amount = (\<lambda>x. sq_currency q @ [32] @ two_places show_nat x)
      in joined [65307]
           ([sq_service_name q @ [32, 25253, 20215, 32] @ amount (sq_total_amount q)]
            @ (case sq_base_amount q of None \<Rightarrow> []
               | Some b \<Rightarrow> [[22522, 30784, 36816, 36153, 32] @ amount b, [38468, 21152, 36153, 32] @ amount (sq_surcharge_amount q), [20248, 24800, 32] @ amount (sq_discount_amount q)])
            @ (case sq_chargeable_weight_kg q of None \<Rightarrow> [] | Some w \<Rightarrow> [[35745, 36153, 37325, 37327, 32] @ two_places show_nat w @ lit ''kg''])
            @ (case sq_dimensional_weight_kg q of None \<Rightarrow> [] | Some w \<Rightarrow> [[20307, 31215, 37325, 37327, 32] @ two_places show_nat w @ lit ''kg''])
            @ [[26102, 25928, 32] @ show_int (sq_eta_min_days q) @ [45] @ show_int (sq_eta_max_days q) @ [32, 22825]]))"

datatype cost_verdict =
    Landed landed_cost
  | NoShipping shipping_calculation_exclusion
  | NoTax tax_calculation_exclusion

definition no_shipping :: "price_point \<Rightarrow> shipping_exclusion_reason \<Rightarrow> pystr \<Rightarrow> cost_verdict" where
  "no_shipping p code reason =
     NoShipping \<lparr>sx_item_id = pp_item_id p, sx_platform = pp_platform p, sx_title = pp_title p, sx_reason_code = code,
       sx_reason = reason\<rparr>"

definition no_tax :: "price_point \<Rightarrow> tax_exclusion_reason \<Rightarrow> pystr \<Rightarrow> cost_verdict" where
  "no_tax p code reason =
     NoTax \<lparr>tx_item_id = pp_item_id p, tx_platform = pp_platform p, tx_title = pp_title p, tx_reason_code = code,
       tx_reason = reason\<rparr>"

definition shipping_exclusion :: "(rat \<Rightarrow> pystr) \<Rightarrow> rat \<Rightarrow> price_point \<Rightarrow> shipping_quote_evidence \<Rightarrow> cost_verdict option" where
  \<comment> \<open>why a quote cannot be used\<close>
  "shipping_exclusion stamp now p q =
     (if pp_source p = SrcLive \<and> sq_expires_at q = None
      then Some (no_shipping p ShipInvalidShippingQuote 
     [32447, 19978, 36816, 36153, 25253, 20215, 26410, 25552, 20379, 26377, 25928, 26399, 65292,
      26080, 27861, 21442, 19982, 21040, 25163, 20215, 25490, 24207, 12290])
      else if expired now (sq_expires_at q)
      then Some (no_shipping p ShipExpiredShippingQuote
             ([36816, 36153, 25253, 20215, 24050, 36807, 26399, 65288, 26377, 25928, 26399, 33267, 32] @ stamp (the (sq_expires_at q)) @ [65289, 65292, 26080, 27861, 21442, 19982, 21040, 25163, 20215, 25490, 24207, 12290]))
      else case sq_currency_conversion q of
        None \<Rightarrow> None
      | Some c \<Rightarrow>
          if pp_source p = SrcLive \<and> cc_expires_at c = None
          then Some (no_shipping p ShipInvalidShippingQuote 
     [32447, 19978, 22806, 24065, 36816, 36153, 25253, 20215, 30340, 20154, 27665, 24065, 25442,
      31639, 35777, 25454, 26410, 25552, 20379, 26377, 25928, 26399, 65292, 26080, 27861, 21442,
      19982, 21040, 25163, 20215, 25490, 24207, 12290])
          else if expired now (cc_expires_at c)
          then Some (no_shipping p ShipInvalidShippingQuote 
     [36816, 36153, 25253, 20215, 25152, 29992, 30340, 20154, 27665, 24065, 25442, 31639, 35777,
      25454, 24050, 36807, 26399, 65292, 26080, 27861, 21442, 19982, 21040, 25163, 20215, 25490,
      24207, 12290])
          else None)"

definition duty_tier_of :: "import_tax_breakdown \<Rightarrow> duty_tier" where
  "duty_tier_of t =
     (let rate = (if tb_customs_value_cny t \<noteq> 0 then fl (tb_total_import_tax_cny t / tb_customs_value_cny t) else 0)
      in if tb_total_import_tax_cny t = 0 then TierExempt else if fl (1 / 5) \<le> rate then TierHigh else TierStandard)"

definition land ::
  "price_point \<Rightarrow> shipping_quote_evidence \<Rightarrow> customs_tax_evidence \<Rightarrow> rat \<Rightarrow> import_tax_breakdown \<Rightarrow> money_error + landed_cost" where
  "land p q e shipping t =
     rbind (money (fl (fl (fl (pp_price_cny p + shipping) + ct_insurance_cny e) + tb_total_import_tax_cny t)) 1) (\<lambda>total.
     Inr (price_point.extend p
       (landed_cost.fields shipping (ct_insurance_cny e) (tb_tariff_cny t) (tb_import_vat_cny t) (tb_consumption_tax_cny t)
          (Some (tb_total_import_tax_cny t)) total (sq_eta_max_days q) (duty_tier_of t)
          (disclosure True (sq_provider q) (shipping_basis q))
          (disclosure True (ct_provider e) (tb_calculation_basis t))
          (disclosure True (ct_provider e) (tb_calculation_basis t))
          (disclosure True (sq_provider q)
             (sq_service_name q @ [32, 25253, 20215, 26102, 25928, 32] @ show_int (sq_eta_min_days q) @ [45] @ show_int (sq_eta_max_days q)
              @ [32, 22825, 65307, 25490, 24207, 37319, 29992, 19978, 38480]))
          (Some t) CostComplete [])))"

definition cost_of :: "(rat \<Rightarrow> pystr) \<Rightarrow> rat \<Rightarrow> price_point \<Rightarrow> money_error + cost_verdict" where
  \<comment> \<open>one turn of the loop over the offers\<close>
  "cost_of stamp now p =
     (case pp_shipping_quote p of
        None \<Rightarrow> Inr (no_shipping p ShipMissingShippingQuote
                 
     [25968, 25454, 36890, 36947, 26410, 25552, 20379, 38754, 21521, 20013, 22269, 22823, 38470,
      12289, 21253, 21547, 36816, 36755, 26381, 21153, 21644, 26102, 25928, 30340, 36816, 36153,
      25253, 20215, 65292, 26080, 27861, 29983, 25104, 21487, 21442, 19982, 25490, 24207, 30340,
      21040, 25163, 20215, 12290])
      | Some q \<Rightarrow>
          (case shipping_exclusion stamp now p q of
             Some v \<Rightarrow> Inr v
           | None \<Rightarrow>
               rbind (money (sq_total_amount q)
                       (case sq_currency_conversion q of None \<Rightarrow> 1 | Some c \<Rightarrow> dec_of_float (cc_rate_to_cny c))) (\<lambda>shipping.
               case pp_customs p of
                 None \<Rightarrow> Inr (no_tax p TaxMissingCustomsEvidence
                   
     [25968, 25454, 36890, 36947, 26410, 25552, 20379, 32, 72, 83, 32, 67, 111, 100, 101, 12289,
      21407, 20135, 22320, 12289, 36827, 21475, 27169, 24335, 21450, 24102, 29983, 25928, 26085,
      26399, 30340, 31246, 29575, 35777, 25454, 65292, 26080, 27861, 29983, 25104, 21487, 21442,
      19982, 25490, 24207, 30340, 21040, 25163, 20215, 12290])
               | Some e \<Rightarrow>
                   if ct_import_regime e \<in> {RegimeGeneralTrade, RegimeCrossBorderEcommerce} \<and> ct_valuation e = None
                   then Inr (no_tax p TaxMissingCustomsValuation
                     
     [25968, 25454, 36890, 36947, 26410, 25552, 20379, 29420, 31435, 20110, 23458, 25143, 27604,
      20215, 27719, 29575, 30340, 28023, 20851, 26376, 24230, 27719, 29575, 19982, 32, 67, 73, 70, 32,
      23436, 31246, 20215, 26684, 26126, 32454, 65292, 26080, 27861, 29983, 25104, 21487, 21442,
      19982, 25490, 24207, 30340, 36827, 21475, 31246, 36153, 12290])
                   else rbind (calculate_import_tax e (pp_price_cny p) shipping) (\<lambda>t.
                        rbind (land p q e shipping t) (\<lambda>l. Inr (Landed l))))))"

definition landed :: "cost_verdict list \<Rightarrow> landed_cost list" where
  "landed vs = concat (map (\<lambda>v. case v of Landed l \<Rightarrow> [l] | _ \<Rightarrow> []) vs)"

definition shipping_key :: "landed_cost \<Rightarrow> rat \<times> platform \<times> pystr" where
  "shipping_key l = (lc_landed_cny l, pp_platform l, pp_item_id l)"

definition SHIPPING_BASIS :: pystr where
  "SHIPPING_BASIS = 
     [36816, 36153, 19982, 37197, 36865, 26102, 25928, 20351, 29992, 25968, 25454, 36890, 36947,
      36820, 22238, 30340, 32447, 36335, 47, 26381, 21153, 25253, 20215, 65292, 37329, 39069, 21253,
      21547, 24050, 25259, 38706, 30340, 38468, 21152, 36153, 21644, 20248, 24800, 65292, 35745,
      36153, 37325, 37327, 21462, 25215, 36816, 21830, 32, 113, 117, 111, 116, 101, 65307, 36827,
      21475, 31246, 36153, 25353, 25968, 25454, 36890, 36947, 25552, 20379, 30340, 32, 72, 83, 32, 67,
      111, 100, 101, 12289, 21407, 20135, 22320, 12289, 36827, 21475, 27169, 24335, 21644, 24102,
      29983, 25928, 26085, 26399, 30340, 31246, 29575, 35777, 25454, 35745, 31639]"

definition shipping_calc ::
  "(rat \<Rightarrow> pystr) \<Rightarrow> rat \<Rightarrow> pystr \<Rightarrow> price_point list \<Rightarrow> money_error + shipping_calc_output" where
  "shipping_calc stamp now destination items =
     (let d = normalize_destination destination
      in if d \<noteq> SUPPORTED_DESTINATION then Inl (UnsupportedDestination d)
         else rbind (mapM_r (cost_of stamp now) (take 12 items)) (\<lambda>vs.
           Inr \<lparr>sco_destination = d, sco_items = sort_key shipping_key (landed vs), sco_calculation_basis = SHIPPING_BASIS,
                sco_estimated = True,
                sco_shipping_exclusions = concat (map (\<lambda>v. case v of NoShipping x \<Rightarrow> [x] | _ \<Rightarrow> []) vs),
                sco_tax_exclusions = concat (map (\<lambda>v. case v of NoTax x \<Rightarrow> [x] | _ \<Rightarrow> []) vs)\<rparr>))"

end
