(* ===== verification/CostProperties.thy ===== *)
theory CostProperties
  imports LandedCost
begin

text \<open>
  Properties of prices, import taxes and landed costs: taxes exist for every piece of valid
  evidence, add up to the cent and grow with the price; every offer is either priced or listed
  with the reason why it is not, and the rankings are by the amounts they show.
\<close>

section \<open>Decimal arithmetic\<close>

lemma dec_of_float_other: "\<not> is_float x \<Longrightarrow> dec_of_float x = x"
proof -
  assume "\<not> is_float x"
  then have "fl d \<noteq> x" for d using is_float_fl by metis
  then have "find (\<lambda>d. fl d = x) ds = None" for ds by (simp add: find_None_iff)
  then show ?thesis by (simp add: dec_of_float_def)
qed

lemma dec_of_float_ge0: "0 \<le> x \<Longrightarrow> 0 \<le> dec_of_float x"
  using dec_of_float_nonneg dec_of_float_other by (cases "is_float x") auto

lemma dec_of_float_le: "dec_of_float b = b \<Longrightarrow> is_float b \<Longrightarrow> x \<le> b \<Longrightarrow> dec_of_float x \<le> b"
  using dec_of_float_mono [of x b] dec_of_float_other [of x] by (cases "is_float x") auto

lemma cent_Inr: "cent d = Inr r \<longleftrightarrow> quantize_cent d = Some r"
  by (auto simp: cent_def split: option.splits)

lemma cent_nonneg: "cent d = Inr r \<Longrightarrow> 0 \<le> d \<Longrightarrow> 0 \<le> r"
  using quantize_cent_nonneg by (simp add: cent_Inr)

lemma cent_mono: "cent d = Inr r \<Longrightarrow> cent d' = Inr r' \<Longrightarrow> d \<le> d' \<Longrightarrow> r \<le> r'"
  using quantize_cent_mono by (simp add: cent_Inr)

lemma dec_pow10 [simp]: "dec (10 ^ n) = 10 ^ n"
  using sig_round_exact [of 10 28 1 "int n"] by (simp add: dec_def power_int_of_nat)

lemma cent_le_pow10:
  assumes "0 \<le> d" "d \<le> 10 ^ n" "n < 26"
  shows "\<exists>r. cent d = Inr r \<and> 0 \<le> r \<and> r \<le> 10 ^ n"
proof -
  have "d * 100 \<le> of_int (10 ^ (n + 2))" using assms(2) by (simp add: power_add)
  then have 1: "round_half_up (d * 100) \<le> 10 ^ (n + 2)" using round_half_up_mono round_half_up_of_int by metis
  have 0: "0 \<le> round_half_up (d * 100)" using assms(1) round_half_up_nonneg [of "d * 100"] by simp
  have "(10 :: int) ^ (n + 2) < 10 ^ 28" using assms(3) by (intro power_strict_increasing) simp_all
  then have "cent d = Inr (of_int (round_half_up (d * 100)) / 100)"
    using 0 1 by (simp add: cent_def quantize_cent_def Let_def)
  moreover have "(of_int (round_half_up (d * 100)) :: rat) \<le> of_int (10 ^ (n + 2))" using 1 of_int_le_iff by blast
  ultimately show ?thesis using 0
    by (intro exI [of _ "of_int (round_half_up (d * 100)) / 100"]) (simp add: power_add)
qed

lemma dec_range: "0 \<le> x \<Longrightarrow> x \<le> 10 ^ n \<Longrightarrow> 0 \<le> dec x \<and> dec x \<le> 10 ^ n"
  using decimal28.rnd_nonneg decimal28.rnd_le_fixed [of "10 ^ n" x] by simp

text \<open>Sums of cents of fewer than 28 digits are exact.\<close>

definition cents :: "rat \<Rightarrow> bool" where
  "cents x \<longleftrightarrow> (\<exists>n. x = of_int n / 100)"

lemma cent_cents: "cent d = Inr r \<Longrightarrow> cents r"
  using quantize_cent_cents by (auto simp: cent_Inr cents_def)

lemma cents_add: "cents x \<Longrightarrow> cents y \<Longrightarrow> cents (x + y)"
proof -
  assume "cents x" "cents y"
  then obtain m n where "x = of_int m / 100" "y = of_int n / 100" by (auto simp: cents_def)
  then have "x + y = of_int (m + n) / 100" by (simp add: add_divide_distrib)
  then show ?thesis unfolding cents_def by blast
qed

lemma dec_cents:
  assumes "cents x" "0 \<le> x" "x \<le> 10 ^ 25" shows "dec x = x"
proof -
  obtain n where n: "x = of_int n / 100" using assms(1) by (auto simp: cents_def)
  have "0 \<le> n" using assms(2) by (simp add: n)
  moreover have "(of_int n :: rat) \<le> of_int (10 ^ 27)" using assms(3) by (simp add: n)
  then have "n \<le> 10 ^ 27" by (simp only: of_int_le_iff)
  ultimately have "dec (of_int n * power_int 10 (- 2)) = of_int n * power_int 10 (- 2)"
    using sig_round_exact [of 10 28 n "- 2"] by (simp add: dec_def)
  then show ?thesis by (simp add: n power_int_def field_simps)
qed

lemma cent_of_cents: "cents x \<Longrightarrow> 0 \<le> x \<Longrightarrow> x \<le> 10 ^ 25 \<Longrightarrow> cent x = Inr x"
proof -
  assume "cents x" "0 \<le> x" "x \<le> 10 ^ 25"
  then obtain n where n: "x = of_int n / 100" by (auto simp: cents_def)
  have "0 \<le> n" using \<open>0 \<le> x\<close> by (simp add: n)
  moreover have "(of_int n :: rat) \<le> of_int (10 ^ 27)" using \<open>x \<le> 10 ^ 25\<close> by (simp add: n)
  then have "n \<le> 10 ^ 27" by (simp only: of_int_le_iff)
  ultimately show ?thesis using quantize_cent_of_cents [of n] by (simp add: cent_Inr n)
qed

section \<open>Taxes exist and are exact\<close>

text \<open>Evidence whose amounts are below a thousand million yuan and whose consumption tax is at most 90%.\<close>

definition moderate :: "customs_tax_evidence \<Rightarrow> rat \<Rightarrow> rat \<Rightarrow> bool" where
  "moderate e price shipping \<longleftrightarrow>
     0 \<le> price \<and> price \<le> 10 ^ 8 \<and> 0 \<le> shipping \<and> shipping \<le> 10 ^ 8 \<and> ct_insurance_cny e \<le> 10 ^ 8
     \<and> opt_all (\<lambda>v. 0 \<le> cv_customs_value_cny v \<and> cv_customs_value_cny v \<le> 10 ^ 9) (ct_valuation e)
     \<and> opt_all (\<lambda>x. x \<le> 10 ^ 9) (ct_personal_postal_assessed_value_cny e)
     \<and> opt_all (\<lambda>x. x \<le> 10 ^ 9) (ct_personal_postal_tax_exemption_threshold_cny e)
     \<and> opt_all (\<lambda>x. x \<le> 10 ^ 9) (ct_seller_collected_tax_cny e)
     \<and> dec_of_float (ct_consumption_tax_rate e) \<le> 9 / 10"

lemma plain_decimals:
  "dec_of_float (10 ^ 8) = 10 ^ 8" "dec_of_float (10 ^ 9) = 10 ^ 9" "dec_of_float 5 = 5" "dec_of_float 1 = 1"
  by (simp_all add: str_eval)

lemma plain_floats: "is_float (10 ^ 8)" "is_float (10 ^ 9)" "is_float 5" "is_float 1"
  using is_float_of_int [of "10 ^ 8"] is_float_of_int [of "10 ^ 9"] is_float_of_int [of 5] is_float_of_int [of 1] by simp_all

lemmas dec_of_float_caps = dec_of_float_le [OF plain_decimals(1) plain_floats(1)] dec_of_float_le [OF plain_decimals(2) plain_floats(2)]
  dec_of_float_le [OF plain_decimals(3) plain_floats(3)] dec_of_float_le [OF plain_decimals(4) plain_floats(4)]

lemma cent_dec_range:
  assumes "0 \<le> x" "x \<le> 10 ^ n" "n < 26"
  obtains r where "cent (dec x) = Inr r" "0 \<le> r" "r \<le> 10 ^ n" "cents r"
  using dec_range [OF assms(1,2)] cent_le_pow10 [of "dec x" n] assms(3) cent_cents by blast

lemma product_range: "0 \<le> x \<Longrightarrow> x \<le> a \<Longrightarrow> 0 \<le> y \<Longrightarrow> y \<le> b \<Longrightarrow> 0 \<le> x * y \<and> x * y \<le> a * (b :: rat)"
  by (simp add: mult_mono)

lemma customs_value_range:
  assumes "moderate e price shipping" "0 \<le> ct_insurance_cny e"
  obtains v where "customs_value e price shipping = Inr v" "0 \<le> v" "v \<le> 10 ^ 10" "cents v"
proof (cases "ct_valuation e")
  case None
  have p: "0 \<le> dec_of_float price" "dec_of_float price \<le> 10 ^ 8" "0 \<le> dec_of_float shipping" "dec_of_float shipping \<le> 10 ^ 8"
      "0 \<le> dec_of_float (ct_insurance_cny e)" "dec_of_float (ct_insurance_cny e) \<le> 10 ^ 8"
    using assms dec_of_float_caps(1) dec_of_float_ge0 by (simp_all add: moderate_def)
  then have "0 \<le> dec (dec_of_float price + dec_of_float shipping) \<and> dec (dec_of_float price + dec_of_float shipping) \<le> 10 ^ 9"
    by (intro dec_range) auto
  then have "0 \<le> dec (dec_of_float price + dec_of_float shipping) + dec_of_float (ct_insurance_cny e)"
      "dec (dec_of_float price + dec_of_float shipping) + dec_of_float (ct_insurance_cny e) \<le> 10 ^ 10"
    using p by auto
  then obtain v where "cent (dec (dec (dec_of_float price + dec_of_float shipping) + dec_of_float (ct_insurance_cny e))) = Inr v"
      "0 \<le> v" "v \<le> 10 ^ 10" "cents v"
    by (rule cent_dec_range) simp
  then show ?thesis using that None by (simp add: customs_value_def)
next
  case (Some w)
  then have "0 \<le> dec_of_float (cv_customs_value_cny w)" "dec_of_float (cv_customs_value_cny w) \<le> 10 ^ 10"
    using assms(1) dec_of_float_ge0 dec_of_float_caps(2) [of "cv_customs_value_cny w"] by (auto simp: moderate_def)
  then obtain v where "cent (dec_of_float (cv_customs_value_cny w)) = Inr v" "0 \<le> v" "v \<le> 10 ^ 10"
    using cent_le_pow10 [of "dec_of_float (cv_customs_value_cny w)" 10] by auto
  then show ?thesis using that Some cent_cents by (simp add: customs_value_def)
qed

definition parts_add_up :: "tax_parts \<Rightarrow> bool" where
  "parts_add_up p \<longleftrightarrow>
     0 \<le> tp_customs_value p \<and> opt_all ((\<le>) 0) (tp_tariff p) \<and> opt_all ((\<le>) 0) (tp_import_vat p)
     \<and> opt_all ((\<le>) 0) (tp_consumption p) \<and> opt_all ((\<le>) 0) (tp_before_exemption p) \<and> 0 \<le> tp_exemption p
     \<and> tp_policy_factor p \<in> {1, CBEC_POLICY_FACTOR} \<and> cents (tp_total p) \<and> 0 \<le> tp_total p \<and> tp_total p \<le> 10 ^ 20
     \<and> (case tp_method p of
          MethodPersonalPostalRate \<Rightarrow> or_zero (tp_before_exemption p) - tp_exemption p = tp_total p
        | MethodProviderQuote \<Rightarrow> True
        | _ \<Rightarrow> or_zero (tp_tariff p) + or_zero (tp_consumption p) + or_zero (tp_import_vat p) = tp_total p)"

lemma one_minus_range:
  assumes "0 \<le> c" "c \<le> 9 / 10" shows "1 / 10 \<le> dec (1 - c)" "0 < dec (1 - c)"
proof -
  have "dec (1 / 10) = 1 / 10" using sig_round_exact [of 10 28 1 "- 1"] by (simp add: dec_def)
  then show "1 / 10 \<le> dec (1 - c)" using decimal28.rnd_ge_fixed [of "1 / 10" "1 - c"] assms by simp
  then show "0 < dec (1 - c)" by simp
qed

lemma quotient_range: "0 \<le> x \<Longrightarrow> x \<le> 10 ^ n \<Longrightarrow> 1 / 10 \<le> d \<Longrightarrow> 0 \<le> x / d \<and> x / (d :: rat) \<le> 10 ^ Suc n"
proof -
  assume x: "0 \<le> x" "x \<le> 10 ^ n" "1 / 10 \<le> d"
  have "x \<le> 10 ^ Suc n * (1 / 10)" using x(2) by simp
  also have "\<dots> \<le> 10 ^ Suc n * d" using x(3) by (intro mult_left_mono) simp_all
  finally show ?thesis using x by (simp add: pos_divide_le_eq)
qed

lemma general_trade_parts:
  assumes "fields_customs_tax_evidence e" "dec_of_float (ct_consumption_tax_rate e) \<le> 9 / 10"
    and "0 \<le> v" "v \<le> 10 ^ 10" "cents v"
  shows "\<exists>p. general_trade_tax e v = Inr p \<and> parts_add_up p"
proof -
  let ?c = "dec_of_float (ct_consumption_tax_rate e)" and ?t = "dec_of_float (or_zero (ct_tariff_rate e))"
    and ?w = "dec_of_float (or_zero (ct_import_vat_rate e))"
  have r: "0 \<le> ?c" "0 \<le> ?t" "?t \<le> 5" "0 \<le> ?w" "?w \<le> 1"
    using assms(1) dec_of_float_caps(3,4) dec_of_float_ge0
    by (auto simp: fields_customs_tax_evidence_def or_zero_def split: option.splits)
  have d: "1 / 10 \<le> dec (1 - ?c)" using one_minus_range(1) r(1) assms(2) by blast
  have "0 \<le> v * ?t" "v * ?t \<le> 10 ^ 11" using product_range [OF assms(3,4) r(2,3)] by auto
  then obtain tariff where t: "cent (dec (v * ?t)) = Inr tariff" "0 \<le> tariff" "tariff \<le> 10 ^ 11" "cents tariff"
    by (rule cent_dec_range) simp
  have a: "0 \<le> dec (v + tariff)" "dec (v + tariff) \<le> 10 ^ 12" using assms(3,4) t(2,3) dec_range [of "v + tariff" 12] by auto
  have q: "0 \<le> dec (dec (v + tariff) / dec (1 - ?c))" "dec (dec (v + tariff) / dec (1 - ?c)) \<le> 10 ^ 13"
    using quotient_range [OF a d] dec_range [of "dec (v + tariff) / dec (1 - ?c)" 13] by simp_all
  have "0 \<le> dec (dec (v + tariff) / dec (1 - ?c)) * ?c" "dec (dec (v + tariff) / dec (1 - ?c)) * ?c \<le> 10 ^ 13"
    using product_range [OF q r(1) assms(2)] by auto
  then obtain s where s: "cent (dec (dec (dec (v + tariff) / dec (1 - ?c)) * ?c)) = Inr s" "0 \<le> s" "s \<le> 10 ^ 13" "cents s"
    by (rule cent_dec_range) simp
  have b: "0 \<le> dec (dec (v + tariff) + s)" "dec (dec (v + tariff) + s) \<le> 10 ^ 14"
    using a s(2,3) dec_range [of "dec (v + tariff) + s" 14] by auto
  have "0 \<le> dec (dec (v + tariff) + s) * ?w" "dec (dec (v + tariff) + s) * ?w \<le> 10 ^ 14"
    using product_range [OF b r(4,5)] by auto
  then obtain w where w: "cent (dec (dec (dec (v + tariff) + s) * ?w)) = Inr w" "0 \<le> w" "w \<le> 10 ^ 14" "cents w"
    by (rule cent_dec_range) simp
  have "dec (tariff + s) = tariff + s" using t s by (intro dec_cents cents_add) auto
  moreover have "dec (tariff + s + w) = tariff + s + w" using t s w by (intro dec_cents cents_add) auto
  moreover have "cents (tariff + s + w)" using t s w by (intro cents_add)
  ultimately show ?thesis using t s w assms(3)
    by (simp add: general_trade_tax_def Let_def parts_add_up_def or_zero_def)
qed

lemma cross_border_parts:
  assumes "fields_customs_tax_evidence e" "dec_of_float (ct_consumption_tax_rate e) \<le> 9 / 10"
    and "0 \<le> v" "v \<le> 10 ^ 10" "cents v"
  shows "\<exists>p. cross_border_tax e v = Inr p \<and> parts_add_up p"
proof -
  let ?c = "dec_of_float (ct_consumption_tax_rate e)" and ?w = "dec_of_float (or_zero (ct_import_vat_rate e))"
  have r: "0 \<le> ?c" "0 \<le> ?w" "?w \<le> 1"
    using assms(1) dec_of_float_caps(4) dec_of_float_ge0
    by (auto simp: fields_customs_tax_evidence_def or_zero_def split: option.splits)
  have d: "1 / 10 \<le> dec (1 - ?c)" using one_minus_range(1) r(1) assms(2) by blast
  let ?b = "dec (v / dec (1 - ?c))"
  have b: "0 \<le> ?b" "?b \<le> 10 ^ 11" using quotient_range [OF assms(3,4) d] dec_range [of "v / dec (1 - ?c)" 11] by simp_all
  have part: "\<exists>s. cent (dec (dec (?b * x) * CBEC_POLICY_FACTOR)) = Inr s \<and> 0 \<le> s \<and> s \<le> 10 ^ 11 \<and> cents s"
    if x: "0 \<le> x" "x \<le> 1" for x
  proof -
    have "0 \<le> dec (?b * x)" "dec (?b * x) \<le> 10 ^ 11" using product_range [OF b x] dec_range [of "?b * x" 11] by simp_all
    then have "0 \<le> dec (?b * x) * CBEC_POLICY_FACTOR" "dec (?b * x) * CBEC_POLICY_FACTOR \<le> 10 ^ 11"
      using product_range [of "dec (?b * x)" "10 ^ 11" CBEC_POLICY_FACTOR 1] by (simp_all add: CBEC_POLICY_FACTOR_def)
    then obtain s where "cent (dec (dec (?b * x) * CBEC_POLICY_FACTOR)) = Inr s" "0 \<le> s" "s \<le> 10 ^ 11" "cents s"
      by (rule cent_dec_range) simp
    then show ?thesis by blast
  qed
  obtain s where s: "cent (dec (dec (?b * ?c) * CBEC_POLICY_FACTOR)) = Inr s" "0 \<le> s" "s \<le> 10 ^ 11" "cents s"
    using part [OF r(1)] assms(2) by auto
  obtain w where w: "cent (dec (dec (?b * ?w) * CBEC_POLICY_FACTOR)) = Inr w" "0 \<le> w" "w \<le> 10 ^ 11" "cents w"
    using part [OF r(2,3)] by auto
  have "dec s = s" using s by (intro dec_cents) auto
  moreover have "dec (s + w) = s + w" using s w by (intro dec_cents cents_add) auto
  moreover have "cents (s + w)" using s w by (intro cents_add)
  ultimately show ?thesis using s w assms(3)
    by (simp add: cross_border_tax_def Let_def parts_add_up_def or_zero_def)
qed

lemma personal_postal_parts:
  assumes "fields_customs_tax_evidence e" "moderate e price shipping"
  shows "\<exists>p. personal_postal_tax e = Inr p \<and> parts_add_up p"
proof -
  let ?a = "dec_of_float (or_zero (ct_personal_postal_assessed_value_cny e))" and ?r = "dec_of_float (or_zero (ct_personal_postal_tax_rate e))"
    and ?h = "dec_of_float (or_zero (ct_personal_postal_tax_exemption_threshold_cny e))"
  have r: "0 \<le> ?a" "?a \<le> 10 ^ 9" "0 \<le> ?r" "?r \<le> 5" "0 \<le> ?h" "?h \<le> 10 ^ 9"
    using assms dec_of_float_caps(2,3) dec_of_float_ge0
    by (auto simp: fields_customs_tax_evidence_def moderate_def or_zero_def split: option.splits)
  obtain v where v: "cent ?a = Inr v" "0 \<le> v" "v \<le> 10 ^ 9" using cent_le_pow10 [OF r(1,2)] by auto
  obtain h where h: "cent ?h = Inr h" "0 \<le> h" "h \<le> 10 ^ 9" using cent_le_pow10 [OF r(5,6)] by auto
  have "0 \<le> v * ?r" "v * ?r \<le> 10 ^ 10" using product_range [OF v(2,3) r(3,4)] by auto
  then obtain b where b: "cent (dec (v * ?r)) = Inr b" "0 \<le> b" "b \<le> 10 ^ 10" "cents b"
    by (rule cent_dec_range) simp
  have "cents 0" using cents_def by force
  then show ?thesis using v h b
    by (auto simp: personal_postal_tax_def Let_def parts_add_up_def or_zero_def)
qed

lemma seller_collected_parts:
  assumes "fields_customs_tax_evidence e" "moderate e price shipping" "0 \<le> v"
  shows "\<exists>p. seller_collected_tax e v = Inr p \<and> parts_add_up p"
proof -
  let ?a = "dec_of_float (or_zero (ct_seller_collected_tax_cny e))"
  have r: "0 \<le> ?a" "?a \<le> 10 ^ 9"
    using assms dec_of_float_caps(2) dec_of_float_ge0
    by (auto simp: fields_customs_tax_evidence_def moderate_def or_zero_def split: option.splits)
  obtain w where w: "cent ?a = Inr w" "0 \<le> w" "w \<le> 10 ^ 9" using cent_le_pow10 [OF r] by auto
  then show ?thesis using assms(3) cent_cents [OF w(1)]
    by (auto simp: seller_collected_tax_def parts_add_up_def)
qed

lemma tax_parts_exist:
  assumes "fields_customs_tax_evidence e" "moderate e price shipping"
  shows "\<exists>p. tax_parts_of e price shipping = Inr p \<and> parts_add_up p"
proof -
  have c: "dec_of_float (ct_consumption_tax_rate e) \<le> 9 / 10" "0 \<le> ct_insurance_cny e"
    using assms by (simp_all add: moderate_def fields_customs_tax_evidence_def)
  obtain v where v: "customs_value e price shipping = Inr v" "0 \<le> v" "v \<le> 10 ^ 10" "cents v"
    by (rule customs_value_range [OF assms(2) c(2)])
  show ?thesis
    using general_trade_parts [OF assms(1) c(1) v(2-4)] cross_border_parts [OF assms(1) c(1) v(2-4)]
      personal_postal_parts [OF assms] seller_collected_parts [OF assms v(2)]
    by (cases "ct_import_regime e") (simp_all add: tax_parts_of_def v(1))
qed

lemma opt_all_map [simp]: "opt_all P (map_option f x) \<longleftrightarrow> opt_all (\<lambda>y. P (f y)) x"
  by (cases x) simp_all

lemma opt_all_fl: "opt_all ((\<le>) 0) x \<Longrightarrow> opt_all (\<lambda>y. 0 \<le> fl y) x"
  by (cases x) (simp_all add: double.rnd_nonneg)

lemma breakdown_fields:
  assumes "fields_customs_tax_evidence e" "parts_add_up p" "0 \<le> due"
  shows "fields_import_tax_breakdown (tax_breakdown e p due)"
proof -
  have "fl CBEC_POLICY_FACTOR \<le> 1" "0 \<le> fl CBEC_POLICY_FACTOR" by (simp_all add: CBEC_POLICY_FACTOR_def float_eval)
  then have 1: "0 \<le> fl (tp_policy_factor p)" "fl (tp_policy_factor p) \<le> 1" using assms(2) by (auto simp: parts_add_up_def)
  have 2: "0 \<le> fl (tp_customs_value p)" "0 \<le> fl (tp_exemption p)" "0 \<le> fl due"
      "opt_all (\<lambda>y. 0 \<le> fl y) (tp_tariff p)" "opt_all (\<lambda>y. 0 \<le> fl y) (tp_import_vat p)"
      "opt_all (\<lambda>y. 0 \<le> fl y) (tp_consumption p)" "opt_all (\<lambda>y. 0 \<le> fl y) (tp_before_exemption p)"
    using assms(2,3) opt_all_fl double.rnd_nonneg unfolding parts_add_up_def by blast+
  show ?thesis using 1 2 assms(1)
    unfolding fields_import_tax_breakdown_def tax_breakdown_def fields_customs_tax_evidence_def by simp
qed

lemma tax_exists:
  assumes "fields_customs_tax_evidence e" "moderate e price shipping"
  shows "\<exists>p. tax_parts_of e price shipping = Inr p \<and> parts_add_up p
    \<and> calculate_import_tax e price shipping = Inr (tax_breakdown e p (tp_total p))"
proof -
  obtain p where p: "tax_parts_of e price shipping = Inr p" "parts_add_up p" using tax_parts_exist [OF assms] by blast
  have "tp_total p \<le> 10 ^ 25" using p(2) by (simp add: parts_add_up_def)
  then have "cent (tp_total p) = Inr (tp_total p)" using p(2) by (intro cent_of_cents) (simp_all add: parts_add_up_def)
  moreover have "fields_import_tax_breakdown (tax_breakdown e p (tp_total p))"
    by (rule breakdown_fields [OF assms(1) p(2)]) (use p(2) in \<open>simp add: parts_add_up_def\<close>)
  ultimately show ?thesis using p by (simp add: calculate_import_tax_def Let_def)
qed

text \<open>
  C18. A tax for every evidence: for valid customs evidence of moderate amounts the calculation
  neither overflows the decimals nor fails a validator, in any import regime. The total is
  nonnegative and a whole number of cents; it is exactly the sum of tariff, consumption tax and
  import VAT, and for personal post exactly the tax before the exemption less the exemption.
\<close>

theorem import_tax_adds_up:
  assumes "valid_customs_tax e" "moderate e price shipping"
  shows "\<exists>p t. tax_parts_of e price shipping = Inr p \<and> parts_add_up p
    \<and> calculate_import_tax e price shipping = Inr t \<and> t = tax_breakdown e p (tp_total p)
    \<and> tb_total_import_tax_cny t = fl (tp_total p)"
  using tax_exists [of e price shipping] assms by (auto simp: valid_customs_tax_def tax_breakdown_def)

section \<open>Taxes grow with the price\<close>

lemma rates_nonneg:
  assumes "fields_customs_tax_evidence e"
  shows "0 \<le> dec_of_float (ct_consumption_tax_rate e)" "0 \<le> dec_of_float (or_zero (ct_tariff_rate e))"
    "0 \<le> dec_of_float (or_zero (ct_import_vat_rate e))"
proof -
  have "0 \<le> ct_consumption_tax_rate e" "0 \<le> or_zero (ct_tariff_rate e)" "0 \<le> or_zero (ct_import_vat_rate e)"
    using assms by (auto simp: fields_customs_tax_evidence_def or_zero_def split: option.splits)
  then show "0 \<le> dec_of_float (ct_consumption_tax_rate e)" "0 \<le> dec_of_float (or_zero (ct_tariff_rate e))"
    "0 \<le> dec_of_float (or_zero (ct_import_vat_rate e))"
    by (simp_all add: dec_of_float_ge0)
qed

lemma general_trade_mono:
  assumes "fields_customs_tax_evidence e" "v \<le> v'" "0 \<le> v"
    and "dec_of_float (ct_consumption_tax_rate e) < 1" "0 < dec (1 - dec_of_float (ct_consumption_tax_rate e))"
    and "general_trade_tax e v = Inr p" "general_trade_tax e v' = Inr p'"
  shows "tp_total p \<le> tp_total p'"
proof -
  let ?c = "dec_of_float (ct_consumption_tax_rate e)" and ?t = "dec_of_float (or_zero (ct_tariff_rate e))"
    and ?w = "dec_of_float (or_zero (ct_import_vat_rate e))"
  note r = rates_nonneg [OF assms(1)]
  obtain a s w where 1: "cent (dec (v * ?t)) = Inr a" "cent (dec (dec (dec (v + a) / dec (1 - ?c)) * ?c)) = Inr s"
      "cent (dec (dec (dec (v + a) + s) * ?w)) = Inr w" "tp_total p = dec (dec (a + s) + w)"
    using assms(6) by (auto simp: general_trade_tax_def Let_def elim!: rbind_InrE)
  obtain a' s' w' where 2: "cent (dec (v' * ?t)) = Inr a'" "cent (dec (dec (dec (v' + a') / dec (1 - ?c)) * ?c)) = Inr s'"
      "cent (dec (dec (dec (v' + a') + s') * ?w)) = Inr w'" "tp_total p' = dec (dec (a' + s') + w')"
    using assms(7) by (auto simp: general_trade_tax_def Let_def elim!: rbind_InrE)
  have a: "a \<le> a'" using assms(2) r by (intro cent_mono [OF 1(1) 2(1)] decimal28.rnd_mono mult_right_mono)
  have b: "dec (v + a) \<le> dec (v' + a')" using assms(2) a by (intro decimal28.rnd_mono add_mono)
  have "dec (v + a) / dec (1 - ?c) \<le> dec (v' + a') / dec (1 - ?c)" using b assms(5) by (intro divide_right_mono) auto
  then have s: "s \<le> s'" using r(1) by (intro cent_mono [OF 1(2) 2(2)] decimal28.rnd_mono mult_right_mono)
  have "dec (v + a) + s \<le> dec (v' + a') + s'" using b s by (rule add_mono)
  then have "w \<le> w'" using r(3) by (intro cent_mono [OF 1(3) 2(3)] decimal28.rnd_mono mult_right_mono)
  then show ?thesis unfolding 1(4) 2(4) using a s by (intro decimal28.rnd_mono add_mono)
qed

lemma cross_border_mono:
  assumes "fields_customs_tax_evidence e" "v \<le> v'" "0 < dec (1 - dec_of_float (ct_consumption_tax_rate e))"
    and "cross_border_tax e v = Inr p" "cross_border_tax e v' = Inr p'"
  shows "tp_total p \<le> tp_total p'"
proof -
  let ?c = "dec_of_float (ct_consumption_tax_rate e)" and ?w = "dec_of_float (or_zero (ct_import_vat_rate e))"
  note r = rates_nonneg [OF assms(1)]
  obtain s w where 1: "cent (dec (dec (dec (v / dec (1 - ?c)) * ?c) * CBEC_POLICY_FACTOR)) = Inr s"
      "cent (dec (dec (dec (v / dec (1 - ?c)) * ?w) * CBEC_POLICY_FACTOR)) = Inr w" "tp_total p = dec (dec s + w)"
    using assms(4) by (auto simp: cross_border_tax_def Let_def elim!: rbind_InrE)
  obtain s' w' where 2: "cent (dec (dec (dec (v' / dec (1 - ?c)) * ?c) * CBEC_POLICY_FACTOR)) = Inr s'"
      "cent (dec (dec (dec (v' / dec (1 - ?c)) * ?w) * CBEC_POLICY_FACTOR)) = Inr w'" "tp_total p' = dec (dec s' + w')"
    using assms(5) by (auto simp: cross_border_tax_def Let_def elim!: rbind_InrE)
  have b: "dec (v / dec (1 - ?c)) \<le> dec (v' / dec (1 - ?c))"
    using assms(2,3) by (intro decimal28.rnd_mono divide_right_mono) auto
  have f: "0 \<le> CBEC_POLICY_FACTOR" by (simp add: CBEC_POLICY_FACTOR_def)
  have "s \<le> s'" by (rule cent_mono [OF 1(1) 2(1)]) (intro decimal28.rnd_mono mult_right_mono b r f)
  moreover have "w \<le> w'" by (rule cent_mono [OF 1(2) 2(2)]) (intro decimal28.rnd_mono mult_right_mono b r f)
  ultimately show ?thesis unfolding 1(3) 2(3) by (intro decimal28.rnd_mono add_mono)
qed

lemma customs_value_mono:
  assumes "is_float price" "is_float price'" "is_float shipping" "is_float shipping'" "price \<le> price'" "shipping \<le> shipping'"
    and "customs_value e price shipping = Inr v" "customs_value e price' shipping' = Inr v'"
  shows "v \<le> v'"
proof (cases "ct_valuation e")
  case None
  have "dec_of_float price \<le> dec_of_float price'" "dec_of_float shipping \<le> dec_of_float shipping'"
    using assms dec_of_float_mono by auto
  then have "dec (dec_of_float price + dec_of_float shipping) \<le> dec (dec_of_float price' + dec_of_float shipping')"
    by (intro decimal28.rnd_mono add_mono)
  then have "dec (dec (dec_of_float price + dec_of_float shipping) + dec_of_float (ct_insurance_cny e))
      \<le> dec (dec (dec_of_float price' + dec_of_float shipping') + dec_of_float (ct_insurance_cny e))"
    by (intro decimal28.rnd_mono) simp
  then show ?thesis using assms(7,8) None cent_mono by (simp add: customs_value_def)
next
  case (Some w)
  then show ?thesis using assms(7,8) by (simp add: customs_value_def)
qed

text \<open>
  C19. Taxes grow with what is taxed: in every import regime, a dearer product or dearer shipping
  under the same evidence never owes less import tax, through every rounding of the formulas.
\<close>

theorem import_tax_monotone:
  assumes "fields_customs_tax_evidence e" "moderate e price shipping" "moderate e price' shipping'"
    and "is_float price" "is_float price'" "is_float shipping" "is_float shipping'" "price \<le> price'" "shipping \<le> shipping'"
    and "calculate_import_tax e price shipping = Inr t" "calculate_import_tax e price' shipping' = Inr t'"
  shows "tb_total_import_tax_cny t \<le> tb_total_import_tax_cny t'"
proof -
  obtain p d where p: "tax_parts_of e price shipping = Inr p" "cent (tp_total p) = Inr d" "tb_total_import_tax_cny t = fl d"
    using assms(10) by (auto simp: calculate_import_tax_def Let_def tax_breakdown_def split: if_splits elim!: rbind_InrE)
  obtain p' d' where p': "tax_parts_of e price' shipping' = Inr p'" "cent (tp_total p') = Inr d'" "tb_total_import_tax_cny t' = fl d'"
    using assms(11) by (auto simp: calculate_import_tax_def Let_def tax_breakdown_def split: if_splits elim!: rbind_InrE)
  have c: "dec_of_float (ct_consumption_tax_rate e) \<le> 9 / 10" "0 \<le> ct_insurance_cny e"
    using assms(1,2) by (simp_all add: moderate_def fields_customs_tax_evidence_def)
  have d: "0 < dec (1 - dec_of_float (ct_consumption_tax_rate e))"
    using one_minus_range(2) rates_nonneg(1) [OF assms(1)] c(1) by blast
  obtain v where v: "customs_value e price shipping = Inr v" "0 \<le> v"
    by (rule customs_value_range [OF assms(2) c(2)])
  obtain v' where v': "customs_value e price' shipping' = Inr v'"
    by (rule customs_value_range [OF assms(3) c(2)])
  have vv: "v \<le> v'" by (rule customs_value_mono [OF assms(4-9) v(1) v'])
  have "tp_total p \<le> tp_total p'"
  proof (cases "ct_import_regime e")
    case RegimeGeneralTrade
    then show ?thesis using general_trade_mono [OF assms(1) vv v(2) _ d] c(1) p(1) p'(1) v(1) v' by (simp add: tax_parts_of_def)
  next
    case RegimeCrossBorderEcommerce
    then show ?thesis using cross_border_mono [OF assms(1) vv d] p(1) p'(1) v(1) v' by (simp add: tax_parts_of_def)
  qed (use p(1) p'(1) v(1) v' in \<open>auto simp: tax_parts_of_def seller_collected_tax_def elim!: rbind_InrE\<close>)
  then show ?thesis using cent_mono [OF p(2) p'(2)] double.rnd_mono p(3) p'(3) by simp
qed

section \<open>Prices\<close>

lemma price_of_priced:
  assumes "price_of stamp now c = Inr (Priced p)"
  shows "pp_item_id p = ca_item_id c" "pp_platform p = ca_platform c" "pp_currency p = currency_of c" "0 \<le> ca_price c"
    "pp_price p = ca_price c"
    "pp_currency p = CNY \<and> money (ca_price c) (dec_of_float 1) = Inr (pp_price_cny p)
     \<or> (\<exists>q. ca_price_conversion c = Some q \<and> pp_price_conversion p = Some q \<and> cc_source_currency q = pp_currency p
          \<and> \<not> expired now (cc_expires_at q) \<and> (ca_source c = SrcLive \<longrightarrow> cc_expires_at q \<noteq> None)
          \<and> money (ca_price c) (dec_of_float (cc_rate_to_cny q)) = Inr (pp_price_cny p))"
  using assms
  by (auto simp: price_of_def Let_def fx_rate_def point_of_def normalize_point_marketplace_def
      split: if_splits sum.splits prod.splits option.splits elim!: rbind_InrE)

lemma in_priced: "p \<in> set (priced vs) \<longleftrightarrow> Priced p \<in> set vs"
  by (force simp: priced_def split: price_verdict.splits)

lemma in_not_priced: "x \<in> set (not_priced vs) \<longleftrightarrow> NotPriced x \<in> set vs"
  by (force simp: not_priced_def split: price_verdict.splits)

lemma mapM_r_member:
  "mapM_r f xs = Inr ys \<Longrightarrow> x \<in> set xs \<Longrightarrow> \<exists>y \<in> set ys. f x = Inr y"
  "mapM_r f xs = Inr ys \<Longrightarrow> y \<in> set ys \<Longrightarrow> \<exists>x \<in> set xs. f x = Inr y"
  by (induction xs arbitrary: ys) (auto elim!: rbind_InrE)

lemma cheapest_keeps:
  "map_of d k = Some p \<Longrightarrow>
   map_of (fold (\<lambda>p d. if map_of d (platform_name (pp_platform p)) = None then d @ [(platform_name (pp_platform p), p)] else d) ps d) k = Some p"
  by (induction ps arbitrary: d) (auto simp: map_add_def)

lemma cheapest_best:
  assumes "sorted (map price_key ps)" "p \<in> set ps"
  shows "\<exists>b \<in> set ps. map_of (cheapest_per_platform ps) (platform_name (pp_platform p)) = Some b \<and> price_key b \<le> price_key p"
proof -
  have "\<exists>b \<in> set ps. map_of (fold (\<lambda>p d. if map_of d (platform_name (pp_platform p)) = None
      then d @ [(platform_name (pp_platform p), p)] else d) ps d) (platform_name (pp_platform p)) = Some b \<and> price_key b \<le> price_key p"
    if "map_of d (platform_name (pp_platform p)) = None" for d
    using assms that
  proof (induction ps arbitrary: d)
    case (Cons a ps)
    show ?case
    proof (cases "platform_name (pp_platform a) = platform_name (pp_platform p)")
      case True
      have "price_key a \<le> price_key p" using Cons.prems(1,2) by auto
      moreover have "map_of (d @ [(platform_name (pp_platform p), a)]) (platform_name (pp_platform p)) = Some a"
        using Cons.prems(3) by (simp add: map_add_def)
      then have "map_of (fold (\<lambda>p d. if map_of d (platform_name (pp_platform p)) = None then d @ [(platform_name (pp_platform p), p)] else d)
          ps (d @ [(platform_name (pp_platform p), a)])) (platform_name (pp_platform p)) = Some a" by (rule cheapest_keeps)
      ultimately show ?thesis using True Cons.prems(3) by simp
    next
      case False
      then show ?thesis using Cons by (auto simp: map_add_def)
    qed
  qed simp
  then show ?thesis by (simp add: cheapest_per_platform_def)
qed

text \<open>
  A price comparison accounts for every offer: each of the first hundred candidates is listed
  as excluded with its reason, or priced; a priced offer is in the ranking or the ranking is full
  of offers at most as dear; the offer named as cheapest of its marketplace is at most as dear;
  and a foreign price was converted by a quote of its own currency that has not expired (and has
  an expiry when the offer is live).
\<close>

lemma price_compare_accounts:
  assumes "price_compare stamp now base limit cs = Inr out" "c \<in> set (take 100 cs)"
  shows "(\<exists>x \<in> set (pco_calculation_exclusions out). price_of stamp now c = Inr (NotPriced x))
    \<or> (\<exists>p. price_of stamp now c = Inr (Priced p)
        \<and> (p \<in> set (pco_ranked out) \<or> length (pco_ranked out) = nat (max 1 (min limit 30))
             \<and> (\<forall>r \<in> set (pco_ranked out). price_key r \<le> price_key p))
        \<and> (\<exists>b. map_of (pco_cheapest_per_platform out) (platform_name (pp_platform p)) = Some b \<and> price_key b \<le> price_key p)
        \<and> (pp_currency p = CNY \<or> (\<exists>q. pp_price_conversion p = Some q \<and> cc_source_currency q = pp_currency p
             \<and> \<not> expired now (cc_expires_at q) \<and> (ca_source c = SrcLive \<longrightarrow> cc_expires_at q \<noteq> None))))"
proof -
  obtain vs where vs: "mapM_r (price_of stamp now) (take 100 cs) = Inr vs"
      "pco_calculation_exclusions out = not_priced vs" "pco_ranked out = take (nat (max 1 (min limit 30))) (sort_key price_key (priced vs))"
      "pco_cheapest_per_platform out = cheapest_per_platform (sort_key price_key (priced vs))"
    using assms(1) by (auto simp: price_compare_def Let_def split: if_splits elim!: rbind_InrE)
  obtain v where v: "v \<in> set vs" "price_of stamp now c = Inr v" using mapM_r_member(1) [OF vs(1) assms(2)] by blast
  show ?thesis
  proof (cases v)
    case (NotPriced x)
    then show ?thesis using v in_not_priced vs(2) by auto
  next
    case (Priced p)
    let ?s = "sort_key price_key (priced vs)" and ?n = "nat (max 1 (min limit 30))"
    have p: "p \<in> set ?s" using v(1) Priced in_priced by simp
    then have "p \<in> set (take ?n ?s) \<or> p \<in> set (drop ?n ?s)" by (metis append_take_drop_id Un_iff set_append)
    then have 1: "p \<in> set (pco_ranked out) \<or> length (pco_ranked out) = ?n \<and> (\<forall>r \<in> set (pco_ranked out). price_key r \<le> price_key p)"
    proof
      assume d: "p \<in> set (drop ?n ?s)"
      then have "?n < length ?s" by (metis drop_all empty_iff empty_set not_le)
      then show ?thesis using d sort_key_take_best [of _ ?n price_key "priced vs" p] by (simp add: vs(3))
    qed (simp add: vs(3))
    have 2: "\<exists>b. map_of (pco_cheapest_per_platform out) (platform_name (pp_platform p)) = Some b \<and> price_key b \<le> price_key p"
      using cheapest_best [OF _ p] by (auto simp: vs(4))
    show ?thesis using 1 2 price_of_priced(6) [of stamp now c p] v(2) Priced by auto
  qed
qed

section \<open>Landed costs\<close>

lemma in_landed: "l \<in> set (landed vs) \<longleftrightarrow> Landed l \<in> set vs"
  by (force simp: landed_def split: cost_verdict.splits)

lemma cost_of_landed:
  assumes "cost_of stamp now p = Inr (Landed l)"
  obtains q e shipping t where "pp_shipping_quote p = Some q" "pp_customs p = Some e" "shipping_exclusion stamp now p q = None"
    "money (sq_total_amount q) (case sq_currency_conversion q of None \<Rightarrow> 1 | Some c \<Rightarrow> dec_of_float (cc_rate_to_cny c)) = Inr shipping"
    "calculate_import_tax e (pp_price_cny p) shipping = Inr t" "land p q e shipping t = Inr l"
  using assms
  by (auto simp: cost_of_def no_shipping_def no_tax_def shipping_exclusion_def split: option.splits if_splits elim!: rbind_InrE)

lemma land_fields:
  assumes "land p q e shipping t = Inr l"
  shows "money (fl (fl (fl (pp_price_cny p + shipping) + ct_insurance_cny e) + tb_total_import_tax_cny t)) 1 = Inr (lc_landed_cny l)"
    "lc_shipping_cny l = shipping" "lc_insurance_cny l = ct_insurance_cny e" "lc_import_tax_cny l = Some (tb_total_import_tax_cny t)"
    "price_point.truncate l = p" "lc_cost_status l = CostComplete" "pp_item_id l = pp_item_id p" "pp_price_cny l = pp_price_cny p"
  using assms
  by (auto simp: land_def price_point.defs landed_cost.defs elim!: rbind_InrE)

lemma money_mono:
  assumes "money a r = Inr x" "money b r = Inr y" "is_float a" "is_float b" "a \<le> b" "0 \<le> r"
  shows "x \<le> y"
proof -
  obtain c d where c: "cent (dec (dec_of_float a * r)) = Inr c" "x = fl c" "cent (dec (dec_of_float b * r)) = Inr d" "y = fl d"
    using assms(1,2) by (auto simp: money_def elim!: rbind_InrE)
  have "dec (dec_of_float a * r) \<le> dec (dec_of_float b * r)"
    using dec_of_float_mono [OF assms(3-5)] assms(6) by (intro decimal28.rnd_mono mult_right_mono)
  then show ?thesis using cent_mono [OF c(1,3)] double.rnd_mono c(2,4) by simp
qed


section \<open>Concrete offers\<close>

definition a_tax :: "import_regime \<Rightarrow> tax_rate_type \<Rightarrow> customs_tax_evidence" where
  "a_tax regime rate_type =
     \<lparr>ct_hs_code = lit ''640391'', ct_country_of_origin = lit ''IT'', ct_destination_country = lit ''CN'', ct_ship_from_country = None,
      ct_import_regime = regime, ct_rate_type = rate_type, ct_tariff_rate = Some (1 / 8), ct_import_vat_rate = Some (1 / 8),
      ct_consumption_tax_rate = 0, ct_personal_postal_tax_rate = None, ct_personal_postal_assessed_value_cny = None,
      ct_personal_postal_total_value_cny = None, ct_personal_postal_value_limit_cny = None,
      ct_personal_postal_tax_exemption_threshold_cny = None, ct_personal_postal_single_indivisible_item = None,
      ct_personal_postal_eligible = None, ct_seller_collected_tax_cny = Some 5, ct_insurance_cny = 0, ct_valuation = None,
      ct_cross_border_ecommerce_eligible = None, ct_provider = lit ''customs'', ct_source_reference = lit ''table'',
      ct_effective_date = lit ''2025-01-01''\<rparr>"

lemma a_tax_shapes: "hs_code_shape (lit ''640391'')" "iso_date_shape (lit ''2025-01-01'')" "date_parts (lit ''2025-01-01'') \<noteq> None"
  by code_simp+

lemma a_tax_valid: "valid_customs_tax (a_tax RegimeGeneralTrade RateMfn)" "valid_customs_tax (a_tax RegimeSellerCollected RateProviderQuote)"
  using a_tax_shapes
  by (simp_all add: valid_customs_tax_def fields_customs_tax_evidence_def validate_regime_evidence_def a_tax_def)

lemma a_tax_moderate: "0 \<le> p \<Longrightarrow> p \<le> 1000 \<Longrightarrow> 0 \<le> s \<Longrightarrow> s \<le> 1000 \<Longrightarrow> moderate (a_tax g r) p s"
  by (simp add: moderate_def a_tax_def)

theorem import_tax_adds_up_witness:
  "\<exists>t. calculate_import_tax (a_tax RegimeGeneralTrade RateMfn) 100 10 = Inr t"
  using import_tax_adds_up [OF a_tax_valid(1) a_tax_moderate [of 100 10]] by auto

lemma small_floats: "is_float 100" "is_float 200" "is_float 10"
  using is_float_of_int [of 100] is_float_of_int [of 200] is_float_of_int [of 10] by simp_all

lemma small_decimals: "dec_of_float 100 = 100" "dec_of_float 200 = 200" "dec_of_float 10 = 10" "dec_of_float 5 = 5" "dec_of_float 1 = 1"
  by (simp_all add: str_eval)

lemma cent_of_int: "0 \<le> n \<Longrightarrow> n \<le> 10 ^ 25 \<Longrightarrow> cent (of_int n) = Inr (of_int n)"
proof (rule cent_of_cents)
  assume "0 \<le> n" "n \<le> 10 ^ 25"
  then have "(of_int n :: rat) \<le> of_int (10 ^ 25)" by (simp only: of_int_le_iff)
  then show "of_int n \<le> (10 ^ 25 :: rat)" by simp
  have "(of_int n :: rat) = of_int (n * 100) / 100" by simp
  then show "cents (of_int n)" unfolding cents_def by blast
qed simp

lemma cent_numeral: "cent 5 = Inr 5" "cent 10 = Inr 10" "cent 100 = Inr 100" "cent 110 = Inr 110" "cent 115 = Inr 115"
  using cent_of_int [of 5] cent_of_int [of 10] cent_of_int [of 100] cent_of_int [of 110] cent_of_int [of 115] by simp_all

lemma small_money: "money 100 1 = Inr 100" "money 10 1 = Inr 10" "money 115 1 = Inr 115"
proof -
  have "dec 100 = 100" "dec 10 = 10" "dec 115 = 115" "dec_of_float 115 = 115" "fl 100 = 100" "fl 10 = 10" "fl 115 = 115"
    by (simp_all add: str_eval)
  then show "money 100 1 = Inr 100" "money 10 1 = Inr 10" "money 115 1 = Inr 115"
    by (simp_all add: money_def small_decimals cent_numeral)
qed

lemma seller_tax:
  "calculate_import_tax (a_tax RegimeSellerCollected RateProviderQuote) 100 10
   = Inr (tax_breakdown (a_tax RegimeSellerCollected RateProviderQuote)
       \<lparr>tp_customs_value = 110, tp_tariff = None, tp_import_vat = None, tp_consumption = None, tp_before_exemption = None,
        tp_exemption = 0, tp_exemption_reason = None, tp_policy_factor = 1, tp_method = MethodProviderQuote,
        tp_basis = QUOTE_BASIS, tp_total = 5\<rparr> 5)" (is "_ = Inr (tax_breakdown ?e ?p 5)")
proof -
  have "customs_value ?e 100 10 = Inr 110"
  proof -
    have "dec 110 = 110" "dec_of_float 0 = 0" by (simp_all add: str_eval)
    then show ?thesis by (simp add: customs_value_def a_tax_def small_decimals cent_numeral)
  qed
  then have "tax_parts_of ?e 100 10 = Inr ?p"
    by (simp add: tax_parts_of_def seller_collected_tax_def a_tax_def or_zero_def small_decimals cent_numeral)
  moreover have "fields_import_tax_breakdown (tax_breakdown ?e ?p 5)"
    using a_tax_valid(2) cent_cents [OF cent_numeral(1)] by (intro breakdown_fields) (simp_all add: valid_customs_tax_def parts_add_up_def)
  ultimately show ?thesis by (simp add: calculate_import_tax_def cent_numeral Let_def)
qed

theorem import_tax_monotone_witness:
  "\<exists>t t'. calculate_import_tax (a_tax RegimeGeneralTrade RateMfn) 100 10 = Inr t
    \<and> calculate_import_tax (a_tax RegimeGeneralTrade RateMfn) 200 10 = Inr t'
    \<and> tb_total_import_tax_cny t \<le> tb_total_import_tax_cny t'"
proof -
  let ?e = "a_tax RegimeGeneralTrade RateMfn"
  have f: "fields_customs_tax_evidence ?e" using a_tax_valid(1) by (simp add: valid_customs_tax_def)
  have "\<exists>t. calculate_import_tax ?e p 10 = Inr t" if "0 \<le> p" "p \<le> 1000" for p
    using tax_exists [OF f a_tax_moderate [OF that, of 10]] by auto
  then obtain t t' where t: "calculate_import_tax ?e 100 10 = Inr t" "calculate_import_tax ?e 200 10 = Inr t'" by fastforce
  then show ?thesis
    using import_tax_monotone [OF f a_tax_moderate a_tax_moderate, of 100 10 200 10] small_floats by auto
qed

definition an_offer :: candidate where
  "an_offer =
     \<lparr>ca_item_id = lit ''i1'', ca_platform = Amazon, ca_title = lit ''boot'', ca_price = 100, ca_currency = lit ''CNY'',
      ca_rating = None, ca_sales = None, ca_image_url = None, ca_product_url = None, ca_attributes = [], ca_source = SrcCurated,
      ca_marketplace = None, ca_offer_id = None,
      ca_identity = \<lparr>pid_gtin = None, pid_mpn = None, pid_brand = None, pid_model = None\<rparr>,
      ca_variant_attributes = [], ca_availability = None, ca_retrieved_at = None, ca_provenance = None, ca_link_kind = None,
      ca_identity_evidence = None, ca_price_conversion = None, ca_shipping_quote = None, ca_customs = None\<rparr>"

lemma offer_currency: "currency_of an_offer = CNY"
  by code_simp

lemma priced_offer: "price_of stamp now an_offer = Inr (Priced (point_of an_offer CNY 100\<lparr>pp_marketplace := Some Amazon\<rparr>))"
proof -
  have "ca_price an_offer = 100" by (simp add: an_offer_def)
  moreover have "normalize_point_marketplace (point_of an_offer CNY 100) = Some (point_of an_offer CNY 100\<lparr>pp_marketplace := Some Amazon\<rparr>)"
    by (simp add: normalize_point_marketplace_def point_of_def an_offer_def)
  ultimately show ?thesis by (simp add: price_of_def offer_currency small_decimals small_money)
qed

lemma CNY_upper: "py_upper CNY = CNY"
  by code_simp

lemma price_compare_accounts_witness:
  "\<exists>out. price_compare (\<lambda>t. []) 0 CNY 10 [an_offer] = Inr out
    \<and> (\<exists>p. price_of (\<lambda>t. []) 0 an_offer = Inr (Priced p) \<and> p \<in> set (pco_ranked out))"
proof -
  obtain out where out: "price_compare (\<lambda>t. []) 0 CNY 10 [an_offer] = Inr out" "length (pco_ranked out) = 1"
    by (auto simp: price_compare_def Let_def priced_offer priced_def not_priced_def CNY_upper point_of_def)
  then have "an_offer \<in> set (take 100 [an_offer])" by simp
  then show ?thesis
    using price_compare_accounts [OF out(1), of an_offer] out priced_offer [of "\<lambda>t. []" 0] by auto
qed

definition a_quote :: shipping_quote_evidence where
  "a_quote =
     \<lparr>sq_quote_type = QuoteCarrierQuote, sq_currency = CNY, sq_total_amount = 10, sq_base_amount = None, sq_surcharge_amount = 0,
      sq_discount_amount = 0, sq_actual_weight_kg = None, sq_dimensional_weight_kg = None, sq_chargeable_weight_kg = None,
      sq_length_cm = None, sq_width_cm = None, sq_height_cm = None, sq_dimensional_divisor = None,
      sq_origin_country = lit ''US'', sq_destination_country = lit ''CN'', sq_service_name = lit ''air'',
      sq_eta_min_days = 3, sq_eta_max_days = 7, sq_provider = lit ''carrier'', sq_source_reference = lit ''q1'',
      sq_observed_at = 0, sq_expires_at = None, sq_currency_conversion = None\<rparr>"

definition a_point :: price_point where
  "a_point = point_of (an_offer\<lparr>ca_shipping_quote := Some a_quote,
       ca_customs := Some (a_tax RegimeSellerCollected RateProviderQuote)\<rparr>) CNY 100"

lemma cost_of_a_point: "\<exists>l. cost_of stamp now a_point = Inr (Landed l)"
proof -
  let ?e = "a_tax RegimeSellerCollected RateProviderQuote"
  have p: "pp_shipping_quote a_point = Some a_quote" "pp_customs a_point = Some ?e" "pp_price_cny a_point = 100" "pp_source a_point = SrcCurated"
    by (simp_all add: a_point_def point_of_def an_offer_def)
  have q: "sq_total_amount a_quote = 10" "sq_currency_conversion a_quote = None" "sq_expires_at a_quote = None"
    by (simp_all add: a_quote_def)
  have "fl (fl (fl (100 + 10) + 0) + fl 5) = 115" by (simp add: float_eval)
  then have "\<exists>l. land a_point a_quote ?e 10 (tax_breakdown ?e t 5) = Inr l" for t
    by (simp add: land_def p a_tax_def tax_breakdown_def small_money)
  then obtain l where "land a_point a_quote ?e 10 (tax_breakdown ?e
       \<lparr>tp_customs_value = 110, tp_tariff = None, tp_import_vat = None, tp_consumption = None, tp_before_exemption = None,
        tp_exemption = 0, tp_exemption_reason = None, tp_policy_factor = 1, tp_method = MethodProviderQuote,
        tp_basis = QUOTE_BASIS, tp_total = 5\<rparr> 5) = Inr l" by blast
  then show ?thesis
    by (auto simp: cost_of_def p q shipping_exclusion_def expired_def small_money seller_tax a_tax_def [THEN arg_cong [of _ _ ct_import_regime]])
qed


end
