(* ===== verification/PyText.thy ===== *)
theory PyText
  imports LandedCost
begin

text \<open>
  How Python prints values: \<open>str\<close> and \<open>repr\<close> of numbers, strings and containers, and the format
  \<open>:g\<close>. The Unicode tables behind \<open>str.isprintable\<close>, \<open>str.lower\<close>, \<open>str.casefold\<close> and the
  normal form NFKC are data of the standard library, a parameter (\<open>unicode_text\<close>).
\<close>

record unicode_text =
  printable :: "int \<Rightarrow> bool"
  lowered :: "pystr \<Rightarrow> pystr"
  casefolded :: "pystr \<Rightarrow> pystr"
  digit_value :: "int \<Rightarrow> int option"  \<comment> \<open>of the characters that \<open>\d\<close> matches\<close>
  folded :: "pystr \<Rightarrow> pystr"  \<comment> \<open>\<open>unicodedata.normalize("NFKC", s).casefold()\<close>\<close>

section \<open>Numbers\<close>

definition digits_of :: "nat \<Rightarrow> int \<Rightarrow> pystr" where
  \<comment> \<open>a number below \<open>10 ^ n\<close> with leading zeros\<close>
  "digits_of n x = map (\<lambda>i. 48 + x div 10 ^ i mod 10) (rev [0..<n])"

definition strip_zeros :: "pystr \<Rightarrow> pystr" where
  "strip_zeros ds = rev (dropWhile (\<lambda>c. c = 48) (rev ds))"

definition significant :: "nat \<Rightarrow> rat \<Rightarrow> pystr" where
  \<comment> \<open>the digits of a positive decimal of at most \<open>n\<close> significant digits, without trailing zeros\<close>
  "significant n v = strip_zeros (digits_of n \<lfloor>v * power_int 10 (int n - 1 - lead_exp 10 v)\<rfloor>)"

definition zeros :: "nat \<Rightarrow> pystr" where
  "zeros n = replicate n 48"

definition fixed_point :: "pystr \<Rightarrow> int \<Rightarrow> pystr \<Rightarrow> pystr" where
  \<comment> \<open>digits with the point after the first \<open>p\<close>, and what follows an integer\<close>
  "fixed_point ds p rest =
     (if p \<le> 0 then lit ''0.'' @ zeros (nat (- p)) @ ds
      else if int (length ds) \<le> p then ds @ zeros (nat p - length ds) @ rest
      else take (nat p) ds @ [46] @ drop (nat p) ds)"

definition exponent_form :: "pystr \<Rightarrow> int \<Rightarrow> pystr" where
  "exponent_form ds e =
     take 1 ds @ (if length ds = 1 then [] else 46 # drop 1 ds) @ [101, if e < 0 then 45 else 43]
     @ (if \<bar>e\<bar> < 10 then [48] else []) @ show_nat (nat \<bar>e\<bar>)"

definition signed :: "rat \<Rightarrow> pystr \<Rightarrow> pystr" where
  "signed x s = (if x < 0 then 45 # s else s)"

definition float_repr :: "rat \<Rightarrow> pystr" where
  "float_repr x =
     (if x = 0 then lit ''0.0''
      else let v = \<bar>dec_of_float x\<bar>; e = lead_exp 10 v; ds = significant 17 v
           in signed x (if - 4 \<le> e \<and> e < 16 then fixed_point ds (e + 1) (lit ''.0'') else exponent_form ds e))"

definition general_format :: "rat \<Rightarrow> pystr" where
  \<comment> \<open>\<open>:g\<close>\<close>
  "general_format x =
     (if x = 0 then [48]
      else let v = sig_round 10 6 \<bar>x\<bar>; e = lead_exp 10 v; ds = significant 6 v
           in signed x (if - 4 \<le> e \<and> e < 6 then fixed_point ds (e + 1) [] else exponent_form ds e))"

section \<open>Strings and containers\<close>

definition hex_digit :: "int \<Rightarrow> int" where
  "hex_digit n = (if n < 10 then 48 + n else 87 + n)"

definition hex_escape :: "int \<Rightarrow> nat \<Rightarrow> int \<Rightarrow> pystr" where
  "hex_escape k n c = [92, k] @ map (\<lambda>i. hex_digit (c div 16 ^ i mod 16)) (rev [0..<n])"

definition repr_char :: "(int \<Rightarrow> bool) \<Rightarrow> int \<Rightarrow> int \<Rightarrow> pystr" where
  "repr_char pr q c =
     (if c = q \<or> c = 92 then [92, c]
      else if c = 9 then [92, 116] else if c = 10 then [92, 110] else if c = 13 then [92, 114]
      else if 32 \<le> c \<and> c < 127 \<or> 127 < c \<and> pr c then [c]
      else if c < 256 then hex_escape 120 2 c
      else if c < 65536 then hex_escape 117 4 c else hex_escape 85 8 c)"

definition str_repr :: "(int \<Rightarrow> bool) \<Rightarrow> pystr \<Rightarrow> pystr" where
  "str_repr pr s = (let q = (if 39 \<in> set s \<and> 34 \<notin> set s then 34 else 39) in [q] @ concat (map (repr_char pr q) s) @ [q])"

fun json_repr :: "(int \<Rightarrow> bool) \<Rightarrow> json \<Rightarrow> pystr" where
  "json_repr pr JNull = lit ''None''"
| "json_repr pr (JBool b) = (if b then lit ''True'' else lit ''False'')"
| "json_repr pr (JInt i) = show_int i"
| "json_repr pr (JNum x) = float_repr x"
| "json_repr pr (JStr s) = str_repr pr s"
| "json_repr pr (JList xs) = [91] @ joined (lit '', '') (map (json_repr pr) xs) @ [93]"
| "json_repr pr (JMap m) = [123] @ joined (lit '', '') (map (\<lambda>(k, v). str_repr pr k @ lit '': '' @ json_repr pr v) m) @ [125]"

definition json_str :: "(int \<Rightarrow> bool) \<Rightarrow> json \<Rightarrow> pystr" where
  "json_str pr v = (case v of JStr s \<Rightarrow> s | _ \<Rightarrow> json_repr pr v)"

fun json_of_scalar :: "scalar \<Rightarrow> json" where
  "json_of_scalar (ScStr s) = JStr s"
| "json_of_scalar (ScInt i) = JInt i"
| "json_of_scalar (ScFloat x) = JNum x"
| "json_of_scalar (ScBool b) = JBool b"
| "json_of_scalar ScNone = JNull"

definition scalar_str :: "scalar \<Rightarrow> pystr" where
  \<comment> \<open>\<open>str\<close> of a scalar needs no table\<close>
  "scalar_str v = json_str (\<lambda>_. True) (json_of_scalar v)"

definition json_truthy :: "json \<Rightarrow> bool" where
  "json_truthy v = (case v of JNull \<Rightarrow> False | JBool b \<Rightarrow> b | JInt i \<Rightarrow> i \<noteq> 0 | JNum x \<Rightarrow> x \<noteq> 0
     | JStr s \<Rightarrow> s \<noteq> [] | JList xs \<Rightarrow> xs \<noteq> [] | JMap m \<Rightarrow> m \<noteq> [])"

end
