(* ===== verification/FxRates.thy ===== *)
theory FxRates
  imports PyText
begin

text \<open>
  Where exchange rates come from: \<open>app/tools/customs_fx.py\<close>, the monthly assessment rate of the
  customs from the series of the PBOC, and \<open>app/tools/fx_reference.py\<close>, the reference rates of the ECB
  that make offers comparable. A response is the element tree of its XML (\<open>None\<close>: it does not
  parse); the network is an argument, a function from the request to a response or a failure. The
  process-wide \<open>lru_cache\<close> of the PBOC series is a state that each call takes and returns.
\<close>

section \<open>Dates\<close>

type_synonym date = "int \<times> int \<times> int"

definition days_before_year :: "int \<Rightarrow> int" where
  "days_before_year y = (y - 1) * 365 + (y - 1) div 4 - (y - 1) div 100 + (y - 1) div 400"

definition to_ordinal :: "date \<Rightarrow> int" where
  "to_ordinal d = (case d of (y, m, day) \<Rightarrow> days_before_year y + (\<Sum>k\<leftarrow>[1..m - 1]. days_in_month y k) + day)"

definition weekday :: "date \<Rightarrow> int" where
  \<comment> \<open>Monday is 0\<close>
  "weekday d = (to_ordinal d + 6) mod 7"

definition epoch_seconds :: "date \<Rightarrow> rat" where
  \<comment> \<open>the instant of midnight UTC\<close>
  "epoch_seconds d = of_int ((to_ordinal d - 719163) * 86400)"

definition isoformat :: "date \<Rightarrow> pystr" where
  "isoformat d = (case d of (y, m, day) \<Rightarrow> digits_of 4 y @ [45] @ digits_of 2 m @ [45] @ digits_of 2 day)"

definition year_month :: "date \<Rightarrow> pystr" where
  \<comment> \<open>\<open>strftime("%Y-%m")\<close>\<close>
  "year_month d = (case d of (y, m, day) \<Rightarrow> digits_of 4 y @ [45] @ digits_of 2 m)"

section \<open>Element trees\<close>

datatype xml = Element (tag: pystr) (attrs: "(pystr \<times> pystr) list") (content: "pystr option") (children: "xml list")

fun iter :: "xml \<Rightarrow> xml list" where
  "iter (Element t a x cs) = Element t a x cs # concat (map iter cs)"

definition local_name :: "pystr \<Rightarrow> pystr" where
  \<comment> \<open>\<open>tag.rsplit("}", 1)[-1]\<close>\<close>
  "local_name t = rev (takeWhile (\<lambda>c. c \<noteq> 125) (rev t))"

definition ends_with :: "pystr \<Rightarrow> pystr \<Rightarrow> bool" where
  "ends_with p s = starts_with (rev p) (rev s)"

definition attribute :: "pystr \<Rightarrow> xml \<Rightarrow> pystr option" where
  \<comment> \<open>an attribute that is present and not empty\<close>
  "attribute k e = (case map_of (attrs e) k of None \<Rightarrow> None | Some v \<Rightarrow> if v = [] then None else Some v)"

section \<open>The assessment rate of the customs\<close>

datatype rate_quote = CnyPerUnit | CnyPer100 | ForeignPerCny

datatype fx_error =
    CnyNeedsNoRate | NoMapping pystr | NotAnIsoDate | InvalidXml | NoObservations
  | NoWednesdayObservation "date list" | InvalidRate pystr
  | HttpFailure | DateOutOfRange | EvidenceRefused

definition PBOC_RATES :: "(pystr \<times> int \<times> rate_quote) list" where
  "PBOC_RATES =
     [(lit ''USD'', 1, CnyPerUnit), (lit ''EUR'', 2, CnyPerUnit), (lit ''JPY'', 3, CnyPer100),
      (lit ''HKD'', 4, CnyPerUnit), (lit ''GBP'', 5, CnyPerUnit), (lit ''MYR'', 6, ForeignPerCny),
      (lit ''RUB'', 7, ForeignPerCny), (lit ''AUD'', 8, CnyPerUnit), (lit ''CAD'', 9, CnyPerUnit),
      (lit ''NZD'', 10, CnyPerUnit), (lit ''SGD'', 11, CnyPerUnit), (lit ''CHF'', 12, CnyPerUnit),
      (lit ''ZAR'', 13, ForeignPerCny), (lit ''KRW'', 14, ForeignPerCny), (lit ''AED'', 15, ForeignPerCny),
      (lit ''SAR'', 16, ForeignPerCny), (lit ''HUF'', 17, ForeignPerCny), (lit ''PLN'', 18, ForeignPerCny),
      (lit ''DKK'', 19, ForeignPerCny), (lit ''SEK'', 20, ForeignPerCny), (lit ''NOK'', 21, ForeignPerCny),
      (lit ''TRY'', 22, ForeignPerCny), (lit ''MXN'', 23, ForeignPerCny), (lit ''THB'', 24, ForeignPerCny),
      (lit ''MOP'', 25, ForeignPerCny)]"

type_synonym series = "(pystr \<times> rat) list"  \<comment> \<open>the last entry of a date counts\<close>

definition observation :: "xml \<Rightarrow> (pystr \<times> rat) option" where
  \<comment> \<open>what one \<open>Temp\<close> node contributes\<close>
  "observation node =
     (let fields = map (\<lambda>c. (local_name (tag c), py_strip (the (content c))))
                     (filter (\<lambda>c. content c \<noteq> None \<and> content c \<noteq> Some []) (children node));
          field = (\<lambda>k. case map_of (rev fields) k of None \<Rightarrow> [] | Some v \<Rightarrow> v);
          observed = field (lit ''date''); raw_value = field (lit ''hlvalue'')
      in if observed = [] \<or> raw_value = [] \<or> date_parts observed = None then None
         else case py_float raw_value of
                Some (Finite value) \<Rightarrow> if 0 < value then Some (observed, value) else None
              | _ \<Rightarrow> None)"

definition parse_series :: "xml option \<Rightarrow> fx_error + series" where
  "parse_series payload =
     (case payload of
        None \<Rightarrow> Inl InvalidXml
      | Some doc \<Rightarrow>
          let values = List.map_filter observation (filter (\<lambda>node. local_name (tag node) = lit ''Temp'') (iter doc))
          in if values = [] then Inl NoObservations else Inr values)"

definition observed_rate :: "series \<Rightarrow> date \<Rightarrow> rat option" where
  "observed_rate values d = map_of (rev values) (isoformat d)"

text \<open>
  \<open>lru_cache(maxsize=32)\<close> on \<open>_fetch_series\<close>: entries by arguments, the most recently used first;
  a call that raises is not kept.
\<close>

type_synonym series_cache = "((int \<times> rat) \<times> series) list"

definition fetch_series ::
  "(int \<Rightarrow> rat \<Rightarrow> fx_error + xml option) \<Rightarrow> int \<Rightarrow> rat \<Rightarrow> series_cache \<Rightarrow> (fx_error + series) \<times> series_cache" where
  "fetch_series pboc type_id timeout cache =
     (let key = (type_id, timeout); others = filter (\<lambda>e. fst e \<noteq> key) cache
      in case map_of cache key of
           Some values \<Rightarrow> (Inr values, (key, values) # others)
         | None \<Rightarrow>
             (case rbind (pboc type_id timeout) parse_series of
                Inl e \<Rightarrow> (Inl e, cache)
              | Inr values \<Rightarrow> (Inr values, take 32 ((key, values) # cache))))"

definition clear_customs_exchange_cache :: "series_cache \<Rightarrow> series_cache" where
  "clear_customs_exchange_cache cache = []"

definition third_wednesday :: "int \<Rightarrow> int \<Rightarrow> date" where
  \<comment> \<open>the sum of \<open>first\<close> and the \<open>timedelta\<close> stays in the month, whose days go to 28 at least\<close>
  "third_wednesday y m = (let offset = (2 - weekday (y, m, 1)) mod 7 in (y, m, 1 + offset + 14))"

definition previous_month :: "int \<Rightarrow> int \<Rightarrow> int \<times> int" where
  "previous_month y m = (if m = 1 then (y - 1, 12) else (y, m - 1))"

definition observation_candidates :: "date \<Rightarrow> fx_error + date list" where
  "observation_candidates decl =
     (case decl of (dy, dm, _) \<Rightarrow>
        case previous_month dy dm of (y, m) \<Rightarrow>
          if y < 1 then Inl DateOutOfRange
          else case third_wednesday y m of (y', m', d) \<Rightarrow> Inr [(y', m', d), (y', m', d + 7)])"

datatype declaration_date = GivenDate date | GivenText pystr | NotGiven

definition declaration_of :: "date \<Rightarrow> declaration_date \<Rightarrow> fx_error + date" where
  "declaration_of today dd =
     (case dd of
        GivenDate d \<Rightarrow> Inr d
      | GivenText t \<Rightarrow>
          if py_strip t = [] then Inr today
          else (case date_parts (py_strip t) of None \<Rightarrow> Inl NotAnIsoDate | Some d \<Rightarrow> Inr d)
      | NotGiven \<Rightarrow> Inr today)"

definition rate_of_quote :: "rate_quote \<Rightarrow> rat \<Rightarrow> py_number" where
  "rate_of_quote q raw = (case q of CnyPerUnit \<Rightarrow> Finite raw | CnyPer100 \<Rightarrow> finite_or_inf (raw / 100) | ForeignPerCny \<Rightarrow> finite_or_inf (1 / raw))"

definition PBOC_RATE_URL :: "int \<Rightarrow> pystr" where
  "PBOC_RATE_URL type_id = lit ''https://wzdt.pbc.gov.cn/huilv/flex-xml/flex_xml_'' @ show_int type_id @ lit ''.xml''"

definition assessment_rate :: "pystr \<Rightarrow> int \<Rightarrow> rate_quote \<Rightarrow> date \<Rightarrow> series \<Rightarrow> fx_error + customs_exchange_rate_evidence" where
  \<comment> \<open>the evidence for a declaration, once the series is known\<close>
  "assessment_rate source type_id q decl observations =
     rbind (observation_candidates decl) (\<lambda>candidates.
     case find (\<lambda>d. observed_rate observations d \<noteq> None) candidates of
       None \<Rightarrow> Inl (NoWednesdayObservation candidates)
     | Some observed \<Rightarrow>
         (case rate_of_quote q (the (observed_rate observations observed)) of
            NonFinite \<Rightarrow> Inl (InvalidRate source)
          | Finite rate \<Rightarrow>
              if rate \<le> 0 then Inl (InvalidRate source)
              else let e = \<lparr>cx_source_currency = source, cx_rate_to_cny = rate, cx_rate_basis = BasisMonthlyCustomsAssessment,
                            cx_declaration_date = isoformat decl, cx_assessment_month = year_month decl,
                            cx_provider = lit ''pboc-benchmark-rate'',
                            cx_source_reference = PBOC_RATE_URL type_id @ lit ''#date='' @ isoformat observed
                              @ lit '';customs-rule=third-wednesday-previous-month''\<rparr>
                   in if valid_customs_exchange_rate e then Inr e else Inl EvidenceRefused))"

definition fetch_customs_exchange_rate ::
  "(int \<Rightarrow> rat \<Rightarrow> fx_error + xml option) \<Rightarrow> date \<Rightarrow> pystr \<Rightarrow> declaration_date \<Rightarrow> rat \<Rightarrow> series_cache
   \<Rightarrow> (fx_error + customs_exchange_rate_evidence) \<times> series_cache" where
  "fetch_customs_exchange_rate pboc today source_currency dd timeout cache =
     (let source = py_upper (py_strip source_currency)
      in if source = CNY then (Inl CnyNeedsNoRate, cache)
         else case map_of PBOC_RATES source of
                None \<Rightarrow> (Inl (NoMapping source), cache)
              | Some (type_id, q) \<Rightarrow>
                  (case declaration_of today dd of
                     Inl e \<Rightarrow> (Inl e, cache)
                   | Inr decl \<Rightarrow>
                       (case fetch_series pboc type_id timeout cache of
                          (r, cache') \<Rightarrow> (rbind r (assessment_rate source type_id q decl), cache'))))"

section \<open>The reference rates of the ECB\<close>

type_synonym rate_table = "pystr \<Rightarrow> rat option"

definition ECB_CUBE :: pystr where
  "ECB_CUBE = lit ''{http://www.ecb.int/vocabulary/2002-08-01/eurofxref}Cube''"

definition ECB_DAILY_REFERENCE_URL :: pystr where
  "ECB_DAILY_REFERENCE_URL = lit ''https://www.ecb.europa.eu/stats/eurofxref/eurofxref-daily.xml''"

definition read_rate :: "xml \<Rightarrow> rate_table \<Rightarrow> rate_table" where
  "read_rate e rates =
     (case (attribute (lit ''currency'') e, attribute (lit ''rate'') e) of
        (Some currency, Some value) \<Rightarrow>
          (case py_float value of
             Some (Finite rate) \<Rightarrow> if 0 < rate then rates(py_upper currency \<mapsto> rate) else rates
           | _ \<Rightarrow> rates)
      | _ \<Rightarrow> rates)"

definition parse_rates :: "xml option \<Rightarrow> fx_error + pystr \<times> rate_table" where
  "parse_rates payload =
     (case payload of
        None \<Rightarrow> Inl InvalidXml
      | Some doc \<Rightarrow>
          (case find (\<lambda>e. ends_with (lit ''Cube'') (tag e) \<and> attribute (lit ''time'') e \<noteq> None) (iter doc) of
             None \<Rightarrow> Inl NoObservations
           | Some cube \<Rightarrow>
               Inr (the (attribute (lit ''time'') cube),
                    fold read_rate (filter (\<lambda>e. tag e = ECB_CUBE) (iter cube)) [lit ''EUR'' \<mapsto> 1])))"

definition conversion_from_rates ::
  "rat \<Rightarrow> pystr \<Rightarrow> pystr \<Rightarrow> rate_table \<Rightarrow> fx_error + currency_conversion_evidence option" where
  "conversion_from_rates now source_currency observation_date rates =
     (let source = py_upper (py_strip source_currency)
      in if source = CNY then Inr None
         else case (rates CNY, rates source) of
           (Some cny, Some unit) \<Rightarrow>
             (case (finite_or_inf (cny / unit), date_parts observation_date) of
                (Finite rate, Some d) \<Rightarrow>
                  let q = \<lparr>cc_source_currency = source, cc_rate_to_cny = rate, cc_rate_type = ConvMidMarketReference,
                           cc_markup_status = MarkupExcluded, cc_markup_bps = None, cc_provider = lit ''ecb-reference-rates'',
                           cc_source_reference = ECB_DAILY_REFERENCE_URL @ lit ''#'' @ observation_date,
                           cc_observed_at = epoch_seconds d, cc_expires_at = Some (now + 86400)\<rparr>
                  in if valid_currency_conversion q then Inr (Some q) else Inl EvidenceRefused
              | _ \<Rightarrow> Inl EvidenceRefused)
         | _ \<Rightarrow> Inr None)"

definition fetch_conversion :: "rat \<Rightarrow> (unit \<Rightarrow> fx_error + xml option) \<Rightarrow> pystr \<Rightarrow> fx_error + currency_conversion_evidence option" where
  "fetch_conversion now ecb source_currency =
     (if py_upper (py_strip source_currency) = CNY then Inr None
      else rbind (rbind (ecb ()) parse_rates) (\<lambda>(d, rates). conversion_from_rates now source_currency d rates))"

definition fetch_conversions ::
  "rat \<Rightarrow> (unit \<Rightarrow> fx_error + xml option) \<Rightarrow> pystr list \<Rightarrow> fx_error + (pystr \<times> currency_conversion_evidence) list" where
  "fetch_conversions now ecb currencies =
     (let requested = filter (\<lambda>c. c \<noteq> CNY) (dict_fromkeys (map (\<lambda>c. py_upper (py_strip c)) currencies))
      in if requested = [] then Inr []
         else rbind (rbind (ecb ()) parse_rates) (\<lambda>(d, rates).
              rbind (mapM_r (\<lambda>c. rbind (conversion_from_rates now c d rates) (\<lambda>q. Inr (c, q))) requested) (\<lambda>values.
              Inr (concat (map (\<lambda>(c, q). case q of None \<Rightarrow> [] | Some q' \<Rightarrow> [(c, q')]) values)))))"

definition offer_currency :: "candidate \<Rightarrow> pystr" where
  "offer_currency c = py_upper (py_strip (ca_currency c))"

definition needs_refresh :: "rat \<Rightarrow> candidate \<Rightarrow> bool" where
  \<comment> \<open>the two loops write this condition twice, with the same meaning\<close>
  "needs_refresh now c \<longleftrightarrow>
     (case ca_price_conversion c of
        None \<Rightarrow> True
      | Some q \<Rightarrow> cc_source_currency q \<noteq> offer_currency c
          \<or> ca_source c = SrcLive \<and> (cc_expires_at q = None \<or> expired now (cc_expires_at q)))"

definition enrich_price_conversions :: "rat \<Rightarrow> (unit \<Rightarrow> fx_error + xml option) \<Rightarrow> candidate list \<Rightarrow> candidate list" where
  "enrich_price_conversions now ecb candidates =
     (let currencies = map offer_currency (filter (\<lambda>c. offer_currency c \<noteq> CNY \<and> needs_refresh now c) candidates)
      in if currencies = [] then candidates
         else case fetch_conversions now ecb currencies of
                Inl e \<Rightarrow> candidates
              | Inr fetched \<Rightarrow>
                  map (\<lambda>c. case map_of fetched (offer_currency c) of
                             Some q \<Rightarrow> if needs_refresh now c then c\<lparr>ca_price_conversion := Some q\<rparr> else c
                           | None \<Rightarrow> c) candidates)"

end
