(* ===== verification/JsonText.thy ===== *)
theory JsonText
  imports Regex Config
begin

text \<open>
  Reading JSON as Python's \<open>json.loads\<close> does: a value keeps whether a number was written as an
  integer or a float, \<open>NaN\<close> and \<open>Infinity\<close> are accepted, escapes of two surrogates are one
  character, and a repeated key counts once, with its last value (\<open>jget\<close>). The readers are
  functions from the rest of the text to a value and what follows it; \<open>None\<close> is a
  \<open>JSONDecodeError\<close>. The limits of the interpreter on nesting and on the length of integers
  are not modelled.
\<close>

section \<open>Values\<close>

datatype jval =
    JvNull | JvBool bool | JvInt int | JvFloat py_number | JvStr pystr | JvList "jval list" | JvObj "(pystr \<times> jval) list"

definition jget :: "(pystr \<times> jval) list \<Rightarrow> pystr \<Rightarrow> jval option" where
  "jget kvs k = map_of (rev kvs) k"

definition truthy :: "jval \<Rightarrow> bool" where
  "truthy v = (case v of JvNull \<Rightarrow> False | JvBool b \<Rightarrow> b | JvInt i \<Rightarrow> i \<noteq> 0 | JvFloat x \<Rightarrow> x \<noteq> Finite 0
     | JvStr s \<Rightarrow> s \<noteq> [] | JvList xs \<Rightarrow> xs \<noteq> [] | JvObj kvs \<Rightarrow> kvs \<noteq> [])"

section \<open>Tokens\<close>

definition skip_ws :: "pystr \<Rightarrow> pystr" where
  "skip_ws s = dropWhile (\<lambda>c. c \<in> {32, 9, 10, 13}) s"

definition hex_value :: "int \<Rightarrow> int option" where
  "hex_value c = (if digit c then Some (c - 48) else if 97 \<le> c \<and> c \<le> 102 then Some (c - 87)
     else if 65 \<le> c \<and> c \<le> 70 then Some (c - 55) else None)"

fun hex4 :: "pystr \<Rightarrow> (int \<times> pystr) option" where
  "hex4 (a # b # c # d # s) =
     (case (hex_value a, hex_value b, hex_value c, hex_value d) of
        (Some w, Some x, Some y, Some z) \<Rightarrow> Some (((w * 16 + x) * 16 + y) * 16 + z, s)
      | _ \<Rightarrow> None)"
| "hex4 s = None"

definition unicode_escape :: "pystr \<Rightarrow> (int \<times> pystr) option" where
  \<comment> \<open>after \<open>\u\<close>: a code point, from a pair of surrogates where there is one\<close>
  "unicode_escape s =
     (case hex4 s of
        None \<Rightarrow> None
      | Some (hi, s1) \<Rightarrow>
          if 55296 \<le> hi \<and> hi \<le> 56319 then
            (if starts_with [92, 117] s1 then
               (case hex4 (drop 2 s1) of
                  Some (lo, s3) \<Rightarrow> if 56320 \<le> lo \<and> lo \<le> 57343 then Some (65536 + (hi - 55296) * 1024 + (lo - 56320), s3) else Some (hi, s1)
                | None \<Rightarrow> None)
             else Some (hi, s1))
          else Some (hi, s1))"

definition simple_escape :: "int \<Rightarrow> int option" where
  "simple_escape c = map_of [(34, 34), (92, 92), (47, 47), (98, 8), (102, 12), (110, 10), (114, 13), (116, 9)] c"

fun read_string :: "nat \<Rightarrow> pystr \<Rightarrow> (pystr \<times> pystr) option" where
  \<comment> \<open>after the opening quote; the fuel bounds the characters read\<close>
  "read_string 0 s = None"
| "read_string (Suc n) s =
     (case s of
        [] \<Rightarrow> None
      | c # t \<Rightarrow>
          if c = 34 then Some ([], t)
          else if c = 92 then
            (case t of
               [] \<Rightarrow> None
             | e # u \<Rightarrow>
                 (case (if e = 117 then unicode_escape u else map_option (\<lambda>x. (x, u)) (simple_escape e)) of
                    None \<Rightarrow> None
                  | Some (x, r) \<Rightarrow> map_option (\<lambda>(y, r'). (x # y, r')) (read_string n r)))
          else if c < 32 then None
          else map_option (\<lambda>(y, r'). (c # y, r')) (read_string n t))"

definition read_number :: "pystr \<Rightarrow> (jval \<times> pystr) option" where
  \<comment> \<open>\<open>-?(0|[1-9][0-9]*)([.][0-9]+)?([eE][-+]?[0-9]+)?\<close>\<close>
  "read_number s =
     (let (sg, t) = (case s of c # t \<Rightarrow> if c = 45 then (- 1, t) else (1, s) | [] \<Rightarrow> (1, s));
          whole = (case t of c # _ \<Rightarrow> if c = 48 then [48] else takeWhile digit t | [] \<Rightarrow> []);
          r1 = drop (length whole) t;
          frac = (case r1 of c # u \<Rightarrow> if c = 46 then takeWhile digit u else [] | [] \<Rightarrow> []);
          r2 = (if frac = [] then r1 else drop (Suc (length frac)) r1);
          (es, eds) = (case r2 of c # u \<Rightarrow> if c \<in> {69, 101} then (let (g, v) = sign_split u in (g, takeWhile digit v)) else (1, []) | [] \<Rightarrow> (1, []));
          r3 = (if eds = [] then r2 else drop (length eds) (snd (sign_split (tl r2))))
      in if whole = [] then None
         else if frac = [] \<and> eds = [] then Some (JvInt (sg * digits_value whole), r3)
         else Some (JvFloat (finite_or_inf (of_int sg * (of_int (digits_value (whole @ frac)) / 10 ^ length frac)
                               * power_int 10 (es * digits_value eds))), r3))"

definition read_literal :: "pystr \<Rightarrow> (jval \<times> pystr) option" where
  "read_literal s =
     map_option (\<lambda>(w, v). (v, drop (length w) s))
       (find (\<lambda>(w, v). starts_with w s)
          [(lit ''null'', JvNull), (lit ''true'', JvBool True), (lit ''false'', JvBool False), (lit ''NaN'', JvFloat NonFinite),
           (lit ''Infinity'', JvFloat NonFinite), (lit ''-Infinity'', JvFloat NonFinite)])"

section \<open>Values and documents\<close>

fun read_value :: "nat \<Rightarrow> pystr \<Rightarrow> (jval \<times> pystr) option"
  and read_items :: "nat \<Rightarrow> pystr \<Rightarrow> (jval list \<times> pystr) option"
  and read_members :: "nat \<Rightarrow> pystr \<Rightarrow> ((pystr \<times> jval) list \<times> pystr) option" where
  "read_value 0 s = None"
| "read_value (Suc n) s =
     (case s of
        [] \<Rightarrow> None
      | c # t \<Rightarrow>
          if c = 34 then map_option (\<lambda>(x, r). (JvStr x, r)) (read_string (length s) t)
          else if c = 123 then
            (case skip_ws t of
               [] \<Rightarrow> None
             | d # u \<Rightarrow> if d = 125 then Some (JvObj [], u) else map_option (\<lambda>(x, r). (JvObj x, r)) (read_members n (d # u)))
          else if c = 91 then
            (case skip_ws t of
               [] \<Rightarrow> None
             | d # u \<Rightarrow> if d = 93 then Some (JvList [], u) else map_option (\<lambda>(x, r). (JvList x, r)) (read_items n (d # u)))
          else case read_literal s of Some r \<Rightarrow> Some r | None \<Rightarrow> read_number s)"
| "read_items 0 s = None"
| "read_items (Suc n) s =
     (case read_value n s of
        None \<Rightarrow> None
      | Some (v, r) \<Rightarrow>
          (case skip_ws r of
             [] \<Rightarrow> None
           | d # u \<Rightarrow> if d = 93 then Some ([v], u)
                      else if d = 44 then map_option (\<lambda>(vs, r'). (v # vs, r')) (read_items n (skip_ws u))
                      else None))"
| "read_members 0 s = None"
| "read_members (Suc n) s =
     (case s of
        [] \<Rightarrow> None
      | q # t \<Rightarrow>
          if q \<noteq> 34 then None
          else case read_string (length s) t of
                 None \<Rightarrow> None
               | Some (k, r) \<Rightarrow>
                   (case skip_ws r of
                      [] \<Rightarrow> None
                    | d # u \<Rightarrow>
                        if d \<noteq> 58 then None
                        else case read_value n (skip_ws u) of
                               None \<Rightarrow> None
                             | Some (v, r') \<Rightarrow>
                                 (case skip_ws r' of
                                    [] \<Rightarrow> None
                                  | e # u' \<Rightarrow> if e = 125 then Some ([(k, v)], u')
                                              else if e = 44 then map_option (\<lambda>(m, r''). ((k, v) # m, r'')) (read_members n (skip_ws u'))
                                              else None)))"

definition json_loads :: "pystr \<Rightarrow> jval option" where
  \<comment> \<open>every nested reader consumes a character, so the fuel is never exhausted\<close>
  "json_loads s =
     (case read_value (2 * length s + 2) (skip_ws s) of
        None \<Rightarrow> None
      | Some (v, r) \<Rightarrow> if skip_ws r = [] then Some v else None)"

section \<open>Substitution with groups\<close>

fun sub_groups_from :: "re \<Rightarrow> ((nat \<times> pystr) list \<Rightarrow> pystr) \<Rightarrow> int option \<Rightarrow> nat \<Rightarrow> pystr \<Rightarrow> pystr" where
  "sub_groups_from r f p k [] = []"
| "sub_groups_from r f p (Suc k) (c # s) = sub_groups_from r f (Some c) k s"
| "sub_groups_from r f p 0 (c # s) =
     (case match_at r p (c # s) of
        Some (p', rest, caps) \<Rightarrow>
          if length rest < Suc (length s) then f caps @ sub_groups_from r f (Some c) (length s - length rest) s
          else c # sub_groups_from r f (Some c) 0 s
      | None \<Rightarrow> c # sub_groups_from r f (Some c) 0 s)"

definition sub_groups :: "re \<Rightarrow> ((nat \<times> pystr) list \<Rightarrow> pystr) \<Rightarrow> pystr \<Rightarrow> pystr" where
  \<comment> \<open>\<open>pattern.sub\<close> with a template that uses the groups\<close>
  "sub_groups r f s = sub_groups_from r f None 0 s"

definition group :: "nat \<Rightarrow> (nat \<times> pystr) list \<Rightarrow> pystr" where
  "group n caps = (case map_of caps n of None \<Rightarrow> [] | Some s \<Rightarrow> s)"

end
