(* ===== verification/Customs.thy ===== *)
theory Customs
  imports FxRates JsonText "HOL-Library.AList"
begin

text \<open>
  Customs evidence from official data: \<open>app/tools/china_customs.py\<close>, the tariff and tax queries of the
  customs, and \<open>app/tools/customs_provider.py\<close>, which completes explicitly classified offers with it.
  The service is an argument, a function from an endpoint and its parameters to the JSON value of
  the response or a failure; so are the environment, today's date and the base address. The name of
  the goods in a response is read by no caller and left out.
\<close>

section \<open>Rates of the customs\<close>

datatype china_customs_reason =
    NotAnObject | NoResultPayload | InvalidResultPayload | ResultNotAnObject | BadHsCode | BadEffectiveDate | NoTariffRow

datatype evidence_reason =
    MissingClassification | RegimeNotConfigured | UnknownRateType | NotGeneralTrade
  | NoImportVatRate | NoTariffRate pystr | LookupFailed china_customs_reason | FxUnavailable fx_error

text \<open>
  Three kinds of exception: the two of the components, and those that none of them raises or
  catches (a failed request, a \<open>quantize\<close> out of range, a \<open>ValueError\<close> of a model or a date).
\<close>

datatype customs_error =
    ChinaCustomsError china_customs_reason | CustomsEvidenceError evidence_reason
  | RequestFailed | DecimalFailed | ModelRefused

type_synonym customs_service = "pystr \<Rightarrow> (pystr \<times> pystr) list \<Rightarrow> customs_error + jval"

type_synonym row = "(pystr \<times> jval) list"

record china_customs_rates =
  cr_hs_code :: pystr
  cr_mfn_rate :: "py_number option"
  cr_ordinary_rate :: "py_number option"
  cr_temporary_rate :: "py_number option"
  cr_consumption_tax_rate :: "py_number option"
  cr_import_vat_rate :: "py_number option"
  cr_agreement_rate :: "py_number option"
  cr_agreement_name :: "pystr option"
  cr_effective_date :: pystr
  cr_source_reference :: pystr

definition hundredth :: "py_number \<Rightarrow> py_number" where
  "hundredth n = (case n of Finite x \<Rightarrow> Finite (fl (x / 100)) | NonFinite \<Rightarrow> NonFinite)"

definition rstrip_percent :: "pystr \<Rightarrow> pystr" where
  "rstrip_percent s = rev (dropWhile (\<lambda>c. c = 37) (rev s))"

definition percent :: "jval option \<Rightarrow> py_number option" where
  \<comment> \<open>the text of a number reads back as it; that of a boolean, list or object is not a float\<close>
  "percent v =
     (case v of
        Some (JvInt i) \<Rightarrow> Some (hundredth (finite_or_inf (of_int i)))
      | Some (JvFloat x) \<Rightarrow> Some (hundredth x)
      | Some (JvStr s) \<Rightarrow>
          (let text = py_strip s in if text = [] then None else map_option hundredth (py_float (rstrip_percent text)))
      | _ \<Rightarrow> None)"

definition unquoted_key :: re where
  \<comment> \<open>\<open>([,{])\s*([A-Za-z_][A-Za-z0-9_]*)\s*:\<close>\<close>
  "unquoted_key =
     seq [Grp 1 (Cls (\<lambda>c. c \<in> {44, 123})), Many py_space 0 None,
          Grp 2 (Cat (Cls (\<lambda>c. upper c \<or> lower c \<or> c = 95)) (Many (\<lambda>c. letter_or_digit c \<or> c = 95) 0 None)),
          Many py_space 0 None, Cls ((=) 58)]"

definition quote_keys :: "pystr \<Rightarrow> pystr" where
  "quote_keys s = sub_groups unquoted_key (\<lambda>caps. group 1 caps @ [34] @ group 2 caps @ [34, 58]) s"

definition data_rows :: "(pystr \<times> jval) list \<Rightarrow> row list" where
  "data_rows parsed =
     (case jget parsed (lit ''data'') of
        Some (JvList rows) \<Rightarrow> concat (map (\<lambda>r. case r of JvObj kvs \<Rightarrow> [kvs] | _ \<Rightarrow> []) rows)
      | _ \<Rightarrow> [])"

definition parse_inner_response :: "jval \<Rightarrow> customs_error + row list" where
  "parse_inner_response payload =
     (case payload of
        JvObj kvs \<Rightarrow>
          (case jget kvs (lit ''res'') of
             Some (JvObj parsed) \<Rightarrow> Inr (data_rows parsed)
           | Some (JvStr inner) \<Rightarrow>
               (case json_loads (quote_keys inner) of
                  None \<Rightarrow> Inl (ChinaCustomsError InvalidResultPayload)
                | Some (JvObj parsed) \<Rightarrow> Inr (data_rows parsed)
                | Some _ \<Rightarrow> Inl (ChinaCustomsError ResultNotAnObject))
           | _ \<Rightarrow> Inl (ChinaCustomsError NoResultPayload))
      | _ \<Rightarrow> Inl (ChinaCustomsError NotAnObject))"

definition customs_request :: "customs_service \<Rightarrow> string \<Rightarrow> (pystr \<times> pystr) list \<Rightarrow> customs_error + row list" where
  "customs_request srv endpoint params = rbind (srv (lit endpoint) params) parse_inner_response"

definition AGREEMENT_COUNTRIES :: "(pystr \<times> pystr list) list" where
  "AGREEMENT_COUNTRIES =
     [(lit ''22'', [lit ''BN'', lit ''MM'', lit ''KH'', lit ''ID'', lit ''JP'', lit ''LA'', lit ''MY'', lit ''PH'', lit ''SG'', lit ''KR'', lit ''TH'',
         lit ''VN'', lit ''AU'', lit ''NZ'']),
      (lit ''18'', [lit ''AU'']), (lit ''19'', [lit ''KR'']), (lit ''17'', [lit ''CH'']), (lit ''16'', [lit ''IS'']),
      (lit ''15'', [lit ''CR'']), (lit ''12'', [lit ''PE'']), (lit ''21'', [lit ''MU'']), (lit ''24'', [lit ''NI'']),
      (lit ''25'', [lit ''EC'']), (lit ''26'', [lit ''RS'']), (lit ''23'', [lit ''KH'']),
      (lit ''2'', [lit ''BN'', lit ''KH'', lit ''ID'', lit ''LA'', lit ''MY'', lit ''MM'', lit ''PH'', lit ''SG'', lit ''TH'', lit ''VN''])]"

definition COUNTRY_NAMES :: "(pystr \<times> pystr list) list" where
  "COUNTRY_NAMES =
     [(lit ''AU'', [[28595, 22823, 21033, 20122], [28595, 27954]]), (lit ''BN'', [[25991, 33713]]), (lit ''CH'', [[29790, 22763]]),
      (lit ''CR'', [[21733, 26031, 36798, 40654, 21152]]), (lit ''EC'', [[21380, 29916, 22810, 23572]]),
      (lit ''ID'', [[21360, 24230, 23612, 35199, 20122], [21360, 23612]]), (lit ''IS'', [[20912, 23707]]), (lit ''JP'', [[26085, 26412]]),
      (lit ''KH'', [[26604, 22484, 23528]]), (lit ''KR'', [[38889, 22269]]), (lit ''LA'', [[32769, 25373]]), (lit ''MM'', [[32517, 30008]]),
      (lit ''MU'', [[27611, 37324, 27714, 26031]]), (lit ''MY'', [[39532, 26469, 35199, 20122]]), (lit ''NI'', [[23612, 21152, 25289, 29916]]),
      (lit ''NZ'', [[26032, 35199, 20848]]), (lit ''PE'', [[31192, 40065]]), (lit ''PH'', [[33778, 24459, 23486]]), (lit ''RS'', [[22622, 23572, 32500, 20122]]),
      (lit ''SG'', [[26032, 21152, 22369]]), (lit ''TH'', [[27888, 22269]]), (lit ''VN'', [[36234, 21335]])]"

definition country_name :: "row \<Rightarrow> pystr" where
  \<comment> \<open>only a string can be the name of a country; the key is spelt so in the service\<close>
  "country_name row = (case jget row (lit ''conuntryName'') of Some (JvStr s) \<Rightarrow> py_strip s | _ \<Rightarrow> [])"

fun agreement_row :: "pystr list \<Rightarrow> pystr \<Rightarrow> row list \<Rightarrow> (py_number \<times> pystr) option" where
  "agreement_row aliases code [] = None"
| "agreement_row aliases code (row # rows) =
     (if country_name row \<in> set aliases
      then case percent (jget row (lit ''impAgreementRate'')) of
             Some rate \<Rightarrow> Some (rate, lit ''agreement:'' @ code @ [58] @ country_name row)
           | None \<Rightarrow> agreement_row aliases code rows
      else agreement_row aliases code rows)"

fun agreement_search ::
  "customs_service \<Rightarrow> pystr \<Rightarrow> pystr \<Rightarrow> pystr \<Rightarrow> pystr list \<Rightarrow> (pystr \<times> pystr list) list \<Rightarrow> customs_error + (py_number \<times> pystr) option" where
  "agreement_search srv hs day country aliases [] = Inr None"
| "agreement_search srv hs day country aliases ((code, countries) # rest) =
     (if country \<notin> set countries then agreement_search srv hs day country aliases rest
      else rbind (customs_request srv ''queryCountryAgreementRate''
                    [(lit ''codeTs'', hs), (lit ''sysDate'', day), (lit ''agreementCode'', code)]) (\<lambda>rows.
           case agreement_row aliases code rows of
             Some r \<Rightarrow> Inr (Some r)
           | None \<Rightarrow> agreement_search srv hs day country aliases rest))"

definition agreement_for_origin :: "customs_service \<Rightarrow> pystr \<Rightarrow> pystr \<Rightarrow> pystr \<Rightarrow> customs_error + (py_number \<times> pystr) option" where
  "agreement_for_origin srv hs day origin =
     (let country = py_upper (py_strip origin)
      in case map_of COUNTRY_NAMES country of
           None \<Rightarrow> Inr None
         | Some aliases \<Rightarrow> agreement_search srv hs day country aliases AGREEMENT_COUNTRIES)"

definition code_matches :: "pystr \<Rightarrow> row \<Rightarrow> bool" where
  "code_matches code row =
     (case jget row (lit ''codeTs'') of Some (JvStr s) \<Rightarrow> s = code | Some (JvInt i) \<Rightarrow> show_int i = code | _ \<Rightarrow> False)"

definition tariff_query :: "customs_service \<Rightarrow> pystr \<Rightarrow> pystr \<Rightarrow> pystr \<Rightarrow> customs_error + row list" where
  "tariff_query srv goods code day =
     customs_request srv ''queryImpTariffRate''
       [(lit ''gName'', goods), (lit ''codeTs'', code), (lit ''sysDate'', day), (lit ''nextPage'', lit ''1''), (lit ''pageSize'', lit ''10'')]"

definition choose_row :: "pystr \<Rightarrow> row list \<Rightarrow> row option" where
  "choose_row code rows = (case find (code_matches code) rows of Some r \<Rightarrow> Some r | None \<Rightarrow> (case rows of [] \<Rightarrow> None | r # _ \<Rightarrow> Some r))"

definition lookup_rates ::
  "customs_service \<Rightarrow> pystr \<Rightarrow> date \<Rightarrow> pystr \<Rightarrow> pystr \<Rightarrow> pystr \<Rightarrow> pystr option \<Rightarrow> customs_error + china_customs_rates" where
  "lookup_rates srv base today hs_code goods_name origin effective_date =
     (let code = py_strip hs_code;
          day = (case effective_date of Some d \<Rightarrow> if d = [] then isoformat today else d | None \<Rightarrow> isoformat today)
      in if \<not> hs_code_shape code then Inl (ChinaCustomsError BadHsCode)
         else if date_parts day = None then Inl (ChinaCustomsError BadEffectiveDate)
         else rbind (tariff_query srv goods_name code day) (\<lambda>first_rows.
              rbind (if find (code_matches code) first_rows = None \<and> py_strip goods_name \<noteq> []
                     then tariff_query srv [] code day else Inr first_rows) (\<lambda>tariff_rows.
              rbind (customs_request srv ''queryTaxRate'' [(lit ''codeTs'', code), (lit ''sysDate'', day)]) (\<lambda>tax_rows.
              rbind (agreement_for_origin srv code day origin) (\<lambda>agreement.
              case choose_row code tariff_rows of
                None \<Rightarrow> Inl (ChinaCustomsError NoTariffRow)
              | Some tariff \<Rightarrow>
                  let tax = (case tax_rows of [] \<Rightarrow> [] | t # _ \<Rightarrow> t)
                  in Inr \<lparr>cr_hs_code = code, cr_mfn_rate = percent (jget tariff (lit ''impDiscountRate'')),
                       cr_ordinary_rate = percent (jget tariff (lit ''impOrdinaryRate'')),
                       cr_temporary_rate = percent (jget tariff (lit ''impTempRate'')),
                       cr_consumption_tax_rate = percent (jget tax (lit ''impConsumeRate'')),
                       cr_import_vat_rate = percent (jget tax (lit ''impVatRate'')),
                       cr_agreement_rate = map_option fst agreement, cr_agreement_name = map_option snd agreement,
                       cr_effective_date = day,
                       cr_source_reference = base @ lit ''/pages/jckspsl/detail.html?codeTs='' @ code\<rparr>)))))"

section \<open>Completing an offer\<close>

record customs_lookup_input =
  ci_hs_code :: pystr
  ci_country_of_origin :: pystr
  ci_import_regime :: pystr
  ci_rate_type :: pystr
  ci_ship_from_country :: "pystr option"

definition customs_money :: "rat \<Rightarrow> customs_error + rat" where
  "customs_money x = (case cent (dec_of_float x) of Inl e \<Rightarrow> Inl DecimalFailed | Inr d \<Rightarrow> Inr (fl d))"

definition select_rate :: "china_customs_rates \<Rightarrow> pystr \<Rightarrow> customs_error + py_number" where
  "select_rate rates rate_type =
     (let value = (if rate_type = lit ''agreement'' then cr_agreement_rate rates
                   else if rate_type = lit ''temporary'' then cr_temporary_rate rates
                   else if rate_type = lit ''mfn'' then cr_mfn_rate rates else cr_ordinary_rate rates)
      in case value of None \<Rightarrow> Inl (CustomsEvidenceError (NoTariffRate rate_type)) | Some v \<Rightarrow> Inr v)"

definition attribute_text :: "(int \<Rightarrow> bool) \<Rightarrow> candidate \<Rightarrow> string \<Rightarrow> pystr" where
  \<comment> \<open>\<open>str(attributes.get(k) or "").strip()\<close>\<close>
  "attribute_text pr c k =
     (case map_of (ca_attributes c) (lit k) of
        Some v \<Rightarrow> if json_truthy v then py_strip (json_str pr v) else []
      | None \<Rightarrow> [])"

definition input_from_candidate :: "(int \<Rightarrow> bool) \<Rightarrow> env \<Rightarrow> candidate \<Rightarrow> customs_error + customs_lookup_input" where
  "input_from_candidate pr env c =
     (let hs = attribute_text pr c ''hs_code''; origin = attribute_text pr c ''country_of_origin'';
          ship_from = attribute_text pr c ''ship_from_country'';
          regime = py_strip (getenv env (lit ''CUSTOMS_IMPORT_REGIME'') []);
          rate_type = or_else (py_strip (getenv env (lit ''CUSTOMS_RATE_TYPE'') (lit ''mfn''))) (lit ''mfn'')
      in if hs = [] \<or> origin = [] then Inl (CustomsEvidenceError MissingClassification)
         else if regime = [] then Inl (CustomsEvidenceError RegimeNotConfigured)
         else if rate_type \<notin> {lit ''auto'', lit ''agreement'', lit ''mfn'', lit ''ordinary'', lit ''temporary''}
         then Inl (CustomsEvidenceError UnknownRateType)
         else Inr \<lparr>ci_hs_code = hs, ci_country_of_origin = origin, ci_import_regime = regime, ci_rate_type = rate_type,
                ci_ship_from_country = (if ship_from = [] then None else Some ship_from)\<rparr>)"

definition effective_rate_type :: "china_customs_rates \<Rightarrow> pystr \<Rightarrow> pystr" where
  "effective_rate_type rates rate_type =
     (if rate_type \<noteq> lit ''auto'' then rate_type
      else if cr_agreement_rate rates \<noteq> None then lit ''agreement''
      else if cr_temporary_rate rates \<noteq> None then lit ''temporary'' else lit ''mfn'')"

fun rate_type_of :: "pystr \<Rightarrow> tax_rate_type option" where
  "rate_type_of s =
     map_of [(lit ''agreement'', RateAgreement), (lit ''temporary'', RateTemporary), (lit ''mfn'', RateMfn), (lit ''ordinary'', RateOrdinary)] s"

definition finite_rate :: "py_number \<Rightarrow> customs_error + rat" where
  \<comment> \<open>the models refuse NaN and infinities\<close>
  "finite_rate n = (case n of Finite x \<Rightarrow> Inr x | NonFinite \<Rightarrow> Inl ModelRefused)"

definition PROVIDER :: pystr where "PROVIDER = lit ''china-customs-official''"

definition valuation_of ::
  "china_customs_rates \<Rightarrow> pystr \<Rightarrow> rat \<Rightarrow> rat \<Rightarrow> rat \<Rightarrow> rat \<Rightarrow> customs_exchange_rate_evidence option \<Rightarrow> customs_error + customs_valuation_evidence" where
  "valuation_of rates currency goods goods_cny freight value conversion =
     (let v = \<lparr>cv_goods_value_original = goods, cv_goods_currency = normalize_currency currency, cv_goods_value_cny = goods_cny,
               cv_international_shipping_cny = freight, cv_insurance_cny = 0, cv_customs_value_cny = value,
               cv_customs_conversion = conversion, cv_provider = PROVIDER, cv_source_reference = cr_source_reference rates\<rparr>
      in if valid_customs_valuation v then Inr v else Inl ModelRefused)"

definition evidence_of ::
  "customs_lookup_input \<Rightarrow> china_customs_rates \<Rightarrow> tax_rate_type \<Rightarrow> rat \<Rightarrow> rat \<Rightarrow> rat \<Rightarrow> customs_valuation_evidence \<Rightarrow> customs_error + customs_tax_evidence" where
  "evidence_of lk rates rate_type tariff vat consumption v =
     (let e = \<lparr>ct_hs_code = ci_hs_code lk, ct_country_of_origin = normalize_country (ci_country_of_origin lk),
               ct_destination_country = CN, ct_ship_from_country = map_option normalize_country (ci_ship_from_country lk),
               ct_import_regime = RegimeGeneralTrade, ct_rate_type = rate_type, ct_tariff_rate = Some tariff,
               ct_import_vat_rate = Some vat, ct_consumption_tax_rate = consumption, ct_personal_postal_tax_rate = None,
               ct_personal_postal_assessed_value_cny = None, ct_personal_postal_total_value_cny = None,
               ct_personal_postal_value_limit_cny = None, ct_personal_postal_tax_exemption_threshold_cny = None,
               ct_personal_postal_single_indivisible_item = None, ct_personal_postal_eligible = None,
               ct_seller_collected_tax_cny = None, ct_insurance_cny = 0, ct_valuation = Some v,
               ct_cross_border_ecommerce_eligible = None, ct_provider = PROVIDER,
               ct_source_reference = cr_source_reference rates, ct_effective_date = cr_effective_date rates\<rparr>
      in if valid_customs_tax e then Inr e else Inl ModelRefused)"

definition with_customs :: "candidate \<Rightarrow> customs_lookup_input \<Rightarrow> china_customs_rates \<Rightarrow> customs_tax_evidence \<Rightarrow> candidate" where
  "with_customs c lk rates e =
     (let a1 = AList.update (lit ''customs_rate_source'') (JStr (cr_source_reference rates)) (ca_attributes c);
          a2 = AList.update (lit ''customs_rate_effective_date'') (JStr (cr_effective_date rates)) a1;
          a3 = AList.update (lit ''customs_rate_type'') (JStr (ci_rate_type lk)) a2;
          a4 = (case cr_agreement_name rates of
                  Some n \<Rightarrow> if n = [] then a3 else AList.update (lit ''customs_agreement'') (JStr n) a3
                | None \<Rightarrow> a3)
      in c\<lparr>ca_attributes := a4, ca_customs := Some e\<rparr>)"

record customs_world =
  cw_service :: customs_service
  cw_pboc :: "int \<Rightarrow> rat \<Rightarrow> fx_error + xml option"
  cw_env :: env
  cw_base :: pystr
  cw_today :: date
  cw_printable :: "int \<Rightarrow> bool"

definition goods_in_cny ::
  "customs_world \<Rightarrow> pystr \<Rightarrow> pystr \<Rightarrow> rat \<Rightarrow> series_cache
   \<Rightarrow> (customs_error + rat \<times> customs_exchange_rate_evidence option) \<times> series_cache" where
  "goods_in_cny w currency day goods cache =
     (if currency = CNY then (Inr (goods, None), cache)
      else case fetch_customs_exchange_rate (cw_pboc w) (cw_today w) currency (GivenText day) 20 cache of
             (Inl e, cache') \<Rightarrow> (Inl (case e of HttpFailure \<Rightarrow> RequestFailed | DateOutOfRange \<Rightarrow> ModelRefused | EvidenceRefused \<Rightarrow> ModelRefused
                                         | _ \<Rightarrow> CustomsEvidenceError (FxUnavailable e)), cache')
           | (Inr x, cache') \<Rightarrow> (rbind (customs_money (fl (goods * cx_rate_to_cny x))) (\<lambda>cny. Inr (cny, Some x)), cache'))"

definition official_rates ::
  "customs_world \<Rightarrow> customs_lookup_input \<Rightarrow> candidate \<Rightarrow> pystr option \<Rightarrow> customs_error + china_customs_rates" where
  "official_rates w lk c effective_date =
     (case lookup_rates (cw_service w) (cw_base w) (cw_today w) (ci_hs_code lk) (ca_title c) (ci_country_of_origin lk) effective_date of
        Inl (ChinaCustomsError r) \<Rightarrow> Inl (CustomsEvidenceError (LookupFailed r))
      | other \<Rightarrow> other)"

record trade_data =
  td_input :: customs_lookup_input
  td_rates :: china_customs_rates
  td_rate_type :: pystr
  td_tariff :: py_number
  td_vat :: py_number
  td_goods :: rat
  td_freight :: rat

definition collect_trade_data ::
  "customs_world \<Rightarrow> candidate \<Rightarrow> rat \<Rightarrow> pystr option \<Rightarrow> customs_error + trade_data" where
  "collect_trade_data w c shipping_cny effective_date =
     rbind (input_from_candidate (cw_printable w) (cw_env w) c) (\<lambda>lk.
     if ci_import_regime lk \<noteq> lit ''general_trade'' then Inl (CustomsEvidenceError NotGeneralTrade)
     else rbind (official_rates w lk c effective_date) (\<lambda>rates.
          case cr_import_vat_rate rates of
            None \<Rightarrow> Inl (CustomsEvidenceError NoImportVatRate)
          | Some vat \<Rightarrow>
              rbind (select_rate rates (effective_rate_type rates (ci_rate_type lk))) (\<lambda>tariff.
              rbind (customs_money (ca_price c)) (\<lambda>goods.
              rbind (customs_money shipping_cny) (\<lambda>freight.
              Inr \<lparr>td_input = lk, td_rates = rates, td_rate_type = effective_rate_type rates (ci_rate_type lk),
                   td_tariff = tariff, td_vat = vat, td_goods = goods, td_freight = freight\<rparr>)))))"

definition complete_offer ::
  "candidate \<Rightarrow> trade_data \<Rightarrow> rat \<times> customs_exchange_rate_evidence option \<Rightarrow> customs_error + candidate" where
  "complete_offer c d x =
     (case x of (goods_cny, conversion) \<Rightarrow>
        rbind (customs_money (fl (goods_cny + td_freight d))) (\<lambda>value.
        rbind (valuation_of (td_rates d) (py_upper (ca_currency c)) (td_goods d) goods_cny (td_freight d) value conversion) (\<lambda>v.
        rbind (finite_rate (td_tariff d)) (\<lambda>tariff.
        rbind (finite_rate (td_vat d)) (\<lambda>vat.
        rbind (case cr_consumption_tax_rate (td_rates d) of None \<Rightarrow> Inr 0 | Some x \<Rightarrow> finite_rate x) (\<lambda>consumption.
        case rate_type_of (td_rate_type d) of
          None \<Rightarrow> Inl ModelRefused
        | Some k \<Rightarrow>
            rbind (evidence_of (td_input d) (td_rates d) k tariff vat consumption v) (\<lambda>e.
            Inr (with_customs c (td_input d) (td_rates d) e))))))))"

definition enrich_general_trade ::
  "customs_world \<Rightarrow> candidate \<Rightarrow> rat \<Rightarrow> pystr option \<Rightarrow> series_cache \<Rightarrow> (customs_error + candidate) \<times> series_cache" where
  "enrich_general_trade w c shipping_cny effective_date cache =
     (case collect_trade_data w c shipping_cny effective_date of
        Inl e \<Rightarrow> (Inl e, cache)
      | Inr d \<Rightarrow>
          (case goods_in_cny w (py_upper (ca_currency c)) (cr_effective_date (td_rates d)) (td_goods d) cache of
             (r, cache') \<Rightarrow> (rbind r (complete_offer c d), cache')))"

definition shipping_amount_cny :: "candidate \<Rightarrow> rat option" where
  "shipping_amount_cny c =
     (case ca_shipping_quote c of
        None \<Rightarrow> None
      | Some q \<Rightarrow> if sq_currency q = CNY then Some (sq_total_amount q) else None)"

definition enrich :: "customs_world \<Rightarrow> candidate \<Rightarrow> series_cache \<Rightarrow> (customs_error + candidate) \<times> series_cache" where
  "enrich w c cache =
     (if ca_customs c \<noteq> None then (Inr c, cache)
      else case shipping_amount_cny c of
             None \<Rightarrow> (Inr c, cache)
           | Some shipping \<Rightarrow>
               (case enrich_general_trade w c shipping None cache of
                  (Inl (CustomsEvidenceError r), cache') \<Rightarrow> (Inr c, cache')
                | other \<Rightarrow> other))"

fun gather :: "customs_world \<Rightarrow> candidate list \<Rightarrow> series_cache \<Rightarrow> (customs_error + candidate) list \<times> series_cache" where
  "gather w [] cache = ([], cache)"
| "gather w (c # cs) cache =
     (case enrich w c cache of (r, cache') \<Rightarrow> (case gather w cs cache' of (rs, cache'') \<Rightarrow> (r # rs, cache'')))"

definition customs_lookup_enabled :: "env \<Rightarrow> bool" where
  "customs_lookup_enabled env \<longleftrightarrow>
     py_lower (py_strip (getenv env (lit ''CUSTOMS_AUTO_LOOKUP'') (lit ''false'')))
       \<in> {lit ''1'', lit ''true'', lit ''yes'', lit ''on''}"

definition enrich_candidates ::
  "customs_world \<Rightarrow> candidate list \<Rightarrow> int \<Rightarrow> series_cache \<Rightarrow> (customs_error + candidate list) \<times> series_cache" where
  \<comment> \<open>the concurrent lookups in the order of the offers: a response does not depend on the order\<close>
  "enrich_candidates w candidates max_items cache =
     (if \<not> customs_lookup_enabled (cw_env w) then (Inr candidates, cache)
      else let limit = nat (max 0 (min max_items (int (length candidates))))
           in case gather w (take limit candidates) cache of
                (rs, cache') \<Rightarrow> (rbind (mapM_r (\<lambda>r. r) rs) (\<lambda>prefix. Inr (prefix @ drop limit candidates)), cache'))"

end
