(* ===== verification/CustomsProperties.thy ===== *)
theory CustomsProperties
  imports Customs CostProperties
begin

text \<open>
  What can be relied on when rates and customs evidence come from outside: the prescribed rate or
  none, evidence only from the service and only where an offer asks for it, offers that become
  comparable; and where the code falls short of that.
\<close>

section \<open>The prescribed observation\<close>

lemma third_wednesday_is_wednesday:
  "third_wednesday y m = (y', m', d) \<Longrightarrow>
     y' = y \<and> m' = m \<and> weekday (y, m, d) = 2 \<and> weekday (y, m, d + 7) = 2 \<and> 15 \<le> d \<and> d \<le> 21"
proof -
  assume t: "third_wednesday y m = (y', m', d)"
  define b where "b = weekday (y, m, 1)"
  have b: "0 \<le> b" "b < 7" by (simp_all add: b_def weekday_def)
  have shift: "weekday (y, m, 1 + k) = (b + k) mod 7" for k
    by (simp add: b_def weekday_def to_ordinal_def mod_simps algebra_simps)
  have d: "y' = y" "m' = m" "d = 1 + ((2 - b) mod 7 + 14)" using t by (auto simp: third_wednesday_def Let_def b_def)
  have "(b + ((2 - b) mod 7 + 14)) mod 7 = 2" using b by presburger
  moreover have "(b + ((2 - b) mod 7 + 21)) mod 7 = 2" using b by presburger
  ultimately show ?thesis using shift [of "(2 - b) mod 7 + 14"] shift [of "(2 - b) mod 7 + 21"] d by (simp add: algebra_simps)
qed

lemma observation_candidates_wednesdays:
  assumes "observation_candidates (dy, dm, dd) = Inr ds"
  shows "\<exists>d. 15 \<le> d \<and> d \<le> 21 \<and> (case previous_month dy dm of (y, m) \<Rightarrow>
      ds = [(y, m, d), (y, m, d + 7)] \<and> weekday (y, m, d) = 2 \<and> weekday (y, m, d + 7) = 2)"
proof -
  obtain y m where p: "previous_month dy dm = (y, m)" by fastforce
  obtain y' m' d where t: "third_wednesday y m = (y', m', d)" by (metis prod_cases3)
  show ?thesis using assms third_wednesday_is_wednesday [OF t]
    by (auto simp: observation_candidates_def p t split: if_splits)
qed

lemma assessment_rate_sound:
  assumes "assessment_rate source type_id q (dy, dm, dd) obs = Inr e"
  shows "\<exists>y m d raw. previous_month dy dm = (y, m) \<and> weekday (y, m, d) = 2 \<and> 15 \<le> d \<and> d \<le> 28
    \<and> observed_rate obs (y, m, d) = Some raw \<and> rate_of_quote q raw = Finite (cx_rate_to_cny e)
    \<and> (22 \<le> d \<longrightarrow> observed_rate obs (y, m, d - 7) = None)
    \<and> cx_source_currency e = source \<and> valid_customs_exchange_rate e"
proof -
  obtain ds where ds: "observation_candidates (dy, dm, dd) = Inr ds"
    using assms by (auto simp: assessment_rate_def elim!: rbind_InrE)
  obtain y m where p: "previous_month dy dm = (y, m)" by fastforce
  obtain d where d: "15 \<le> d" "d \<le> 21" "ds = [(y, m, d), (y, m, d + 7)]" "weekday (y, m, d) = 2" "weekday (y, m, d + 7) = 2"
    using observation_candidates_wednesdays [OF ds] p by auto
  obtain ob where ob: "find (\<lambda>d. observed_rate obs d \<noteq> None) ds = Some ob"
      "rate_of_quote q (the (observed_rate obs ob)) = Finite (cx_rate_to_cny e)" "cx_source_currency e = source"
      "valid_customs_exchange_rate e"
    using assms ds by (auto simp: assessment_rate_def Let_def split: option.splits py_number.splits if_splits)
  show ?thesis
  proof (cases "observed_rate obs (y, m, d)")
    case (Some raw)
    then have "ob = (y, m, d)" using ob(1) d(3) by simp
    then show ?thesis using Some ob d p by (intro exI [of _ y] exI [of _ m] exI [of _ d]) auto
  next
    case None
    then have "ob = (y, m, d + 7)" "observed_rate obs (y, m, d + 7) \<noteq> None"
      using ob(1) d(3) by (auto split: if_splits)
    then show ?thesis using None ob d p by (intro exI [of _ y] exI [of _ m] exI [of _ "d + 7"]) auto
  qed
qed

text \<open>
  C22. The customs rate is the prescribed one or none: whatever the network answers, evidence for a
  declaration date rests on the observation of the third Wednesday of the month before (day 15
  to 21) or, only when the series has no such observation, of the Wednesday after it; its rate is
  that observation in the notation of the currency, and it passes its own validators.
\<close>

theorem customs_rate_is_prescribed:
  assumes "fetch_customs_exchange_rate pboc today currency dd timeout cache = (Inr e, cache')"
  shows "\<exists>type_id q decl obs y m d raw.
      map_of PBOC_RATES (cx_source_currency e) = Some (type_id, q) \<and> declaration_of today dd = Inr decl
      \<and> fetch_series pboc type_id timeout cache = (Inr obs, cache')
      \<and> previous_month (fst decl) (fst (snd decl)) = (y, m) \<and> weekday (y, m, d) = 2 \<and> 15 \<le> d \<and> d \<le> 28
      \<and> observed_rate obs (y, m, d) = Some raw \<and> rate_of_quote q raw = Finite (cx_rate_to_cny e)
      \<and> (22 \<le> d \<longrightarrow> observed_rate obs (y, m, d - 7) = None) \<and> valid_customs_exchange_rate e"
proof -
  let ?s = "py_upper (py_strip currency)"
  obtain type_id q decl obs where f: "map_of PBOC_RATES ?s = Some (type_id, q)" "declaration_of today dd = Inr decl"
      "fetch_series pboc type_id timeout cache = (Inr obs, cache')" "assessment_rate ?s type_id q decl obs = Inr e"
    using assms unfolding fetch_customs_exchange_rate_def Let_def
    by (auto split: if_splits option.splits sum.splits prod.splits elim!: rbind_InrE)
  obtain dy dm ddd where dec: "decl = (dy, dm, ddd)" by (metis prod_cases3)
  from assessment_rate_sound [OF f(4) [unfolded dec]] show ?thesis
    using f dec by (metis fst_conv snd_conv)
qed

section \<open>A cached series\<close>

definition pboc_keys :: "rat \<Rightarrow> (int \<times> rat) set" where
  "pboc_keys t = (\<lambda>(s, type_id, q). (type_id, t)) ` set PBOC_RATES"

definition cache_of :: "rat \<Rightarrow> series_cache \<Rightarrow> bool" where
  \<comment> \<open>a cache that calls with one timeout fill\<close>
  "cache_of t cache \<longleftrightarrow>
     distinct (map fst cache) \<and> set (map fst cache) \<subseteq> pboc_keys t"

lemma cache_of_length: "cache_of t cache \<Longrightarrow> length cache \<le> 25"
proof -
  assume c: "cache_of t cache"
  have "length cache = card (set (map fst cache))" using c distinct_card [of "map fst cache"] by (simp add: cache_of_def)
  also have "\<dots> \<le> card (pboc_keys t)"
    using c by (intro card_mono) (auto simp: cache_of_def pboc_keys_def)
  also have "\<dots> \<le> card (set PBOC_RATES)" unfolding pboc_keys_def by (rule card_image_le) simp
  also have "\<dots> \<le> length PBOC_RATES" by (rule card_length)
  also have "\<dots> = 25" by (simp add: PBOC_RATES_def)
  finally show ?thesis .
qed

lemma fetch_series_keeps:
  assumes "cache_of t cache" "(s, type_id, q) \<in> set PBOC_RATES" "fetch_series pboc type_id t cache = (r, cache')"
  shows "cache_of t cache'" "map_of cache k = Some obs \<Longrightarrow> map_of cache' k = Some obs"
proof -
  let ?key = "(type_id, t)"
  have key: "?key \<in> pboc_keys t" using assms(2) by (force simp: pboc_keys_def)
  have len: "length cache \<le> 25" using assms(1) by (rule cache_of_length)
  have d: "distinct (map fst cache)" using assms(1) by (simp add: cache_of_def)
  have "cache_of t cache' \<and> (map_of cache k = Some obs \<longrightarrow> map_of cache' k = Some obs)"
  proof (cases "map_of cache ?key")
    case (Some v)
    have m: "map_of (filter (\<lambda>e. fst e \<noteq> ?key) cache) k = (if k = ?key then None else map_of cache k)"
      by (induction cache) auto
    have "distinct (map fst (filter (\<lambda>e. fst e \<noteq> ?key) cache))" using d by (simp add: distinct_map_filter)
    moreover have "cache' = (?key, v) # filter (\<lambda>e. fst e \<noteq> ?key) cache" using assms(3) Some by (simp add: fetch_series_def Let_def)
    ultimately show ?thesis using assms(1) Some key m by (auto simp: cache_of_def image_subset_iff simp del: map_of_eq_Some_iff)
  next
    case None
    then have n: "?key \<notin> set (map fst cache)" by (auto simp: map_of_eq_None_iff)
    have "cache' = cache \<or> (\<exists>v. cache' = (?key, v) # cache)"
      using assms(3) None len by (auto simp: fetch_series_def Let_def split: sum.splits)
    then show ?thesis using assms(1) None n key by (auto simp: cache_of_def image_subset_iff simp del: map_of_eq_Some_iff)
  qed
  then show "cache_of t cache'" "map_of cache k = Some obs \<Longrightarrow> map_of cache' k = Some obs" by blast+
qed

lemma fetch_rate_keeps:
  assumes "cache_of t cache"
  shows "cache_of t (snd (fetch_customs_exchange_rate pboc today currency dd t cache))"
    "map_of cache k = Some obs \<Longrightarrow> map_of (snd (fetch_customs_exchange_rate pboc today currency dd t cache)) k = Some obs"
  using assms fetch_series_keeps [OF assms map_of_SomeD]
  by (auto simp: fetch_customs_exchange_rate_def Let_def split: option.splits sum.splits prod.splits)

text \<open>
  A series is read once per process: after the PBOC series of a currency has been cached,
  however many further calls follow and whatever the network would answer, every later rate of
  that currency comes from the cached series alone; a declaration whose Wednesdays were published
  since then is refused although the data exists.
\<close>

lemma cached_series_never_refreshes:
  assumes "cache_of t cache" "map_of PBOC_RATES currency = Some (type_id, q)" "map_of cache (type_id, t) = Some obs"
    and "py_upper (py_strip currency) = currency" "currency \<noteq> CNY" "declaration_of today dd = Inr decl"
  shows "fst (fetch_customs_exchange_rate pboc today currency dd t
           (fold (\<lambda>(pboc', today', currency', dd') c. snd (fetch_customs_exchange_rate pboc' today' currency' dd' t c)) calls cache))
         = assessment_rate currency type_id q decl obs"
proof -
  let ?f = "\<lambda>(pboc', today', currency', dd') c. snd (fetch_customs_exchange_rate pboc' today' currency' dd' t c)"
  have "map_of (fold ?f calls cache) (type_id, t) = Some obs"
    using assms(1,3)
  proof (induction calls arbitrary: cache)
    case (Cons x xs)
    obtain p td cu d where x: "x = (p, td, cu, d)" by (metis prod_cases4)
    show ?case using Cons.IH fetch_rate_keeps Cons.prems unfolding x by simp
  qed simp
  then show ?thesis using assms by (simp add: fetch_customs_exchange_rate_def fetch_series_def Let_def)
qed

section \<open>Offers that become comparable\<close>

lemma length_enrich [simp]: "length (enrich_price_conversions now ecb cs) = length cs"
  by (simp add: enrich_price_conversions_def Let_def split: sum.splits)

lemma upper_chars_facts: "c' \<in> set (upper_chars c) \<Longrightarrow> upper_chars c' = [c'] \<and> (py_space c' \<longrightarrow> c' = c)" "upper_chars c \<noteq> []"
  by (auto simp: upper_chars_def lit_def py_space_def split: if_splits option.splits)

lemma py_upper_idem [simp]: "py_upper (py_upper s) = py_upper s"
proof (induction s)
  case (Cons c s)
  have "concat (map upper_chars cs) = cs" if "set cs \<subseteq> set (upper_chars c)" for cs
    using that upper_chars_facts(1) by (induction cs) auto
  then show ?case using Cons by (simp add: py_upper_def)
qed (simp add: py_upper_def)

lemma py_strip_id: "t \<noteq> [] \<Longrightarrow> \<not> py_space (hd t) \<Longrightarrow> \<not> py_space (last t) \<Longrightarrow> py_strip t = t"
proof -
  assume t: "t \<noteq> []" "\<not> py_space (hd t)" "\<not> py_space (last t)"
  have "dropWhile py_space t = t" using t(1,2) by (cases t) auto
  moreover have "dropWhile py_space (rev t) = rev t" using t(1,3) by (cases "rev t") (auto simp: hd_rev simp flip: hd_rev)
  ultimately show ?thesis by (simp add: py_strip_def)
qed

lemma offer_currency_normal [simp]: "py_upper (py_strip (offer_currency c)) = offer_currency c"
proof -
  let ?s = "py_strip (ca_currency c)"
  have nospace: "\<not> py_space (hd (py_upper t)) \<and> py_upper t \<noteq> []" if "t \<noteq> []" "\<not> py_space (hd t)" for t
  proof -
    have "hd (upper_chars (hd t)) \<in> set (upper_chars (hd t))" using upper_chars_facts(2) by simp
    then have "\<not> py_space (hd (upper_chars (hd t)))" using upper_chars_facts(1) that(2) by metis
    then show ?thesis using that(1) upper_chars_facts(2) by (cases t) (auto simp: py_upper_def hd_append)
  qed
  have last: "\<not> py_space (last (py_upper t))" if "t \<noteq> []" "\<not> py_space (last t)" for t
  proof -
    have "last (py_upper t) \<in> set (upper_chars (last t))"
      using that(1) upper_chars_facts(2) by (induction t) (auto simp: py_upper_def last_append)
    then show ?thesis using that(2) upper_chars_facts(1) by metis
  qed
  have "py_strip (py_upper ?s) = py_upper ?s"
  proof (cases "?s = []")
    case True
    show ?thesis unfolding True by (simp add: py_upper_def py_strip_def)
  next
    case False
    from py_strip_ends [OF this] have e: "\<not> py_space (hd ?s)" "\<not> py_space (last ?s)" by auto
    show ?thesis using nospace [OF False e(1)] last [OF False e(2)] py_strip_id by blast
  qed
  then show ?thesis by (simp add: offer_currency_def)
qed

lemma conversion_from_rates_Some:
  assumes "conversion_from_rates now src d rates = Inr (Some q)"
  shows "valid_currency_conversion q" "cc_source_currency q = py_upper (py_strip src)" "cc_expires_at q = Some (now + 86400)"
    "\<exists>cny unit. rates CNY = Some cny \<and> rates (py_upper (py_strip src)) = Some unit \<and> cc_rate_to_cny q = fl (cny / unit)"
  using assms
  by (auto simp: conversion_from_rates_def Let_def finite_or_inf_def split: option.splits py_number.splits if_splits)

lemma fetched_Some:
  assumes "mapM_r (\<lambda>c. rbind (conversion_from_rates now c d rates) (\<lambda>q. Inr (c, q))) cs = Inr vs"
    and "(c, q) \<in> set (concat (map (\<lambda>(c, q). case q of None \<Rightarrow> [] | Some q' \<Rightarrow> [(c, q')]) vs))"
  shows "c \<in> set cs \<and> conversion_from_rates now c d rates = Inr (Some q)"
  using assms by (induction cs arbitrary: vs) (auto elim!: rbind_InrE split: option.splits)

lemma fetched_all:
  assumes "mapM_r (\<lambda>c. rbind (conversion_from_rates now c d rates) (\<lambda>q. Inr (c, q))) cs = Inr vs"
    and "c \<in> set cs" "conversion_from_rates now c d rates = Inr (Some q)"
  shows "\<exists>q'. map_of (concat (map (\<lambda>(c, q). case q of None \<Rightarrow> [] | Some q' \<Rightarrow> [(c, q')]) vs)) c = Some q'"
  using assms by (induction cs arbitrary: vs) (auto elim!: rbind_InrE split: option.splits simp: map_add_def)

lemma mapM_r_total: "(\<And>x. x \<in> set xs \<Longrightarrow> \<exists>y. f x = Inr y) \<Longrightarrow> \<exists>ys. mapM_r f xs = Inr ys"
  by (induction xs) (auto, metis rbind_simps(2))

lemma fetch_conversions_Some:
  assumes "fetch_conversions now ecb cs = Inr fetched" "map_of fetched c = Some q"
  shows "valid_currency_conversion q" "c \<noteq> CNY" "cc_expires_at q = Some (now + 86400)"
    "\<exists>d rates. rbind (ecb ()) parse_rates = Inr (d, rates) \<and> conversion_from_rates now c d rates = Inr (Some q)"
proof -
  obtain d rates where r: "rbind (ecb ()) parse_rates = Inr (d, rates)" "conversion_from_rates now c d rates = Inr (Some q)" "c \<noteq> CNY"
    using assms fetched_Some map_of_SomeD [OF assms(2)]
    by (auto simp: fetch_conversions_def Let_def split: if_splits elim!: rbind_InrE dest!: fetched_Some)
  from conversion_from_rates_Some [OF r(2)] r show "valid_currency_conversion q" "c \<noteq> CNY" "cc_expires_at q = Some (now + 86400)"
    "\<exists>d rates. rbind (ecb ()) parse_rates = Inr (d, rates) \<and> conversion_from_rates now c d rates = Inr (Some q)"
    by auto
qed

lemma enriched_cases:
  assumes "i < length cs"
  shows "enrich_price_conversions now ecb cs ! i = cs ! i
    \<or> (\<exists>fetched q. fetch_conversions now ecb (map offer_currency (filter (\<lambda>c. offer_currency c \<noteq> CNY \<and> needs_refresh now c) cs)) = Inr fetched
        \<and> map_of fetched (offer_currency (cs ! i)) = Some q \<and> needs_refresh now (cs ! i)
        \<and> enrich_price_conversions now ecb cs ! i = (cs ! i)\<lparr>ca_price_conversion := Some q\<rparr>)"
  using assms by (simp add: enrich_price_conversions_def Let_def split: sum.splits option.splits)

lemma currency_of_offer: "offer_currency c \<noteq> [] \<Longrightarrow> currency_of c = offer_currency c"
  by (simp add: currency_of_def offer_currency_def Let_def)

lemma valid_conversion_currency: "valid_currency_conversion q \<Longrightarrow> cc_source_currency q \<noteq> []"
  by (auto simp: valid_currency_conversion_def fields_currency_conversion_evidence_def currency_code_def fullmatch_Many)

text \<open>
  Reference rates make offers comparable and touch nothing else: enrichment keeps the number and
  order of the offers and changes at most the conversion of an offer in another currency whose own
  quote is missing, in the wrong currency or, for a live offer, without validity or expired; a new
  quote is valid for a day. When the ECB answers with rates that every wanted currency accepts, each
  such offer in a published currency is priced by the comparison at the rate of the ECB.
\<close>

lemma fx_enrichment_prices_offers:
  assumes "i < length cs"
  shows "length (enrich_price_conversions now ecb cs) = length cs
    \<and> (enrich_price_conversions now ecb cs ! i = cs ! i
       \<or> (\<exists>q. enrich_price_conversions now ecb cs ! i = (cs ! i)\<lparr>ca_price_conversion := Some q\<rparr> \<and> needs_refresh now (cs ! i)
            \<and> offer_currency (cs ! i) \<noteq> CNY \<and> valid_currency_conversion q \<and> cc_source_currency q = offer_currency (cs ! i)))
    \<and> (rbind (ecb ()) parse_rates = Inr (d, rates)
       \<and> (\<forall>c \<in> set cs. \<exists>r. conversion_from_rates now (offer_currency c) d rates = Inr r)
       \<and> offer_currency (cs ! i) \<noteq> CNY \<and> needs_refresh now (cs ! i)
       \<and> rates CNY = Some cny \<and> rates (offer_currency (cs ! i)) = Some unit
       \<longrightarrow> (\<forall>t. now \<le> t \<and> t < now + 86400 \<longrightarrow>
             fx_rate stamp t (currency_of (cs ! i)) (enrich_price_conversions now ecb cs ! i) = Inr (fl (cny / unit))))"
proof -
  let ?cur = "map offer_currency (filter (\<lambda>c. offer_currency c \<noteq> CNY \<and> needs_refresh now c) cs)"
  let ?c = "cs ! i" and ?e = "enrich_price_conversions now ecb cs ! i"
  have 1: "?e = ?c \<or> (\<exists>q. ?e = ?c\<lparr>ca_price_conversion := Some q\<rparr> \<and> needs_refresh now ?c
      \<and> offer_currency ?c \<noteq> CNY \<and> valid_currency_conversion q \<and> cc_source_currency q = offer_currency ?c)"
    using enriched_cases [OF assms, of now ecb]
  proof (elim disjE exE conjE)
    fix fetched q
    assume f: "fetch_conversions now ecb ?cur = Inr fetched" "map_of fetched (offer_currency ?c) = Some q" "needs_refresh now ?c"
      "?e = ?c\<lparr>ca_price_conversion := Some q\<rparr>"
    note q = fetch_conversions_Some [OF f(1,2)]
    from q(4) obtain d rates where "conversion_from_rates now (offer_currency ?c) d rates = Inr (Some q)" by blast
    from conversion_from_rates_Some(2) [OF this] have "cc_source_currency q = offer_currency ?c" by simp
    with f(3,4) q(1,2) show ?thesis by blast
  qed simp
  have 2: "fx_rate stamp t (currency_of ?c) ?e = Inr (fl (cny / unit))"
    if r: "rbind (ecb ()) parse_rates = Inr (d, rates)"
      "\<forall>c \<in> set cs. \<exists>r. conversion_from_rates now (offer_currency c) d rates = Inr r"
      "offer_currency ?c \<noteq> CNY" "needs_refresh now ?c" "rates CNY = Some cny" "rates (offer_currency ?c) = Some unit"
      "t < now + 86400" for t
  proof -
    have mem: "offer_currency ?c \<in> set ?cur" using r(3,4) assms by auto
    obtain q0 where q0: "conversion_from_rates now (offer_currency ?c) d rates = Inr (Some q0)"
      using r(2,3,5,6) assms by (fastforce simp: conversion_from_rates_def Let_def split: py_number.splits option.splits if_splits)
    let ?req = "filter (\<lambda>c. c \<noteq> CNY) (dict_fromkeys (map (\<lambda>c. py_upper (py_strip c)) ?cur))"
    have req: "offer_currency ?c \<in> set ?req" using mem r(3) by (force simp: image_iff)
    have "\<exists>vs. mapM_r (\<lambda>c. rbind (conversion_from_rates now c d rates) (\<lambda>q. Inr (c, q))) ?req = Inr vs"
    proof (rule mapM_r_total)
      fix x assume "x \<in> set ?req"
      then obtain c where "c \<in> set cs" "x = offer_currency c" by auto
      then show "\<exists>y. rbind (conversion_from_rates now x d rates) (\<lambda>q. Inr (x, q)) = Inr y" using r(2) by fastforce
    qed
    then obtain vs where vs: "mapM_r (\<lambda>c. rbind (conversion_from_rates now c d rates) (\<lambda>q. Inr (c, q))) ?req = Inr vs" ..
    obtain q where q: "map_of (concat (map (\<lambda>(c, q). case q of None \<Rightarrow> [] | Some q' \<Rightarrow> [(c, q')]) vs)) (offer_currency ?c) = Some q"
      using fetched_all [OF vs req q0] by blast
    have f: "fetch_conversions now ecb ?cur = Inr (concat (map (\<lambda>(c, q). case q of None \<Rightarrow> [] | Some q' \<Rightarrow> [(c, q')]) vs))"
      using req vs r(1) by (auto simp: fetch_conversions_def Let_def)
    have "?cur \<noteq> []" by (rule length_greater_0_conv [THEN iffD1, OF length_pos_if_in_set [OF mem]])
    then have e: "?e = ?c\<lparr>ca_price_conversion := Some q\<rparr>"
      using f q r(4) assms by (simp add: enrich_price_conversions_def Let_def)
    have cq: "conversion_from_rates now (offer_currency ?c) d rates = Inr (Some q)"
      using fetch_conversions_Some(4) [OF f q] r(1) by auto
    note v = conversion_from_rates_Some [OF cq]
    have "currency_of ?c = offer_currency ?c" using v(1,2) valid_conversion_currency currency_of_offer by (metis offer_currency_normal)
    then show ?thesis using v r(5-7) by (auto simp: e fx_rate_def expired_def)
  qed
  show ?thesis using 1 2 by auto
qed

text \<open>
  The expired quote of a catalogue offer is kept and then refused: for an offer that is not live
  and carries a quote in its own currency, enrichment keeps that quote even when it has expired,
  whatever the ECB answers, and the price comparison excludes the offer.
\<close>

lemma expired_snapshot_quote_stays:
  assumes "i < length cs" "ca_source (cs ! i) \<noteq> SrcLive" "ca_price_conversion (cs ! i) = Some q"
    and "cc_source_currency q = offer_currency (cs ! i)" "offer_currency (cs ! i) \<noteq> []" "expired now (cc_expires_at q)"
  shows "enrich_price_conversions now ecb cs ! i = cs ! i
    \<and> (\<exists>reason. fx_rate stamp now (currency_of (cs ! i)) (cs ! i) = Inl (ExclInvalidFxEvidence, reason))"
proof -
  have "\<not> needs_refresh now (cs ! i)" using assms(2-4) by (simp add: needs_refresh_def)
  then have "enrich_price_conversions now ecb cs ! i = cs ! i" using enriched_cases [OF assms(1), of now ecb] by blast
  then show ?thesis using assms currency_of_offer by (simp add: fx_rate_def)
qed

section \<open>Customs evidence\<close>

text \<open>What an offer becomes when its evidence could be completed.\<close>

definition completed :: "customs_world \<Rightarrow> candidate \<Rightarrow> candidate \<Rightarrow> bool" where
  "completed w c c' \<longleftrightarrow>
     (\<exists>lk rates e tariff vat v.
        input_from_candidate (cw_printable w) (cw_env w) c = Inr lk \<and> ci_import_regime lk = lit ''general_trade''
        \<and> lookup_rates (cw_service w) (cw_base w) (cw_today w) (ci_hs_code lk) (ca_title c) (ci_country_of_origin lk) None = Inr rates
        \<and> c' = with_customs c lk rates e \<and> valid_customs_tax e
        \<and> ct_hs_code e = ci_hs_code lk \<and> ct_effective_date e = cr_effective_date rates \<and> ct_import_regime e = RegimeGeneralTrade
        \<and> select_rate rates (effective_rate_type rates (ci_rate_type lk)) = Inr (Finite tariff) \<and> ct_tariff_rate e = Some tariff
        \<and> cr_import_vat_rate rates = Some (Finite vat) \<and> ct_import_vat_rate e = Some vat
        \<and> ct_consumption_tax_rate e = (case cr_consumption_tax_rate rates of Some (Finite x) \<Rightarrow> x | _ \<Rightarrow> 0)
        \<and> ct_valuation e = Some v \<and> cv_source_reference v = cr_source_reference rates)"

lemma evidence_of_Inr:
  "evidence_of lk rates k t vt cons v = Inr e \<Longrightarrow>
     valid_customs_tax e \<and> ct_hs_code e = ci_hs_code lk \<and> ct_effective_date e = cr_effective_date rates
     \<and> ct_import_regime e = RegimeGeneralTrade \<and> ct_tariff_rate e = Some t \<and> ct_import_vat_rate e = Some vt
     \<and> ct_consumption_tax_rate e = cons \<and> ct_valuation e = Some v"
  by (auto simp: evidence_of_def Let_def split: if_splits)

lemma valuation_of_Inr: "valuation_of rates cur g gc f v c = Inr x \<Longrightarrow> cv_source_reference x = cr_source_reference rates"
  by (auto simp: valuation_of_def Let_def split: if_splits)

lemma finite_rate_Inr: "finite_rate n = Inr x \<longleftrightarrow> n = Finite x"
  by (auto simp: finite_rate_def split: py_number.splits)

lemma collect_trade_data_Inr:
  assumes "collect_trade_data w c shipping None = Inr d"
  shows "input_from_candidate (cw_printable w) (cw_env w) c = Inr (td_input d)" "ci_import_regime (td_input d) = lit ''general_trade''"
    "lookup_rates (cw_service w) (cw_base w) (cw_today w) (ci_hs_code (td_input d)) (ca_title c) (ci_country_of_origin (td_input d)) None
       = Inr (td_rates d)"
    "cr_import_vat_rate (td_rates d) = Some (td_vat d)"
    "select_rate (td_rates d) (effective_rate_type (td_rates d) (ci_rate_type (td_input d))) = Inr (td_tariff d)"
  using assms
  by (auto simp: collect_trade_data_def official_rates_def split: if_splits option.splits sum.splits customs_error.splits elim!: rbind_InrE)

lemma complete_offer_Inr:
  assumes "complete_offer c d x = Inr c'"
  shows "\<exists>tariff vat consumption v e k. td_tariff d = Finite tariff \<and> td_vat d = Finite vat
    \<and> (case cr_consumption_tax_rate (td_rates d) of None \<Rightarrow> Inr 0 | Some x \<Rightarrow> finite_rate x) = Inr consumption
    \<and> cv_source_reference v = cr_source_reference (td_rates d)
    \<and> evidence_of (td_input d) (td_rates d) k tariff vat consumption v = Inr e \<and> c' = with_customs c (td_input d) (td_rates d) e"
  using assms valuation_of_Inr
  by (fastforce simp: complete_offer_def finite_rate_Inr split: prod.splits option.splits elim!: rbind_InrE)

lemma enrich_general_trade_completed:
  assumes "enrich_general_trade w c shipping None cache = (Inr c', cache')"
  shows "completed w c c'"
proof -
  obtain d x where d: "collect_trade_data w c shipping None = Inr d" "complete_offer c d x = Inr c'"
    using assms by (auto simp: enrich_general_trade_def split: sum.splits prod.splits elim!: rbind_InrE)
  note i = collect_trade_data_Inr [OF d(1)]
  obtain tariff vat cons v e k where c: "td_tariff d = Finite tariff" "td_vat d = Finite vat"
      "(case cr_consumption_tax_rate (td_rates d) of None \<Rightarrow> Inr 0 | Some x \<Rightarrow> finite_rate x) = Inr cons"
      "cv_source_reference v = cr_source_reference (td_rates d)"
      "evidence_of (td_input d) (td_rates d) k tariff vat cons v = Inr e" "c' = with_customs c (td_input d) (td_rates d) e"
    using complete_offer_Inr [OF d(2)] by blast
  have cons: "cons = (case cr_consumption_tax_rate (td_rates d) of Some (Finite x) \<Rightarrow> x | _ \<Rightarrow> 0)"
    using c(3) by (auto simp: finite_rate_Inr split: option.splits)
  show ?thesis unfolding completed_def
    using i c evidence_of_Inr [OF c(5)] cons
    by (intro exI [of _ "td_input d"] exI [of _ "td_rates d"] exI [of _ e] exI [of _ tariff] exI [of _ vat] exI [of _ v]) simp
qed

lemma gather_spec:
  assumes "gather w cs cache = (rs, cache')"
  shows "length rs = length cs \<and> (\<forall>i < length cs. \<exists>c1 c2. enrich w (cs ! i) c1 = (rs ! i, c2))"
  using assms
proof (induction cs arbitrary: cache rs cache')
  case (Cons c cs)
  obtain r c1 where e: "enrich w c cache = (r, c1)" by fastforce
  obtain rs' c2 where g: "gather w cs c1 = (rs', c2)" by fastforce
  have rs: "rs = r # rs'" using Cons.prems e g by simp
  show ?case
  proof (intro conjI allI impI)
    show "length rs = length (c # cs)" using Cons.IH [OF g] rs by simp
    show "\<exists>c1 c2. enrich w ((c # cs) ! i) c1 = (rs ! i, c2)" if "i < length (c # cs)" for i
      using Cons.IH [OF g] e that unfolding rs by (cases i) (auto intro: exI)
  qed
qed simp

lemma mapM_r_id: "mapM_r (\<lambda>r. r) rs = Inr ys \<longleftrightarrow> rs = map Inr ys"
  by (induction rs arbitrary: ys) (auto simp: rbind_Inr_iff Cons_eq_map_conv map_eq_Cons_conv)

lemma enrich_cases:
  assumes "enrich w c cache = (Inr c', cache')"
  shows "c' = c \<or> ca_customs c = None \<and> (\<exists>q. ca_shipping_quote c = Some q \<and> sq_currency q = CNY) \<and> completed w c c'"
proof (cases "ca_customs c = None \<and> shipping_amount_cny c \<noteq> None")
  case True
  then obtain s where s: "ca_customs c = None" "shipping_amount_cny c = Some s" by auto
  obtain r cache2 where g: "enrich_general_trade w c s None cache = (r, cache2)" by fastforce
  have q: "\<exists>q. ca_shipping_quote c = Some q \<and> sq_currency q = CNY"
    using s(2) by (auto simp: shipping_amount_cny_def split: option.splits if_splits)
  show ?thesis
  proof (cases r)
    case (Inl e)
    then show ?thesis using assms s g by (cases e) (simp_all add: enrich_def)
  next
    case (Inr x)
    then have "enrich_general_trade w c s None cache = (Inr c', cache')" using assms s g by (simp add: enrich_def)
    then show ?thesis using enrich_general_trade_completed s(1) q by blast
  qed
next
  case False
  then show ?thesis using assms by (auto simp: enrich_def split: if_splits)
qed


text \<open>
  An unreachable customs service fails the whole research: if every request to the service fails
  and one of the offers in question is explicitly classified, the completion of all offers raises,
  instead of leaving that offer as it is.
\<close>

lemma customs_outage_fails_enrichment:
  assumes "\<And>endpoint params. cw_service w endpoint params = Inl RequestFailed" "customs_lookup_enabled (cw_env w)"
    and "c \<in> set (take (nat n) cs)" "ca_customs c = None" "shipping_amount_cny c = Some shipping"
    and "input_from_candidate (cw_printable w) (cw_env w) c = Inr lk" "ci_import_regime lk = lit ''general_trade''"
    and "hs_code_shape (py_strip (ci_hs_code lk))" "date_parts (isoformat (cw_today w)) \<noteq> None"
  shows "\<exists>e. fst (enrich_candidates w cs n cache) = Inl e"
proof -
  have "official_rates w lk c None = Inl RequestFailed"
    using assms(1,8,9) by (simp add: official_rates_def lookup_rates_def Let_def tariff_query_def customs_request_def)
  then have t: "collect_trade_data w c shipping None = Inl RequestFailed"
    using assms(6,7) by (simp add: collect_trade_data_def)
  have e: "enrich w c cache = (Inl RequestFailed, cache)" for cache
    using t assms(4,5) by (simp add: enrich_def enrich_general_trade_def)
  define k where "k = nat (max 0 (min n (int (length cs))))"
  have "take k cs = take (nat n) cs" unfolding k_def by (cases "nat n \<le> length cs") (auto simp: min_def max_def)
  then have "c \<in> set (take k cs)" using assms(3) by simp
  then obtain i where i: "i < length (take k cs)" "take k cs ! i = c" by (auto simp: in_set_conv_nth)
  obtain rs c2 where g: "gather w (take k cs) cache = (rs, c2)" by fastforce
  have "rs ! i = Inl RequestFailed" "i < length rs" using gather_spec [OF g] i e by fastforce+
  then have "mapM_r (\<lambda>r. r) rs \<noteq> Inr ys" for ys by (auto simp: mapM_r_id)
  then obtain e' where "mapM_r (\<lambda>r. r) rs = Inl e'" by (cases "mapM_r (\<lambda>r. r) rs") auto
  then show ?thesis using assms(2) g by (auto simp: enrich_candidates_def k_def [symmetric])
qed

section \<open>Keys inside texts\<close>

text \<open>
  Quoting bare keys damages texts: a payload that is valid JSON as it is, whose goods name contains
  a comma, a word and a colon, is refused after the rewriting of its keys.
\<close>

lemma quoting_keys_damages_texts:
  "json_loads (lit ''{\"data\":[{\"gName\":\"bag, size: L\"}]}'')
     = Some (JvObj [(lit ''data'', JvList [JvObj [(lit ''gName'', JvStr (lit ''bag, size: L''))]])])
   \<and> parse_inner_response (JvObj [(lit ''res'', JvStr (lit ''{\"data\":[{\"gName\":\"bag, size: L\"}]}''))])
     = Inl (ChinaCustomsError InvalidResultPayload)
   \<and> parse_inner_response (JvObj [(lit ''res'', JvStr (lit ''{data:[{gName:\"bag\"}]}''))])
     = Inr [[(lit ''gName'', JvStr (lit ''bag''))]]"
  by code_simp

section \<open>Concrete responses\<close>

definition a_series :: series where "a_series = [(lit ''2025-01-15'', 7)]"

lemma a_series_rate:
  "assessment_rate (lit ''USD'') 1 CnyPerUnit (2025, 2, 10) a_series
     = Inr \<lparr>cx_source_currency = lit ''USD'', cx_rate_to_cny = 7, cx_rate_basis = BasisMonthlyCustomsAssessment,
            cx_declaration_date = lit ''2025-02-10'', cx_assessment_month = lit ''2025-02'', cx_provider = lit ''pboc-benchmark-rate'',
            cx_source_reference = PBOC_RATE_URL 1 @ lit ''#date=2025-01-15;customs-rule=third-wednesday-previous-month''\<rparr>"
  "assessment_rate (lit ''USD'') 1 CnyPerUnit (2025, 3, 10) a_series = Inl (NoWednesdayObservation [(2025, 2, 19), (2025, 2, 26)])"
  by code_simp+

lemma a_series_fetch:
  "py_upper (py_strip (lit ''USD'')) = lit ''USD''" "map_of PBOC_RATES (lit ''USD'') = Some (1, CnyPerUnit)"
  "declaration_of today (GivenText (lit ''2025-02-10'')) = Inr (2025, 2, 10)"
  "declaration_of today (GivenText (lit ''2025-03-10'')) = Inr (2025, 3, 10)"
proof -
  have "date_parts (py_strip (lit ''2025-02-10'')) = Some (2025, 2, 10)" "date_parts (py_strip (lit ''2025-03-10'')) = Some (2025, 3, 10)"
    "py_strip (lit ''2025-02-10'') \<noteq> []" "py_strip (lit ''2025-03-10'') \<noteq> []"
    by code_simp+
  then show "declaration_of today (GivenText (lit ''2025-02-10'')) = Inr (2025, 2, 10)"
    "declaration_of today (GivenText (lit ''2025-03-10'')) = Inr (2025, 3, 10)"
    by (simp_all add: declaration_of_def)
  show "py_upper (py_strip (lit ''USD'')) = lit ''USD''" "map_of PBOC_RATES (lit ''USD'') = Some (1, CnyPerUnit)"
    by code_simp+
qed

theorem customs_rate_is_prescribed_witness:
  "\<exists>e d. fst (fetch_customs_exchange_rate (\<lambda>_ _. Inl HttpFailure) (2025, 2, 1) (lit ''USD'')
      (GivenText (lit ''2025-02-10'')) 20 [((1, 20), a_series)]) = Inr e \<and> weekday (2025, 1, d) = 2 \<and> 15 \<le> d \<and> d \<le> 28"
proof -
  obtain e cache' where e: "fetch_customs_exchange_rate (\<lambda>_ _. Inl HttpFailure) (2025, 2, 1) (lit ''USD'')
      (GivenText (lit ''2025-02-10'')) 20 [((1, 20), a_series)] = (Inr e, cache')"
    using a_series_rate(1) a_series_fetch by (simp add: fetch_customs_exchange_rate_def fetch_series_def Let_def)
  from customs_rate_is_prescribed [OF this] show ?thesis
    using a_series_fetch(3) e by (auto simp: previous_month_def)
qed

lemma cached_series_never_refreshes_witness:
  "fst (fetch_customs_exchange_rate (\<lambda>_ _. Inr None) (2025, 3, 10) (lit ''USD'') (GivenText (lit ''2025-03-10'')) 20 [((1, 20), a_series)])
     = Inl (NoWednesdayObservation [(2025, 2, 19), (2025, 2, 26)])"
proof -
  have "cache_of 20 [((1, 20), a_series)]"
    unfolding cache_of_def pboc_keys_def PBOC_RATES_def by force
  from cached_series_never_refreshes [OF this a_series_fetch(2) _ a_series_fetch(1) _ a_series_fetch(4), of a_series "\<lambda>_ _. Inr None" _ "[]"]
  show ?thesis by (simp add: a_series_rate)
qed

definition a_service :: customs_service where
  "a_service endpoint params =
     Inr (JvObj [(lit ''res'', JvObj [(lit ''data'', JvList
       [JvObj (if endpoint = lit ''queryTaxRate'' then [(lit ''impVatRate'', JvStr (lit ''25%''))]
               else [(lit ''codeTs'', JvStr (lit ''640391'')), (lit ''impDiscountRate'', JvStr (lit ''50%''))])])])])"

definition an_env :: env where
  "an_env = [lit ''CUSTOMS_AUTO_LOOKUP'' \<mapsto> lit ''on'', lit ''CUSTOMS_IMPORT_REGIME'' \<mapsto> lit ''general_trade'']"

definition a_world :: "customs_service \<Rightarrow> customs_world" where
  "a_world service = \<lparr>cw_service = service, cw_pboc = \<lambda>_ _. Inl HttpFailure, cw_env = an_env, cw_base = lit ''b'',
     cw_today = (2025, 1, 2), cw_printable = (\<lambda>_. True)\<rparr>"

definition a_boot :: candidate where
  "a_boot = an_offer\<lparr>ca_attributes := [(lit ''hs_code'', JStr (lit ''640391'')), (lit ''country_of_origin'', JStr (lit ''IT''))],
     ca_shipping_quote := Some a_quote\<rparr>"

definition an_input :: customs_lookup_input where
  "an_input = \<lparr>ci_hs_code = lit ''640391'', ci_country_of_origin = lit ''IT'', ci_import_regime = lit ''general_trade'',
     ci_rate_type = lit ''mfn'', ci_ship_from_country = None\<rparr>"

definition some_rates :: china_customs_rates where
  "some_rates = \<lparr>cr_hs_code = lit ''640391'', cr_mfn_rate = Some (Finite (1 / 2)), cr_ordinary_rate = None, cr_temporary_rate = None,
     cr_consumption_tax_rate = None, cr_import_vat_rate = Some (Finite (1 / 4)), cr_agreement_rate = None, cr_agreement_name = None,
     cr_effective_date = lit ''2025-01-02'', cr_source_reference = lit ''b/pages/jckspsl/detail.html?codeTs=640391''\<rparr>"

lemma a_boot_input: "input_from_candidate (\<lambda>_. True) an_env a_boot = Inr an_input"
  by code_simp

lemma a_boot_rates: "lookup_rates a_service (lit ''b'') (2025, 1, 2) (lit ''640391'') (lit ''boot'') (lit ''IT'') None = Inr some_rates"
  by code_simp

lemma a_boot_value: "\<exists>v. valuation_of some_rates CNY 100 100 10 110 None = Inr v"
proof -
  have "\<not> isl (valuation_of some_rates CNY 100 100 10 110 None)" by code_simp
  then show ?thesis by (cases "valuation_of some_rates CNY 100 100 10 110 None") auto
qed

lemma a_boot_money: "customs_money 100 = Inr 100" "customs_money 10 = Inr 10" "fl (100 + 10) = 110" "customs_money 110 = Inr 110"
  by code_simp+

lemma a_boot_fields: "ca_title a_boot = lit ''boot''" "ca_price a_boot = 100" "py_upper (ca_currency a_boot) = CNY"
  "ca_customs a_boot = None" "shipping_amount_cny a_boot = Some 10"
  by code_simp+

lemma lookup_enabled: "customs_lookup_enabled an_env"
  by code_simp

lemma a_boot_completed: "\<exists>c'. enrich (a_world a_service) a_boot cache = (Inr c', cache) \<and> ca_customs c' \<noteq> None"
proof -
  let ?d = "\<lparr>td_input = an_input, td_rates = some_rates, td_rate_type = lit ''mfn'', td_tariff = Finite (1 / 2), td_vat = Finite (1 / 4),
     td_goods = 100, td_freight = 10\<rparr>"
  have d: "collect_trade_data (a_world a_service) a_boot 10 None = Inr ?d"
    using a_boot_input a_boot_rates a_boot_fields a_boot_money
    by (simp add: collect_trade_data_def a_world_def official_rates_def an_input_def some_rates_def effective_rate_type_def select_rate_def)
  obtain v where v: "valuation_of some_rates CNY 100 100 10 110 None = Inr v" using a_boot_value by blast
  then have v': "valid_customs_valuation v" "cv_insurance_cny v = 0"
    by (auto simp: valuation_of_def Let_def split: if_splits)
  have "fields_customs_tax_evidence e \<and> date_parts (ct_effective_date e) \<noteq> None \<and> validate_regime_evidence e"
    if "e = \<lparr>ct_hs_code = ci_hs_code an_input, ct_country_of_origin = normalize_country (ci_country_of_origin an_input),
               ct_destination_country = CN, ct_ship_from_country = map_option normalize_country (ci_ship_from_country an_input),
               ct_import_regime = RegimeGeneralTrade, ct_rate_type = RateMfn, ct_tariff_rate = Some (1 / 2),
               ct_import_vat_rate = Some (1 / 4), ct_consumption_tax_rate = 0, ct_personal_postal_tax_rate = None,
               ct_personal_postal_assessed_value_cny = None, ct_personal_postal_total_value_cny = None,
               ct_personal_postal_value_limit_cny = None, ct_personal_postal_tax_exemption_threshold_cny = None,
               ct_personal_postal_single_indivisible_item = None, ct_personal_postal_eligible = None,
               ct_seller_collected_tax_cny = None, ct_insurance_cny = 0, ct_valuation = Some v,
               ct_cross_border_ecommerce_eligible = None, ct_provider = PROVIDER,
               ct_source_reference = cr_source_reference some_rates, ct_effective_date = cr_effective_date some_rates\<rparr>" for e
  proof -
    have t: "hs_code_shape (lit ''640391'')" "normalize_country (lit ''IT'') = lit ''IT''" "iso_date_shape (lit ''2025-01-02'')"
      "date_parts (lit ''2025-01-02'') = Some (2025, 1, 2)" "\<bar>fl (0 - 0)\<bar> \<le> fl (1 / 100)"
      by code_simp+
    then show ?thesis using v'(2)
      by (simp add: that fields_customs_tax_evidence_def validate_regime_evidence_def an_input_def some_rates_def PROVIDER_def)
  qed
  then have "\<exists>e. evidence_of an_input some_rates RateMfn (1 / 2) (1 / 4) 0 v = Inr e"
    using v'(1) by (simp add: evidence_of_def valid_customs_tax_def Let_def)
  then obtain e where e: "evidence_of an_input some_rates RateMfn (1 / 2) (1 / 4) 0 v = Inr e" ..
  have c: "complete_offer a_boot ?d (100, None) = Inr (with_customs a_boot an_input some_rates e)"
    using a_boot_money v e by (simp add: complete_offer_def a_boot_fields finite_rate_def some_rates_def [THEN arg_cong [of _ _ cr_consumption_tax_rate]])
  have "enrich_general_trade (a_world a_service) a_boot 10 None cache = (Inr (with_customs a_boot an_input some_rates e), cache)"
    using d c by (simp add: enrich_general_trade_def goods_in_cny_def a_boot_fields)
  then show ?thesis by (simp add: enrich_def a_boot_fields with_customs_def Let_def)
qed


lemma customs_outage_fails_enrichment_witness:
  "\<exists>e. fst (enrich_candidates (a_world (\<lambda>_ _. Inl RequestFailed)) [a_boot] 12 []) = Inl e"
proof (rule customs_outage_fails_enrichment [where c = a_boot and lk = an_input and shipping = 10])
  have "hs_code_shape (py_strip (lit ''640391''))" "date_parts (isoformat (2025, 1, 2)) \<noteq> None" by code_simp+
  then show "hs_code_shape (py_strip (ci_hs_code an_input))" "date_parts (isoformat (cw_today (a_world (\<lambda>_ _. Inl RequestFailed)))) \<noteq> None"
    by (simp_all add: an_input_def a_world_def)
qed (use a_boot_input a_boot_fields lookup_enabled in \<open>simp_all add: a_world_def an_input_def\<close>)

definition a_cube :: xml where
  "a_cube = Element ECB_CUBE [(lit ''time'', lit ''2025-01-15'')] None
     [Element ECB_CUBE [(lit ''currency'', lit ''USD''), (lit ''rate'', lit ''1'')] None [],
      Element ECB_CUBE [(lit ''currency'', lit ''CNY''), (lit ''rate'', lit ''8'')] None []]"

definition a_dollar_offer :: candidate where
  "a_dollar_offer = an_offer\<lparr>ca_currency := lit ''USD''\<rparr>"

lemma dollar_currency: "offer_currency a_dollar_offer = lit ''USD''" "currency_of a_dollar_offer = lit ''USD''"
  by code_simp+

lemma a_cube_rates:
  "\<exists>rates. parse_rates (Some a_cube) = Inr (lit ''2025-01-15'', rates) \<and> rates CNY = Some 8 \<and> rates (lit ''USD'') = Some 1"
proof -
  have "case parse_rates (Some a_cube) of Inr (d, rates) \<Rightarrow> d = lit ''2025-01-15'' \<and> rates CNY = Some 8 \<and> rates (lit ''USD'') = Some 1
      | Inl e \<Rightarrow> False"
    by code_simp
  then show ?thesis by (auto split: sum.splits prod.splits)
qed

lemma a_conversion:
  assumes "rates CNY = Some 8" "rates (lit ''USD'') = Some 1"
  shows "\<exists>r. conversion_from_rates 1737000000 (lit ''USD'') (lit ''2025-01-15'') rates = Inr r"
proof -
  have "finite_or_inf (8 / 1) = Finite 8" "date_parts (lit ''2025-01-15'') = Some (2025, 1, 15)" "py_upper (py_strip (lit ''USD'')) = lit ''USD''"
    by code_simp+
  moreover have "valid_currency_conversion \<lparr>cc_source_currency = lit ''USD'', cc_rate_to_cny = 8, cc_rate_type = ConvMidMarketReference,
      cc_markup_status = MarkupExcluded, cc_markup_bps = None, cc_provider = lit ''ecb-reference-rates'',
      cc_source_reference = ECB_DAILY_REFERENCE_URL @ lit ''#'' @ lit ''2025-01-15'',
      cc_observed_at = epoch_seconds (2025, 1, 15), cc_expires_at = Some (1737000000 + 86400)\<rparr>"
    by code_simp
  ultimately show ?thesis using assms by (simp add: conversion_from_rates_def Let_def)
qed

lemma fx_enrichment_prices_offers_witness:
  "fx_rate (\<lambda>t. []) 1737000000 (lit ''USD'') (enrich_price_conversions 1737000000 (\<lambda>_. Inr (Some a_cube)) [a_dollar_offer] ! 0) = Inr 8"
proof -
  obtain rates where r: "parse_rates (Some a_cube) = Inr (lit ''2025-01-15'', rates)" "rates CNY = Some 8" "rates (lit ''USD'') = Some 1"
    using a_cube_rates by blast
  have "needs_refresh 1737000000 a_dollar_offer" by (simp add: needs_refresh_def a_dollar_offer_def an_offer_def)
  moreover have "fl (8 / 1) = 8" by (simp add: float_eval)
  ultimately show ?thesis
    using fx_enrichment_prices_offers [of 0 "[a_dollar_offer]" 1737000000 "\<lambda>_. Inr (Some a_cube)" "lit ''2025-01-15''" rates 8 1 "\<lambda>t. []"]
      r a_conversion [OF r(2,3)] by (simp add: dollar_currency)
qed

definition an_old_quote :: currency_conversion_evidence where
  "an_old_quote = \<lparr>cc_source_currency = lit ''USD'', cc_rate_to_cny = 7, cc_rate_type = ConvMidMarketReference,
      cc_markup_status = MarkupExcluded, cc_markup_bps = None, cc_provider = lit ''p'', cc_source_reference = lit ''r'',
      cc_observed_at = 0, cc_expires_at = Some 10\<rparr>"

lemma expired_snapshot_quote_stays_witness:
  "enrich_price_conversions 20 (\<lambda>_. Inr (Some a_cube)) [a_dollar_offer\<lparr>ca_price_conversion := Some an_old_quote\<rparr>] ! 0
     = a_dollar_offer\<lparr>ca_price_conversion := Some an_old_quote\<rparr>"
  using expired_snapshot_quote_stays [of 0 "[a_dollar_offer\<lparr>ca_price_conversion := Some an_old_quote\<rparr>]" an_old_quote 20 "\<lambda>_. Inr (Some a_cube)"]
    dollar_currency
  by (simp add: offer_currency_def an_old_quote_def expired_def a_dollar_offer_def an_offer_def)

end
