(* ===== verification/Memory.thy ===== *)
theory Memory
  imports PyText "HOL-Library.AList"
begin

text \<open>
  Remembered preferences: \<open>app/memory/commands.py\<close> (explicit commands in a request), \<open>injector.py\<close>
  (the current request against what is remembered), \<open>relevance.py\<close> (the few values worth using),
  \<open>store.py\<close> (where they are kept; Redis and PostgreSQL are a parameter) and \<open>strategy.py\<close> (the library
  of reviewed strategies). What is kept for a shopper is a dictionary from field names to values.
\<close>

section \<open>Text tools\<close>

definition strip_by :: "(int \<Rightarrow> bool) \<Rightarrow> pystr \<Rightarrow> pystr" where
  \<comment> \<open>\<open>re.sub("^[...]+|[...]+$", "", s)\<close> and \<open>str.strip(chars)\<close>\<close>
  "strip_by P s = rev (dropWhile P (rev (dropWhile P s)))"

definition rstrip_de :: "pystr \<Rightarrow> pystr" where
  \<comment> \<open>trailing \<open>U+7684\<close> characters removed\<close>
  "rstrip_de s = rev (dropWhile (\<lambda>c. c = 30340) (rev s))"

definition remove_prefix :: "pystr \<Rightarrow> pystr \<Rightarrow> pystr" where
  "remove_prefix p s = (if starts_with p s then drop (length p) s else s)"

definition has_suffix :: "pystr \<Rightarrow> pystr \<Rightarrow> bool" where
  "has_suffix p s = starts_with (rev p) (rev s)"

definition is_cjk :: "int \<Rightarrow> bool" where
  "is_cjk c \<longleftrightarrow> 19968 \<le> c \<and> c \<le> 40959"

definition words :: "pystr list \<Rightarrow> re" where
  "words ws = alts (map str ws)"

text \<open>\<open>finditer\<close>: the spans of the matches of a pattern that does not match the empty string.\<close>

fun spans_from :: "re \<Rightarrow> int option \<Rightarrow> nat \<Rightarrow> nat \<Rightarrow> pystr \<Rightarrow> (nat \<times> nat) list" where
  "spans_from r p i k [] = []"
| "spans_from r p i (Suc k) (c # s) = spans_from r (Some c) (Suc i) k s"
| "spans_from r p i 0 (c # s) =
     (case match_at r p (c # s) of
        Some (p', rest, caps) \<Rightarrow>
          if length rest < Suc (length s)
          then (i, i + (Suc (length s) - length rest)) # spans_from r (Some c) (Suc i) (length s - length rest) s
          else spans_from r (Some c) (Suc i) 0 s
      | None \<Rightarrow> spans_from r (Some c) (Suc i) 0 s)"

definition spans :: "re \<Rightarrow> pystr \<Rightarrow> (nat \<times> nat) list" where
  "spans r s = spans_from r None 0 0 s"

definition slice :: "pystr \<Rightarrow> nat \<times> nat \<Rightarrow> pystr" where
  "slice s x = (case x of (i, j) \<Rightarrow> take (j - i) (drop i s))"

fun pieces_from :: "pystr \<Rightarrow> nat \<Rightarrow> (nat \<times> nat) list \<Rightarrow> pystr list" where
  "pieces_from s i [] = [drop i s]"
| "pieces_from s i ((a, b) # xs) = slice s (i, a) # pieces_from s b xs"

definition re_split :: "re \<Rightarrow> pystr \<Rightarrow> pystr list" where
  "re_split r s = pieces_from s 0 (spans r s)"

definition match_from_start :: "re \<Rightarrow> pystr \<Rightarrow> (pystr \<times> (nat \<times> pystr) list) option" where
  \<comment> \<open>\<open>pattern.match(s)\<close>: what follows the match, and its groups\<close>
  "match_from_start r s = (case match_at r None s of Some (p, rest, caps) \<Rightarrow> Some (rest, caps) | None \<Rightarrow> None)"

section \<open>Preferences\<close>

definition FIELDS :: "preference_field list" where
  "FIELDS = [PrefMaterialPreferences, PrefStylePreferences, PrefSoftPreferences, PrefAvoid]"

fun field_name :: "preference_field \<Rightarrow> pystr" where
  "field_name PrefMaterialPreferences = lit ''material_preferences''"
| "field_name PrefStylePreferences = lit ''style_preferences''"
| "field_name PrefSoftPreferences = lit ''soft_preferences''"
| "field_name PrefAvoid = lit ''avoid''"

fun pref :: "remembered_preference \<Rightarrow> preference_field \<Rightarrow> pystr list" where
  "pref r PrefMaterialPreferences = rpref_material_preferences r"
| "pref r PrefStylePreferences = rpref_style_preferences r"
| "pref r PrefSoftPreferences = rpref_soft_preferences r"
| "pref r PrefAvoid = rpref_avoid r"

definition prefs_of :: "(preference_field \<Rightarrow> pystr list) \<Rightarrow> remembered_preference" where
  "prefs_of f = \<lparr>rpref_material_preferences = f PrefMaterialPreferences, rpref_style_preferences = f PrefStylePreferences,
     rpref_soft_preferences = f PrefSoftPreferences, rpref_avoid = f PrefAvoid\<rparr>"

type_synonym preferences = "(pystr \<times> pystr list) list"

definition value_of :: "preferences \<Rightarrow> pystr \<Rightarrow> pystr list" where
  "value_of d k = (case map_of d k of None \<Rightarrow> [] | Some v \<Rightarrow> v)"

definition record_of :: "preferences \<Rightarrow> remembered_preference" where
  "record_of d = prefs_of (\<lambda>f. value_of d (field_name f))"

definition compact :: "remembered_preference \<Rightarrow> preferences" where
  "compact r = filter (\<lambda>(k, v). v \<noteq> []) (map (\<lambda>f. (field_name f, pref r f)) FIELDS)"

section \<open>Commands in a request\<close>

definition clause_end :: "int \<Rightarrow> bool" where
  "clause_end c \<longleftrightarrow> c \<in> set [65292, 44, 65307, 59, 12290]"

definition FORGET_WORDS :: "pystr list" where
  "FORGET_WORDS = [[19981, 20877, 35760, 20303], [21035, 20877, 35760, 20303], [21462, 28040, 35760, 20303], [21024, 38500, 20559, 22909], [24536, 35760]]"

definition REMEMBER_WORDS :: "pystr list" where
  "REMEMBER_WORDS = [[35760, 20303], [20445, 23384], [20559, 22909], [21916, 27426], [40664, 35748], [19981, 35201], [19981, 21547], [36991, 20813]]"

definition command_span :: re where
  "command_span =
     Alt (seq [words [[20197, 21518], [20170, 21518], [26410, 26469], [19979, 27425], [20043, 21518]], Many (\<lambda>c. \<not> clause_end c) 0 (Some 8), words REMEMBER_WORDS,
               Many (\<lambda>c. \<not> clause_end c) 1 (Some 24)])
         (seq [words FORGET_WORDS, Many (\<lambda>c. \<not> clause_end c) 0 (Some 24)])"

definition negative_body :: re where
  "negative_body = seq [AtStart, words [[19981, 35201], [19981, 21547], [36991, 20813], [25490, 38500], [19981, 32771, 34385]], Many py_space 0 None, Grp 1 (Many dot 1 None), AtEnd]"

definition positive_head :: re where
  "positive_head = seq [AtStart, Opt (str [25105]), words [[21916, 27426], [20559, 22909], [24819, 35201], [35201], [36873, 25321], [40664, 35748], [26159], [20026]], Many py_space 0 None]"

definition KNOWN_STYLES :: "pystr list" where
  "KNOWN_STYLES = [[31616, 32422], [22797, 21476], [36816, 21160], [21830, 21153], [36890, 21220], [19987, 19994], [20241, 38386]]"

definition FIELD_SUFFIXES :: "(pystr \<times> preference_field) list" where
  "FIELD_SUFFIXES = [([26448, 36136], PrefMaterialPreferences), ([26448, 26009], PrefMaterialPreferences), ([39118, 26684], PrefStylePreferences)]"

definition split_values :: "pystr \<Rightarrow> pystr list" where
  "split_values value = filter (\<lambda>p. p \<noteq> []) (map py_strip (re_split (words [[21644], [20197, 21450], [12289]]) value))"

definition body_edge :: "int \<Rightarrow> bool" where
  "body_edge c \<longleftrightarrow> py_space c \<or> c \<in> set [65306, 58, 30340]"

definition field_and_value :: "pystr \<Rightarrow> preference_field \<times> pystr" where
  \<comment> \<open>of a body without its edges\<close>
  "field_and_value body =
     (case match_from_start negative_body body of
        Some (rest, caps) \<Rightarrow> (PrefAvoid, (case map_of caps 1 of Some v \<Rightarrow> v | None \<Rightarrow> []))
      | None \<Rightarrow>
          let value = (case match_from_start positive_head body of Some (rest, caps) \<Rightarrow> rest | None \<Rightarrow> body)
          in case find (\<lambda>(suf, f). has_suffix suf value) FIELD_SUFFIXES of
               Some (suf, f) \<Rightarrow> (f, take (length value - length suf) value)
             | None \<Rightarrow> (if \<exists>s \<in> set KNOWN_STYLES. str_in s value then PrefStylePreferences else PrefSoftPreferences, value))"

definition normalize_body :: "pystr \<Rightarrow> (preference_field \<times> pystr list) option" where
  "normalize_body body =
     (case field_and_value (strip_by body_edge body) of (f, value) \<Rightarrow>
        let vs = split_values (py_strip (rstrip_de value)) in if vs = [] then None else Some (f, vs))"

definition after_verb :: "pystr \<Rightarrow> pystr option" where
  \<comment> \<open>the text behind the first verb of remembering\<close>
  "after_verb text = (case spans (words REMEMBER_WORDS) text of [] \<Rightarrow> None | (i, j) # _ \<Rightarrow> Some (drop j text))"

definition memory_command_of :: "memory_action \<Rightarrow> pystr \<Rightarrow> memory_command list option" where
  \<comment> \<open>\<open>None\<close>: the model refuses the number of values\<close>
  "memory_command_of action body =
     (case normalize_body body of
        None \<Rightarrow> Some []
      | Some (f, vs) \<Rightarrow>
          let vs' = normalize_memory_values vs
          in if 1 \<le> length vs' \<and> length vs' \<le> 20 then Some [\<lparr>mc_action = action, mc_field = f, mc_values = vs'\<rparr>] else None)"

definition command_from_match :: "pystr \<Rightarrow> memory_command list option" where
  "command_from_match text =
     (case match_from_start (words FORGET_WORDS) text of
        Some (rest, _) \<Rightarrow> memory_command_of DoForget rest
      | None \<Rightarrow> (case after_verb text of None \<Rightarrow> Some [] | Some body \<Rightarrow> memory_command_of DoRemember body))"

fun all_commands :: "pystr list \<Rightarrow> memory_command list option" where
  "all_commands [] = Some []"
| "all_commands (t # ts) =
     (case command_from_match t of
        None \<Rightarrow> None
      | Some cs \<Rightarrow> map_option (\<lambda>ds. cs @ ds) (all_commands ts))"

definition parse_memory_commands :: "pystr \<Rightarrow> memory_command list option" where
  "parse_memory_commands query = all_commands (map (slice query) (spans command_span query))"

definition cut :: "nat \<times> nat \<Rightarrow> pystr \<Rightarrow> pystr" where
  "cut x s = (case x of (i, j) \<Rightarrow> take i s @ drop j s)"

definition strip_memory_commands :: "pystr \<Rightarrow> pystr" where
  "strip_memory_commands query =
     (let ms = spans command_span query
      in if ms = [] then query
         else strip_by (\<lambda>c. c \<in> {32, 9, 13, 10} \<or> c \<in> set [65292, 44, 65307, 59]) (foldr cut ms query))"

definition update_record :: "memory_command \<Rightarrow> remembered_preference \<Rightarrow> remembered_preference" where
  "update_record c r =
     (let vs = pref r (mc_field c);
          vs' = (case mc_action c of
                   DoRemember \<Rightarrow> dict_fromkeys (vs @ mc_values c)
                 | DoForget \<Rightarrow> filter (\<lambda>v. v \<notin> set (mc_values c)) vs)
      in prefs_of (\<lambda>f. if f = mc_field c then vs' else pref r f))"

definition remembered_for_task :: "remembered_preference \<Rightarrow> memory_command list \<Rightarrow> remembered_preference" where
  "remembered_for_task r cs = fold (\<lambda>c r. if mc_action c = DoForget then update_record c r else r) cs r"

section \<open>Stores\<close>

type_synonym preference_map = "pystr \<Rightarrow> preferences option"

definition mem_get :: "preference_map \<Rightarrow> pystr \<Rightarrow> preferences" where
  "mem_get m user = (case m user of None \<Rightarrow> [] | Some d \<Rightarrow> d)"

definition mem_put :: "preference_map \<Rightarrow> pystr \<Rightarrow> preferences \<Rightarrow> preference_map" where
  "mem_put m user d = m(user \<mapsto> d)"

definition mem_delete :: "preference_map \<Rightarrow> pystr \<Rightarrow> preference_map" where
  "mem_delete m user = m(user := None)"

text \<open>
  A durable backend: each call either returns or raises; what is given for an exception is the name
  of its type. A call that raises may still have changed the backend.
\<close>

record 'p backend =
  bk_get :: "'p \<Rightarrow> pystr \<Rightarrow> pystr + preferences"
  bk_put :: "'p \<Rightarrow> pystr \<Rightarrow> preferences \<Rightarrow> pystr option \<times> 'p"
  bk_delete :: "'p \<Rightarrow> pystr \<Rightarrow> pystr option \<times> 'p"

datatype durable_kind = Redis | Postgres

record 'p resilient =
  rs_primary :: 'p
  rs_fallback :: preference_map
  rs_kind :: durable_kind
  rs_production :: bool
  rs_reason :: "pystr option"

definition failure_reason :: "durable_kind \<Rightarrow> string \<Rightarrow> pystr \<Rightarrow> pystr" where
  "failure_reason kind operation exc =
     (case kind of Postgres \<Rightarrow> lit ''PostgreSQL'' | Redis \<Rightarrow> lit ''Redis'') @ [32] @ lit operation @ lit '' failed: '' @ exc"

definition fallback_or_raise :: "string \<Rightarrow> pystr \<Rightarrow> 'p resilient \<Rightarrow> pystr + 'p resilient" where
  \<comment> \<open>\<open>Inl\<close>: a \<open>PreferenceStoreError\<close>\<close>
  "fallback_or_raise operation exc s =
     (let reason = failure_reason (rs_kind s) operation exc
      in if rs_production s then Inl reason else Inr (s\<lparr>rs_reason := Some reason\<rparr>))"

definition res_get :: "'p backend \<Rightarrow> 'p resilient \<Rightarrow> pystr \<Rightarrow> (pystr + preferences) \<times> 'p resilient" where
  "res_get b s user =
     (case bk_get b (rs_primary s) user of
        Inr d \<Rightarrow> (Inr d, s)
      | Inl exc \<Rightarrow>
          (case fallback_or_raise ''get'' exc s of
             Inl e \<Rightarrow> (Inl e, s)
           | Inr s' \<Rightarrow> (Inr (mem_get (rs_fallback s') user), s')))"

definition res_put :: "'p backend \<Rightarrow> 'p resilient \<Rightarrow> pystr \<Rightarrow> preferences \<Rightarrow> pystr option \<times> 'p resilient" where
  "res_put b s user d =
     (case bk_put b (rs_primary s) user d of
        (None, p) \<Rightarrow> (None, s\<lparr>rs_primary := p\<rparr>)
      | (Some exc, p) \<Rightarrow>
          (case fallback_or_raise ''put'' exc (s\<lparr>rs_primary := p\<rparr>) of
             Inl e \<Rightarrow> (Some e, s\<lparr>rs_primary := p\<rparr>)
           | Inr s' \<Rightarrow> (None, s'\<lparr>rs_fallback := mem_put (rs_fallback s') user d\<rparr>)))"

definition res_delete :: "'p backend \<Rightarrow> 'p resilient \<Rightarrow> pystr \<Rightarrow> pystr option \<times> 'p resilient" where
  "res_delete b s user =
     (case bk_delete b (rs_primary s) user of
        (None, p) \<Rightarrow> (None, s\<lparr>rs_primary := p\<rparr>)
      | (Some exc, p) \<Rightarrow>
          (case fallback_or_raise ''delete'' exc (s\<lparr>rs_primary := p\<rparr>) of
             Inl e \<Rightarrow> (Some e, s\<lparr>rs_primary := p\<rparr>)
           | Inr s' \<Rightarrow> (None, s'\<lparr>rs_fallback := mem_delete (rs_fallback s') user\<rparr>)))"

definition after_commands :: "preferences \<Rightarrow> memory_command list \<Rightarrow> remembered_preference" where
  "after_commands d cs = fold update_record cs (record_of d)"

definition execute_memory_commands ::
  "('s \<Rightarrow> pystr \<Rightarrow> preferences) \<Rightarrow> ('s \<Rightarrow> pystr \<Rightarrow> preferences \<Rightarrow> 's) \<Rightarrow> ('s \<Rightarrow> pystr \<Rightarrow> 's) \<Rightarrow> 's \<Rightarrow> pystr \<Rightarrow> memory_command list
   \<Rightarrow> remembered_preference \<times> 's" where
  "execute_memory_commands get put del s user cs =
     (let r = after_commands (get s user) cs
      in (r, if compact r \<noteq> [] then put s user (compact r) else del s user))"

section \<open>Relevance\<close>

definition query_token :: re where
  \<comment> \<open>\<open>[\u4e00-\u9fff]|[a-z0-9][a-z0-9+._-]*\<close> under \<open>IGNORECASE\<close>\<close>
  "query_token =
     (let letter = (\<lambda>c. lower (fold_char c) \<or> digit c)
      in Alt (Cls is_cjk) (Cat (Cls letter) (Many (\<lambda>c. letter c \<or> c \<in> {43, 46, 95, 45}) 0 None)))"

definition query_tokens :: "unicode_text \<Rightarrow> pystr \<Rightarrow> pystr list" where
  "query_tokens u query = dict_fromkeys (map (casefolded u) (findall query_token query))"

definition relevance_score :: "unicode_text \<Rightarrow> pystr list \<Rightarrow> preference_field \<Rightarrow> pystr \<Rightarrow> int" where
  "relevance_score u tokens f value =
     (let normalized = casefolded u value
      in int (length (filter (\<lambda>t. str_in t normalized \<or> str_in normalized t) tokens))
         + (if f \<in> {PrefAvoid, PrefMaterialPreferences} then 1 else 0))"

definition relevance_key :: "unicode_text \<Rightarrow> pystr list \<Rightarrow> preference_field \<times> pystr \<Rightarrow> int \<times> int \<times> pystr \<times> pystr" where
  "relevance_key u tokens x =
     (case x of (f, value) \<Rightarrow>
        (- relevance_score u tokens f value, - int (length value), casefolded u value, field_name f))"

definition ranked_values :: "unicode_text \<Rightarrow> remembered_preference \<Rightarrow> pystr \<Rightarrow> (preference_field \<times> pystr) list" where
  "ranked_values u r query =
     map (\<lambda>(f, value). (f, py_strip value))
       (sort_key (relevance_key u (query_tokens u query))
         (concat (map (\<lambda>f. map (Pair f) (filter (\<lambda>v. py_strip v \<noteq> []) (pref r f))) FIELDS)))"

definition rank_relevant_preferences :: "unicode_text \<Rightarrow> remembered_preference \<Rightarrow> pystr \<Rightarrow> int \<Rightarrow> preferences" where
  "rank_relevant_preferences u r query limit =
     (let selected = take (nat (max 0 limit)) (ranked_values u r query)
      in filter (\<lambda>(k, v). v \<noteq> []) (map (\<lambda>f. (field_name f, map snd (filter (\<lambda>x. fst x = f) selected))) FIELDS))"

section \<open>The current request and what is remembered\<close>

definition avoided_edge :: "int \<Rightarrow> bool" where
  "avoided_edge c \<longleftrightarrow> py_space c \<or> c \<in> set [65306, 58, 12289, 65292, 44, 12290, 65307, 59, 65281, 65311, 33, 63]"

fun before_attribute :: "pystr \<Rightarrow> pystr" where
  \<comment> \<open>the text before the first \<open>U+7684\<close> that a letter follows\<close>
  "before_attribute [] = []"
| "before_attribute (c # s) =
     (if c = 30340 \<and> s \<noteq> [] \<and> (is_cjk (hd s) \<or> upper (hd s) \<or> lower (hd s)) then [] else c # before_attribute s)"

definition clean_avoided_value :: "pystr \<Rightarrow> pystr" where
  "clean_avoided_value value = py_strip (rstrip_de (before_attribute (strip_by avoided_edge value)))"

definition comparison_value :: "unicode_text \<Rightarrow> pystr \<Rightarrow> pystr" where
  "comparison_value u value = remove_prefix [19981, 35201] (remove_prefix [19981, 21547] (lowered u (filter (\<lambda>c. \<not> py_space c) value)))"

definition material_values :: "shopping_plan \<Rightarrow> constraint_operator \<Rightarrow> pystr list" where
  "material_values p op =
     map (\<lambda>h. scalar_str (hc_value h)) (filter (\<lambda>h. hc_field h = lit ''material'' \<and> hc_operator h = op) (sp_hard_constraints p))"

fun current_preferences :: "shopping_plan \<Rightarrow> preference_field \<Rightarrow> pystr list" where
  "current_preferences p PrefMaterialPreferences = dict_fromkeys (sp_material_preferences p @ material_values p OpContains)"
| "current_preferences p PrefStylePreferences = dict_fromkeys (sp_style_preferences p)"
| "current_preferences p PrefSoftPreferences = dict_fromkeys (sp_soft_preferences p)"
| "current_preferences p PrefAvoid = dict_fromkeys (material_values p OpNotContains)"

definition current_material :: "unicode_text \<Rightarrow> shopping_plan \<Rightarrow> pystr list" where
  "current_material u p =
     map (comparison_value u) (current_preferences p PrefMaterialPreferences @ current_preferences p PrefAvoid)"

definition remembered_status :: "unicode_text \<Rightarrow> shopping_plan \<Rightarrow> preference_field \<Rightarrow> pystr \<Rightarrow> decision_status" where
  "remembered_status u p f value =
     (let comparable = comparison_value u value; current = current_preferences p f
      in if \<exists>x \<in> set current. comparable = comparison_value u x then PrefIgnored
         else if current \<noteq> [] \<or> f \<in> {PrefMaterialPreferences, PrefAvoid} \<and> comparable \<in> set (current_material u p)
         then PrefOverridden else PrefApplied)"

fun status_reason :: "decision_status \<Rightarrow> pystr" where
  "status_reason PrefIgnored = 
     [24403, 21069, 35831, 27714, 24050, 26126, 30830, 34920, 36798, 30456, 21516, 20559, 22909,
      65292, 35760, 24518, 19981, 37325, 22797, 21442, 19982, 26412, 20219, 21153, 12290]"
| "status_reason PrefOverridden = 
     [24403, 21069, 35831, 27714, 23384, 22312, 20914, 31361, 34920, 36798, 65292, 24050, 20445,
      23384, 30340, 20559, 22909, 19981, 35206, 30422, 26412, 27425, 30740, 31350, 12290]"
| "status_reason PrefApplied = 
     [20316, 20026, 26412, 27425, 30740, 31350, 30340, 36879, 26126, 40664, 35748, 20540, 21442,
      19982, 20559, 22909, 21305, 37197, 25490, 24207, 12290]"

definition current_decision :: "preference_field \<Rightarrow> pystr \<Rightarrow> preference_decision" where
  "current_decision f value =
     \<lparr>pd_field = f, pd_value = value, pd_status = PrefApplied, pd_source = PerCurrentRequest,
      pd_reason = 
     [24403, 21069, 35831, 27714, 26126, 30830, 34920, 36798, 65292, 26412, 20219, 21153, 20248,
      20808, 37319, 29992, 12290]\<rparr>"

definition remembered_decision :: "unicode_text \<Rightarrow> shopping_plan \<Rightarrow> preference_field \<Rightarrow> pystr \<Rightarrow> preference_decision" where
  "remembered_decision u p f value =
     \<lparr>pd_field = f, pd_value = value, pd_status = remembered_status u p f value, pd_source = PerRememberedPreference,
      pd_reason = status_reason (remembered_status u p f value)\<rparr>"

record preference_resolution =
  pr_effective :: remembered_preference
  pr_decisions :: "preference_decision list"

definition resolve_preferences ::
  "unicode_text \<Rightarrow> shopping_plan \<Rightarrow> remembered_preference \<Rightarrow> preference_resolution option" where
  \<comment> \<open>\<open>None\<close>: a decision about an empty value is refused\<close>
  "resolve_preferences u p r =
     (let ds = concat (map (\<lambda>f. map (current_decision f) (current_preferences p f)) FIELDS)
             @ concat (map (\<lambda>f. map (remembered_decision u p f) (pref r f)) FIELDS)
      in if \<exists>d \<in> set ds. pd_value d = [] then None
         else Some \<lparr>pr_effective = prefs_of (\<lambda>f. filter (\<lambda>v. remembered_status u p f v = PrefApplied) (pref r f)),
                    pr_decisions = ds\<rparr>)"

definition merge_preferences :: "unicode_text \<Rightarrow> shopping_plan \<Rightarrow> remembered_preference \<Rightarrow> shopping_plan option" where
  "merge_preferences u p r =
     map_option (\<lambda>x. p\<lparr>
        sp_material_preferences := dict_fromkeys (sp_material_preferences p @ pref (pr_effective x) PrefMaterialPreferences),
        sp_style_preferences := dict_fromkeys (sp_style_preferences p @ pref (pr_effective x) PrefStylePreferences),
        sp_soft_preferences := dict_fromkeys (sp_soft_preferences p @ pref (pr_effective x) PrefSoftPreferences)\<rparr>)
       (resolve_preferences u p r)"

definition avoided_phrase :: re where
  "avoided_phrase = Cat (words [[19981, 35201], [19981, 21547], [36991, 20813]]) (Grp 1 (Many (\<lambda>c. c \<notin> set [65292, 12290, 65307, 44, 59]) 1 (Some 12)))"

definition phrase_body :: "pystr \<Rightarrow> pystr" where
  \<comment> \<open>the group of a match, whose head is two characters\<close>
  "phrase_body text = drop 2 text"

definition extract_preferences :: "pystr \<Rightarrow> shopping_plan \<Rightarrow> preferences" where
  "extract_preferences query p =
     (let avoided = filter (\<lambda>v. v \<noteq> [])
            (map (\<lambda>x. clean_avoided_value (phrase_body (slice query x))) (spans avoided_phrase query))
      in filter (\<lambda>(k, v). v \<noteq> [])
           [(lit ''material_preferences'', sp_material_preferences p), (lit ''style_preferences'', sp_style_preferences p),
            (lit ''soft_preferences'', sp_soft_preferences p), (lit ''avoid'', avoided)])"

definition merge_preference_records :: "preferences \<Rightarrow> preferences \<Rightarrow> preferences" where
  "merge_preference_records remembered extracted =
     fold (\<lambda>(k, v) m. AList.update k (dict_fromkeys (value_of m k @ v)) m) extracted remembered"

end
