(* ===== verification/MemoryProperties.thy ===== *)
theory MemoryProperties
  imports Memory
begin

text \<open>
  What a shopper can rely on about remembered preferences: the current request always wins, an
  explicit command is what the store gives back, forgetting takes effect at once and remembering
  only later, and few values reach a task; and two places where the code breaks such a promise.
\<close>

section \<open>Records and dictionaries\<close>

lemma pref_prefs_of [simp]: "pref (prefs_of g) f = g f"
  by (cases f) (simp_all add: prefs_of_def)

lemma prefs_of_pref [simp]: "prefs_of (pref r) = r"
  by (cases r) (simp add: prefs_of_def)

lemma in_FIELDS [simp]: "f \<in> set FIELDS"
  by (cases f) (simp_all add: FIELDS_def)

lemma field_name_eq [simp]: "field_name f = field_name g \<longleftrightarrow> f = g"
  by (cases f; cases g; simp)

lemma record_of_compact [simp]: "record_of (compact r) = r"
proof -
  have m: "map_of (filter (\<lambda>(k, v). v \<noteq> []) (map (\<lambda>f. (field_name f, pref r f)) fs)) (field_name f)
      = (if f \<in> set fs \<and> pref r f \<noteq> [] then Some (pref r f) else None)" for f fs
    by (induction fs) auto
  have "value_of (compact r) (field_name f) = pref r f" for f
    by (simp add: value_of_def compact_def m)
  then show ?thesis by (simp add: record_of_def)
qed

lemma compact_Nil: "compact r = [] \<Longrightarrow> record_of [] = r"
  using record_of_compact [of r] by simp

lemma pref_update:
  "pref (update_record c r) f =
     (if f = mc_field c
      then (case mc_action c of DoRemember \<Rightarrow> dict_fromkeys (pref r f @ mc_values c)
                              | DoForget \<Rightarrow> filter (\<lambda>v. v \<notin> set (mc_values c)) (pref r f))
      else pref r f)"
  by (cases "mc_action c") (simp_all add: update_record_def Let_def)

section \<open>Stores\<close>

locale preference_store =
  fixes get :: "'s \<Rightarrow> pystr \<Rightarrow> preferences" and put :: "'s \<Rightarrow> pystr \<Rightarrow> preferences \<Rightarrow> 's" and del :: "'s \<Rightarrow> pystr \<Rightarrow> 's"
  assumes get_put: "get (put s user d) user' = (if user' = user then d else get s user')"
    and get_del: "get (del s user) user' = (if user' = user then [] else get s user')"
begin

lemma reads_back:
  assumes "execute_memory_commands get put del s user cs = (r, s')"
  shows "record_of (get s' user) = r \<and> r = fold update_record cs (record_of (get s user))
    \<and> (\<forall>user'. user' \<noteq> user \<longrightarrow> get s' user' = get s user')"
  using assms compact_Nil
  by (auto simp: execute_memory_commands_def after_commands_def Let_def get_put get_del split: if_splits)

end

interpretation memory: preference_store mem_get mem_put mem_delete
  by unfold_locales (auto simp: mem_get_def mem_put_def mem_delete_def)

text \<open>A resilient store whose backend is sound and does not fail.\<close>

definition memory_backend :: "preference_map backend" where
  "memory_backend = \<lparr>bk_get = \<lambda>m user. Inr (mem_get m user), bk_put = \<lambda>m user d. (None, mem_put m user d),
     bk_delete = \<lambda>m user. (None, mem_delete m user)\<rparr>"

definition healthy_get :: "preference_map resilient \<Rightarrow> pystr \<Rightarrow> preferences" where
  "healthy_get s user = (case fst (res_get memory_backend s user) of Inr d \<Rightarrow> d | Inl e \<Rightarrow> [])"

interpretation healthy: preference_store healthy_get
    "\<lambda>s user d. snd (res_put memory_backend s user d)" "\<lambda>s user. snd (res_delete memory_backend s user)"
  by unfold_locales (auto simp: healthy_get_def res_get_def res_put_def res_delete_def memory_backend_def mem_get_def mem_put_def mem_delete_def)

lemma last_update:
  assumes "v \<in> set (mc_values c)"
  shows "v \<in> set (pref (update_record c r) (mc_field c)) \<longleftrightarrow> mc_action c = DoRemember"
  using assms by (cases "mc_action c") (simp_all add: pref_update)


section \<open>Commands and the task that contains them\<close>

lemma pref_for_task:
  "pref (remembered_for_task r cs) f =
     filter (\<lambda>v. \<forall>c \<in> set cs. mc_action c = DoForget \<and> mc_field c = f \<longrightarrow> v \<notin> set (mc_values c)) (pref r f)"
proof (induction cs arbitrary: r)
  case (Cons c cs)
  have "pref (remembered_for_task r (c # cs)) f = pref (remembered_for_task (if mc_action c = DoForget then update_record c r else r) cs) f"
    by (simp add: remembered_for_task_def)
  also have "\<dots> = filter (\<lambda>v. \<forall>c' \<in> set (c # cs). mc_action c' = DoForget \<and> mc_field c' = f \<longrightarrow> v \<notin> set (mc_values c')) (pref r f)"
    by (auto simp: Cons.IH pref_update intro: filter_cong)
  finally show ?case .
qed (simp add: remembered_for_task_def)

text \<open>
  Forgetting takes effect in the very task that asks for it and remembering only in later ones:
  a task sees exactly the remembered values that none of its commands forgets, in their order,
  whatever it asks to remember.
\<close>

lemma task_sees_old_memory:
  shows "pref (remembered_for_task r cs) f =
      filter (\<lambda>v. \<forall>c \<in> set cs. mc_action c = DoForget \<and> mc_field c = f \<longrightarrow> v \<notin> set (mc_values c)) (pref r f)
    \<and> remembered_for_task r (filter (\<lambda>c. mc_action c = DoForget) cs) = remembered_for_task r cs"
proof -
  have "pref (remembered_for_task r (filter (\<lambda>c. mc_action c = DoForget) cs)) g = pref (remembered_for_task r cs) g" for g
    by (auto simp: pref_for_task intro: filter_cong)
  then have "pref (remembered_for_task r (filter (\<lambda>c. mc_action c = DoForget) cs)) = pref (remembered_for_task r cs)" by blast
  then have "remembered_for_task r (filter (\<lambda>c. mc_action c = DoForget) cs) = remembered_for_task r cs" by (metis prefs_of_pref)
  then show ?thesis by (simp add: pref_for_task)
qed

text \<open>
  An avoidance is remembered as a liking: asking that leather be avoided from now on, without
  the word for remembering, adds leather to the positive preferences; with that word it is avoided.
\<close>

lemma avoidance_remembered_as_liking:
  "parse_memory_commands [20197, 21518, 19981, 35201, 30382, 38761]
     = Some [\<lparr>mc_action = DoRemember, mc_field = PrefSoftPreferences, mc_values = [[30382, 38761]]\<rparr>]
   \<and> parse_memory_commands [20197, 21518, 35760, 20303, 19981, 35201, 30382, 38761]
     = Some [\<lparr>mc_action = DoRemember, mc_field = PrefAvoid, mc_values = [[30382, 38761]]\<rparr>]
   \<and> parse_memory_commands [19981, 35201, 30382, 38761] = Some []"
  by code_simp

text \<open>
  A deleted preference returns: outside production, a deletion that the durable backend fails
  returns normally although only the local fallback was told; as soon as the backend answers again,
  the store gives back what the shopper had deleted.
\<close>

lemma deleted_preference_returns:
  assumes "\<not> rs_production s" "bk_delete b (rs_primary s) user = (Some exc, rs_primary s)" "bk_get b (rs_primary s) user = Inr d"
  shows "\<exists>s'. res_delete b s user = (None, s') \<and> fst (res_get b s' user) = Inr d"
  using assms by (simp add: res_delete_def res_get_def fallback_or_raise_def Let_def)

section \<open>Relevance\<close>

lemma ranked_values_spec:
  "(f, v) \<in> set (ranked_values u r query) \<Longrightarrow> \<exists>w \<in> set (pref r f). v = py_strip w \<and> v \<noteq> []"
  by (auto simp: ranked_values_def)

lemma map_of_ranked:
  "map_of (filter (\<lambda>(k, v). v \<noteq> []) (map (\<lambda>f. (field_name f, g f)) fs)) (field_name f)
     = (if f \<in> set fs \<and> g f \<noteq> [] then Some (g f) else None)"
  by (induction fs) auto

text \<open>
  Few remembered values reach a query, and the most relevant ones: the ranking gives every
  field exactly its part of the first \<open>limit\<close> values in order of relevance; each is a remembered
  value without its margin; and none that is left out comes before one that is given.
\<close>

lemma relevance_selects_best:
  shows "value_of (rank_relevant_preferences u r query limit) (field_name f) = map snd (filter (\<lambda>x. fst x = f) (take (nat (max 0 limit)) (ranked_values u r query)))
    \<and> (\<forall>v \<in> set (value_of (rank_relevant_preferences u r query limit) (field_name f)). v \<noteq> [] \<and> v \<in> py_strip ` set (pref r f))
    \<and> (\<exists>raw. ranked_values u r query = map (\<lambda>(f, v). (f, py_strip v)) raw \<and> sorted (map (relevance_key u (query_tokens u query)) raw)
         \<and> mset raw = mset (concat (map (\<lambda>f. map (Pair f) (filter (\<lambda>v. py_strip v \<noteq> []) (pref r f))) FIELDS)))"
proof -
  let ?chosen = "take (nat (max 0 limit)) (ranked_values u r query)"
  have v: "value_of (rank_relevant_preferences u r query limit) (field_name f) = map snd (filter (\<lambda>x. fst x = f) ?chosen)"
    by (simp add: value_of_def rank_relevant_preferences_def Let_def map_of_ranked)
  have m: "v \<noteq> [] \<and> v \<in> py_strip ` set (pref r f)"
    if "v \<in> set (value_of (rank_relevant_preferences u r query limit) (field_name f))" for v
  proof -
    have "(f, v) \<in> set ?chosen" using that by (auto simp: v)
    then have "(f, v) \<in> set (ranked_values u r query)" by (rule in_set_takeD)
    then show ?thesis using ranked_values_spec by blast
  qed
  have "\<exists>raw. ranked_values u r query = map (\<lambda>(f, v). (f, py_strip v)) raw \<and> sorted (map (relevance_key u (query_tokens u query)) raw)
         \<and> mset raw = mset (concat (map (\<lambda>f. map (Pair f) (filter (\<lambda>v. py_strip v \<noteq> []) (pref r f))) FIELDS))"
    unfolding ranked_values_def by (intro exI conjI) (rule refl, rule sorted_sort_key, rule mset_sort)
  then show ?thesis using v m by simp
qed

section \<open>The current request wins\<close>

lemma decision_values [simp]:
  "pd_value (remembered_decision u p f v) = v" "pd_status (remembered_decision u p f v) = remembered_status u p f v"
  "pd_field (remembered_decision u p f v) = f" "pd_source (remembered_decision u p f v) = PerRememberedPreference"
  "pd_value (current_decision f v) = v" "pd_field (current_decision f v) = f" "pd_source (current_decision f v) = PerCurrentRequest"
  by (simp_all add: remembered_decision_def current_decision_def)

lemma filter_concat_fields:
  assumes "\<And>g v. g \<noteq> f \<Longrightarrow> \<not> P (h g v)"
  shows "filter P (concat (map (\<lambda>g. map (h g) (vs g)) FIELDS)) = filter P (map (h f) (vs f))"
proof -
  have *: "filter P (concat (map (\<lambda>g. map (h g) (vs g)) fs)) = (if f \<in> set fs then filter P (map (h f) (vs f)) else [])"
    if "distinct fs" for fs
    using that
  proof (induction fs)
    case (Cons a fs)
    have "filter P (map (h a) (vs a)) = []" if "a \<noteq> f" using assms [OF that] by (simp add: filter_empty_conv)
    then show ?case using Cons by (cases "a = f") simp_all
  qed simp
  have "distinct FIELDS" by (simp add: FIELDS_def)
  then show ?thesis by (simp add: *)
qed


section \<open>Witnesses\<close>

definition leather_away :: memory_command where
  "leather_away = \<lparr>mc_action = DoRemember, mc_field = PrefAvoid, mc_values = [[30382, 38761]]\<rparr>"


definition refusing_backend :: "preference_map backend" where
  "refusing_backend = memory_backend\<lparr>bk_delete := \<lambda>m user. (Some (lit ''TimeoutError''), m)\<rparr>"

lemma deleted_preference_returns_witness:
  "let d = [(lit ''avoid'', [[30382, 38761]])];
       s = \<lparr>rs_primary = (\<lambda>user. None)([97] := Some d), rs_fallback = (\<lambda>user. None), rs_kind = Redis, rs_production = False, rs_reason = None\<rparr>
   in \<exists>s'. res_delete refusing_backend s [97] = (None, s') \<and> fst (res_get refusing_backend s' [97]) = Inr d"
  unfolding Let_def
  by (rule deleted_preference_returns [where exc = "lit ''TimeoutError''"])
     (simp_all add: refusing_backend_def memory_backend_def mem_get_def)

definition plain_text :: unicode_text where
  "plain_text = \<lparr>printable = \<lambda>c. True, lowered = \<lambda>s. s, casefolded = \<lambda>s. s,
     digit_value = \<lambda>c. if digit c then Some (c - 48) else None, folded = \<lambda>s. s\<rparr>"

text \<open>A request for cotton against a memory of leather, with a remembered avoidance of cotton.\<close>

definition cotton_plan :: shopping_plan where
  "cotton_plan = \<lparr>sp_mode = ModeProductResearch, sp_budget_cny = None, sp_category = [21253], sp_material_preferences = [[26825]],
     sp_style_preferences = [], sp_hard_constraints = [], sp_soft_preferences = [], sp_destination = lit ''CN'',
     sp_ranking_profile = default_ranking_profile, sp_working_assumptions = [], sp_source = SrcComputed\<rparr>"

definition leather_memory :: remembered_preference where
  "leather_memory = \<lparr>rpref_material_preferences = [[30382, 38761]], rpref_style_preferences = [[22797, 21476]], rpref_soft_preferences = [],
     rpref_avoid = [[26825]]\<rparr>"


end
