(* ===== verification/Identity.thy ===== *)
theory Identity
  imports Memory
begin

text \<open>
  Which offers are the same product: \<open>app/tools/identity_matcher.py\<close>. The facts of an offer are a
  dictionary from canonical attribute names to normalised texts, an association list. What
  \<open>unicodedata.normalize("NFKC", s).casefold()\<close> gives is the parameter \<open>folded\<close>.
\<close>

section \<open>Facts of an offer\<close>

definition KNOWN_ATTRIBUTE_KEYS :: "pystr list" where
  "KNOWN_ATTRIBUTE_KEYS =
     map lit [''capacity'', ''condition'', ''bundle'', ''bundle_contents'', ''color'', ''material'', ''region'',
       ''regional_version'', ''storage'', ''storage_gb'']"

definition ATTRIBUTE_ALIASES :: "(pystr \<times> pystr) list" where
  "ATTRIBUTE_ALIASES =
     [([23481, 37327], lit ''capacity''), (lit ''capacity'', lit ''capacity''), ([23384, 20648], lit ''capacity''), ([20869, 23384], lit ''capacity''),
      (lit ''storage'', lit ''capacity''), (lit ''storagegb'', lit ''capacity''), (lit ''storage_gb'', lit ''capacity''),
      ([25104, 33394], lit ''condition''), (lit ''condition'', lit ''condition''), ([29366, 24577], lit ''condition''),
      ([22871, 35013], lit ''bundle''), ([22871, 39184], lit ''bundle''), (lit ''bundle'', lit ''bundle''),
      (lit ''bundlecontents'', lit ''bundle_contents''), (lit ''bundle_contents'', lit ''bundle_contents''), ([21253, 35013], lit ''bundle''),
      ([39068, 33394], lit ''color''), ([39068, 33394, 31995], lit ''color''), (lit ''color'', lit ''color''), (lit ''colour'', lit ''color''),
      ([26448, 36136], lit ''material''), ([26448, 26009], lit ''material''), (lit ''material'', lit ''material''), (lit ''materials'', lit ''material''),
      ([21306, 22495], lit ''region''), ([22320, 21306], lit ''region''), ([21306, 22495, 29256, 26412], lit ''regional_version''), ([22320, 21306, 29256, 26412], lit ''regional_version''),
      (lit ''regionalversion'', lit ''regional_version''), (lit ''regional_version'', lit ''regional_version''), (lit ''region'', lit ''region'')]"

definition identity_text :: "unicode_text \<Rightarrow> pystr \<Rightarrow> pystr" where
  "identity_text u s = filter (\<lambda>c. \<not> py_space c \<and> c \<noteq> 95 \<and> c \<noteq> 45) (folded u s)"

definition identity_value :: "unicode_text \<Rightarrow> pystr option \<Rightarrow> pystr option" where
  "identity_value u value =
     (case value of None \<Rightarrow> None | Some s \<Rightarrow> (let n = identity_text u s in if n = [] then None else Some n))"

definition canonical_attribute_key :: "unicode_text \<Rightarrow> pystr \<Rightarrow> pystr" where
  "canonical_attribute_key u key =
     (let n = identity_text u key in case map_of ATTRIBUTE_ALIASES n of Some k \<Rightarrow> k | None \<Rightarrow> n)"

type_synonym facts = "(pystr \<times> pystr) list"

definition set_default :: "pystr \<Rightarrow> pystr \<Rightarrow> facts \<Rightarrow> facts" where
  "set_default k v m = (if map_of m k = None then AList.update k v m else m)"

definition add_variant :: "unicode_text \<Rightarrow> pystr \<times> scalar \<Rightarrow> facts \<Rightarrow> facts" where
  "add_variant u x m =
     (case x of (k, v) \<Rightarrow> if v = ScNone then m
        else AList.update (canonical_attribute_key u k) (identity_text u (scalar_str v)) m)"

definition add_attribute :: "unicode_text \<Rightarrow> pystr \<times> json \<Rightarrow> facts \<Rightarrow> facts" where
  "add_attribute u x m =
     (case x of (k, v) \<Rightarrow> let canonical = canonical_attribute_key u k
        in if canonical \<in> set KNOWN_ATTRIBUTE_KEYS \<and> v \<noteq> JNull
           then set_default canonical (identity_text u (json_str (printable u) v)) m else m)"

definition variant_facts :: "unicode_text \<Rightarrow> landed_cost \<Rightarrow> facts" where
  "variant_facts u x = fold (add_attribute u) (pp_attributes x) (fold (add_variant u) (pp_variant_attributes x) [])"

definition BRAND :: pystr where "BRAND = lit ''identity.brand''"
definition MODEL :: pystr where "MODEL = lit ''identity.model''"

definition add_identity :: "pystr \<Rightarrow> pystr option \<Rightarrow> facts \<Rightarrow> facts" where
  "add_identity k value m = (case value of None \<Rightarrow> m | Some v \<Rightarrow> AList.update k v m)"

definition identity_facts :: "unicode_text \<Rightarrow> landed_cost \<Rightarrow> facts" where
  "identity_facts u x =
     add_identity MODEL (identity_value u (pid_model (pp_identity x)))
       (add_identity BRAND (identity_value u (pid_brand (pp_identity x))) (variant_facts u x))"

definition authority_identifier :: "unicode_text \<Rightarrow> landed_cost \<Rightarrow> (pystr \<times> pystr) option" where
  "authority_identifier u x =
     (case identity_value u (pid_gtin (pp_identity x)) of
        Some gtin \<Rightarrow> Some (lit ''identity.gtin'', gtin)
      | None \<Rightarrow> (case identity_value u (pid_mpn (pp_identity x)) of
          Some mpn \<Rightarrow> Some (lit ''identity.mpn'', mpn) | None \<Rightarrow> None))"

section \<open>Comparing two offers\<close>

definition alternative :: "pystr list \<Rightarrow> pystr list \<Rightarrow> pystr list \<Rightarrow> pystr \<Rightarrow> identity_evidence" where
  "alternative matched missing conflicting explanation =
     \<lparr>ie_decision = IdentityAlternativeCandidate, ie_basis = ByInsufficient, ie_matched_fields = matched,
      ie_missing_fields = missing, ie_conflicting_fields = conflicting, ie_explanation = explanation\<rparr>"

definition same_offer :: "identity_basis \<Rightarrow> pystr list \<Rightarrow> pystr list \<Rightarrow> pystr \<Rightarrow> identity_evidence" where
  "same_offer basis matched missing explanation =
     \<lparr>ie_decision = IdentityMatchingOffer, ie_basis = basis, ie_matched_fields = matched,
      ie_missing_fields = missing, ie_conflicting_fields = [], ie_explanation = explanation\<rparr>"

definition compared_fields :: "facts \<Rightarrow> facts \<Rightarrow> pystr list" where
  "compared_fields r c = sort (dict_fromkeys (map fst r @ map fst c))"

definition missing_in :: "facts \<Rightarrow> facts \<Rightarrow> pystr \<Rightarrow> bool" where
  "missing_in r c f \<longleftrightarrow> map_of r f = None \<or> map_of c f = None"

definition matched_fields :: "facts \<Rightarrow> facts \<Rightarrow> pystr list" where
  "matched_fields r c = filter (\<lambda>f. \<not> missing_in r c f \<and> map_of r f = map_of c f) (compared_fields r c)"

definition missing_fields :: "facts \<Rightarrow> facts \<Rightarrow> pystr list" where
  "missing_fields r c = filter (missing_in r c) (compared_fields r c)"

definition conflicting_fields :: "facts \<Rightarrow> facts \<Rightarrow> pystr list" where
  "conflicting_fields r c = filter (\<lambda>f. \<not> missing_in r c f \<and> map_of r f \<noteq> map_of c f) (compared_fields r c)"

definition material_comparison ::
  "unicode_text \<Rightarrow> landed_cost \<Rightarrow> landed_cost \<Rightarrow> pystr list \<Rightarrow> identity_evidence" where
  "material_comparison u reference cand identifier_fields =
     (let r = identity_facts u reference; c = identity_facts u cand;
          matched = matched_fields r c; missing = missing_fields r c; conflicting = conflicting_fields r c
      in if conflicting \<noteq> [] then alternative matched missing conflicting ([20851, 38190] @ lit '' Product Variant '' @ 
     [23646, 24615, 19981, 19968, 33268, 65292, 19981, 33021, 35777, 26126, 26159, 21516, 27454,
      12290])
         else if identifier_fields \<noteq> [] then
           same_offer ByIdentifier (identifier_fields @ matched) missing
             (joined (lit '', '') identifier_fields @ [32] @ 
     [36328, 24179, 21488, 19968, 33268, 65292, 19988, 27809, 26377, 21457, 29616, 20914, 31361,
      30340, 20851, 38190, 23646, 24615, 12290])
         else if missing \<noteq> [] \<or> \<not> {BRAND, MODEL} \<subseteq> set matched then
           alternative matched (sort (dict_fromkeys (missing @ filter (\<lambda>f. f \<notin> set matched) [BRAND, MODEL]))) conflicting
             ([32570, 23569, 23436, 25972, 30340, 21697, 29260, 12289, 22411, 21495, 25110, 20851, 38190] @ lit '' Product Variant '' @ [23646, 24615, 35777, 25454, 12290])
         else same_offer ByMaterialVariantAttributes matched []
           (
     [21697, 29260, 12289, 22411, 21495, 21644, 20840, 37096, 24050, 25552, 20379, 30340, 20851,
      38190] @ lit '' Product Variant '' @ [23646, 24615, 19968, 33268, 12290]))"

definition identifier_name :: "(pystr \<times> pystr) option \<Rightarrow> pystr" where
  "identifier_name i = (case i of Some (f, v) \<Rightarrow> f | None \<Rightarrow> lit ''identity.identifier'')"

definition match_offer_identity ::
  "unicode_text \<Rightarrow> landed_cost \<Rightarrow> landed_cost \<Rightarrow> identity_evidence" where
  "match_offer_identity u reference cand =
     (case (authority_identifier u reference, authority_identifier u cand) of
        (None, None) \<Rightarrow> material_comparison u reference cand []
      | (Some i, Some j) \<Rightarrow>
          if i \<noteq> j then alternative [] [] [fst i, fst j] ([36328, 24179, 21488] @ lit '' identifier '' @ [19981, 19968, 33268, 65292, 19981, 33021, 24314, 31435, 21516, 27454, 35777, 26126, 12290])
          else material_comparison u reference cand [fst i]
      | (i, j) \<Rightarrow> alternative [] [identifier_name i, identifier_name j] []
          ([20165, 26377, 19968, 20391, 25552, 20379, 26435, 23041, 36328, 24179, 21488] @ lit '' identifier'' @ [65292, 19981, 33021, 24314, 31435, 21516, 27454, 35777, 26126, 12290]))"

section \<open>Classifying the offers\<close>

definition identity_strength :: "unicode_text \<Rightarrow> landed_cost \<Rightarrow> int \<times> int \<times> int" where
  "identity_strength u x =
     (if authority_identifier u x \<noteq> None then 1 else 0,
      if {BRAND, MODEL} \<subseteq> fst ` set (identity_facts u x) then 1 else 0,
      int (length (identity_facts u x)))"

definition single_offer_evidence :: "unicode_text \<Rightarrow> landed_cost \<Rightarrow> identity_evidence" where
  "single_offer_evidence u x =
     alternative (sort (map fst (identity_facts u x)))
       (if authority_identifier u x \<noteq> None then [lit ''cross_platform_identifier'']
        else filter (\<lambda>f. f \<notin> fst ` set (identity_facts u x)) [BRAND, MODEL])
       [] 
     [27809, 26377, 21478, 19968, 24179, 21488, 30340, 29420, 31435, 21830, 21697, 35777, 25454,
      21487, 29992, 20110, 35777, 26126, 21516, 27454, 12290]"

definition with_evidence :: "identity_evidence \<Rightarrow> landed_cost \<Rightarrow> landed_cost" where
  "with_evidence e x = x\<lparr>pp_identity_evidence := Some e\<rparr>"

definition alternative_candidate_of :: "landed_cost \<Rightarrow> identity_evidence \<Rightarrow> alternative_candidate" where
  \<comment> \<open>the dump of an offer that was validated when it was made passes the same checks again\<close>
  "alternative_candidate_of x e =
     landed_cost.extend (with_evidence e x) (alternative_candidate.fields ([30456, 20284, 21830, 21697, 20505, 36873, 65306] @ ie_explanation e))"

record exact_offer_classification =
  eo_matching_offers :: "landed_cost list"
  eo_alternative_candidates :: "alternative_candidate list"

definition matches_of :: "unicode_text \<Rightarrow> landed_cost list \<Rightarrow> nat \<Rightarrow> (nat \<times> identity_evidence) list" where
  "matches_of u offers index =
     filter (\<lambda>(i, e). ie_decision e = IdentityMatchingOffer)
       (map (\<lambda>i. (i, match_offer_identity u (offers ! index) (offers ! i))) (filter (\<lambda>i. i \<noteq> index) [0..<length offers]))"

type_synonym reference_key = "int \<times> (int \<times> int \<times> int) \<times> int"

definition reference_key :: "unicode_text \<Rightarrow> landed_cost list \<Rightarrow> nat \<Rightarrow> reference_key" where
  "reference_key u offers index =
     (int (length (matches_of u offers index)), identity_strength u (offers ! index), - int index)"

definition better_reference :: "unicode_text \<Rightarrow> landed_cost list \<Rightarrow> nat \<Rightarrow> nat option \<Rightarrow> nat option" where
  "better_reference u offers index best =
     (case best of None \<Rightarrow> Some index
      | Some b \<Rightarrow> if reference_key u offers b < reference_key u offers index then Some index else Some b)"

definition best_reference :: "unicode_text \<Rightarrow> landed_cost list \<Rightarrow> nat" where
  "best_reference u offers =
     (case fold (better_reference u offers) [0..<length offers] None of Some b \<Rightarrow> b | None \<Rightarrow> 0)"

definition classify_exact_offers :: "unicode_text \<Rightarrow> landed_cost list \<Rightarrow> exact_offer_classification" where
  "classify_exact_offers u offers =
     (if length offers < 2 then
        \<lparr>eo_matching_offers = [],
         eo_alternative_candidates = map (\<lambda>x. alternative_candidate_of x (single_offer_evidence u x)) offers\<rparr>
      else let best = best_reference u offers; matching = matches_of u offers best
        in if matching = [] then
             \<lparr>eo_matching_offers = [],
              eo_alternative_candidates = map (\<lambda>i. alternative_candidate_of (offers ! i)
                (if i \<noteq> best then match_offer_identity u (offers ! best) (offers ! i) else single_offer_evidence u (offers ! i)))
                [0..<length offers]\<rparr>
           else let evidence = AList.update best (snd (hd matching)) matching
             in \<lparr>eo_matching_offers = map (\<lambda>i. with_evidence (the (map_of evidence i)) (offers ! i))
                   (filter (\<lambda>i. i \<in> fst ` set evidence) [0..<length offers]),
                 eo_alternative_candidates = map (\<lambda>i. alternative_candidate_of (offers ! i) (match_offer_identity u (offers ! best) (offers ! i)))
                   (filter (\<lambda>i. i \<notin> fst ` set evidence) [0..<length offers])\<rparr>)"

end
