(* ===== verification/IdentityProperties.thy ===== *)
theory IdentityProperties
  imports Identity MemoryProperties
begin

text \<open>
  What identity matching promises: it decides a symmetric specification (\<open>same_product\<close>), the
  classification keeps every offer on one side, finds a group whenever two offers match, and none is
  larger around a single reference; and where it breaks the promise that a group is one product.
\<close>

section \<open>The decision on two offers\<close>

definition compatible :: "facts \<Rightarrow> facts \<Rightarrow> bool" where
  "compatible r c \<longleftrightarrow> (\<forall>f v w. map_of r f = Some v \<and> map_of c f = Some w \<longrightarrow> v = w)"

definition same_product :: "unicode_text \<Rightarrow> landed_cost \<Rightarrow> landed_cost \<Rightarrow> bool" where
  "same_product u x y \<longleftrightarrow>
     (case (authority_identifier u x, authority_identifier u y) of
        (Some i, Some j) \<Rightarrow> i = j \<and> compatible (identity_facts u x) (identity_facts u y)
      | (None, None) \<Rightarrow> map_of (identity_facts u x) = map_of (identity_facts u y)
          \<and> {BRAND, MODEL} \<subseteq> dom (map_of (identity_facts u x))
      | _ \<Rightarrow> False)"

lemma set_compared_fields [simp]: "set (compared_fields r c) = dom (map_of r) \<union> dom (map_of c)"
  by (auto simp: compared_fields_def dom_map_of_conv_image_fst)

lemma compared_fields_commute: "compared_fields r c = compared_fields c r"
  by (rule sorted_distinct_set_unique) (auto simp: compared_fields_def)

lemma missing_in_commute: "missing_in r c = missing_in c r"
  by (auto simp: missing_in_def fun_eq_iff)

lemma fields_commute:
  "matched_fields r c = matched_fields c r" "missing_fields r c = missing_fields c r"
  "conflicting_fields r c = conflicting_fields c r"
  by (auto simp: matched_fields_def missing_fields_def conflicting_fields_def compared_fields_commute [of r c]
      missing_in_commute [of r c] intro: filter_cong)

lemma conflicting_Nil: "conflicting_fields r c = [] \<longleftrightarrow> compatible r c"
proof -
  have "(f \<in> set (compared_fields r c) \<longrightarrow> \<not> (\<not> missing_in r c f \<and> map_of r f \<noteq> map_of c f)) \<longleftrightarrow>
      (\<forall>v w. map_of r f = Some v \<and> map_of c f = Some w \<longrightarrow> v = w)" for f
    by (cases "map_of r f"; cases "map_of c f") (auto simp: missing_in_def domIff)
  then show ?thesis unfolding conflicting_fields_def filter_empty_conv compatible_def Ball_def by (simp only:)
qed

lemma missing_Nil: "missing_fields r c = [] \<longleftrightarrow> dom (map_of r) = dom (map_of c)"
  by (auto simp: missing_fields_def filter_empty_conv missing_in_def dom_def set_eq_iff)

lemma set_matched: "set (matched_fields r c) = {f. map_of r f = map_of c f \<and> map_of r f \<noteq> None}"
  by (auto simp: matched_fields_def missing_in_def dom_def) (metis option.exhaust)

lemma all_fields_match:
  "conflicting_fields r c = [] \<and> missing_fields r c = [] \<longleftrightarrow> map_of r = map_of c"
proof
  assume "conflicting_fields r c = [] \<and> missing_fields r c = []"
  then have *: "compatible r c" "dom (map_of r) = dom (map_of c)" by (simp_all add: conflicting_Nil missing_Nil)
  show "map_of r = map_of c"
  proof
    fix f
    have "map_of r f = None \<longleftrightarrow> map_of c f = None" using *(2) by (metis domIff)
    with *(1) show "map_of r f = map_of c f"
      unfolding compatible_def by (cases "map_of r f"; cases "map_of c f") simp_all
  qed
qed (auto simp: conflicting_Nil missing_Nil compatible_def)

lemma material_comparison_commute: "material_comparison u x y fs = material_comparison u y x fs"
  by (simp add: material_comparison_def Let_def fields_commute [of "identity_facts u x"])

lemma material_comparison_decision:
  "ie_decision (material_comparison u x y fs) = IdentityMatchingOffer \<longleftrightarrow>
     compatible (identity_facts u x) (identity_facts u y)
     \<and> (fs \<noteq> [] \<or> map_of (identity_facts u x) = map_of (identity_facts u y) \<and> {BRAND, MODEL} \<subseteq> dom (map_of (identity_facts u x)))"
  using all_fields_match [of "identity_facts u x" "identity_facts u y"]
  by (auto simp: material_comparison_def Let_def alternative_def same_offer_def conflicting_Nil set_matched dom_def)

text \<open>
  C29. Identity matching decides what it specifies: two offers are the same product exactly when both have
  the same cross-platform identifier and no attribute with two different values, or neither has an
  identifier and both have exactly the same facts, brand and model among them. The verdict does not
  depend on which of the two is the reference, nor do its basis, its matched fields and its reason.
\<close>

theorem identity_decides_same_product:
  "(ie_decision (match_offer_identity u x y) = IdentityMatchingOffer \<longleftrightarrow> same_product u x y)
   \<and> (let e = match_offer_identity u x y; e' = match_offer_identity u y x
      in ie_decision e' = ie_decision e \<and> ie_basis e' = ie_basis e \<and> ie_matched_fields e' = ie_matched_fields e
         \<and> set (ie_missing_fields e') = set (ie_missing_fields e) \<and> set (ie_conflicting_fields e') = set (ie_conflicting_fields e)
         \<and> ie_explanation e' = ie_explanation e)"
proof (intro conjI)
  show "ie_decision (match_offer_identity u x y) = IdentityMatchingOffer \<longleftrightarrow> same_product u x y"
    by (auto simp: match_offer_identity_def same_product_def material_comparison_decision alternative_def compatible_def
        split: option.splits)
  show "let e = match_offer_identity u x y; e' = match_offer_identity u y x
      in ie_decision e' = ie_decision e \<and> ie_basis e' = ie_basis e \<and> ie_matched_fields e' = ie_matched_fields e
         \<and> set (ie_missing_fields e') = set (ie_missing_fields e) \<and> set (ie_conflicting_fields e') = set (ie_conflicting_fields e)
         \<and> ie_explanation e' = ie_explanation e"
    by (auto simp: match_offer_identity_def material_comparison_commute [of u x y] alternative_def Let_def split: option.splits)
qed

lemma same_product_commute: "same_product u x y \<longleftrightarrow> same_product u y x"
  by (auto simp: same_product_def compatible_def split: option.splits)

lemma match_iff: "ie_decision (match_offer_identity u x y) = IdentityMatchingOffer \<longleftrightarrow> same_product u x y"
  by (auto simp: match_offer_identity_def same_product_def material_comparison_decision alternative_def compatible_def
      split: option.splits)

section \<open>The best reference\<close>

lemma fold_better_reference:
  "fold (better_reference u offers) is best = Some b \<Longrightarrow>
     (b \<in> set is \<or> best = Some b) \<and> (\<forall>i \<in> set is \<union> set_option best. reference_key u offers i \<le> reference_key u offers b)"
proof (induction "is" arbitrary: best)
  case (Cons i "is")
  from Cons.IH [OF Cons.prems [simplified]] show ?case
    by (cases best) (auto simp: better_reference_def split: if_splits)
qed simp

lemma fold_better_reference_None: "fold (better_reference u offers) is best = None \<longleftrightarrow> is = [] \<and> best = None"
  by (induction "is" arbitrary: best) (auto simp: better_reference_def split: option.splits)

lemma best_reference:
  assumes "offers \<noteq> []"
  shows "best_reference u offers < length offers"
    and "i < length offers \<Longrightarrow> reference_key u offers i \<le> reference_key u offers (best_reference u offers)"
proof -
  have "fold (better_reference u offers) [0..<length offers] None \<noteq> None"
    using assms by (simp add: fold_better_reference_None)
  then obtain b where b: "fold (better_reference u offers) [0..<length offers] None = Some b" by blast
  then have "best_reference u offers = b" by (simp add: best_reference_def)
  with fold_better_reference [OF b] show "best_reference u offers < length offers"
    and "i < length offers \<Longrightarrow> reference_key u offers i \<le> reference_key u offers (best_reference u offers)" by auto
qed

definition partners :: "unicode_text \<Rightarrow> landed_cost list \<Rightarrow> nat \<Rightarrow> nat list" where
  "partners u offers r = filter (\<lambda>i. i \<noteq> r \<and> same_product u (offers ! r) (offers ! i)) [0..<length offers]"

lemma fst_matches_of: "map fst (matches_of u offers r) = partners u offers r"
proof -
  have "map fst (filter (\<lambda>(i, e). P e) (map (\<lambda>i. (i, g i)) (filter Q xs))) = filter (\<lambda>i. Q i \<and> P (g i)) xs" for P g Q and xs :: "nat list"
    by (induction xs) auto
  then show ?thesis unfolding matches_of_def partners_def match_iff [symmetric] .
qed

lemma length_partners_best:
  assumes "i < length offers"
  shows "length (partners u offers i) \<le> length (partners u offers (best_reference u offers))"
proof -
  have "offers \<noteq> []" using assms by auto
  from best_reference(2) [OF this assms, of u]
  have "int (length (matches_of u offers i)) \<le> int (length (matches_of u offers (best_reference u offers)))"
    by (auto simp: reference_key_def less_eq_prod_def)
  then show ?thesis by (metis fst_matches_of length_map of_nat_le_iff)
qed

section \<open>The classification\<close>

definition without_evidence :: "'a price_point_scheme \<Rightarrow> 'a price_point_scheme" where
  "without_evidence x = x\<lparr>pp_identity_evidence := None\<rparr>"

definition evidence_says :: "identity_decision \<Rightarrow> 'a price_point_scheme \<Rightarrow> bool" where
  "evidence_says d x \<longleftrightarrow> map_option ie_decision (pp_identity_evidence x) = Some d"

definition plain_offer :: "alternative_candidate \<Rightarrow> landed_cost" where
  "plain_offer x = landed_cost.truncate x"

lemma without_with_evidence [simp]: "without_evidence (with_evidence e x) = without_evidence x"
  by (simp add: without_evidence_def with_evidence_def)

lemma plain_alternative [simp]: "plain_offer (alternative_candidate_of x e) = with_evidence e x"
  by (simp add: plain_offer_def alternative_candidate_of_def landed_cost.defs with_evidence_def)

lemma evidence_says_with [simp]: "evidence_says d (with_evidence e x) \<longleftrightarrow> ie_decision e = d"
  by (simp add: evidence_says_def with_evidence_def)

lemma evidence_says_alternative [simp]: "evidence_says d (alternative_candidate_of x e) \<longleftrightarrow> ie_decision e = d"
  by (simp add: evidence_says_def alternative_candidate_of_def landed_cost.defs with_evidence_def)

lemma nths_index: "nths xs I = map ((!) xs) (filter (\<lambda>i. i \<in> I) [0..<length xs])"
proof -
  have "zip xs [0..<length xs] = map (\<lambda>i. (xs ! i, i)) [0..<length xs]"
    by (rule nth_equalityI) auto
  then show ?thesis by (simp add: nths_def filter_map o_def)
qed

lemma single_offer_decision [simp]: "ie_decision (single_offer_evidence u x) = IdentityAlternativeCandidate"
  by (simp add: single_offer_evidence_def alternative_def)

lemma not_same_decision:
  "\<not> same_product u x y \<Longrightarrow> ie_decision (match_offer_identity u x y) = IdentityAlternativeCandidate"
  unfolding match_iff [symmetric]
  by (auto simp: match_offer_identity_def material_comparison_def Let_def alternative_def same_offer_def split: option.splits if_splits)

lemma matches_of_Nil: "matches_of u offers r = [] \<longleftrightarrow> partners u offers r = []"
  by (metis fst_matches_of map_is_Nil_conv)

lemma matches_of_decision: "(i, e) \<in> set (matches_of u offers r) \<Longrightarrow> ie_decision e = IdentityMatchingOffer"
  by (auto simp: matches_of_def)

definition group_around :: "unicode_text \<Rightarrow> landed_cost list \<Rightarrow> nat \<Rightarrow> nat set" where
  "group_around u offers r = insert r (set (partners u offers r))"

text \<open>Which offers a classification is right to call the same product.\<close>

definition right_group :: "unicode_text \<Rightarrow> landed_cost list \<Rightarrow> nat set \<Rightarrow> bool" where
  "right_group u offers I \<longleftrightarrow>
     (if I = {} then (\<forall>i < length offers. partners u offers i = [])
      else (\<exists>r < length offers. I = group_around u offers r \<and> partners u offers r \<noteq> []
        \<and> (\<forall>i < length offers. length (partners u offers i) \<le> length (partners u offers r))))"

lemma partners_short: "length offers < 2 \<Longrightarrow> i < length offers \<Longrightarrow> partners u offers i = []"
  by (auto simp: partners_def filter_empty_conv)

lemma right_group_classified:
  fixes u :: unicode_text
  assumes "2 \<le> length offers"
  defines "r \<equiv> best_reference u offers"
  shows "right_group u offers (if partners u offers r = [] then {} else group_around u offers r)"
proof -
  have "offers \<noteq> []" using assms by auto
  then have r: "r < length offers" unfolding r_def by (rule best_reference(1))
  have "length (partners u offers i) \<le> length (partners u offers r)" if "i < length offers" for i
    unfolding r_def using that by (rule length_partners_best)
  then show ?thesis using r by (auto simp: right_group_def group_around_def)
qed

lemma classified_parts:
  shows "\<exists>I. map without_evidence (eo_matching_offers (classify_exact_offers u offers)) = map without_evidence (nths offers I)
      \<and> map (without_evidence \<circ> plain_offer) (eo_alternative_candidates (classify_exact_offers u offers)) = map without_evidence (nths offers (- I))
      \<and> list_all (evidence_says IdentityMatchingOffer) (eo_matching_offers (classify_exact_offers u offers))
      \<and> list_all (evidence_says IdentityAlternativeCandidate) (eo_alternative_candidates (classify_exact_offers u offers))
      \<and> right_group u offers I"
proof (cases "length offers < 2")
  case True
  have "right_group u offers {}" using partners_short [OF True] by (simp add: right_group_def)
  moreover have "nths offers UNIV = offers" by (simp add: nths_all)
  ultimately show ?thesis using True
    by (intro exI [of _ "{}"]) (simp add: classify_exact_offers_def list_all_iff)
next
  case False
  define r where "r = best_reference u offers"
  define ms where "ms = matches_of u offers r"
  have right: "right_group u offers (if partners u offers r = [] then {} else group_around u offers r)"
    unfolding r_def by (rule right_group_classified) (use False in simp)
  have same: "ie_decision (match_offer_identity u (offers ! r) (offers ! i)) = IdentityAlternativeCandidate"
    if "i < length offers" "i \<noteq> r" "i \<notin> set (partners u offers r)" for i
    using that by (intro not_same_decision) (simp add: partners_def)
  show ?thesis
  proof (cases "ms = []")
    case True
    then have none: "partners u offers r = []" by (simp add: ms_def matches_of_Nil)
    have "map without_evidence (map ((!) offers) [0..<length offers]) = map without_evidence offers" by (simp only: map_nth)
    moreover have "nths offers UNIV = offers" by (simp add: nths_all)
    ultimately show ?thesis using True False right none same
      by (intro exI [of _ "{}"]) (auto simp: classify_exact_offers_def Let_def r_def [symmetric] ms_def [symmetric] list_all_iff comp_def)
  next
    case False
    then have some: "partners u offers r \<noteq> []" by (simp add: ms_def matches_of_Nil)
    let ?E = "AList.update r (snd (hd ms)) ms"
    have E: "fst ` set ?E = group_around u offers r"
      by (simp add: group_around_def dom_update ms_def flip: fst_matches_of)
    have dec: "ie_decision (the (map_of ?E i)) = IdentityMatchingOffer" if "i \<in> group_around u offers r" for i
    proof -
      have "map_of ?E i \<noteq> None" using that unfolding E [symmetric] map_of_eq_None_iff by simp
      then obtain e where e: "map_of ?E i = Some e" by blast
      have "\<exists>j. (j, snd (hd ms)) \<in> set ms" using False by (intro exI [of _ "fst (hd ms)"]) simp
      then have "\<exists>j. (j, e) \<in> set ms"
        using e by (cases "i = r") (auto simp: update_conv' dest: map_of_SomeD)
      with e show ?thesis by (auto simp: ms_def dest: matches_of_decision)
    qed
    have c: "classify_exact_offers u offers = \<lparr>eo_matching_offers = map (\<lambda>i. with_evidence (the (map_of ?E i)) (offers ! i))
                   (filter (\<lambda>i. i \<in> group_around u offers r) [0..<length offers]),
                 eo_alternative_candidates = map (\<lambda>i. alternative_candidate_of (offers ! i) (match_offer_identity u (offers ! r) (offers ! i)))
                   (filter (\<lambda>i. i \<notin> group_around u offers r) [0..<length offers])\<rparr>"
      unfolding classify_exact_offers_def E [symmetric] using False \<open>\<not> length offers < 2\<close>
      by (simp add: Let_def ms_def r_def)
    show ?thesis using right some dec same
      by (intro exI [of _ "group_around u offers r"]) (auto simp: c nths_index list_all_iff comp_def group_around_def)
  qed
qed

text \<open>
  C30. The exact comparison keeps every offer on one side: apart from their evidence, the matching offers and
  the alternatives are two complementary parts of the offers, in their order; the evidence of each
  says which side it is on; and the matching side is empty only when no two offers are the same
  product, and otherwise is a reference with everything that is the same product as it, chosen so
  that no other reference has more.
\<close>

theorem exact_offers_partition:
  shows "\<exists>I. map without_evidence (eo_matching_offers (classify_exact_offers u offers)) = map without_evidence (nths offers I)
      \<and> map (without_evidence \<circ> plain_offer) (eo_alternative_candidates (classify_exact_offers u offers)) = map without_evidence (nths offers (- I))
      \<and> list_all (evidence_says IdentityMatchingOffer) (eo_matching_offers (classify_exact_offers u offers))
      \<and> list_all (evidence_says IdentityAlternativeCandidate) (eo_alternative_candidates (classify_exact_offers u offers))
      \<and> right_group u offers I"
  by (rule classified_parts)

lemma right_groupD:
  "right_group u offers I \<Longrightarrow> I \<noteq> {} \<Longrightarrow>
     \<exists>r < length offers. I = group_around u offers r
       \<and> (\<forall>i < length offers. length (partners u offers i) \<le> length (partners u offers r))"
  by (auto simp: right_group_def)

text \<open>
  A group of matching offers need not be one product: when one offer is the same product as two others
  that are not the same product as each other (a reference that leaves the colour open, a red and a
  black one), all three are matching offers, with evidence that says so.
\<close>

lemma group_may_conflict:
  assumes "same_product u x y" "same_product u x z" "\<not> same_product u y z"
  shows "map without_evidence (eo_matching_offers (classify_exact_offers u [x, y, z])) = map without_evidence [x, y, z]
    \<and> eo_alternative_candidates (classify_exact_offers u [x, y, z]) = []
    \<and> list_all (evidence_says IdentityMatchingOffer) (eo_matching_offers (classify_exact_offers u [x, y, z]))"
proof -
  let ?offers = "[x, y, z]"
  have p: "partners u ?offers 0 = [1, 2]" "partners u ?offers 1 = [0]" "partners u ?offers 2 = [0]"
    using assms assms [unfolded same_product_commute [of u x] same_product_commute [of u y z]]
    by (simp_all add: partners_def upt_rec)
  obtain I where I: "map without_evidence (eo_matching_offers (classify_exact_offers u ?offers)) = map without_evidence (nths ?offers I)"
      "map (without_evidence \<circ> plain_offer) (eo_alternative_candidates (classify_exact_offers u ?offers)) = map without_evidence (nths ?offers (- I))"
      "list_all (evidence_says IdentityMatchingOffer) (eo_matching_offers (classify_exact_offers u ?offers))" "right_group u ?offers I"
    using classified_parts [of u ?offers] by blast
  have "I \<noteq> {}"
  proof
    assume "I = {}"
    then have "partners u ?offers 0 = []" using I(4) by (simp add: right_group_def)
    then show False by (simp add: p)
  qed
  from right_groupD [OF I(4) this] obtain r where g: "r < length ?offers" "I = group_around u ?offers r"
      "\<And>i. i < length ?offers \<Longrightarrow> length (partners u ?offers i) \<le> length (partners u ?offers r)" by blast
  then have r: "r < 3" "I = group_around u ?offers r" "length (partners u ?offers 0) \<le> length (partners u ?offers r)" by simp_all
  have "r = 0 \<or> r = 1 \<or> r = 2" using r(1) by auto
  then have "I = {0, 1, 2}" using r(2,3) p by (auto simp: group_around_def)
  then show ?thesis using I by (simp add: nths_Cons)
qed

section \<open>Witnesses\<close>

definition no_estimate :: estimate_disclosure where
  "no_estimate = \<lparr>ed_estimated = True, ed_source = lit ''unspecified'', ed_calculation_basis = lit ''unspecified''\<rparr>"

definition an_earphone :: "pystr \<Rightarrow> (pystr \<times> scalar) list \<Rightarrow> rat \<Rightarrow> landed_cost" where
  \<comment> \<open>an offer with a GTIN, some attributes and a landed cost\<close>
  "an_earphone item attributes cost =
     price_point.extend
       \<lparr>pp_item_id = item, pp_platform = Amazon, pp_title = lit ''earphone'', pp_price = cost, pp_currency = lit ''CNY'', pp_price_cny = cost,
        pp_rating = None, pp_sales = None, pp_image_url = None, pp_product_url = None, pp_attributes = [], pp_source = SrcLive,
        pp_note = None, pp_marketplace = Some Amazon, pp_offer_id = None,
        pp_identity = \<lparr>pid_gtin = Some (lit ''4006381333931''), pid_mpn = None, pid_brand = None, pid_model = None\<rparr>,
        pp_variant_attributes = attributes, pp_availability = None, pp_retrieved_at = None, pp_provenance = None,
        pp_link_kind = None, pp_identity_evidence = None, pp_price_conversion = None, pp_shipping_quote = None, pp_customs = None\<rparr>
       (landed_cost.fields 0 0 None None None None cost 5 TierExempt no_estimate no_estimate no_estimate no_estimate None CostComplete [])"

definition open_colour :: landed_cost where "open_colour = an_earphone (lit ''a'') [] 300"
definition red_one :: landed_cost where "red_one = an_earphone (lit ''b'') [(lit ''color'', ScStr (lit ''red''))] 200"
definition black_one :: landed_cost where "black_one = an_earphone (lit ''c'') [(lit ''colour'', ScStr (lit ''black''))] 100"

lemma earphones_compared:
  "same_product plain_text open_colour red_one" "same_product plain_text open_colour black_one"
  "\<not> same_product plain_text red_one black_one"
  unfolding match_iff [symmetric] by code_simp+

theorem exact_offers_partition_witness:
  "\<exists>I. right_group plain_text [open_colour, red_one] I \<and> I \<noteq> {}"
proof -
  obtain I where I: "right_group plain_text [open_colour, red_one] I"
    using exact_offers_partition [of plain_text "[open_colour, red_one]"] by blast
  have "partners plain_text [open_colour, red_one] 0 = [1]"
    using earphones_compared by (simp add: partners_def upt_rec)
  then have "I \<noteq> {}" using I by (auto simp: right_group_def)
  with I show ?thesis by blast
qed

lemma group_may_conflict_witness:
  "map pp_item_id (eo_matching_offers (classify_exact_offers plain_text [open_colour, red_one, black_one])) = map lit [''a'', ''b'', ''c'']"
proof -
  have "map pp_item_id xs = map pp_item_id ys" if "map without_evidence xs = map without_evidence ys" for xs ys :: "landed_cost list"
  proof -
    have "map (pp_item_id \<circ> without_evidence) xs = map (pp_item_id \<circ> without_evidence) ys" using that by (metis map_map)
    then show ?thesis by (simp add: comp_def without_evidence_def)
  qed
  from this [OF conjunct1 [OF group_may_conflict [OF earphones_compared]]] show ?thesis
    by (simp add: open_colour_def red_one_def black_one_def an_earphone_def price_point.defs)
qed

end
