(* ===== verification/Decision.thy ===== *)
theory Decision
  imports Identity
begin

text \<open>
  Which offers are recommended: \<open>app/tools/decision_engine.py\<close> evaluates the hard constraints of a
  plan against each offer and ranks the offers that satisfy them all, \<open>item_picker.py\<close> adds the
  scores of the reranking service (\<open>app/recall/category_reranker.py\<close>), whose HTTP call is a parameter.
  Any exception is \<open>None\<close>, except where a result names it.
\<close>

section \<open>Product evidence\<close>

definition FIELD_ALIASES :: "(pystr \<times> pystr list) list" where
  "FIELD_ALIASES =
     [(lit ''material'', [lit ''material'', lit ''materials'', [26448, 36136], [26448, 26009]]),
      (lit ''color'', [lit ''color'', lit ''colour'', [39068, 33394], [33394, 31995]]),
      (lit ''style'', [lit ''style'', [39118, 26684]]),
      (lit ''weight_kg'', [lit ''weight_kg'', lit ''weight'', [37325, 37327], [20928, 37325]]),
      (lit ''storage_gb'', [lit ''storage_gb'', lit ''storage'', lit ''memory'', [20869, 23384], [23384, 20648]]),
      (lit ''capacity'', [lit ''capacity'', [23481, 37327]]),
      (lit ''display_inch'', [lit ''display_inch'', lit ''display'', lit ''screen'', [23631, 24149], [23610, 23544]]),
      (lit ''battery_hours'', [lit ''battery_hours'', lit ''battery'', [32493, 33322], [30005, 27744, 32493, 33322]]),
      (lit ''specification'', [lit ''specification'', lit ''spec'', [35268, 26684], [23610, 23544], [22411, 21495, 35268, 26684]])]"

definition normal_text :: "unicode_text \<Rightarrow> pystr \<Rightarrow> pystr" where
  "normal_text u s = lowered u (py_strip (filter (\<lambda>c. \<not> py_space c) s))"

definition aliases_of :: "unicode_text \<Rightarrow> pystr \<Rightarrow> pystr list" where
  "aliases_of u field = map (normal_text u) (case map_of FIELD_ALIASES field of Some names \<Rightarrow> names | None \<Rightarrow> [field])"

fun scalar_of_json :: "unicode_text \<Rightarrow> json \<Rightarrow> scalar" where
  "scalar_of_json u (JStr s) = ScStr s"
| "scalar_of_json u (JInt i) = ScInt i"
| "scalar_of_json u (JNum x) = ScFloat x"
| "scalar_of_json u (JBool b) = ScBool b"
| "scalar_of_json u v = ScStr (json_str (printable u) v)"

definition evidence_from :: "unicode_text \<Rightarrow> pystr list \<Rightarrow> pystr \<Rightarrow> (pystr \<times> scalar) list \<Rightarrow> constraint_evidence list" where
  "evidence_from u aliases mapping attributes =
     map (\<lambda>(k, v). \<lparr>cev_field_path = mapping @ [46] @ k, cev_value = v, cev_source = FromProductEvidence\<rparr>)
       (filter (\<lambda>(k, v). normal_text u k \<in> set aliases \<and> v \<noteq> ScNone) attributes)"

definition attribute_scalars :: "unicode_text \<Rightarrow> (pystr \<times> json) list \<Rightarrow> (pystr \<times> scalar) list" where
  "attribute_scalars u attributes = map (\<lambda>(k, v). (k, if v = JNull then ScNone else scalar_of_json u v)) attributes"

definition mapping_values :: "unicode_text \<Rightarrow> landed_cost \<Rightarrow> pystr \<Rightarrow> constraint_evidence list" where
  "mapping_values u x field =
     evidence_from u (aliases_of u field) (lit ''variant_attributes'') (pp_variant_attributes x)
     @ evidence_from u (aliases_of u field) (lit ''attributes'') (attribute_scalars u (pp_attributes x))"

definition facts_for_constraint :: "unicode_text \<Rightarrow> landed_cost \<Rightarrow> hard_constraint \<Rightarrow> constraint_evidence list" where
  "facts_for_constraint u x c =
     (if hc_field c = lit ''budget_cny'' then
        [\<lparr>cev_field_path = (if lc_cost_status x = CostProductPriceOnly then lit ''price_cny'' else lit ''landed_cny''),
          cev_value = ScFloat (lc_landed_cny x), cev_source = FromComputed\<rparr>]
      else mapping_values u x (hc_field c))"

section \<open>Numbers in texts\<close>

definition numeric_value :: "unicode_text \<Rightarrow> re" where
  "numeric_value u =
     (let d = (\<lambda>c. digit_value u c \<noteq> None); letters = (\<lambda>c. upper c \<or> lower c)
      in seq [Many py_space 0 None,
           Grp 1 (seq [Opt (str [45]), Many d 1 None, Opt (Cat (str [46]) (Many d 1 None))]),
           Many py_space 0 None,
           Opt (Grp 2 (Alt (Many letters 1 None) (words [[20844, 26020], [20811], [27627, 21319], [21400, 31859], [33521, 23544], [23544], [23567, 26102]])))])"

definition digits_value :: "unicode_text \<Rightarrow> pystr \<Rightarrow> rat" where
  "digits_value u s = fold (\<lambda>c n. n * 10 + of_int (case digit_value u c of Some d \<Rightarrow> d | None \<Rightarrow> 0)) s 0"

definition finite_float :: "rat \<Rightarrow> rat option" where
  "finite_float x = (if \<bar>x\<bar> < 2 ^ 1024 then Some x else None)"

definition decimal_of_text :: "unicode_text \<Rightarrow> pystr \<Rightarrow> rat" where
  "decimal_of_text u s =
     (let negative = starts_with [45] s; t = (if negative then drop 1 s else s);
          whole = takeWhile (\<lambda>c. c \<noteq> 46) t; fraction = drop 1 (dropWhile (\<lambda>c. c \<noteq> 46) t);
          x = digits_value u whole + digits_value u fraction / 10 ^ length fraction
      in if negative then - x else x)"

definition float_of_text :: "unicode_text \<Rightarrow> pystr \<Rightarrow> rat option" where
  \<comment> \<open>\<open>float(s)\<close> of a number in the form of the pattern; \<open>None\<close>: infinite\<close>
  "float_of_text u s = finite_float (fl (decimal_of_text u s))"

definition in_unit :: "pystr option \<Rightarrow> pystr \<Rightarrow> rat \<Rightarrow> rat option" where
  "in_unit wanted source x =
     (if wanted = Some (lit ''kg'') \<and> source \<in> {lit ''g'', [20811]} then Some (fl (x / 1000))
      else if wanted = Some (lit ''gb'') \<and> source \<in> {lit ''tb'', lit ''t''} then finite_float (fl (x * 1024))
      else Some x)"

definition numeric_text :: "unicode_text \<Rightarrow> pystr \<Rightarrow> pystr option \<Rightarrow> rat option" where
  "numeric_text u s wanted =
     (case match_from_start (numeric_value u) s of None \<Rightarrow> None
      | Some (rest, groups) \<Rightarrow>
          (case map_of groups 1 of None \<Rightarrow> None
           | Some found \<Rightarrow>
               (let source = (case map_of groups 2 of Some t \<Rightarrow> py_lower t | None \<Rightarrow> [])
                in case float_of_text u found of None \<Rightarrow> None | Some x \<Rightarrow> in_unit wanted source x)))"

fun numeric :: "unicode_text \<Rightarrow> scalar \<Rightarrow> pystr option \<Rightarrow> rat option option" where
  \<comment> \<open>outer \<open>None\<close>: an integer too large for a float raises\<close>
  "numeric u (ScBool b) wanted = Some None"
| "numeric u (ScInt i) wanted = (case finite_float (fl (of_int i)) of None \<Rightarrow> None | Some x \<Rightarrow> Some (Some x))"
| "numeric u (ScFloat x) wanted = Some (Some x)"
| "numeric u (ScStr s) wanted = Some (numeric_text u s wanted)"
| "numeric u ScNone wanted = Some None"

section \<open>Evaluating a constraint\<close>

definition evidence_text :: "constraint_evidence list \<Rightarrow> pystr" where
  "evidence_text evidence = joined (lit '', '') (map (\<lambda>e. cev_field_path e @ [61] @ scalar_str (cev_value e)) evidence)"

definition evaluation :: "hard_constraint \<Rightarrow> constraint_status \<Rightarrow> string \<Rightarrow> pystr \<Rightarrow> constraint_evidence list \<Rightarrow> constraint_evaluation" where
  "evaluation c status code explanation evidence =
     \<lparr>cel_constraint = c, cel_status = status, cel_reason_code = lit code, cel_explanation = explanation, cel_evidence = evidence\<rparr>"

definition unknown :: "hard_constraint \<Rightarrow> constraint_evidence list \<Rightarrow> constraint_evaluation" where
  "unknown c evidence =
     evaluation c ConstraintUnknown ''missing_product_evidence''
       ([26080, 27861, 20174] @ lit '' Product Evidence '' @ [39564, 35777] @ hc_label c @ [12290]) evidence"

fun numeric_holds :: "constraint_operator \<Rightarrow> rat \<Rightarrow> rat list \<Rightarrow> bool option" where
  "numeric_holds OpLte expected actuals = Some (\<exists>v \<in> set actuals. v \<le> expected)"
| "numeric_holds OpGte expected actuals = Some (\<exists>v \<in> set actuals. expected \<le> v)"
| "numeric_holds OpEquals expected actuals = Some (\<exists>v \<in> set actuals. v = expected)"
| "numeric_holds OpNotEquals expected actuals = Some (\<forall>v \<in> set actuals. v \<noteq> expected)"
| "numeric_holds op expected actuals = None"

fun numeric_code :: "constraint_operator \<Rightarrow> constraint_kind \<Rightarrow> string" where
  "numeric_code OpLte kind = (if kind = OnBudget then ''budget_within_limit'' else ''value_within_max'')"
| "numeric_code OpGte kind = ''value_meets_minimum''"
| "numeric_code OpEquals kind = ''value_matches''"
| "numeric_code op kind = ''value_differs''"

definition numeric_explanation :: "hard_constraint \<Rightarrow> rat \<Rightarrow> pystr" where
  "numeric_explanation c actual =
     hc_label c @ [65292, 35777, 25454, 20540, 20026] @ [32] @ general_format actual @ (case hc_unit c of Some s \<Rightarrow> s | None \<Rightarrow> []) @ [12290]"

fun all_numeric :: "unicode_text \<Rightarrow> pystr option \<Rightarrow> constraint_evidence list \<Rightarrow> rat option list option" where
  "all_numeric u wanted [] = Some []"
| "all_numeric u wanted (e # es) =
     (case numeric u (cev_value e) wanted of None \<Rightarrow> None | Some x \<Rightarrow> map_option ((#) x) (all_numeric u wanted es))"

definition evaluate_numeric :: "unicode_text \<Rightarrow> hard_constraint \<Rightarrow> constraint_evidence list \<Rightarrow> constraint_evaluation option" where
  "evaluate_numeric u c evidence =
     (case numeric u (hc_value c) (hc_unit c) of None \<Rightarrow> None
      | Some wanted \<Rightarrow>
     (case all_numeric u (hc_unit c) evidence of None \<Rightarrow> None
      | Some found \<Rightarrow>
          (let actuals = map the (filter (\<lambda>x. x \<noteq> None) found)
           in Some (case wanted of None \<Rightarrow> unknown c evidence
              | Some expected \<Rightarrow>
                  if actuals = [] then unknown c evidence
                  else case numeric_holds (hc_operator c) expected actuals of
                    None \<Rightarrow> unknown c evidence
                  | Some True \<Rightarrow> evaluation c ConstraintSatisfied (numeric_code (hc_operator c) (hc_kind c))
                      (numeric_explanation c (hd actuals)) evidence
                  | Some False \<Rightarrow> evaluation c ConstraintViolated
                      (if hc_kind c = OnBudget then ''budget_exceeded'' else ''value_out_of_range'')
                      (numeric_explanation c (hd actuals)) evidence))))"

fun text_holds :: "constraint_operator \<Rightarrow> pystr \<Rightarrow> pystr list \<Rightarrow> bool option" where
  "text_holds OpContains expected vs = Some (\<exists>v \<in> set vs. str_in expected v)"
| "text_holds OpNotContains expected vs = Some (\<not> (\<exists>v \<in> set vs. str_in expected v))"
| "text_holds OpEquals expected vs = Some (\<exists>v \<in> set vs. v = expected)"
| "text_holds OpNotEquals expected vs = Some (\<forall>v \<in> set vs. v \<noteq> expected)"
| "text_holds op expected vs = None"

fun text_code :: "constraint_operator \<Rightarrow> bool \<Rightarrow> string" where
  "text_code OpNotContains b = (if b then ''prohibited_attribute_absent'' else ''prohibited_attribute_present'')"
| "text_code OpNotEquals b = (if b then ''attribute_differs'' else ''attribute_conflicts'')"
| "text_code op b = (if b then ''attribute_matches'' else ''attribute_conflicts'')"

definition title_evidence :: "landed_cost \<Rightarrow> constraint_evidence" where
  "title_evidence x = \<lparr>cev_field_path = lit ''title'', cev_value = ScStr (pp_title x), cev_source = FromProductEvidence\<rparr>"

definition text_evidence ::
  "unicode_text \<Rightarrow> landed_cost \<Rightarrow> hard_constraint \<Rightarrow> constraint_evidence list \<Rightarrow> constraint_evidence list \<times> pystr list" where
  "text_evidence u x c evidence =
     (let vs = map (\<lambda>e. normal_text u (scalar_str (cev_value e))) (filter (\<lambda>e. cev_value e \<noteq> ScNone) evidence);
          title = normal_text u (pp_title x)
      in if vs = [] \<and> hc_field c \<in> {lit ''material'', lit ''color'', lit ''style'', lit ''specification''}
            \<and> hc_operator c \<in> {OpContains, OpNotContains} \<and> str_in (normal_text u (scalar_str (hc_value c))) title
         then ([title_evidence x], [title]) else (evidence, vs))"

definition evaluate_text :: "unicode_text \<Rightarrow> landed_cost \<Rightarrow> hard_constraint \<Rightarrow> constraint_evidence list \<Rightarrow> constraint_evaluation" where
  "evaluate_text u x c evidence0 =
     (case text_evidence u x c evidence0 of (evidence, vs) \<Rightarrow>
        if vs = [] then unknown c evidence
        else case text_holds (hc_operator c) (normal_text u (scalar_str (hc_value c))) vs of
          None \<Rightarrow> unknown c evidence
        | Some b \<Rightarrow> evaluation c (if b then ConstraintSatisfied else ConstraintViolated) (text_code (hc_operator c) b)
            (hc_label c @ [65292, 35777, 25454, 20026] @ [32] @ evidence_text evidence @ [12290]) evidence)"

fun any_numeric :: "unicode_text \<Rightarrow> pystr option \<Rightarrow> constraint_evidence list \<Rightarrow> bool option" where
  \<comment> \<open>\<open>any\<close> stops at the first number\<close>
  "any_numeric u wanted [] = Some False"
| "any_numeric u wanted (e # es) =
     (case numeric u (cev_value e) wanted of None \<Rightarrow> None | Some None \<Rightarrow> any_numeric u wanted es | Some (Some x) \<Rightarrow> Some True)"

definition evaluate_constraint :: "unicode_text \<Rightarrow> landed_cost \<Rightarrow> hard_constraint \<Rightarrow> constraint_evaluation option" where
  "evaluate_constraint u x c =
     (let evidence = facts_for_constraint u x c
      in if hc_field c = lit ''budget_cny'' \<or> hc_operator c \<in> {OpLte, OpGte} then evaluate_numeric u c evidence
         else if hc_operator c \<in> {OpEquals, OpNotEquals} then
           (case any_numeric u (hc_unit c) evidence of None \<Rightarrow> None
            | Some True \<Rightarrow> evaluate_numeric u c evidence
            | Some False \<Rightarrow> Some (evaluate_text u x c evidence))
         else Some (evaluate_text u x c evidence))"

section \<open>Scores\<close>

definition NEGATIONS :: "pystr list" where
  "NEGATIONS = [[19981, 21547], [19981, 35201]]"

definition preference_term :: "pystr \<Rightarrow> pystr \<times> bool" where
  "preference_term value =
     (remove_prefix [19981, 35201] (remove_prefix [19981, 21547] value), \<not> (\<exists>p \<in> set NEGATIONS. starts_with p value))"

definition preference_terms :: "shopping_plan \<Rightarrow> remembered_preference \<Rightarrow> (pystr \<times> bool) list" where
  "preference_terms p r =
     dict_fromkeys
       (map preference_term (filter (\<lambda>v. py_strip v \<noteq> [])
          (sp_style_preferences p @ sp_soft_preferences p
           @ rpref_material_preferences r @ rpref_style_preferences r @ rpref_soft_preferences r))
        @ map (\<lambda>v. (v, False)) (filter (\<lambda>v. py_strip v \<noteq> []) (rpref_avoid r)))"

definition product_evidence_text :: "unicode_text \<Rightarrow> landed_cost \<Rightarrow> pystr list" where
  "product_evidence_text u x =
     map (normal_text u)
       (pp_title x # map (\<lambda>(k, v). json_str (printable u) v) (filter (\<lambda>(k, v). v \<noteq> JNull) (pp_attributes x))
        @ map (\<lambda>(k, v). scalar_str v) (filter (\<lambda>(k, v). v \<noteq> ScNone) (pp_variant_attributes x)))"

definition term_holds :: "unicode_text \<Rightarrow> landed_cost \<Rightarrow> pystr \<times> bool \<Rightarrow> bool" where
  "term_holds u x t =
     (case t of (w, positive) \<Rightarrow> (\<exists>e \<in> set (product_evidence_text u x). str_in (normal_text u w) e) = positive)"

definition share :: "nat \<Rightarrow> nat \<Rightarrow> rat" where
  \<comment> \<open>\<open>round(m / n, 4)\<close>\<close>
  "share m n = py_round 4 (fl (of_nat m / of_nat n))"

definition preference_match_score :: "unicode_text \<Rightarrow> landed_cost \<Rightarrow> shopping_plan \<Rightarrow> remembered_preference \<Rightarrow> rat" where
  "preference_match_score u x p r =
     (let terms = preference_terms p r
      in if terms = [] then 1 / 2 else share (length (filter (term_holds u x) terms)) (length terms))"

definition given_text :: "pystr option \<Rightarrow> bool" where
  "given_text s \<longleftrightarrow> s \<noteq> None \<and> s \<noteq> Some []"

definition evidence_checks :: "landed_cost \<Rightarrow> bool list" where
  "evidence_checks x =
     [pp_source x \<in> {SrcLive, SrcFixture, SrcCurated}, pp_provenance x \<noteq> None, given_text (pp_product_url x),
      given_text (pp_offer_id x) \<or> given_text (pid_gtin (pp_identity x)) \<or> given_text (pid_mpn (pp_identity x))
        \<or> given_text (pid_brand (pp_identity x)) \<or> given_text (pid_model (pp_identity x)),
      pp_variant_attributes x \<noteq> [], pp_availability x \<noteq> None, pp_retrieved_at x \<noteq> None, pp_rating x \<noteq> None, pp_sales x \<noteq> None]"

definition evidence_quality_score :: "landed_cost \<Rightarrow> rat" where
  "evidence_quality_score x = share (length (filter id (evidence_checks x))) (length (evidence_checks x))"

definition relative_lower_is_better :: "rat \<Rightarrow> rat list \<Rightarrow> rat" where
  "relative_lower_is_better v vs =
     (let lo = Min (set vs); hi = Max (set vs)
      in if hi = lo then 1 else py_round 4 (fl (1 - fl (fl (v - lo) / fl (hi - lo)))))"

definition semantic_score :: "(pystr \<times> rat) list \<Rightarrow> pystr \<Rightarrow> rat" where
  "semantic_score scores item = max 0 (min 1 (case map_of scores item of Some v \<Rightarrow> v | None \<Rightarrow> 0))"

definition score_breakdown ::
  "unicode_text \<Rightarrow> landed_cost \<Rightarrow> ranking_profile \<Rightarrow> remembered_preference \<Rightarrow> shopping_plan \<Rightarrow> landed_cost list \<Rightarrow> (pystr \<times> rat) list
   \<Rightarrow> ranking_score_breakdown option" where
  "score_breakdown u x profile r p eligible scores =
     (let b = \<lparr>sb_priority_order = rk_priority_order profile, sb_landed_cost_cny = lc_landed_cny x,
          sb_landed_cost_score = relative_lower_is_better (lc_landed_cny x) (map lc_landed_cny eligible),
          sb_preference_match_score = preference_match_score u x p r,
          sb_evidence_quality_score = evidence_quality_score x,
          sb_delivery_time_days = lc_eta_days x,
          sb_delivery_time_score = relative_lower_is_better (fl (of_int (lc_eta_days x))) (map (\<lambda>y. fl (of_int (lc_eta_days y))) eligible),
          sb_semantic_relevance_score = semantic_score scores (pp_item_id x)\<rparr>
      in if fields_ranking_score_breakdown b \<and> each_dimension_once (sb_priority_order b) then Some b else None)"

section \<open>Reasons\<close>

fun dimension_label :: "ranking_dimension \<Rightarrow> pystr" where
  "dimension_label DimLandedCost = [21040, 25163, 20215]"
| "dimension_label DimPreferenceMatch = [20559, 22909, 21305, 37197]"
| "dimension_label DimEvidenceQuality = [35777, 25454, 36136, 37327]"
| "dimension_label DimDeliveryTime = [37197, 36865, 26102, 25928]"

fun gap_label :: "cost_gap \<Rightarrow> pystr" where
  "gap_label GapShippingQuote = [36816, 36153, 25253, 20215]"
| "gap_label GapCustomsEvidence = [31246, 21153, 35777, 25454]"
| "gap_label GapCustomsValuation = [28023, 20851, 20272, 20540]"

definition import_tax_shown :: "landed_cost \<Rightarrow> rat" where
  "import_tax_shown x =
     (case lc_import_tax_cny x of Some t \<Rightarrow> t | None \<Rightarrow> (case lc_duty_cny x of Some d \<Rightarrow> d | None \<Rightarrow> 0))"

definition tax_source_shown :: "landed_cost \<Rightarrow> pystr" where
  "tax_source_shown x =
     (if ed_source (lc_tax_estimate x) \<noteq> lit ''unspecified'' then ed_source (lc_tax_estimate x) else ed_source (lc_duty_estimate x))"

definition recommendation_reason :: "landed_cost \<Rightarrow> ranking_profile \<Rightarrow> pystr" where
  "recommendation_reason x profile =
     (if lc_cost_status x = CostProductPriceOnly then
        
     [21830, 21697, 20215, 21644, 24403, 21069, 21487, 39564, 35777, 26465, 20214, 24050, 36890,
      36807, 65307, 22240] @ joined [12289] (map gap_label (lc_cost_evidence_gaps x))
        @ [24453, 34917, 20805, 65292, 26242, 25353, 25240, 21512, 21830, 21697, 20215, 32, 165] @ two_places show_nat (pp_price_cny x) @ 
     [21442, 32771, 25490, 24207, 65292, 19981, 33021, 35270, 20026, 26368, 32456, 21040, 25163,
      20215, 12290]
      else [20840, 37096, 30828, 24615, 26465, 20214, 22343, 24050, 36890, 36807] @ lit '' Product Evidence '' @ [25110, 30830, 23450, 24615, 35745, 31639, 39564, 35777, 65307, 25353]
        @ joined [12289] (map dimension_label (rk_priority_order profile)) @ [25490, 24207, 12290, 21830, 21697, 20215, 20026, 32]
        @ pp_currency x @ [32] @ two_places show_nat (pp_price x) @ [65288, 25240, 21512] @ lit '' CNY '' @ two_places show_nat (pp_price_cny x) @ [65289, 65292, 36816, 36153, 32, 165]
        @ two_places show_nat (lc_shipping_cny x) @ [65288, 20272, 31639, 65292, 26469, 28304, 65306] @ ed_source (lc_shipping_estimate x) @ [65289, 65292, 36827, 21475, 31246, 36153, 32, 165]
        @ two_places show_nat (import_tax_shown x) @ [65288, 20272, 31639, 65292, 26469, 28304, 65306] @ tax_source_shown x @ [65289, 65292, 21040, 25163, 32422, 32, 165]
        @ two_places show_nat (lc_landed_cny x) @ [65307, 37197, 36865, 32] @ show_int (lc_eta_days x) @ [32, 22825, 65288, 20272, 31639, 65292, 26469, 28304, 65306]
        @ ed_source (lc_delivery_estimate x) @ [65289, 12290])"

definition unverified_reason :: "constraint_evaluation list \<Rightarrow> pystr" where
  "unverified_reason es =
     [32570, 23569, 21487, 39564, 35777, 35777, 25454, 65306] @ joined [12289] (map (\<lambda>e. hc_label (cel_constraint e)) (filter (\<lambda>e. cel_status e = ConstraintUnknown) es))"

definition relaxation_of :: "hard_constraint \<Rightarrow> constraint_relaxation_suggestion" where
  "relaxation_of c =
     \<lparr>crs_constraint = c, crs_suggestion = 
     [22914, 38656, 25193, 22823, 20505, 36873, 65292, 21487, 22312, 20320, 30830, 35748, 21518,
      25918, 23485, 8220] @ hc_label c @ [8221, 65307, 24403, 21069, 20219, 21153, 26410, 33258, 21160, 25918, 23485, 12290],
      crs_requires_confirmation = True\<rparr>"

fun first_of_each_id :: "pystr list \<Rightarrow> hard_constraint list \<Rightarrow> hard_constraint list" where
  "first_of_each_id seen [] = []"
| "first_of_each_id seen (c # cs) =
     (if hc_id c \<in> set seen then first_of_each_id seen cs else c # first_of_each_id (hc_id c # seen) cs)"

definition relaxations :: "constraint_exclusion list \<Rightarrow> constraint_relaxation_suggestion list" where
  "relaxations exclusions =
     map relaxation_of (first_of_each_id [] (concat (map (\<lambda>e. map cel_constraint (cex_violated_constraints e)) exclusions)))"

definition default_assumptions :: "working_assumption list" where
  "default_assumptions =
     [\<lparr>wa_code = lit ''optional_color_unspecified'', wa_field = lit ''color'', wa_value = [19981, 35774, 38480],
       wa_reason = [35831, 27714, 26410, 25351, 23450, 39068, 33394, 65292, 20445, 30041] @ lit '' Product Evidence '' @ [20013, 21487, 39564, 35777, 30340, 21508, 33394, 20505, 36873, 12290]\<rparr>,
      \<lparr>wa_code = lit ''optional_style_unspecified'', wa_field = lit ''style'', wa_value = [19981, 35774, 38480],
       wa_reason = 
     [35831, 27714, 26410, 25351, 23450, 39118, 26684, 65292, 19981, 25226, 32570, 30465, 39118,
      26684, 21319, 32423, 20026] @ lit '' Blocking Ambiguity'' @ [12290]\<rparr>]"

section \<open>The decision\<close>

definition not_required :: identity_evidence where
  "not_required =
     \<lparr>ie_decision = IdentityNotRequired, ie_basis = ByNotRequired, ie_matched_fields = [], ie_missing_fields = [],
      ie_conflicting_fields = [], ie_explanation = 
     [19981, 21516, 21830, 21697, 25512, 33616, 21487, 20197, 27604, 36739, 19981, 21516, 21830,
      21697, 29256, 26412, 65292, 19981, 35201, 27714, 21516, 27454, 35777, 26126, 12290]\<rparr>"

definition compared_offers :: "unicode_text \<Rightarrow> shopping_plan \<Rightarrow> landed_cost list \<Rightarrow> landed_cost list \<times> alternative_candidate list" where
  "compared_offers u p offers =
     (if sp_mode p = ModeExactOfferComparison
      then (let c = classify_exact_offers u offers in (eo_matching_offers c, eo_alternative_candidates c))
      else (map (with_evidence not_required) offers, []))"

fun evaluate_all :: "unicode_text \<Rightarrow> landed_cost \<Rightarrow> hard_constraint list \<Rightarrow> constraint_evaluation list option" where
  "evaluate_all u x [] = Some []"
| "evaluate_all u x (c # cs) =
     (case evaluate_constraint u x c of None \<Rightarrow> None | Some e \<Rightarrow> map_option ((#) e) (evaluate_all u x cs))"

definition with_status :: "constraint_status \<Rightarrow> constraint_evaluation list \<Rightarrow> constraint_evaluation list" where
  "with_status st es = filter (\<lambda>e. cel_status e = st) es"

definition unverified_of :: "landed_cost \<Rightarrow> constraint_evaluation list \<Rightarrow> unverified_candidate" where
  "unverified_of x es = landed_cost.extend x (unverified_candidate.fields (unverified_reason es) es)"

definition exclusion_of :: "landed_cost \<Rightarrow> constraint_evaluation list \<Rightarrow> constraint_exclusion" where
  "exclusion_of x es =
     (let violated = with_status ConstraintViolated es
      in \<lparr>cex_item_id = pp_item_id x, cex_platform = pp_platform x, cex_title = pp_title x,
          cex_violated_count = int (length violated), cex_violated_constraints = violated\<rparr>)"

type_synonym evaluated = "landed_cost \<times> constraint_evaluation list"

definition is_unverified :: "evaluated \<Rightarrow> bool" where
  "is_unverified x \<longleftrightarrow> with_status ConstraintUnknown (snd x) \<noteq> []"

definition is_excluded :: "evaluated \<Rightarrow> bool" where
  "is_excluded x \<longleftrightarrow> \<not> is_unverified x \<and> with_status ConstraintViolated (snd x) \<noteq> []"

definition is_eligible :: "evaluated \<Rightarrow> bool" where
  "is_eligible x \<longleftrightarrow> \<not> is_unverified x \<and> with_status ConstraintViolated (snd x) = []"

fun evaluate_offers :: "unicode_text \<Rightarrow> hard_constraint list \<Rightarrow> landed_cost list \<Rightarrow> evaluated list option" where
  "evaluate_offers u cs [] = Some []"
| "evaluate_offers u cs (x # xs) =
     (case evaluate_all u x cs of None \<Rightarrow> None | Some es \<Rightarrow> map_option ((#) (x, es)) (evaluate_offers u cs xs))"

type_synonym scored = "landed_cost \<times> constraint_evaluation list \<times> ranking_score_breakdown"

fun score_all ::
  "unicode_text \<Rightarrow> shopping_plan \<Rightarrow> remembered_preference \<Rightarrow> landed_cost list \<Rightarrow> (pystr \<times> rat) list \<Rightarrow> evaluated list \<Rightarrow> scored list option" where
  "score_all u p r eligible scores [] = Some []"
| "score_all u p r eligible scores ((x, es) # xs) =
     (case score_breakdown u x (sp_ranking_profile p) r p eligible scores of None \<Rightarrow> None
      | Some b \<Rightarrow> map_option ((#) (x, es, b)) (score_all u p r eligible scores xs))"

fun dimension_key :: "landed_cost \<Rightarrow> ranking_score_breakdown \<Rightarrow> ranking_dimension \<Rightarrow> rat" where
  "dimension_key x b DimLandedCost = lc_landed_cny x"
| "dimension_key x b DimDeliveryTime = fl (of_int (lc_eta_days x))"
| "dimension_key x b DimPreferenceMatch = - sb_preference_match_score b"
| "dimension_key x b DimEvidenceQuality = - sb_evidence_quality_score b"

type_synonym rank_key = "rat list \<times> pystr \<times> pystr"

definition rank_key :: "ranking_profile \<Rightarrow> scored \<Rightarrow> rank_key" where
  "rank_key profile s =
     (case s of (x, es, b) \<Rightarrow>
        (- sb_semantic_relevance_score b # map (dimension_key x b) (rk_priority_order profile)
           @ [lc_landed_cny x, fl (of_int (lc_eta_days x))],
         platform_name (pp_platform x), pp_item_id x))"

definition recommendation_of :: "shopping_plan \<Rightarrow> nat \<times> scored \<Rightarrow> recommendation" where
  "recommendation_of p n =
     (case n of (rank, x, es, b) \<Rightarrow>
        landed_cost.extend x (recommendation.fields (recommendation_reason x (sp_ranking_profile p)) (int rank) es b
          (if sp_mode p = ModeExactOfferComparison then OfferMatchingOffer else OfferResearchCandidate)))"

definition pick_limit :: "int \<Rightarrow> nat" where
  "pick_limit max_items = nat (max 1 (min max_items 3))"

definition item_picker_metadata :: provider_metadata where
  "item_picker_metadata =
     \<lparr>pm_source = SrcComputed, pm_provider = lit ''item-picker'', pm_status = ProviderOk, pm_fallback_reason = None, pm_failure_reason = None\<rparr>"

definition decision_of ::
  "unicode_text \<Rightarrow> shopping_plan \<Rightarrow> preference_decision list \<Rightarrow> landed_cost list \<times> alternative_candidate list \<Rightarrow> evaluated list
   \<Rightarrow> scored list \<Rightarrow> int \<Rightarrow> item_picker_output" where
  "decision_of u p ds compared evaluated scored max_items =
     (let picks = map (recommendation_of p) (enumerate 1 (take (pick_limit max_items) (sort_key (rank_key (sp_ranking_profile p)) scored)));
          exclusions = map (\<lambda>(x, es). exclusion_of x es) (filter is_excluded evaluated)
      in \<lparr>ipo_mode = sp_mode p, ipo_recommendations = picks, ipo_matching_offers = fst compared,
          ipo_alternative_candidates = snd compared,
          ipo_unverified_candidates = map (\<lambda>(x, es). unverified_of x es) (filter is_unverified evaluated),
          ipo_exclusions = exclusions,
          ipo_working_assumptions = (if sp_working_assumptions p \<noteq> [] then sp_working_assumptions p else default_assumptions),
          ipo_relaxation_suggestions = relaxations exclusions,
          ipo_match_status = (if picks \<noteq> [] then MatchMatched else MatchNoMatch),
          ipo_rejected_count = int (length exclusions), ipo_ranking_profile = sp_ranking_profile p,
          ipo_preference_decisions = ds, ipo_provider = item_picker_metadata\<rparr>)"

definition decision_engine ::
  "unicode_text \<Rightarrow> shopping_plan \<Rightarrow> remembered_preference \<Rightarrow> landed_cost list \<Rightarrow> int \<Rightarrow> (pystr \<times> rat) list \<Rightarrow> item_picker_output option" where
  "decision_engine u p r offers max_items scores =
     (case resolve_preferences u p r of None \<Rightarrow> None
      | Some resolution \<Rightarrow>
          (let compared = compared_offers u p offers
           in case evaluate_offers u (sp_hard_constraints p) (fst compared) of None \<Rightarrow> None
              | Some evaluated \<Rightarrow>
                  (let eligible = filter is_eligible evaluated
                   in case score_all u p (pr_effective resolution) (map fst eligible) scores eligible of None \<Rightarrow> None
                      | Some scored \<Rightarrow> Some (decision_of u p (pr_decisions resolution) compared evaluated scored max_items))))"

section \<open>Reranking\<close>

definition offer_text :: "unicode_text \<Rightarrow> landed_cost \<Rightarrow> pystr" where
  "offer_text u x =
     take 4000 (joined (lit '' | '')
       ([pp_title x, lit ''platform: '' @ platform_name (pp_platform x),
         lit ''price_cny: '' @ two_places show_nat (pp_price_cny x), lit ''landed_cny: '' @ two_places show_nat (lc_landed_cny x),
         lit ''eta_days: '' @ show_int (lc_eta_days x)]
        @ map (\<lambda>(k, v). k @ lit '': '' @ json_str (printable u) v) (pp_attributes x)
        @ map (\<lambda>(k, v). k @ lit '': '' @ scalar_str v) (pp_variant_attributes x)))"

text \<open>
  The service: \<open>Inl\<close> is the name of the exception of a failed request, \<open>Inr\<close> the decoded body. A body
  is a list of scores or an object with such a list; \<open>float\<close> of one value is the parameter
  \<open>float_of\<close> (\<open>Inl\<close>: it raises, \<open>None\<close>: not finite).
\<close>

definition raw_scores :: "json \<Rightarrow> json list option" where
  "raw_scores body =
     (case body of JMap m \<Rightarrow> (case map_of m (lit ''scores'') of Some (JList xs) \<Rightarrow> Some xs | _ \<Rightarrow> None)
      | JList xs \<Rightarrow> Some xs | _ \<Rightarrow> None)"

fun all_floats :: "(json \<Rightarrow> string + rat option) \<Rightarrow> json list \<Rightarrow> string + rat option list" where
  "all_floats float_of [] = Inr []"
| "all_floats float_of (v # vs) =
     (case float_of v of Inl e \<Rightarrow> Inl e | Inr x \<Rightarrow> (case all_floats float_of vs of Inl e \<Rightarrow> Inl e | Inr xs \<Rightarrow> Inr (x # xs)))"

definition text_scores ::
  "(json \<Rightarrow> string + rat option) \<Rightarrow> (pystr \<Rightarrow> pystr list \<Rightarrow> string + json) \<Rightarrow> pystr \<Rightarrow> pystr list \<Rightarrow> string + rat list" where
  "text_scores float_of post query candidates =
     (case post query candidates of Inl e \<Rightarrow> Inl e
      | Inr body \<Rightarrow>
          (case raw_scores body of None \<Rightarrow> Inl ''ValueError''
           | Some raw \<Rightarrow> if length raw \<noteq> length candidates then Inl ''ValueError''
               else case all_floats float_of raw of Inl e \<Rightarrow> Inl e
                    | Inr xs \<Rightarrow> if None \<in> set xs then Inl ''ValueError'' else Inr (map the xs)))"

record rerank_environment =
  re_model :: "pystr option"
  re_endpoint :: "pystr option"

definition reranker_provider :: "rerank_environment \<Rightarrow> pystr" where
  "reranker_provider env =
     (let name = py_strip (case re_model env of Some s \<Rightarrow> s | None \<Rightarrow> lit ''BAAI/bge-reranker-v2-m3'')
      in if name = [] then lit ''bge-reranker-v2-m3'' else name)"

definition degraded :: "rerank_environment \<Rightarrow> pystr \<Rightarrow> provider_metadata" where
  "degraded env reason =
     \<lparr>pm_source = SrcComputed, pm_provider = reranker_provider env, pm_status = ProviderDegraded,
      pm_fallback_reason = Some reason, pm_failure_reason = None\<rparr>"

definition rerank_offers ::
  "unicode_text \<Rightarrow> rerank_environment \<Rightarrow> (pystr \<Rightarrow> pystr list \<Rightarrow> string + rat list) \<Rightarrow> pystr option \<Rightarrow> landed_cost list
   \<Rightarrow> (pystr \<times> rat) list \<times> provider_metadata" where
  "rerank_offers u env score query offers =
     (case query of
        None \<Rightarrow> ([], item_picker_metadata)
      | Some q \<Rightarrow>
          if py_strip q = [] \<or> offers = [] then ([], item_picker_metadata)
          else if py_strip (case re_endpoint env of Some s \<Rightarrow> s | None \<Rightarrow> []) = [] then
            ([], degraded env (lit ''RERANKER_ENDPOINT is not configured; deterministic picker order remains active''))
          else case score q (map (offer_text u) offers) of
            Inl e \<Rightarrow> ([], degraded env (lit ''reranker failed: '' @ lit e @ lit ''; deterministic picker order remains active''))
          | Inr vs \<Rightarrow>
              if length vs \<noteq> length offers then
                ([], degraded env (lit ''reranker failed: ValueError; deterministic picker order remains active''))
              else (fold (\<lambda>(x, v) m. AList.update (pp_item_id x) (max 0 (min 1 v)) m) (zip offers vs) [],
                    item_picker_metadata\<lparr>pm_provider := reranker_provider env\<rparr>))"

definition item_picker ::
  "unicode_text \<Rightarrow> rerank_environment \<Rightarrow> (pystr \<Rightarrow> pystr list \<Rightarrow> string + rat list) \<Rightarrow> shipping_calc_output \<Rightarrow> shopping_plan \<Rightarrow> int
   \<Rightarrow> remembered_preference \<Rightarrow> pystr option \<Rightarrow> item_picker_output option" where
  "item_picker u env score shipping p max_items r query =
     (case rerank_offers u env score query (sco_items shipping) of
        (scores, provider) \<Rightarrow>
          map_option (\<lambda>d. d\<lparr>ipo_provider := provider\<rparr>) (decision_engine u p r (sco_items shipping) max_items scores))"

end
