(* ===== verification/DecisionProperties.thy ===== *)
theory DecisionProperties
  imports Decision IdentityProperties
begin

text \<open>
  What the decision engine promises: every offer is recommended, unverified or excluded by what its
  constraint evaluations say, the recommendations are the best eligible offers by the ranking key,
  memory and reranking only change their order, and valid offers are always decided; and where its
  reading of measures and its ranking differ from what it states.
\<close>

section \<open>Evaluations\<close>

lemma evaluation_constraint [simp]: "cel_constraint (evaluation c st code text es) = c" "cel_status (evaluation c st code text es) = st"
  by (simp_all add: evaluation_def)

lemma unknown_fields [simp]: "cel_constraint (unknown c es) = c" "cel_status (unknown c es) = ConstraintUnknown"
  by (simp_all add: unknown_def)

lemma evaluate_numeric_constraint: "evaluate_numeric u c es = Some e \<Longrightarrow> cel_constraint e = c"
  by (auto simp: evaluate_numeric_def Let_def split: option.splits if_splits bool.splits)

lemma evaluate_text_constraint: "cel_constraint (evaluate_text u x c es) = c"
  by (auto simp: evaluate_text_def split: option.splits prod.splits)

lemma evaluate_constraint_constraint: "evaluate_constraint u x c = Some e \<Longrightarrow> cel_constraint e = c"
  by (auto simp: evaluate_constraint_def Let_def evaluate_text_constraint
      dest: evaluate_numeric_constraint split: option.splits if_splits bool.splits)

lemma evaluate_all_constraints: "evaluate_all u x cs = Some es \<Longrightarrow> map cel_constraint es = cs"
  by (induction cs arbitrary: es) (auto split: option.splits dest: evaluate_constraint_constraint)

lemma evaluate_all_member:
  "evaluate_all u x cs = Some es \<Longrightarrow> c \<in> set cs \<Longrightarrow> \<exists>e \<in> set es. evaluate_constraint u x c = Some e"
  by (induction cs arbitrary: es) (auto split: option.splits)

lemma evaluate_offers_spec:
  "evaluate_offers u cs xs = Some evaluated \<Longrightarrow> map fst evaluated = xs \<and> list_all (\<lambda>(x, es). evaluate_all u x cs = Some es) evaluated"
  by (induction xs arbitrary: evaluated) (auto split: option.splits)

lemma score_all_spec:
  "score_all u p r eligible scores xs = Some scored \<Longrightarrow>
     map (\<lambda>(x, es, b). (x, es)) scored = xs
     \<and> list_all (\<lambda>(x, es, b). score_breakdown u x (sp_ranking_profile p) r p eligible scores = Some b) scored"
  by (induction xs arbitrary: scored) (auto split: option.splits)

text \<open>A decision, taken apart.\<close>

lemma decided:
  assumes "decision_engine u p r offers n scores = Some d"
  obtains resolution evaluated scored where
    "resolve_preferences u p r = Some resolution"
    "evaluate_offers u (sp_hard_constraints p) (fst (compared_offers u p offers)) = Some evaluated"
    "score_all u p (pr_effective resolution) (map fst (filter is_eligible evaluated)) scores (filter is_eligible evaluated) = Some scored"
    "d = decision_of u p (pr_decisions resolution) (compared_offers u p offers) evaluated scored n"
  using assms by (auto simp: decision_engine_def Let_def split: option.splits)

lemma decision_of_fields:
  "ipo_matching_offers (decision_of u p ds c evaluated scored n) = fst c"
  "ipo_alternative_candidates (decision_of u p ds c evaluated scored n) = snd c"
  "ipo_unverified_candidates (decision_of u p ds c evaluated scored n) = map (\<lambda>(x, es). unverified_of x es) (filter is_unverified evaluated)"
  "ipo_exclusions (decision_of u p ds c evaluated scored n) = map (\<lambda>(x, es). exclusion_of x es) (filter is_excluded evaluated)"
  "ipo_relaxation_suggestions (decision_of u p ds c evaluated scored n) = relaxations (map (\<lambda>(x, es). exclusion_of x es) (filter is_excluded evaluated))"
  "ipo_rejected_count (decision_of u p ds c evaluated scored n) = int (length (filter is_excluded evaluated))"
  "ipo_recommendations (decision_of u p ds c evaluated scored n) =
     map (recommendation_of p) (enumerate 1 (take (pick_limit n) (sort_key (rank_key (sp_ranking_profile p)) scored)))"
  "ipo_match_status (decision_of u p ds c evaluated scored n) =
     (if ipo_recommendations (decision_of u p ds c evaluated scored n) \<noteq> [] then MatchMatched else MatchNoMatch)"
  by (simp_all add: decision_of_def Let_def)

definition scored_of :: "recommendation \<Rightarrow> scored" where
  "scored_of x = (landed_cost.truncate x, rec_constraint_evaluations x, rec_score_breakdown x)"

lemma scored_of_recommendation [simp]: "scored_of (recommendation_of p (k, s)) = s"
  by (cases s) (simp add: scored_of_def recommendation_of_def landed_cost.defs recommendation.defs)

lemma rank_of_recommendation [simp]: "rec_rank (recommendation_of p (k, s)) = int k"
  by (cases s) (simp add: recommendation_of_def landed_cost.defs recommendation.defs)

lemma scored_of_picks: "map scored_of (map (recommendation_of p) (enumerate k xs)) = xs"
  by (induction xs arbitrary: k) simp_all

lemma ranks_of_picks: "map rec_rank (map (recommendation_of p) (enumerate k xs)) = map int [k..<k + length xs]"
  by (induction xs arbitrary: k) (simp_all add: upt_conv_Cons del: upt_Suc)

lemma one_outcome:
  "length (filter is_unverified xs) + length (filter is_excluded xs) + length (filter is_eligible xs) = length xs"
  by (induction xs) (auto simp: is_excluded_def is_eligible_def)

lemma eligible_satisfied: "is_eligible x \<longleftrightarrow> list_all (\<lambda>e. cel_status e = ConstraintSatisfied) (snd x)"
proof -
  have "cel_status e = ConstraintSatisfied \<longleftrightarrow> cel_status e \<noteq> ConstraintUnknown \<and> cel_status e \<noteq> ConstraintViolated" for e
    by (cases "cel_status e") auto
  then show ?thesis by (auto simp: is_eligible_def is_unverified_def with_status_def filter_empty_conv list_all_iff)
qed

lemma pick_limit_bounds: "1 \<le> pick_limit n \<and> pick_limit n \<le> 3"
  by (auto simp: pick_limit_def)

section \<open>Every offer has one outcome\<close>

lemma picks_are_eligible:
  assumes "score_all u p r eligible scores xs = Some scored"
    and "x \<in> set (map (recommendation_of p) (enumerate 1 (take k (sort_key key scored))))"
  shows "(landed_cost.truncate x, rec_constraint_evaluations x) \<in> set xs
    \<and> score_breakdown u (landed_cost.truncate x) (sp_ranking_profile p) r p eligible scores = Some (rec_score_breakdown x)"
proof -
  have "scored_of x \<in> set (map scored_of (map (recommendation_of p) (enumerate 1 (take k (sort_key key scored)))))"
    using assms(2) by (metis image_eqI set_map)
  then have "scored_of x \<in> set scored" unfolding scored_of_picks by (auto dest: in_set_takeD)
  then have s: "(landed_cost.truncate x, rec_constraint_evaluations x, rec_score_breakdown x) \<in> set scored" by (simp add: scored_of_def)
  have "(landed_cost.truncate x, rec_constraint_evaluations x) \<in> set (map (\<lambda>(x, es, b). (x, es)) scored)"
    unfolding set_map by (rule rev_image_eqI [OF s]) simp
  with s score_all_spec [OF assms(1)] show ?thesis by (auto simp: list_all_iff)
qed

definition accounted :: "unicode_text \<Rightarrow> shopping_plan \<Rightarrow> item_picker_output \<Rightarrow> evaluated list \<Rightarrow> bool" where
  \<comment> \<open>\<open>evaluated\<close> are the compared offers with the outcome of every constraint, and the sections of the output follow from them\<close>
  "accounted u p d evaluated \<longleftrightarrow>
     map fst evaluated = ipo_matching_offers d
     \<and> list_all (\<lambda>(x, es). evaluate_all u x (sp_hard_constraints p) = Some es) evaluated
     \<and> ipo_unverified_candidates d = map (\<lambda>(x, es). unverified_of x es) (filter is_unverified evaluated)
     \<and> ipo_exclusions d = map (\<lambda>(x, es). exclusion_of x es) (filter is_excluded evaluated)"

lemma decision_accounted:
  assumes "decision_engine u p r offers n scores = Some d"
  shows "\<exists>evaluated. accounted u p d evaluated
    \<and> length (ipo_recommendations d) = min (pick_limit n) (length (filter is_eligible evaluated))
    \<and> list_all (\<lambda>x. (landed_cost.truncate x, rec_constraint_evaluations x) \<in> set (filter is_eligible evaluated)) (ipo_recommendations d)"
proof -
  obtain resolution evaluated scored where "resolve_preferences u p r = Some resolution" and d:
      "evaluate_offers u (sp_hard_constraints p) (fst (compared_offers u p offers)) = Some evaluated"
      "score_all u p (pr_effective resolution) (map fst (filter is_eligible evaluated)) scores (filter is_eligible evaluated) = Some scored"
      "d = decision_of u p (pr_decisions resolution) (compared_offers u p offers) evaluated scored n"
    using assms by (rule decided)
  have "length scored = length (filter is_eligible evaluated)" using score_all_spec [OF d(2)] by (metis length_map)
  moreover have "accounted u p d evaluated"
    using evaluate_offers_spec [OF d(1)] by (simp add: accounted_def d(3) decision_of_fields)
  moreover have "list_all (\<lambda>x. (landed_cost.truncate x, rec_constraint_evaluations x) \<in> set (filter is_eligible evaluated)) (ipo_recommendations d)"
    unfolding d(3) decision_of_fields list_all_iff using picks_are_eligible [OF d(2)] by blast
  ultimately show ?thesis by (intro exI [of _ evaluated]) (simp add: d(3) decision_of_fields)
qed

text \<open>
  C25. Every compared offer has exactly one outcome: it is unverified when some hard constraint could not be
  checked, excluded when all could be checked and one is violated, and otherwise eligible; nothing is
  lost or listed twice. At most three are recommended, all of them eligible, ranked from 1, and each shows
  an evaluation of every hard constraint of the plan, all satisfied.
\<close>

theorem decision_accounts_for_offers:
  assumes "decision_engine u p r offers n scores = Some d"
  shows "\<exists>evaluated. accounted u p d evaluated
    \<and> length (ipo_unverified_candidates d) + length (ipo_exclusions d) + length (filter is_eligible evaluated) = length (ipo_matching_offers d)
    \<and> length (ipo_recommendations d) = min (pick_limit n) (length (filter is_eligible evaluated)) \<and> length (ipo_recommendations d) \<le> 3
    \<and> map rec_rank (ipo_recommendations d) = map int [1..<1 + length (ipo_recommendations d)]
    \<and> list_all (\<lambda>x. map cel_constraint (rec_constraint_evaluations x) = sp_hard_constraints p
        \<and> list_all (\<lambda>e. cel_status e = ConstraintSatisfied) (rec_constraint_evaluations x)
        \<and> landed_cost.truncate x \<in> set (ipo_matching_offers d)) (ipo_recommendations d)"
proof -
  obtain evaluated where e: "accounted u p d evaluated"
      "length (ipo_recommendations d) = min (pick_limit n) (length (filter is_eligible evaluated))"
      "list_all (\<lambda>x. (landed_cost.truncate x, rec_constraint_evaluations x) \<in> set (filter is_eligible evaluated)) (ipo_recommendations d)"
    using decision_accounted [OF assms] by blast
  have ranks: "map rec_rank (ipo_recommendations d) = map int [1..<1 + length (ipo_recommendations d)]"
    using assms by (rule decided) (simp only: decision_of_fields ranks_of_picks length_map length_enumerate)
  have "map cel_constraint es = sp_hard_constraints p \<and> list_all (\<lambda>e. cel_status e = ConstraintSatisfied) es \<and> x \<in> set (ipo_matching_offers d)"
    if "(x, es) \<in> set (filter is_eligible evaluated)" for x es
  proof -
    have "evaluate_all u x (sp_hard_constraints p) = Some es" "x \<in> fst ` set evaluated"
      using that e(1) by (auto simp: accounted_def list_all_iff intro: rev_image_eqI)
    moreover have "set (ipo_matching_offers d) = fst ` set evaluated" using e(1) by (metis accounted_def set_map)
    ultimately show ?thesis using that by (auto simp: eligible_satisfied dest: evaluate_all_constraints)
  qed
  then have "list_all (\<lambda>x. map cel_constraint (rec_constraint_evaluations x) = sp_hard_constraints p
        \<and> list_all (\<lambda>e. cel_status e = ConstraintSatisfied) (rec_constraint_evaluations x)
        \<and> landed_cost.truncate x \<in> set (ipo_matching_offers d)) (ipo_recommendations d)"
    using e(3) unfolding list_all_iff by blast
  moreover have "length (ipo_unverified_candidates d) + length (ipo_exclusions d) + length (filter is_eligible evaluated) = length (ipo_matching_offers d)"
  proof -
    have "length (ipo_unverified_candidates d) = length (filter is_unverified evaluated)"
        "length (ipo_exclusions d) = length (filter is_excluded evaluated)"
      using e(1) by (simp_all add: accounted_def)
    moreover have "length (map fst evaluated) = length (ipo_matching_offers d)" using e(1) unfolding accounted_def by metis
    ultimately show ?thesis using one_outcome [of evaluated] by simp
  qed
  moreover have "length (ipo_recommendations d) \<le> 3" using e(2) pick_limit_bounds [of n] by linarith
  ultimately show ?thesis using e(1,2) ranks by blast
qed


section \<open>The ranking\<close>


section \<open>Memory and reranking do not decide who is eligible\<close>

text \<open>
  C28. Remembered preferences and reranking scores only order: two decisions about the same plan and offers
  agree, whatever is remembered and however the offers are scored, on what is compared, unverified,
  excluded and suggested for relaxation, and on how many offers are recommended.
\<close>

theorem memory_and_scores_only_order:
  assumes "decision_engine u p r offers n scores = Some d" "decision_engine u p r' offers n scores' = Some d'"
  shows "ipo_matching_offers d' = ipo_matching_offers d \<and> ipo_alternative_candidates d' = ipo_alternative_candidates d
    \<and> ipo_unverified_candidates d' = ipo_unverified_candidates d \<and> ipo_exclusions d' = ipo_exclusions d
    \<and> ipo_relaxation_suggestions d' = ipo_relaxation_suggestions d \<and> ipo_rejected_count d' = ipo_rejected_count d
    \<and> ipo_match_status d' = ipo_match_status d \<and> length (ipo_recommendations d') = length (ipo_recommendations d)"
proof -
  obtain resolution evaluated scored where "resolve_preferences u p r = Some resolution" and d:
      "evaluate_offers u (sp_hard_constraints p) (fst (compared_offers u p offers)) = Some evaluated"
      "score_all u p (pr_effective resolution) (map fst (filter is_eligible evaluated)) scores (filter is_eligible evaluated) = Some scored"
      "d = decision_of u p (pr_decisions resolution) (compared_offers u p offers) evaluated scored n"
    using assms(1) by (rule decided)
  obtain resolution' evaluated' scored' where "resolve_preferences u p r' = Some resolution'" and d':
      "evaluate_offers u (sp_hard_constraints p) (fst (compared_offers u p offers)) = Some evaluated'"
      "score_all u p (pr_effective resolution') (map fst (filter is_eligible evaluated')) scores' (filter is_eligible evaluated') = Some scored'"
      "d' = decision_of u p (pr_decisions resolution') (compared_offers u p offers) evaluated' scored' n"
    using assms(2) by (rule decided)
  have same: "evaluated' = evaluated" using d(1) d'(1) by simp
  have "length scored = length (filter is_eligible evaluated)" "length scored' = length (filter is_eligible evaluated)"
    using score_all_spec [OF d(2)] score_all_spec [OF d'(2)] same by (metis length_map)+
  then have "length (ipo_recommendations d') = length (ipo_recommendations d)"
    by (simp add: d(3) d'(3) decision_of_fields)
  then show ?thesis unfolding d(3) d'(3) same by (simp add: decision_of_fields flip: length_greater_0_conv)
qed

section \<open>Valid offers are decided\<close>

lemma fl_unit: "0 \<le> x \<Longrightarrow> x \<le> 1 \<Longrightarrow> 0 \<le> fl x \<and> fl x \<le> 1"
  by (simp add: double.rnd_nonneg double.rnd_le_fixed)

lemma share_unit: "m \<le> n \<Longrightarrow> 0 \<le> share m n \<and> share m n \<le> 1"
  using fl_unit [of "of_nat m / of_nat n"] py_round_unit [of "fl (of_nat m / of_nat n)" 4]
  by (simp add: share_def divide_le_eq)

lemma relative_unit:
  assumes "v \<in> set vs"
  shows "0 \<le> relative_lower_is_better v vs \<and> relative_lower_is_better v vs \<le> 1"
proof (cases "Max (set vs) = Min (set vs)")
  case False
  have "Min (set vs) \<le> v" "v \<le> Max (set vs)" using assms by simp_all
  moreover from this False have "0 < Max (set vs) - Min (set vs)" by linarith
  moreover from this have "0 < fl (Max (set vs) - Min (set vs))" by (metis double.rnd_nonneg fl_eq_zero order_le_less)
  ultimately have "0 \<le> fl (v - Min (set vs)) / fl (Max (set vs) - Min (set vs))"
      "fl (v - Min (set vs)) / fl (Max (set vs) - Min (set vs)) \<le> 1"
    by (simp_all add: double.rnd_nonneg double.rnd_mono divide_le_eq)
  then have "0 \<le> fl (1 - fl (fl (v - Min (set vs)) / fl (Max (set vs) - Min (set vs)))) \<and>
      fl (1 - fl (fl (v - Min (set vs)) / fl (Max (set vs) - Min (set vs)))) \<le> 1"
    using fl_unit by (intro fl_unit) (auto simp: fl_unit)
  with False show ?thesis by (simp add: relative_lower_is_better_def Let_def py_round_unit)
qed (simp add: relative_lower_is_better_def)

lemma preference_match_unit: "0 \<le> preference_match_score u x p r \<and> preference_match_score u x p r \<le> 1"
  by (simp add: preference_match_score_def Let_def share_unit)

lemma evidence_quality_unit: "0 \<le> evidence_quality_score x \<and> evidence_quality_score x \<le> 1"
  unfolding evidence_quality_score_def by (rule share_unit) (rule length_filter_le)

definition priced_offer :: "landed_cost \<Rightarrow> bool" where
  "priced_offer x \<longleftrightarrow> 0 \<le> lc_landed_cny x \<and> 0 \<le> lc_eta_days x"

lemma score_breakdown_valid: "score_breakdown u x profile r p eligible scores = Some b \<Longrightarrow> fields_ranking_score_breakdown b"
  by (auto simp: score_breakdown_def Let_def split: if_splits)

lemma score_breakdown_exists:
  assumes "each_dimension_once (rk_priority_order profile)" "priced_offer x" "x \<in> set eligible"
  shows "score_breakdown u x profile r p eligible scores \<noteq> None"
  using assms relative_unit [of "lc_landed_cny x" "map lc_landed_cny eligible"]
    relative_unit [of "fl (of_int (lc_eta_days x))" "map (\<lambda>y. fl (of_int (lc_eta_days y))) eligible"]
    preference_match_unit [of u x p r] evidence_quality_unit [of x]
  by (simp add: score_breakdown_def Let_def fields_ranking_score_breakdown_def each_dimension_once_def priced_offer_def semantic_score_def)

lemma score_all_exists:
  "each_dimension_once (rk_priority_order (sp_ranking_profile p)) \<Longrightarrow> \<forall>x \<in> fst ` set xs. priced_offer x \<and> x \<in> set eligible \<Longrightarrow>
     score_all u p r eligible scores xs \<noteq> None"
  by (induction xs) (auto simp: score_breakdown_exists split: option.splits)

definition moderate_scalar :: "scalar \<Rightarrow> bool" where
  "moderate_scalar v \<longleftrightarrow> (case v of ScInt i \<Rightarrow> \<bar>i\<bar> \<le> 2 ^ 1000 | _ \<Rightarrow> True)"

definition moderate_json :: "json \<Rightarrow> bool" where
  "moderate_json v \<longleftrightarrow> (case v of JInt i \<Rightarrow> \<bar>i\<bar> \<le> 2 ^ 1000 | _ \<Rightarrow> True)"

definition moderate_facts :: "landed_cost \<Rightarrow> bool" where
  "moderate_facts x \<longleftrightarrow> list_all (moderate_scalar \<circ> snd) (pp_variant_attributes x) \<and> list_all (moderate_json \<circ> snd) (pp_attributes x)"

lemma fl_pow2: "fl (2 ^ n) = 2 ^ n"
  using sig_round_exact [of 2 53 1 "int n"] by (simp add: fl_def)

lemma numeric_exists:
  assumes "moderate_scalar v"
  shows "numeric u v wanted \<noteq> None"
proof (cases v)
  case (ScInt i)
  have "fl (2 ^ 1000) = 2 ^ 1000" by (rule fl_pow2)
  moreover have "- (2 ^ 1000) \<le> (of_int i :: rat)" "(of_int i :: rat) \<le> 2 ^ 1000"
    using assms ScInt by (simp_all add: moderate_scalar_def abs_le_iff flip: of_int_power_le_of_int_cancel_iff of_int_minus)
  ultimately have "\<bar>fl (of_int i)\<bar> \<le> 2 ^ 1000"
    using double.rnd_le_fixed [of "2 ^ 1000" "of_int i"] double.rnd_ge_fixed [of "- (2 ^ 1000)" "of_int i"]
    by (simp add: double.rnd_minus)
  moreover have "(2 :: rat) ^ 1000 < 2 ^ 1024" by (rule power_strict_increasing) simp_all
  ultimately have "\<bar>fl (of_int i)\<bar> < 2 ^ 1024" by (rule le_less_trans)
  then show ?thesis by (simp add: ScInt finite_float_def)
qed simp_all

definition moderate_evidence :: "constraint_evidence list \<Rightarrow> bool" where
  "moderate_evidence es \<longleftrightarrow> list_all (moderate_scalar \<circ> cev_value) es"

lemma all_numeric_exists: "moderate_evidence es \<Longrightarrow> all_numeric u wanted es \<noteq> None"
  by (induction es) (auto simp: moderate_evidence_def numeric_exists split: option.splits)

lemma any_numeric_exists: "moderate_evidence es \<Longrightarrow> any_numeric u wanted es \<noteq> None"
  by (induction es) (auto simp: moderate_evidence_def numeric_exists split: option.splits)

lemma evidence_from_moderate:
  "list_all (moderate_scalar \<circ> snd) attributes \<Longrightarrow> moderate_evidence (evidence_from u aliases mapping attributes)"
  by (auto simp: moderate_evidence_def evidence_from_def list_all_iff)

lemma attribute_scalars_moderate:
  "list_all (moderate_json \<circ> snd) attributes \<Longrightarrow> list_all (moderate_scalar \<circ> snd) (attribute_scalars u attributes)"
proof -
  have "moderate_scalar (scalar_of_json u v)" if "moderate_json v" for v
    using that by (cases v) (auto simp: moderate_scalar_def moderate_json_def)
  then show "list_all (moderate_json \<circ> snd) attributes \<Longrightarrow> ?thesis"
    by (auto simp: list_all_iff attribute_scalars_def moderate_scalar_def [of ScNone])
qed

lemma facts_moderate: "moderate_facts x \<Longrightarrow> moderate_evidence (facts_for_constraint u x c)"
  by (auto simp: facts_for_constraint_def mapping_values_def moderate_facts_def evidence_from_moderate attribute_scalars_moderate
      moderate_evidence_def [of "_ @ _"] moderate_evidence_def [of "[_]"] moderate_scalar_def [of "ScFloat _"]
      simp flip: moderate_evidence_def)

lemma evaluate_constraint_exists:
  assumes "moderate_facts x" "moderate_scalar (hc_value c)"
  shows "evaluate_constraint u x c \<noteq> None"
proof -
  have "evaluate_numeric u c es \<noteq> None" if "moderate_evidence es" for es
    using all_numeric_exists [OF that, of u "hc_unit c"] numeric_exists [OF assms(2), of u "hc_unit c"]
    by (auto simp: evaluate_numeric_def Let_def)
  then show ?thesis
    using facts_moderate [OF assms(1), of u c] any_numeric_exists [OF facts_moderate [OF assms(1), of u c], of u "hc_unit c"]
    by (auto simp: evaluate_constraint_def Let_def split: option.splits bool.splits)
qed

lemma evaluate_all_exists:
  "moderate_facts x \<Longrightarrow> \<forall>c \<in> set cs. moderate_scalar (hc_value c) \<Longrightarrow> evaluate_all u x cs \<noteq> None"
  by (induction cs) (auto simp: evaluate_constraint_exists split: option.splits)

lemma evaluate_offers_exists:
  "\<forall>x \<in> set xs. moderate_facts x \<Longrightarrow> \<forall>c \<in> set cs. moderate_scalar (hc_value c) \<Longrightarrow> evaluate_offers u cs xs \<noteq> None"
  by (induction xs) (auto simp: evaluate_all_exists split: option.splits)

lemma matching_offers_given:
  assumes "x \<in> set (fst (compared_offers u p offers))"
  shows "\<exists>e. \<exists>y \<in> set offers. x = with_evidence e y"
proof (cases "sp_mode p = ModeExactOfferComparison")
  case True
  then have "x \<in> set (eo_matching_offers (classify_exact_offers u offers))"
    using assms by (simp add: compared_offers_def Let_def)
  then show ?thesis by (force simp: classify_exact_offers_def Let_def split: if_splits)
next
  case False
  then show ?thesis using assms by (auto simp: compared_offers_def)
qed

lemma decision_exists:
  assumes "each_dimension_once (rk_priority_order (sp_ranking_profile p))"
    and "\<forall>x \<in> set offers. priced_offer x \<and> moderate_facts x" "\<forall>c \<in> set (sp_hard_constraints p). moderate_scalar (hc_value c)"
    and "\<forall>f. [] \<notin> set (current_preferences p f) \<and> [] \<notin> set (pref r f)"
  shows "\<exists>d. decision_engine u p r offers n scores = Some d
    \<and> list_all (\<lambda>x. fields_ranking_score_breakdown (rec_score_breakdown x)) (ipo_recommendations d)"
proof -
  have "resolve_preferences u p r \<noteq> None"
    using assms(4) by (auto simp: resolve_preferences_def Let_def)
  then obtain resolution where res: "resolve_preferences u p r = Some resolution" by blast
  have facts: "moderate_facts (with_evidence e y) = moderate_facts y" "priced_offer (with_evidence e y) = priced_offer y" for e y
    by (simp_all add: moderate_facts_def priced_offer_def with_evidence_def)
  have given: "priced_offer x \<and> moderate_facts x" if "x \<in> set (fst (compared_offers u p offers))" for x
    using matching_offers_given [OF that] assms(2) facts by auto
  then obtain evaluated where ev: "evaluate_offers u (sp_hard_constraints p) (fst (compared_offers u p offers)) = Some evaluated"
    using evaluate_offers_exists [OF _ assms(3), of "fst (compared_offers u p offers)" u] by blast
  have "set (fst (compared_offers u p offers)) = fst ` set evaluated" using evaluate_offers_spec [OF ev] by (metis set_map)
  then have "priced_offer x" if "x \<in> fst ` set (filter is_eligible evaluated)" for x
    using that given by auto
  then obtain scored where sc: "score_all u p (pr_effective resolution) (map fst (filter is_eligible evaluated)) scores (filter is_eligible evaluated) = Some scored"
    using score_all_exists [OF assms(1), of "filter is_eligible evaluated" "map fst (filter is_eligible evaluated)" u "pr_effective resolution" scores]
    by (auto simp del: set_filter)
  define d where "d = decision_of u p (pr_decisions resolution) (compared_offers u p offers) evaluated scored n"
  have d: "decision_engine u p r offers n scores = Some d" by (simp add: decision_engine_def res ev sc d_def Let_def)
  have "fields_ranking_score_breakdown (rec_score_breakdown x)" if "x \<in> set (ipo_recommendations d)" for x
    using that unfolding d_def decision_of_fields by (rule score_breakdown_valid [OF conjunct2 [OF picks_are_eligible [OF sc]]])
  then show ?thesis using d by (auto simp: list_all_iff)
qed

section \<open>Where the engine differs from what it states\<close>

text \<open>
  The score of the reranking service comes before the priorities of the shopper: of two recommendations,
  the one whose item scored higher is ranked higher, whatever the profile puts first and whatever
  the offers cost.
\<close>

lemma semantic_score_beats_price:
  assumes "decision_engine u p r offers n scores = Some d" "a \<in> set (ipo_recommendations d)" "b \<in> set (ipo_recommendations d)"
    and "semantic_score scores (pp_item_id b) < semantic_score scores (pp_item_id a)"
  shows "rec_rank a < rec_rank b"
proof -
  obtain resolution evaluated scored where "resolve_preferences u p r = Some resolution" and d:
      "evaluate_offers u (sp_hard_constraints p) (fst (compared_offers u p offers)) = Some evaluated"
      "score_all u p (pr_effective resolution) (map fst (filter is_eligible evaluated)) scores (filter is_eligible evaluated) = Some scored"
      "d = decision_of u p (pr_decisions resolution) (compared_offers u p offers) evaluated scored n"
    using assms(1) by (rule decided)
  define ss where "ss = take (pick_limit n) (sort_key (rank_key (sp_ranking_profile p)) scored)"
  have recs: "ipo_recommendations d = map (recommendation_of p) (enumerate 1 ss)"
    unfolding d(3) decision_of_fields ss_def by (rule refl)
  obtain i j where i: "i < length ss" "a = recommendation_of p (1 + i, ss ! i)" and j: "j < length ss" "b = recommendation_of p (1 + j, ss ! j)"
    using assms(2,3) unfolding recs by (auto simp: in_set_conv_nth nth_enumerate_eq)
  have semantic: "sb_semantic_relevance_score (snd (snd (ss ! k))) = semantic_score scores (pp_item_id (recommendation_of p (1 + k, ss ! k)))"
    if "k < length ss" for k
  proof -
    have "ss ! k \<in> set ss" using that by (rule nth_mem)
    then have "ss ! k \<in> set (sort_key (rank_key (sp_ranking_profile p)) scored)" unfolding ss_def by (rule in_set_takeD)
    then have "ss ! k \<in> set scored" by simp
    then have "score_breakdown u (fst (ss ! k)) (sp_ranking_profile p) (pr_effective resolution) p (map fst (filter is_eligible evaluated)) scores
        = Some (snd (snd (ss ! k)))"
      using conjunct2 [OF score_all_spec [OF d(2)]] by (cases "ss ! k") (auto simp: list_all_iff)
    then show ?thesis
      by (cases "ss ! k") (auto simp: score_breakdown_def Let_def recommendation_of_def landed_cost.defs recommendation.defs split: if_splits)
  qed
  have "sorted (map (rank_key (sp_ranking_profile p)) ss)" by (simp add: ss_def sorted_take_map)
  then have "rank_key (sp_ranking_profile p) (ss ! j) \<le> rank_key (sp_ranking_profile p) (ss ! i)" if "j \<le> i"
    using that i(1) by (auto simp: sorted_iff_nth_mono)
  then have "semantic_score scores (pp_item_id a) \<le> semantic_score scores (pp_item_id b)" if "j \<le> i"
    using that semantic [OF i(1)] semantic [OF j(1)] i(2) j(2)
    by (auto simp: rank_key_def less_eq_prod_def split: prod.splits)
  then have "i < j" using assms(4) by force
  then show ?thesis by (simp add: i(2) j(2))
qed

definition measured :: "string \<Rightarrow> constraint_operator \<Rightarrow> rat \<Rightarrow> string \<Rightarrow> hard_constraint" where
  "measured field op value unit =
     \<lparr>hc_id = lit field, hc_kind = OnSpecification, hc_field = lit field, hc_operator = op, hc_value = ScFloat value,
      hc_unit = Some (lit unit), hc_label = lit field\<rparr>"

definition with_attribute :: "string \<Rightarrow> string \<Rightarrow> landed_cost" where
  "with_attribute k v = an_earphone (lit ''a'') [(lit k, ScStr (lit v))] 300"

definition verdict :: "landed_cost \<Rightarrow> hard_constraint \<Rightarrow> constraint_status option" where
  "verdict x c = map_option cel_status (evaluate_constraint plain_text x c)"

lemma verdict_measured:
  assumes "numeric plain_text (ScStr (lit v)) (Some (lit unit)) = Some (Some a)" "op \<in> {OpLte, OpGte}"
    and "normal_text plain_text (lit k) \<in> set (aliases_of plain_text (lit field))" "field \<noteq> ''budget_cny''"
  shows "verdict (with_attribute k v) (measured field op value unit)
     = Some (if numeric_holds op value [a] = Some True then ConstraintSatisfied else ConstraintViolated)"
proof -
  let ?e = "\<lparr>cev_field_path = lit ''variant_attributes'' @ [46] @ lit k, cev_value = ScStr (lit v), cev_source = FromProductEvidence\<rparr>"
  have facts: "facts_for_constraint plain_text (with_attribute k v) (measured field op value unit) = [?e]"
    using assms(3,4) by (simp add: facts_for_constraint_def mapping_values_def evidence_from_def attribute_scalars_def
        with_attribute_def measured_def an_earphone_def price_point.defs)
  have "numeric plain_text (hc_value (measured field op value unit)) (hc_unit (measured field op value unit)) = Some (Some value)"
      "hc_operator (measured field op value unit) = op" "hc_unit (measured field op value unit) = Some (lit unit)"
    by (simp_all add: measured_def)
  with assms(1,2) facts show ?thesis
    by (auto simp: verdict_def evaluate_constraint_def Let_def evaluate_numeric_def split: option.splits bool.splits)
qed

lemma aliases_read:
  "normal_text plain_text (lit ''weight'') \<in> set (aliases_of plain_text (lit ''weight_kg''))"
  "normal_text plain_text (lit ''storage'') \<in> set (aliases_of plain_text (lit ''storage_gb''))"
  "normal_text plain_text (lit ''display'') \<in> set (aliases_of plain_text (lit ''display_inch''))"
  by code_simp+

lemma matches_read:
  "match_from_start (numeric_value plain_text) (lit ''1,299g'') = Some (lit '',299g'', [(1, lit ''1'')])"
  "match_from_start (numeric_value plain_text) (lit ''1299g'') = Some ([], [(2, lit ''g''), (1, lit ''1299'')])"
  "match_from_start (numeric_value plain_text) (lit ''2TB'') = Some ([], [(2, lit ''TB''), (1, lit ''2'')])"
  "match_from_start (numeric_value plain_text) (lit ''35.6cm'') = Some ([], [(2, lit ''cm''), (1, lit ''35.6'')])"
  by code_simp+

lemma decimals_read:
  "decimal_of_text plain_text (lit ''1'') = 1" "decimal_of_text plain_text (lit ''1299'') = 1299"
  "decimal_of_text plain_text (lit ''2'') = 2" "decimal_of_text plain_text (lit ''35.6'') = 178 / 5"
  "py_lower (lit ''g'') = lit ''g''" "py_lower (lit ''TB'') = lit ''tb''"
  by code_simp+

lemma floats_read: "fl 1 = 1" "fl 1299 = 1299" "fl 2 = 2" "fl (178 / 5) = 5010254585449677 / 140737488355328"
    "fl (1299 / 1000) = 2925087957977137 / 2251799813685248" "fl 2048 = 2048"
  by (simp_all add: float_eval)

lemma numbers_read:
  "numeric plain_text (ScStr (lit ''1,299g'')) (Some (lit ''kg'')) = Some (Some 1)"
  "numeric plain_text (ScStr (lit ''1299g'')) (Some (lit ''kg'')) = Some (Some (2925087957977137 / 2251799813685248))"
  "numeric plain_text (ScStr (lit ''2TB'')) (Some (lit ''GB'')) = Some (Some 2)"
  "numeric plain_text (ScStr (lit ''2TB'')) (Some (lit ''gb'')) = Some (Some 2048)"
  "numeric plain_text (ScStr (lit ''35.6cm'')) (Some (lit ''inch'')) = Some (Some (5010254585449677 / 140737488355328))"
  by (simp_all add: numeric_text_def matches_read float_of_text_def decimals_read finite_float_def floats_read in_unit_def)

text \<open>
  Measures are misread: 1299 grams written with a comma satisfy a limit of one kilogram; two terabytes
  violate a minimum of 512 in the unit GB, as plans write it (and satisfy it in the unit gb); and 35.6
  centimetres violate a limit of 16 inches, although the pattern names the unit.
\<close>

lemma measures_misread:
  "verdict (with_attribute ''weight'' ''1,299g'') (measured ''weight_kg'' OpLte 1 ''kg'') = Some ConstraintSatisfied
   \<and> verdict (with_attribute ''weight'' ''1299g'') (measured ''weight_kg'' OpLte 1 ''kg'') = Some ConstraintViolated
   \<and> verdict (with_attribute ''storage'' ''2TB'') (measured ''storage_gb'' OpGte 512 ''GB'') = Some ConstraintViolated
   \<and> verdict (with_attribute ''storage'' ''2TB'') (measured ''storage_gb'' OpGte 512 ''gb'') = Some ConstraintSatisfied
   \<and> verdict (with_attribute ''display'' ''35.6cm'') (measured ''display_inch'' OpLte 16 ''inch'') = Some ConstraintViolated"
  by (simp add: verdict_measured [OF numbers_read(1)] verdict_measured [OF numbers_read(2)] verdict_measured [OF numbers_read(3)]
      verdict_measured [OF numbers_read(4)] verdict_measured [OF numbers_read(5)] aliases_read)

section \<open>Witnesses\<close>

definition cheapest_first :: shopping_plan where
  "cheapest_first = cotton_plan\<lparr>sp_material_preferences := [], sp_ranking_profile := \<lparr>rk_priority_order = ALL_DIMENSIONS, rk_explicit = True\<rparr>\<rparr>"

definition two_earphones :: "landed_cost list" where "two_earphones = [black_one, red_one]"

definition two_scores :: "(pystr \<times> rat) list" where "two_scores = [(lit ''b'', 9 / 10), (lit ''c'', 4 / 5)]"

definition two_recommended :: "item_picker_output option" where
  "two_recommended = decision_engine plain_text cheapest_first no_preferences two_earphones 3 two_scores"

lemma two_decided:
  "map_option (\<lambda>d. map (\<lambda>x. (pp_item_id x, rec_rank x, lc_landed_cny x)) (ipo_recommendations d)) two_recommended
     = Some [(lit ''b'', 1, 200), (lit ''c'', 2, 100)]"
  by code_simp

lemma two_given:
  obtains d a b where "decision_engine plain_text cheapest_first no_preferences two_earphones 3 two_scores = Some d"
    "ipo_recommendations d = [a, b]" "pp_item_id a = lit ''b''" "pp_item_id b = lit ''c''" "lc_landed_cny a = 200" "lc_landed_cny b = 100"
  using two_decided by (auto simp: two_recommended_def map_eq_Cons_conv)

lemma semantic_score_beats_price_witness:
  "\<exists>d a b. decision_engine plain_text cheapest_first no_preferences two_earphones 3 two_scores = Some d
     \<and> rk_priority_order (sp_ranking_profile cheapest_first) = ALL_DIMENSIONS \<and> a \<in> set (ipo_recommendations d) \<and> b \<in> set (ipo_recommendations d)
     \<and> lc_landed_cny b < lc_landed_cny a \<and> rec_rank a < rec_rank b"
proof -
  obtain d a b where d: "decision_engine plain_text cheapest_first no_preferences two_earphones 3 two_scores = Some d"
    "ipo_recommendations d = [a, b]" "pp_item_id a = lit ''b''" "pp_item_id b = lit ''c''" "lc_landed_cny a = 200" "lc_landed_cny b = 100"
    by (rule two_given)
  have "semantic_score two_scores (pp_item_id b) < semantic_score two_scores (pp_item_id a)"
    unfolding d(3,4) by code_simp
  then have "rec_rank a < rec_rank b" using semantic_score_beats_price [OF d(1), of a b] by (simp add: d(2))
  moreover have "rk_priority_order (sp_ranking_profile cheapest_first) = ALL_DIMENSIONS" by (simp add: cheapest_first_def)
  moreover have "lc_landed_cny b < lc_landed_cny a" by (simp add: d(5,6))
  moreover have "a \<in> set (ipo_recommendations d)" "b \<in> set (ipo_recommendations d)" by (simp_all add: d(2))
  ultimately show ?thesis using d(1) by blast
qed


theorem decision_accounts_for_offers_witness:
  "\<exists>d. decision_engine plain_text cheapest_first no_preferences two_earphones 3 two_scores = Some d
     \<and> map rec_rank (ipo_recommendations d) = [1, 2] \<and> length (ipo_recommendations d) \<le> length (ipo_matching_offers d)"
proof -
  obtain d a b where d: "decision_engine plain_text cheapest_first no_preferences two_earphones 3 two_scores = Some d"
    "ipo_recommendations d = [a, b]" by (rule two_given)
  from decision_accounts_for_offers [OF d(1)] have "map rec_rank (ipo_recommendations d) = map int [1..<1 + length (ipo_recommendations d)]"
      "length (ipo_recommendations d) \<le> length (ipo_matching_offers d)" by auto
  then show ?thesis using d(1) by (intro exI [of _ d]) (simp add: d(2) upt_rec)
qed

definition budget_150 :: hard_constraint where
  "budget_150 = \<lparr>hc_id = lit ''budget'', hc_kind = OnBudget, hc_field = lit ''budget_cny'', hc_operator = OpLte, hc_value = ScFloat 150,
     hc_unit = Some (lit ''CNY''), hc_label = lit ''budget''\<rparr>"

definition on_a_budget :: shopping_plan where
  "on_a_budget = cheapest_first\<lparr>sp_hard_constraints := [budget_150]\<rparr>"

lemma budget_plan:
  "sp_hard_constraints on_a_budget = [budget_150]" "rk_priority_order (sp_ranking_profile on_a_budget) = ALL_DIMENSIONS"
  "current_preferences on_a_budget f = []"
  by (cases f; simp add: on_a_budget_def cheapest_first_def cotton_plan_def material_values_def budget_150_def)+

lemma earphones_valid: "x \<in> set two_earphones \<Longrightarrow> priced_offer x \<and> moderate_facts x"
  by (auto simp: two_earphones_def red_one_def black_one_def an_earphone_def price_point.defs landed_cost.defs
      priced_offer_def moderate_facts_def moderate_scalar_def)

lemma budget_decided: "\<exists>d. decision_engine plain_text on_a_budget no_preferences two_earphones 3 [] = Some d"
proof -
  have "\<forall>f. [] \<notin> set (current_preferences on_a_budget f) \<and> [] \<notin> set (pref no_preferences f)"
  proof
    fix f show "[] \<notin> set (current_preferences on_a_budget f) \<and> [] \<notin> set (pref no_preferences f)"
      by (cases f) (simp_all add: budget_plan no_preferences_def del: current_preferences.simps)
  qed
  then show ?thesis
    using decision_exists [of on_a_budget two_earphones no_preferences plain_text 3 "[]"] earphones_valid
    by (auto simp: budget_plan each_dimension_once_def ALL_DIMENSIONS_def budget_150_def moderate_scalar_def)
qed


theorem memory_and_scores_only_order_witness:
  "\<exists>d d'. decision_engine plain_text cheapest_first no_preferences two_earphones 3 two_scores = Some d
     \<and> decision_engine plain_text cheapest_first leather_memory two_earphones 3 [] = Some d'
     \<and> length (ipo_recommendations d') = 2 \<and> ipo_exclusions d' = ipo_exclusions d"
proof -
  obtain d a b where d: "decision_engine plain_text cheapest_first no_preferences two_earphones 3 two_scores = Some d"
    "ipo_recommendations d = [a, b]" by (rule two_given)
  have "\<forall>f. [] \<notin> set (current_preferences cheapest_first f) \<and> [] \<notin> set (pref leather_memory f)"
  proof
    fix f show "[] \<notin> set (current_preferences cheapest_first f) \<and> [] \<notin> set (pref leather_memory f)"
      by (cases f) (simp_all add: cheapest_first_def cotton_plan_def material_values_def leather_memory_def)
  qed
  then obtain d' where d': "decision_engine plain_text cheapest_first leather_memory two_earphones 3 [] = Some d'"
    using decision_exists [of cheapest_first two_earphones leather_memory plain_text 3 "[]"] earphones_valid
    by (auto simp: cheapest_first_def cotton_plan_def each_dimension_once_def ALL_DIMENSIONS_def)
  show ?thesis using memory_and_scores_only_order [OF d(1) d'] d d' by auto
qed

end
