(* ===== verification/Planner.thy ===== *)
theory Planner
  imports Decision Clarification
begin

text \<open>
  From a request in free words to a plan: \<open>app/tools/query_parser.py\<close> (the budget and the subject) and
  \<open>app/tools/planner.py\<close> (hard constraints, preferences, ranking, assumptions). The patterns are written
  out in the type \<open>re\<close>; a lazy repetition is the ordered choice of its lengths, from the shortest.
\<close>

section \<open>Text tools\<close>

text \<open>The groups of every match of \<open>finditer\<close>, for a pattern that does not match the empty string.\<close>

fun groups_from :: "re \<Rightarrow> int option \<Rightarrow> nat \<Rightarrow> pystr \<Rightarrow> (nat \<times> pystr) list list" where
  "groups_from r p k [] = []"
| "groups_from r p (Suc k) (c # s) = groups_from r (Some c) k s"
| "groups_from r p 0 (c # s) =
     (case match_at r p (c # s) of
        Some (p', rest, caps) \<Rightarrow>
          if length rest < Suc (length s) then caps # groups_from r (Some c) (length s - length rest) s
          else groups_from r (Some c) 0 s
      | None \<Rightarrow> groups_from r (Some c) 0 s)"

definition find_groups :: "re \<Rightarrow> pystr \<Rightarrow> (nat \<times> pystr) list list" where
  "find_groups r s = groups_from r None 0 s"

definition grp :: "nat \<Rightarrow> (nat \<times> pystr) list \<Rightarrow> pystr" where
  "grp n caps = (case map_of caps n of Some t \<Rightarrow> t | None \<Rightarrow> [])"

definition lazy :: "(int \<Rightarrow> bool) \<Rightarrow> nat \<Rightarrow> nat \<Rightarrow> re" where
  "lazy P lo hi = alts (map (\<lambda>k. Many P k (Some k)) [lo..<Suc hi])"

definition optional :: "pystr list \<Rightarrow> re" where
  "optional ws = Opt (words ws)"

definition blanks :: re where "blanks = Many py_space 0 None"

definition decimal_digit :: "unicode_text \<Rightarrow> int \<Rightarrow> bool" where
  "decimal_digit u c \<longleftrightarrow> digit_value u c \<noteq> None"

definition unsigned_number :: "unicode_text \<Rightarrow> re" where
  \<comment> \<open>\<open>\d+(?:\.\d+)?\<close>\<close>
  "unsigned_number u = Cat (Many (decimal_digit u) 1 None) (Opt (Cat (str [46]) (Many (decimal_digit u) 1 None)))"

section \<open>Budget and subject\<close>

definition KNOWN_CATEGORY_TERMS :: "(pystr \<times> pystr list) list" where
  "KNOWN_CATEGORY_TERMS =
     [([32819, 26426], [[32819, 26426], [32819, 22622]]), ([21654, 21857, 26426], [[21654, 21857, 26426]]), ([32972, 21253], [[32972, 21253], [21452, 32937, 21253], [36890, 21220, 21253]]), ([38190, 30424], [[38190, 30424], [26426, 26800, 38190, 30424]]),
      ([36816, 21160, 38795], [[36816, 21160, 38795], [36305, 38795], [29699, 38795]]), ([25163, 26426], [[25163, 26426], [26234, 33021, 25163, 26426]])]"

definition clause_mark :: "int \<Rightarrow> bool" where
  "clause_mark c \<longleftrightarrow> c \<in> set [65292, 12290, 65307, 44, 59, 65281, 65311, 33, 63] \<or> c = 10"

definition MEASURE_WORD :: re where
  "MEASURE_WORD = Cat (optional [[19968]]) (words [[20010], [27454], [21488], [37096], [21452], [22871], [21482], [20214], [20123], [26681], [25226], [30418], [29942], [22359], [23545]])"

definition EXPLICIT_REQUEST :: re where
  "EXPLICIT_REQUEST =
     alts [seq [optional [[35831]], str [24110, 25105], optional [[25214], [20080], [36873], [25361], [25512, 33616], [23545, 27604], [27604, 36739], [27604, 20215], [30475, 30475]]],
           seq [str [25105], words [[24819], [38656, 35201], [35201], [20080], [25214], [36873], [25361]], optional [[35201], [20080], [25214], [36873], [25361]]],
           seq [str [24819], optional [[35201], [20080], [25214], [36873], [25361]]],
           seq [optional [[35831]], words [[25512, 33616], [25214], [20080], [36873], [25361], [23545, 27604], [27604, 36739], [27604, 20215], [30475, 30475]]],
           str [26377, 27809, 26377], str [38656, 35201]]"

definition EXPLICIT_REQUEST_PREFIX :: re where
  "EXPLICIT_REQUEST_PREFIX = Cat AtStart EXPLICIT_REQUEST"

definition REQUEST_PREFIX :: re where
  "REQUEST_PREFIX = seq [EXPLICIT_REQUEST_PREFIX, blanks, optional [[19968, 19979]], blanks, Opt MEASURE_WORD, blanks]"

definition RECIPIENT_PURCHASE_PREFIX :: re where
  "RECIPIENT_PURCHASE_PREFIX =
     seq [AtStart, str [32473], lazy (\<lambda>c. c \<notin> set [65292, 12290, 65307, 44, 59]) 1 16, words [[20080], [36873], [25214]], blanks, Opt MEASURE_WORD, blanks]"

definition NEGATED_CLAUSE :: re where
  "NEGATED_CLAUSE = Cat AtStart (words [[19981, 35201], [19981, 20080], [19981, 36873], [36991, 20813], [25490, 38500], [19981, 32771, 34385]])"

definition QUANTIFIER_PREFIX :: re where
  "QUANTIFIER_PREFIX = seq [AtStart, MEASURE_WORD, blanks]"

definition COMPARISON_REQUEST :: re where
  "COMPARISON_REQUEST =
     seq [AtStart, Opt (alts [Cat (optional [[35831]]) (str [24110, 25105]), Cat (str [25105, 24819]) (optional [[35201]]), Cat (str [24819]) (optional [[35201]]),
            str [25105, 38656, 35201], str [35831]]), blanks, words [[23545, 27604], [27604, 36739], [27604, 20215]]]"

definition PRICE_PHRASE :: "unicode_text \<Rightarrow> re" where
  "PRICE_PHRASE u =
     seq [Opt (Cat (str [39044, 31639]) blanks), Opt (alts [str [20154, 27665, 24065], istr ''rmb'', istr ''cny'', Cls (\<lambda>c. c \<in> set [165, 65509])]), blanks,
          unsigned_number u, blanks, words [[20803], [22359]],
          Opt (Cat blanks (words [[24038, 21491], [19978, 19979], [20197, 20869], [20197, 19979], [20043, 20869], [19981, 36229, 36807]])), blanks, optional [[30340]]]"

definition TRAILING_CONSTRAINT :: re where
  \<comment> \<open>behind its look-behind\<close>
  "TRAILING_CONSTRAINT =
     alts [str [36866, 21512], str [29992, 20110], str [38656, 35201], str [35201, 27714], Cat (str [37325, 28857]) (words [[30475], [20851, 27880]]), str [19981, 35201], str [19981, 21547], str [24517, 39035], str [24076, 26395], str [26368, 22909]]"

definition BUDGET_ONLY :: re where
  "BUDGET_ONLY = seq [AtStart, words [[39044, 31639], [20215, 26684], [20215, 20301], [25511, 21046, 22312], [19981, 36229, 36807], [20302, 20110], [23569, 20110], [20197, 20869], [20197, 19979]], blanks, AtEnd]"

definition MAX_SUBJECT_LENGTH :: nat where "MAX_SUBJECT_LENGTH = 32"

definition BUDGET_PATTERN :: "unicode_text \<Rightarrow> re" where
  "BUDGET_PATTERN u =
     seq [words [[39044, 31639], [19981, 36229, 36807], [25511, 21046, 22312], [20302, 20110], [23569, 20110]], Many (\<lambda>c. \<not> decimal_digit u c) 0 (Some 6), Grp 1 (unsigned_number u)]"

definition YUAN_PATTERN :: "unicode_text \<Rightarrow> re" where
  "YUAN_PATTERN u = seq [Grp 1 (unsigned_number u), blanks, str [20803]]"

definition extract_budget_cny :: "unicode_text \<Rightarrow> pystr \<Rightarrow> rat option option" where
  \<comment> \<open>outer \<open>None\<close>: no budget; inner \<open>None\<close>: an infinite one\<close>
  "extract_budget_cny u query =
     (case find_groups (BUDGET_PATTERN u) query @ find_groups (YUAN_PATTERN u) query of
        [] \<Rightarrow> None | caps # _ \<Rightarrow> Some (float_of_text u (grp 1 caps)))"

definition starts_match :: "re \<Rightarrow> pystr \<Rightarrow> bool" where
  "starts_match r s \<longleftrightarrow> match_at r None s \<noteq> None"

fun trailing_start :: "int option \<Rightarrow> nat \<Rightarrow> pystr \<Rightarrow> nat option" where
  \<comment> \<open>where a trailing constraint starts, behind a character of its line\<close>
  "trailing_start p i [] = None"
| "trailing_start p i (c # s) =
     (if p \<noteq> None \<and> p \<noteq> Some 10 \<and> match_at TRAILING_CONSTRAINT p (c # s) \<noteq> None then Some i else trailing_start (Some c) (Suc i) s)"

definition subject_edge :: "int \<Rightarrow> bool" where
  "subject_edge c \<longleftrightarrow> c \<in> set [32, 65306, 58, 12289, 65292, 44, 12290, 65307, 59, 65281, 65311, 33, 63]"

definition before_constraint :: "pystr \<Rightarrow> pystr" where
  "before_constraint value = (case trailing_start None 0 value of Some i \<Rightarrow> py_strip (take i value) | None \<Rightarrow> value)"

definition head_noun :: "bool \<Rightarrow> pystr \<Rightarrow> pystr" where
  "head_noun comparison value =
     (let parts = filter (\<lambda>t. t \<noteq> []) (map py_strip (split_on 30340 value));
          candidate = (if comparison then parts ! (length parts - 2) else last parts)
      in if 30340 \<in> set value \<and> 2 \<le> length parts \<and> 1 \<le> length candidate \<and> length candidate \<le> MAX_SUBJECT_LENGTH
         then candidate else value)"

definition without_request :: "unicode_text \<Rightarrow> pystr \<Rightarrow> pystr" where
  "without_request u clause =
     (let value = sub RECIPIENT_PURCHASE_PREFIX [] clause;
          value = sub QUANTIFIER_PREFIX [] (sub REQUEST_PREFIX [] value);
          value = sub QUANTIFIER_PREFIX [] (sub REQUEST_PREFIX [] (sub (PRICE_PHRASE u) [] value))
      in strip_by (\<lambda>c. subject_edge c \<or> c = 30340) value)"

definition clean_subject_clause :: "unicode_text \<Rightarrow> pystr \<Rightarrow> pystr" where
  "clean_subject_clause u clause =
     (let value = without_request u (py_strip clause)
      in if value = [] \<or> fullmatch BUDGET_ONLY value then []
         else take MAX_SUBJECT_LENGTH
           (strip_by subject_edge (head_noun (starts_match COMPARISON_REQUEST (py_strip clause)) (before_constraint value))))"

definition is_request :: "pystr \<Rightarrow> bool" where
  "is_request clause \<longleftrightarrow> starts_match EXPLICIT_REQUEST_PREFIX clause \<or> starts_match RECIPIENT_PURCHASE_PREFIX clause"

fun first_subject :: "unicode_text \<Rightarrow> pystr list \<Rightarrow> pystr option" where
  "first_subject u [] = None"
| "first_subject u (c # cs) =
     (if starts_match NEGATED_CLAUSE c \<or> clean_subject_clause u c = [] then first_subject u cs else Some (clean_subject_clause u c))"

definition known_category :: "pystr \<Rightarrow> pystr" where
  "known_category subject =
     (case find (\<lambda>(category, terms). \<exists>t \<in> set terms. subject = t \<or> has_suffix t subject) KNOWN_CATEGORY_TERMS of
        Some (category, terms) \<Rightarrow> category | None \<Rightarrow> subject)"

definition extract_product_subject :: "unicode_text \<Rightarrow> pystr \<Rightarrow> pystr" where
  "extract_product_subject u query =
     (let normalized = py_strip (sub (Many py_space 1 None) [32] query);
          clauses = filter (\<lambda>c. c \<noteq> []) (map py_strip (re_split (Many clause_mark 1 None) normalized));
          explicit = filter is_request clauses;
          remaining = filter (\<lambda>c. c \<notin> set explicit) clauses
      in case first_subject u (explicit @ remaining) of
           Some subject \<Rightarrow> known_category subject
         | None \<Rightarrow> (let t = take MAX_SUBJECT_LENGTH normalized in if t = [] then [21830, 21697] else t))"

section \<open>Constraints\<close>

definition value_char :: "int \<Rightarrow> bool" where
  "value_char c \<longleftrightarrow> c \<notin> set [65292, 12290, 65307, 44, 59, 65281, 65311, 33, 63]"

definition NEGATED_VALUE :: re where
  "NEGATED_VALUE = seq [words [[19981, 35201], [19981, 21547], [36991, 20813], [25490, 38500], [19981, 32771, 34385]], blanks, Grp 1 (Many value_char 1 (Some 16))]"

definition MATERIAL_WORD :: re where "MATERIAL_WORD = words [[26448, 36136], [26448, 26009]]"

definition MATERIAL_NAMED :: re where
  "MATERIAL_NAMED =
     seq [MATERIAL_WORD, blanks, words [[20026], [26159], [38656, 35201], [35201], [37319, 29992], [20351, 29992]], blanks, Grp 1 (Many value_char 1 (Some 16))]"

definition MATERIAL_WANTED :: re where
  "MATERIAL_WANTED =
     seq [words [[38656, 35201], [35201], [37319, 29992], [20351, 29992]], blanks, Grp 1 (Many value_char 1 (Some 16)), blanks, MATERIAL_WORD]"

definition MATERIAL_REQUIREMENTS :: "re list" where
  "MATERIAL_REQUIREMENTS = [MATERIAL_NAMED, MATERIAL_WANTED]"

definition OPERATORS :: "(pystr \<times> constraint_operator) list" where
  "OPERATORS =
     [([19981, 36229, 36807], OpLte), ([19981, 22823, 20110], OpLte), ([23567, 20110, 31561, 20110], OpLte), ([33267, 22810], OpLte), ([23569, 20110], OpLte), ([20302, 20110], OpLte),
      ([33267, 23569], OpGte), ([19981, 20302, 20110], OpGte), ([22823, 20110, 31561, 20110], OpGte), ([39640, 20110], OpGte), ([22823, 20110], OpGte),
      ([31561, 20110], OpEquals), ([20026], OpEquals), ([26159], OpEquals), ([60, 61], OpLte), ([62, 61], OpGte), ([60], OpLte), ([62], OpGte)]"

definition MEASURE_FIELDS :: "(pystr \<times> pystr) list" where
  "MEASURE_FIELDS =
     [([37325, 37327], lit ''weight_kg''), ([20928, 37325], lit ''weight_kg''), ([23384, 20648], lit ''storage_gb''), ([20869, 23384], lit ''storage_gb''),
      ([23481, 37327], lit ''capacity''), ([23631, 24149], lit ''display_inch''), ([26174, 31034, 23631], lit ''display_inch''),
      ([32493, 33322], lit ''battery_hours''), ([30005, 27744, 32493, 33322], lit ''battery_hours'')]"

definition UNIT :: re where
  "UNIT = alts [istr ''kg'', str [20844, 26020], str [20811], istr ''g'', istr ''tb'', istr ''t'', istr ''gb'', istr ''g'', istr ''l'', str [27627, 21319], istr ''ml'',
      str [21400, 31859], istr ''cm'', str [33521, 23544], str [23544], str [23567, 26102], istr ''h'']"

definition MEASURE :: "unicode_text \<Rightarrow> re" where
  "MEASURE u =
     seq [Grp 1 (words (map fst MEASURE_FIELDS)), blanks, Opt (Grp 2 (words (map fst OPERATORS))), blanks,
          Grp 3 (unsigned_number u), blanks, Grp 4 UNIT]"

definition SPECIFICATION :: re where
  "SPECIFICATION =
     (let alnum = (\<lambda>c. lower (fold_char c) \<or> digit c)
      in seq [words [[35268, 26684], [23610, 23544], [22411, 21495, 35268, 26684]], blanks, words [[20026], [26159], [38656, 35201], [35201], [35201, 27714]], blanks,
           Grp 1 (Cat (Cls alnum) (Many (\<lambda>c. alnum c \<or> c \<in> set [32, 46, 43, 47, 95, 45]) 0 (Some 20)))])"

definition COLOR_TERMS :: "pystr list" where
  "COLOR_TERMS = [[40657, 33394], [30333, 33394], [32418, 33394], [34013, 33394], [32511, 33394], [28784, 33394], [38134, 33394], [37329, 33394], [31881, 33394], [26837, 33394], [31859, 33394], [24425, 33394]]"

definition STYLE_TERMS :: "pystr list" where
  "STYLE_TERMS = [[31616, 32422], [22797, 21476], [36816, 21160], [21830, 21153], [36890, 21220], [19987, 19994], [20241, 38386]]"

definition any_term :: "pystr list \<Rightarrow> pystr \<Rightarrow> bool" where
  "any_term ts s \<longleftrightarrow> (\<exists>t \<in> set ts. str_in t s)"

definition clean_negated_value :: "pystr \<Rightarrow> pystr" where
  "clean_negated_value value =
     py_strip (rstrip_de (py_strip (sub (Cat MATERIAL_WORD AtEnd) [] (before_attribute (strip_by avoided_edge value)))))"

definition negated_field :: "pystr \<Rightarrow> constraint_kind \<times> string" where
  "negated_field value =
     (if any_term COLOR_TERMS value then (OnAttribute, ''color'')
      else if any_term STYLE_TERMS value then (OnAttribute, ''style'') else (OnMaterial, ''material''))"

fun operator_name :: "constraint_operator \<Rightarrow> string" where
  "operator_name OpLte = ''lte''" | "operator_name OpGte = ''gte''" | "operator_name OpEquals = ''equals''"
| "operator_name OpNotEquals = ''not_equals''" | "operator_name OpContains = ''contains''" | "operator_name OpNotContains = ''not_contains''"

definition constraint_id :: "pystr \<Rightarrow> constraint_operator \<Rightarrow> nat \<Rightarrow> pystr" where
  "constraint_id field op index = field @ [95] @ lit (operator_name op) @ [95] @ show_nat index"

definition operator_of :: "pystr \<Rightarrow> constraint_operator" where
  "operator_of raw = (case map_of OPERATORS raw of Some op \<Rightarrow> op | None \<Rightarrow> OpEquals)"

definition negated_constraint :: "nat \<times> pystr \<Rightarrow> hard_constraint" where
  "negated_constraint x =
     (case x of (index, value) \<Rightarrow> case negated_field value of (kind, field) \<Rightarrow>
        \<lparr>hc_id = constraint_id (lit field) OpNotContains index, hc_kind = kind, hc_field = lit field, hc_operator = OpNotContains,
         hc_value = ScStr value, hc_unit = None,
         hc_label = (if field = ''material'' then [26448, 36136] else if field = ''color'' then [39068, 33394] else [39118, 26684]) @ [19981, 21547] @ value\<rparr>)"

definition negated_values :: "pystr \<Rightarrow> (nat \<times> pystr) list" where
  "negated_values query =
     filter (\<lambda>(index, value). value \<noteq> []) (enumerate_py (map (\<lambda>caps. clean_negated_value (grp 1 caps)) (find_groups NEGATED_VALUE query)))"

definition budget_constraint :: "rat \<Rightarrow> hard_constraint" where
  "budget_constraint budget =
     \<lparr>hc_id = constraint_id (lit ''budget_cny'') OpLte 0, hc_kind = OnBudget, hc_field = lit ''budget_cny'', hc_operator = OpLte,
      hc_value = ScFloat budget, hc_unit = Some (lit ''CNY''), hc_label = [21040, 25163, 20215, 19981, 36229, 36807] @ show_int (round_half_even budget) @ [20803]\<rparr>"

definition material_constraint :: "nat \<Rightarrow> pystr \<Rightarrow> hard_constraint" where
  "material_constraint index value =
     \<lparr>hc_id = constraint_id (lit ''material'') OpContains index, hc_kind = OnMaterial, hc_field = lit ''material'', hc_operator = OpContains,
      hc_value = ScStr value, hc_unit = None, hc_label = [26448, 36136, 21253, 21547] @ value\<rparr>"

definition material_values_of :: "pystr \<Rightarrow> re \<Rightarrow> pystr list" where
  "material_values_of query pattern =
     filter (\<lambda>v. v \<noteq> []) (map (\<lambda>caps. clean_negated_value (grp 1 caps)) (find_groups pattern query))"

definition material_constraints :: "nat \<Rightarrow> pystr \<Rightarrow> hard_constraint list" where
  "material_constraints offset query =
     concat (map (\<lambda>(i, pattern). map (material_constraint (offset + i)) (material_values_of query pattern)) (enumerate_py MATERIAL_REQUIREMENTS))"

text \<open>
  The number of a measure in the unit of its field; a number that the \<open>float\<close> of the text or the
  conversion makes infinite is \<open>None\<close>, and the model then refuses the constraint.
\<close>

definition normalize_measure :: "unicode_text \<Rightarrow> pystr \<Rightarrow> rat \<Rightarrow> pystr \<Rightarrow> pystr \<times> rat option \<times> pystr" where
  "normalize_measure u field x unit =
     (let name = the (map_of MEASURE_FIELDS field); n = lowered u unit
      in if name = lit ''weight_kg'' then (name, Some (if n = lit ''g'' \<or> n = [20811] then fl (x / 1000) else x), lit ''kg'')
         else if name = lit ''storage_gb'' then (name, (if n = lit ''tb'' \<or> n = lit ''t'' then finite_float (fl (x * 1024)) else Some x), lit ''GB'')
         else if name = lit ''display_inch'' then (name, Some x, lit ''inch'')
         else if name = lit ''battery_hours'' then (name, Some x, lit ''hours'')
         else (name, Some x, unit))"

definition measure_constraint :: "unicode_text \<Rightarrow> nat \<times> (nat \<times> pystr) list \<Rightarrow> hard_constraint option" where
  "measure_constraint u m =
     (case m of (index, caps) \<Rightarrow>
        case float_of_text u (grp 3 caps) of None \<Rightarrow> None
        | Some x \<Rightarrow>
            (case normalize_measure u (grp 1 caps) x (grp 4 caps) of
               (field, None, unit) \<Rightarrow> None
             | (field, Some y, unit) \<Rightarrow>
                 (let op = operator_of (grp 2 caps)
                  in Some \<lparr>hc_id = constraint_id field op index, hc_kind = OnSpecification, hc_field = field, hc_operator = op,
                       hc_value = ScFloat y, hc_unit = Some unit, hc_label = field @ lit (operator_name op) @ general_format y @ unit\<rparr>)))"

fun all_given_of :: "'a option list \<Rightarrow> 'a list option" where
  "all_given_of [] = Some []"
| "all_given_of (None # xs) = None"
| "all_given_of (Some x # xs) = map_option ((#) x) (all_given_of xs)"

definition measure_constraints :: "unicode_text \<Rightarrow> nat \<Rightarrow> pystr \<Rightarrow> hard_constraint list option" where
  "measure_constraints u offset query =
     all_given_of (map (\<lambda>(i, caps). measure_constraint u (offset + i, caps)) (enumerate_py (find_groups (MEASURE u) query)))"

definition specification_constraint :: "nat \<times> (nat \<times> pystr) list \<Rightarrow> hard_constraint" where
  "specification_constraint m =
     (case m of (index, caps) \<Rightarrow>
        \<lparr>hc_id = constraint_id (lit ''specification'') OpContains index, hc_kind = OnSpecification, hc_field = lit ''specification'',
         hc_operator = OpContains, hc_value = ScStr (py_strip (grp 1 caps)), hc_unit = None, hc_label = [35268, 26684, 21253, 21547] @ py_strip (grp 1 caps)\<rparr>)"

definition specification_constraints :: "nat \<Rightarrow> pystr \<Rightarrow> hard_constraint list" where
  "specification_constraints offset query =
     map (\<lambda>(i, caps). specification_constraint (offset + i, caps)) (enumerate_py (find_groups SPECIFICATION query))"

text \<open>
  All constraints, behind those of the negations and the budget; \<open>None\<close>: one of them has an
  infinite value.
\<close>

definition with_requirements :: "unicode_text \<Rightarrow> pystr \<Rightarrow> hard_constraint list \<Rightarrow> hard_constraint list option" where
  "with_requirements u query before =
     (let checked = before @ material_constraints (length before) query
      in case measure_constraints u (length checked) query of
           None \<Rightarrow> None
         | Some found \<Rightarrow> Some (checked @ found @ specification_constraints (length checked + length found) query))"

definition hard_constraints_of :: "unicode_text \<Rightarrow> pystr \<Rightarrow> hard_constraint list option" where
  "hard_constraints_of u query =
     (let negated = map negated_constraint (negated_values query)
      in case extract_budget_cny u query of
           None \<Rightarrow> with_requirements u query negated
         | Some None \<Rightarrow> None
         | Some (Some x) \<Rightarrow> with_requirements u query (budget_constraint x # negated))"

section \<open>The ranking profile\<close>

definition RANKING_KEYWORDS :: "ranking_dimension \<Rightarrow> pystr list" where
  "RANKING_KEYWORDS d =
     (case d of
        DimLandedCost \<Rightarrow> [[21040, 25163, 20215], [24635, 20215], [20215, 26684], [25104, 26412], [20415, 23452], [20302, 20215], [30465, 38065]]
      | DimPreferenceMatch \<Rightarrow> [[20559, 22909, 21305, 37197], [20559, 22909], [38656, 27714, 21305, 37197], [21305, 37197, 24230], [21916, 22909]]
      | DimEvidenceQuality \<Rightarrow> [[35777, 25454, 36136, 37327], [35777, 25454], [21487, 38752, 24615], [21487, 20449, 24230]]
      | DimDeliveryTime \<Rightarrow> [[37197, 36865, 36895, 24230], [37197, 36865, 26102, 25928], [21040, 36135, 36895, 24230], [26102, 25928], [21040, 36135], [37197, 36865], [24555, 36882], [23613, 24555]])"

definition RANKING_MARKERS :: "pystr list" where
  "RANKING_MARKERS = [[20248, 20808], [39318, 20808], [31532, 19968], [20854, 27425], [28982, 21518], [20877, 30475], [26356, 30475, 37325], [30475, 37325], [37325, 35270], [25353]]"

fun index_of :: "pystr \<Rightarrow> pystr \<Rightarrow> nat option" where
  "index_of w [] = (if w = [] then Some 0 else None)"
| "index_of w (c # s) = (if starts_with w (c # s) then Some 0 else map_option Suc (index_of w s))"

definition find_from :: "pystr \<Rightarrow> pystr \<Rightarrow> nat \<Rightarrow> nat option" where
  \<comment> \<open>\<open>query.find(w, start)\<close>\<close>
  "find_from query w start = (if start \<le> length query then map_option ((+) start) (index_of w (drop start query)) else None)"

definition marked :: "pystr \<Rightarrow> pystr \<Rightarrow> nat \<Rightarrow> bool" where
  "marked query w i \<longleftrightarrow>
     any_term RANKING_MARKERS (slice query (i - 8, i)) \<or> str_in [20248, 20808] (slice query (i + length w, i + length w + 8))"

definition earliest :: "nat option \<Rightarrow> nat \<Rightarrow> nat option" where
  "earliest best i = (case best of None \<Rightarrow> Some i | Some b \<Rightarrow> Some (min b i))"

text \<open>
  The loop over the occurrences of a keyword, from \<open>start\<close>; \<open>best\<close> is the position known so far. An
  empty keyword would make it run for ever.
\<close>

partial_function (option) scan_keyword :: "pystr \<Rightarrow> pystr \<Rightarrow> nat \<Rightarrow> nat option \<Rightarrow> nat option option" where
  "scan_keyword query w start best =
     (case find_from query w start of
        None \<Rightarrow> Some best
      | Some i \<Rightarrow> scan_keyword query w (i + length w) (if marked query w i then earliest best i else best))"

fun scan_keywords :: "pystr \<Rightarrow> pystr list \<Rightarrow> nat option \<Rightarrow> nat option option" where
  "scan_keywords query [] best = Some best"
| "scan_keywords query (w # ws) best =
     (case scan_keyword query w 0 best of None \<Rightarrow> None | Some b \<Rightarrow> scan_keywords query ws b)"

definition dimension_position :: "pystr \<Rightarrow> ranking_dimension \<Rightarrow> nat option option" where
  "dimension_position query d = scan_keywords query (RANKING_KEYWORDS d) None"

definition dimension_rank :: "pystr \<Rightarrow> ranking_dimension \<Rightarrow> nat" where
  "dimension_rank query d =
     (case dimension_position query d of Some (Some i) \<Rightarrow> i | _ \<Rightarrow> length query + 1)"

definition default_index :: "ranking_dimension \<Rightarrow> nat" where
  "default_index d = (case d of DimLandedCost \<Rightarrow> 0 | DimPreferenceMatch \<Rightarrow> 1 | DimEvidenceQuality \<Rightarrow> 2 | DimDeliveryTime \<Rightarrow> 3)"

definition ranking_profile_of :: "pystr \<Rightarrow> ranking_profile option" where
  \<comment> \<open>\<open>None\<close>: the search does not end\<close>
  "ranking_profile_of query =
     (if \<exists>d \<in> set ALL_DIMENSIONS. dimension_position query d = None then None
      else if \<forall>d \<in> set ALL_DIMENSIONS. dimension_position query d = Some None then Some default_ranking_profile
      else Some \<lparr>rk_priority_order = sort_key (\<lambda>d. (dimension_rank query d, default_index d)) ALL_DIMENSIONS, rk_explicit = True\<rparr>)"

section \<open>The plan\<close>

definition EXACT_MODE_MARKERS :: "pystr list" where
  "EXACT_MODE_MARKERS =
     [[21516, 27454], [21516, 19968, 27454], [30456, 21516, 27454], [21516, 22411, 21495], [21516, 19968, 22411, 21495], [30456, 21516, 22411, 21495], [21516, 19968, 20135, 21697], [30456, 21516, 20135, 21697], [21482, 27604, 20215], [21482, 27604, 36739, 21516],
      lit ''exact offer'', lit ''exact comparison'']"

definition DESTINATION_PATTERN :: re where
  "DESTINATION_PATTERN =
     seq [alts [str [23492, 21040], str [36865, 21040], str [37197, 36865, 21040], str [37197, 36865, 33267], str [23492, 24448], str [36865, 24448], str [21457, 24448],
            Cat (str [30446, 30340, 22320]) (optional [[26159], [20026]]),
            seq [str [25910, 36135, 22320], optional [[22336]], optional [[26159], [20026]]],
            Cat (str [37197, 36865, 22320, 22336]) (optional [[26159], [20026]]), Cat (str [36865, 36135, 22320, 22336]) (optional [[26159], [20026]])],
          Many (\<lambda>c. c \<in> set [65306, 58] \<or> py_space c) 0 None, Grp 1 (Many value_char 2 (Some 20))]"

definition destination_of :: "pystr \<Rightarrow> pystr" where
  "destination_of query =
     (case find_groups DESTINATION_PATTERN query of [] \<Rightarrow> [20013, 22269, 22823, 38470] | caps # _ \<Rightarrow> normalize_destination (grp 1 caps))"

definition soft_preferences_of :: "pystr \<Rightarrow> pystr list" where
  "soft_preferences_of query =
     filter (\<lambda>t. str_in t query) [[36731, 20415], [38477, 22122], [23567, 20247], [32784, 29992], [20415, 25658], [26080, 32447], [33298, 36866], [36890, 21220]]"

definition style_preferences_of :: "pystr \<Rightarrow> pystr list" where
  "style_preferences_of query = filter (\<lambda>t. str_in t query) [[31616, 32422], [22797, 21476], [36816, 21160], [21830, 21153]]"

definition assumptions_of :: "pystr \<Rightarrow> pystr list \<Rightarrow> working_assumption list" where
  "assumptions_of query style_preferences =
     (if any_term COLOR_TERMS query then [] else [default_assumptions ! 0])
     @ (if style_preferences \<noteq> [] \<or> any_term STYLE_TERMS query then [] else [default_assumptions ! 1])"

definition negated_materials :: "pystr \<Rightarrow> pystr list" where
  "negated_materials query =
     map (\<lambda>(index, value). [19981, 21547] @ value) (filter (\<lambda>(index, value). snd (negated_field value) = ''material'') (negated_values query))"

definition planner :: "unicode_text \<Rightarrow> pystr \<Rightarrow> shopping_plan option" where
  \<comment> \<open>\<open>None\<close>: the model refuses an infinite number\<close>
  "planner u query =
     (case hard_constraints_of u query of None \<Rightarrow> None
      | Some constraints \<Rightarrow>
     (case ranking_profile_of query of None \<Rightarrow> None
      | Some profile \<Rightarrow>
          Some \<lparr>sp_mode = (if any_term EXACT_MODE_MARKERS (casefolded u query) then ModeExactOfferComparison else ModeProductResearch),
            sp_budget_cny = (case extract_budget_cny u query of Some b \<Rightarrow> b | None \<Rightarrow> None),
            sp_category = extract_product_subject u query, sp_material_preferences = negated_materials query,
            sp_style_preferences = style_preferences_of query, sp_hard_constraints = constraints,
            sp_soft_preferences = soft_preferences_of query, sp_destination = destination_of query,
            sp_ranking_profile = profile, sp_working_assumptions = assumptions_of query (style_preferences_of query),
            sp_source = SrcComputed\<rparr>))"

end
