(* ===== verification/PlannerProperties.thy ===== *)
theory PlannerProperties
  imports Planner DecisionProperties
begin

text \<open>
  What a plan is: the ranking profile is always found and orders all four dimensions by where the
  request names them, the constraints and assumptions fit their schemas, and valid offers are decided
  under it. And what a request is misread as.
\<close>

section \<open>The ranking\<close>

lemma index_of_bound: "index_of w s = Some i \<Longrightarrow> i + length w \<le> length s"
proof (induction w s arbitrary: i rule: index_of.induct)
  case (2 w c s)
  have "starts_with w t \<Longrightarrow> length w \<le> length t" for w t
    by (induction w t rule: starts_with.induct) (auto split: list.splits)
  then show ?case using 2 by (fastforce split: if_splits)
qed (auto split: if_splits)

lemma find_from_bound: "find_from query w start = Some i \<Longrightarrow> start \<le> i \<and> i + length w \<le> length query"
  using index_of_bound [of w "drop start query"] by (fastforce simp: find_from_def split: if_splits)

text \<open>The search moves past every occurrence, so it ends unless the keyword is empty.\<close>

lemma scan_keyword_ends: "w \<noteq> [] \<Longrightarrow> scan_keyword query w start best \<noteq> None"
proof (induction "length query - start" arbitrary: start best rule: less_induct)
  case less
  show ?case
  proof (cases "find_from query w start")
    case None
    then show ?thesis by (subst scan_keyword.simps) simp
  next
    case (Some i)
    have "length query - (i + length w) < length query - start"
      using find_from_bound [OF Some] less.prems by (cases w) auto
    from less.hyps [OF this less.prems] Some show ?thesis by (subst scan_keyword.simps) simp
  qed
qed

lemma scan_keywords_end: "[] \<notin> set ws \<Longrightarrow> scan_keywords query ws best \<noteq> None"
proof (induction ws arbitrary: best)
  case (Cons w ws)
  then show ?case using scan_keyword_ends [of w query 0 best] by (auto split: option.splits)
qed simp

lemma keywords_given: "[] \<notin> set (RANKING_KEYWORDS d)"
  by (cases d) (simp_all add: RANKING_KEYWORDS_def)

lemma position_found: "dimension_position query d \<noteq> None"
  unfolding dimension_position_def by (rule scan_keywords_end [OF keywords_given])

lemma default_index_eq: "default_index d = default_index e \<longleftrightarrow> d = e"
  by (cases d; cases e) (simp_all add: default_index_def)

definition named_order :: "pystr \<Rightarrow> ranking_dimension list" where
  "named_order query = sort_key (\<lambda>d. (dimension_rank query d, default_index d)) ALL_DIMENSIONS"

lemma dimensions_distinct: "distinct ALL_DIMENSIONS" by (simp add: ALL_DIMENSIONS_def)

lemma all_dimensions: "d \<in> set ALL_DIMENSIONS" by (cases d) (simp_all add: ALL_DIMENSIONS_def)

lemma each_once_sorted: "each_dimension_once (sort_key f ALL_DIMENSIONS)"
proof -
  have "distinct (sort_key f ALL_DIMENSIONS)" using dimensions_distinct by simp
  then show ?thesis by (simp add: each_dimension_once_def dict_fromkeys_distinct) (simp add: ALL_DIMENSIONS_def)
qed

lemma default_profile: "rk_priority_order default_ranking_profile = sort_key default_index ALL_DIMENSIONS"
  by (simp add: default_ranking_profile_def ALL_DIMENSIONS_def default_index_def)

lemma profile_found:
  obtains profile where "ranking_profile_of query = Some profile" "each_dimension_once (rk_priority_order profile)"
    "sorted (map (dimension_rank query) (rk_priority_order profile))"
    "rk_explicit profile \<longleftrightarrow> (\<exists>d i. dimension_position query d = Some (Some i))"
proof -
  have all: "dimension_position query d \<noteq> None" for d by (rule position_found)
  show thesis
  proof (cases "\<forall>d \<in> set ALL_DIMENSIONS. dimension_position query d = Some None")
    case True
    then have none: "dimension_position query d = Some None" for d using all_dimensions by blast
    then have "dimension_rank query = (\<lambda>_. length query + 1)" by (simp add: dimension_rank_def fun_eq_iff)
    with none show thesis
      by (intro that [of default_ranking_profile])
        (auto simp: ranking_profile_of_def default_ranking_profile_def each_dimension_once_def ALL_DIMENSIONS_def)
  next
    case False
    then obtain d i where named: "dimension_position query d = Some (Some i)" using all by (metis not_None_eq)
    have "sorted (map (\<lambda>d. (dimension_rank query d, default_index d)) (named_order query))" by (simp add: named_order_def)
    then have "sorted (map (dimension_rank query) (named_order query))"
      by (fastforce simp: sorted_wrt_map less_eq_prod_def elim!: sorted_wrt_mono_rel [rotated])
    with named False all show thesis
      by (intro that [of "\<lparr>rk_priority_order = named_order query, rk_explicit = True\<rparr>"])
        (auto simp: ranking_profile_of_def named_order_def each_once_sorted)
  qed
qed

section \<open>What the groups of a match hold\<close>

lemma matches_str: "(p', s', c') \<in> set (matches (str w) (p, s, c)) \<Longrightarrow> s = w @ s' \<and> c' = c"
  by (induction w arbitrary: p s c) (auto simp: str_def seq_def split: list.splits if_splits)

lemma matches_words: "(p', s', c') \<in> set (matches (words ws) (p, s, c)) \<Longrightarrow> c' = c \<and> (\<exists>w \<in> set ws. s = w @ s')"
proof (induction ws rule: induct_list012)
  case 1
  then show ?case by (auto simp: words_def split: list.splits)
next
  case (2 w)
  then show ?case using matches_str by (fastforce simp: words_def)
next
  case (3 v w ws)
  then show ?case using matches_str by (fastforce simp: words_def)
qed

definition keeps :: "re \<Rightarrow> nat \<Rightarrow> bool" where
  \<comment> \<open>a pattern that does not set a group\<close>
  "keeps r n \<longleftrightarrow> (\<forall>p s c p' s' c'. (p', s', c') \<in> set (matches r (p, s, c)) \<longrightarrow> map_of c' n = map_of c n)"

lemma keeps_basic [simp]: "keeps (Cls P) n" "keeps (Many P lo hi) n" "keeps Eps n" "keeps (words ws) n" "keeps (str w) n"
  by (auto simp: keeps_def Let_def consume_def split: list.splits if_splits dest: matches_words matches_str)

lemma keepsD: "keeps r n \<Longrightarrow> (p', s', c') \<in> set (matches r (p, s, c)) \<Longrightarrow> map_of c' n = map_of c n"
  by (simp add: keeps_def)

lemma keeps_Cat [simp]: "keeps a n \<Longrightarrow> keeps b n \<Longrightarrow> keeps (Cat a b) n"
  unfolding keeps_def [of "Cat a b"] by (auto dest!: keepsD)

lemma keeps_Alt [simp]: "keeps a n \<Longrightarrow> keeps b n \<Longrightarrow> keeps (Alt a b) n" "keeps a n \<Longrightarrow> keeps (Opt a) n"
    "keeps a n \<Longrightarrow> m \<noteq> n \<Longrightarrow> keeps (Grp m a) n"
  by (auto simp: keeps_def [of "Alt a b"] keeps_def [of "Opt a"] keeps_def [of "Grp m a"] dest: keepsD)

lemma match_at_Some: "match_at r p s = Some st \<Longrightarrow> st \<in> set (matches r (p, s, []))"
  by (auto simp: match_at_def split: list.splits)

lemma groups_from_matches: "caps \<in> set (groups_from r p k s) \<Longrightarrow> \<exists>q t p' t'. suffix t s \<and> (p', t', caps) \<in> set (matches r (q, t, []))"
proof (induction r p k s rule: groups_from.induct)
  case (3 r p c s)
  show ?case
  proof (cases "match_at r p (c # s)")
    case None
    with 3 show ?thesis by (auto intro: suffix_ConsI)
  next
    case (Some st)
    obtain p' rest caps' where st: "st = (p', rest, caps')" by (cases st)
    have m: "(p', rest, caps') \<in> set (matches r (p, c # s, []))" using Some st by (simp add: match_at_Some)
    consider "caps = caps'" | "caps \<in> set (groups_from r (Some c) (length s - length rest) s)" "length rest < Suc (length s)"
      | "caps \<in> set (groups_from r (Some c) 0 s)" "\<not> length rest < Suc (length s)"
      using "3.prems" Some st by (auto split: if_splits)
    then show ?thesis
    proof cases
      case 1
      with m show ?thesis by blast
    qed (use "3.IH" Some st suffix_ConsI in \<open>fastforce+\<close>)
  qed
qed (auto intro: suffix_ConsI)

lemma group_words:
  assumes "caps \<in> set (find_groups (Cat (Grp n (words ws)) r) s)" "keeps r n"
  shows "grp n caps \<in> set ws"
proof -
  obtain q t p' t' where m: "(p', t', caps) \<in> set (matches (Cat (Grp n (words ws)) r) (q, t, []))"
    using groups_from_matches assms(1) unfolding find_groups_def by blast
  then obtain p1 t1 c1 where w: "(p1, t1, c1) \<in> set (matches (words ws) (q, t, []))"
      and rest: "(p', t', caps) \<in> set (matches r (p1, t1, (n, take (length t - length t1) t) # c1))" by auto
  obtain w where "w \<in> set ws" "t = w @ t1" using matches_words [OF w] by blast
  with rest assms(2) show ?thesis by (fastforce simp: keeps_def grp_def)
qed

lemma keeps_foldr: "list_all (\<lambda>r. keeps r n) rs \<Longrightarrow> keeps (seq rs) n"
  by (induction rs) (simp_all add: seq_def)

lemma keeps_alts: "list_all (\<lambda>r. keeps r n) rs \<Longrightarrow> keeps (alts rs) n"
  by (induction rs rule: induct_list012) simp_all

lemma keeps_istr [simp]: "keeps (istr w) n"
  by (simp add: istr_def keeps_foldr list_all_iff)

lemma measure_field_read: "caps \<in> set (find_groups (MEASURE u) query) \<Longrightarrow> grp 1 caps \<in> set (map fst MEASURE_FIELDS)"
proof (rule group_words)
  assume "caps \<in> set (find_groups (MEASURE u) query)"
  then show "caps \<in> set (find_groups (Cat (Grp 1 (words (map fst MEASURE_FIELDS)))
      (seq [blanks, Opt (Grp 2 (words (map fst OPERATORS))), blanks, Grp 3 (unsigned_number u), blanks, Grp 4 UNIT])) query)"
    by (simp add: MEASURE_def seq_def)
qed (simp add: keeps_foldr blanks_def unsigned_number_def UNIT_def keeps_alts)

section \<open>A plan fits its schema\<close>

lemma fullmatch_Many_None: "fullmatch (Many P lo None) s \<longleftrightarrow> lo \<le> length s \<and> list_all P s"
proof -
  let ?n = "length (takeWhile P s)"
  have n: "?n \<le> length s" by (rule length_takeWhile_le)
  have all: "?n = length s \<longleftrightarrow> list_all P s"
    by (metis (no_types, lifting) list_all_iff takeWhile_eq_all_conv takeWhile_eq_take take_all_iff order_refl)
  have "set (rev [lo..<Suc ?n]) = {lo..?n}" by auto
  then have "fullmatch (Many P lo None) s \<longleftrightarrow> (\<exists>k \<in> {lo..?n}. length s \<le> k)"
    unfolding fullmatch_def by (simp add: consume_rest Let_def del: upt_Suc)
  also have "\<dots> \<longleftrightarrow> lo \<le> length s \<and> ?n = length s"
    using n by (auto intro!: bexI [of _ "length s"])
  finally show ?thesis using all by simp
qed

definition code_char :: "int \<Rightarrow> bool" where
  "code_char c \<longleftrightarrow> lower c \<or> digit c \<or> c \<in> {95, 58, 45}"

lemma code_token_iff: "code_token s \<longleftrightarrow> s \<noteq> [] \<and> list_all code_char s"
  by (cases s) (auto simp: code_token_def fullmatch_Many_None code_char_def list_all_iff)

lemma digits_shown: "list_all digit (show_nat n)"
proof (induction n rule: show_nat.induct)
  case (1 n)
  then show ?case by (subst show_nat.simps) (auto simp: list_all_iff digit_def)
qed

lemma constraint_id_token:
  assumes "list_all code_char field"
  shows "code_token (constraint_id field op index)"
proof -
  have "list_all code_char (show_nat index)"
    by (rule list.pred_mono_strong [OF digits_shown]) (simp add: code_char_def)
  moreover have "list_all code_char (lit (operator_name op))"
    by (cases op) (simp_all add: lit_def code_char_def lower_def of_char_def)
  ultimately show ?thesis using assms by (auto simp: code_token_iff constraint_id_def code_char_def)
qed

lemma codes: "list_all code_char (lit ''budget_cny'')" "list_all code_char (lit ''material'')" "list_all code_char (lit ''color'')"
    "list_all code_char (lit ''style'')" "list_all code_char (lit ''specification'')"
    "list_all (\<lambda>(k, field). list_all code_char field \<and> field \<noteq> []) MEASURE_FIELDS"
  by code_simp+

lemma fits: "code_token (hc_id c) \<Longrightarrow> hc_field c \<noteq> [] \<Longrightarrow> hc_label c \<noteq> [] \<Longrightarrow> fields_hard_constraint c"
  by (auto simp: fields_hard_constraint_def code_token_iff Suc_le_eq)

lemma negated_fits: "fields_hard_constraint (negated_constraint x)"
proof -
  obtain i v where x: "x = (i, v)" by (cases x)
  consider "negated_field v = (OnAttribute, ''color'')" | "negated_field v = (OnAttribute, ''style'')"
    | "negated_field v = (OnMaterial, ''material'')"
    by (cases "any_term COLOR_TERMS v"; cases "any_term STYLE_TERMS v") (simp_all add: negated_field_def)
  then show ?thesis
    by cases (intro fits; simp add: x negated_constraint_def constraint_id_token codes)+
qed

lemma budget_fits: "fields_hard_constraint (budget_constraint b)"
  by (rule fits) (simp_all add: budget_constraint_def constraint_id_token codes)

lemma material_fits: "fields_hard_constraint (material_constraint i v)"
  by (rule fits) (simp_all add: material_constraint_def constraint_id_token codes)

lemma specification_fits: "fields_hard_constraint (specification_constraint m)"
  by (rule fits) (simp_all add: specification_constraint_def constraint_id_token codes split: prod.splits)

lemma normalized_field: "normalize_measure u field x unit = (name, y, z) \<Longrightarrow> name = the (map_of MEASURE_FIELDS field)"
  by (auto simp: normalize_measure_def Let_def split: if_splits)

lemma measure_constraint_fits:
  assumes "measure_constraint u (i, caps) = Some c" "grp 1 caps \<in> set (map fst MEASURE_FIELDS)"
  shows "fields_hard_constraint c"
proof -
  obtain x y name unit where m: "normalize_measure u (grp 1 caps) x (grp 4 caps) = (name, Some y, unit)"
      and c: "hc_id c = constraint_id name (operator_of (grp 2 caps)) i" "hc_field c = name"
        "hc_label c = name @ lit (operator_name (operator_of (grp 2 caps))) @ general_format y @ unit"
    using assms(1) by (auto simp: measure_constraint_def Let_def split: option.splits prod.splits)
  obtain field where "map_of MEASURE_FIELDS (grp 1 caps) = Some field"
    using assms(2) by (metis map_of_eq_None_iff not_None_eq set_map)
  then have "(grp 1 caps, name) \<in> set MEASURE_FIELDS" using normalized_field [OF m] by (simp add: map_of_SomeD)
  then have "list_all code_char name" "name \<noteq> []" using codes(6) by (auto simp: list_all_iff)
  with c show ?thesis by (intro fits) (simp_all add: constraint_id_token)
qed

lemma all_given_of_member: "all_given_of xs = Some ys \<Longrightarrow> y \<in> set ys \<Longrightarrow> Some y \<in> set xs"
  by (induction xs arbitrary: ys rule: all_given_of.induct) auto

lemma measure_member:
  assumes "measure_constraints u k query = Some cs" "c \<in> set cs"
  shows "\<exists>i caps. measure_constraint u (i, caps) = Some c \<and> caps \<in> set (find_groups (MEASURE u) query)"
  using all_given_of_member [OF assms [unfolded measure_constraints_def]]
  by (auto simp: set_enumerate) (metis nth_mem)

lemma requirement_shape:
  assumes "with_requirements u query before = Some cs" "c \<in> set cs" "c \<notin> set before"
  obtains (material) i v where "c = material_constraint i v" "v \<noteq> []" | (spec) m where "c = specification_constraint m"
    | (measure) i caps where "measure_constraint u (i, caps) = Some c" "caps \<in> set (find_groups (MEASURE u) query)"
proof -
  obtain found where found: "measure_constraints u (length (before @ material_constraints (length before) query)) query = Some found"
      and cs: "set cs = set before \<union> set (material_constraints (length before) query) \<union> set found
         \<union> set (specification_constraints (length (before @ material_constraints (length before) query) + length found) query)"
    using assms(1) by (fastforce simp: with_requirements_def Let_def split: option.splits)
  show thesis
    using assms(2,3) measure_member [OF found] unfolding cs material_constraints_def specification_constraints_def material_values_of_def
    by (auto intro: material spec measure)
qed

lemma constraints_shape:
  assumes "hard_constraints_of u query = Some cs" "c \<in> set cs"
  obtains (negated) i v where "c = negated_constraint (i, v)" "v \<noteq> []" | (budget) b where "c = budget_constraint b"
    | (material) i v where "c = material_constraint i v" "v \<noteq> []" | (spec) m where "c = specification_constraint m"
    | (measure) i caps where "measure_constraint u (i, caps) = Some c" "caps \<in> set (find_groups (MEASURE u) query)"
proof -
  let ?negated = "map negated_constraint (negated_values query)"
  obtain before where w: "with_requirements u query before = Some cs"
      and "before = ?negated \<or> (\<exists>b. before = budget_constraint b # ?negated)"
    using assms(1) by (cases "extract_budget_cny u query"; cases "the (extract_budget_cny u query)")
      (auto simp: hard_constraints_of_def Let_def)
  then have before: "c \<in> set before \<Longrightarrow> (\<exists>i v. c = negated_constraint (i, v) \<and> v \<noteq> []) \<or> (\<exists>b. c = budget_constraint b)"
    by (fastforce simp: negated_values_def)
  show thesis
  proof (cases "c \<in> set before")
    case True
    then show thesis using before negated budget by blast
  next
    case False
    show thesis by (rule requirement_shape [OF w assms(2) False]) (rule material spec measure; assumption)+
  qed
qed

lemma constraints_fit: "hard_constraints_of u query = Some cs \<Longrightarrow> c \<in> set cs \<Longrightarrow> fields_hard_constraint c"
  by (erule (1) constraints_shape) (auto simp: negated_fits budget_fits material_fits specification_fits intro: measure_constraint_fits measure_field_read)

lemma constraints_moderate: "hard_constraints_of u query = Some cs \<Longrightarrow> c \<in> set cs \<Longrightarrow> moderate_scalar (hc_value c)"
  by (erule (1) constraints_shape)
    (auto simp: negated_constraint_def budget_constraint_def material_constraint_def specification_constraint_def
      measure_constraint_def moderate_scalar_def Let_def split: option.splits prod.splits)

lemma assumptions_fit: "list_all fields_working_assumption (assumptions_of query styles)"
proof -
  have "list_all fields_working_assumption default_assumptions" by code_simp
  then show ?thesis by (simp add: assumptions_of_def default_assumptions_def)
qed

lemma found_member: "find P xs = Some x \<Longrightarrow> x \<in> set xs"
  by (induction xs) (auto split: if_splits)

lemma known_category_bounds:
  assumes "subject \<noteq> []" "length subject \<le> MAX_SUBJECT_LENGTH"
  shows "known_category subject \<noteq> [] \<and> length (known_category subject) \<le> MAX_SUBJECT_LENGTH"
proof (cases "find (\<lambda>(category, terms). \<exists>t \<in> set terms. subject = t \<or> has_suffix t subject) KNOWN_CATEGORY_TERMS")
  case None
  with assms show ?thesis by (simp add: known_category_def)
next
  case (Some x)
  then have "x \<in> set KNOWN_CATEGORY_TERMS" by (rule found_member)
  moreover have "list_all (\<lambda>(k, ts). k \<noteq> [] \<and> length k \<le> MAX_SUBJECT_LENGTH) KNOWN_CATEGORY_TERMS" by code_simp
  ultimately have "fst x \<noteq> [] \<and> length (fst x) \<le> MAX_SUBJECT_LENGTH" by (auto simp: list_all_iff simp del: split_paired_All)
  then show ?thesis using Some by (simp add: known_category_def case_prod_beta')
qed

lemma first_subject_bounds: "first_subject u cs = Some subject \<Longrightarrow> subject \<noteq> [] \<and> length subject \<le> MAX_SUBJECT_LENGTH"
  by (induction u cs rule: first_subject.induct)
    (auto simp: clean_subject_clause_def Let_def MAX_SUBJECT_LENGTH_def split: if_splits)

lemma subject_bounds: "extract_product_subject u query \<noteq> [] \<and> length (extract_product_subject u query) \<le> MAX_SUBJECT_LENGTH"
proof -
  obtain cs normalized where x: "extract_product_subject u query = (case first_subject u cs of
      Some subject \<Rightarrow> known_category subject
    | None \<Rightarrow> (let t = take MAX_SUBJECT_LENGTH normalized in if t = [] then [21830, 21697] else t))"
    by (auto simp: extract_product_subject_def Let_def)
  show ?thesis
  proof (cases "first_subject u cs")
    case None
    then show ?thesis by (auto simp: x Let_def MAX_SUBJECT_LENGTH_def)
  next
    case (Some subject)
    with known_category_bounds first_subject_bounds [OF Some] show ?thesis by (simp add: x)
  qed
qed

definition fits_schema :: "shopping_plan \<Rightarrow> bool" where
  "fits_schema p \<longleftrightarrow> list_all fields_hard_constraint (sp_hard_constraints p) \<and> list_all fields_working_assumption (sp_working_assumptions p)
     \<and> fields_ranking_profile (sp_ranking_profile p) \<and> each_dimension_once (rk_priority_order (sp_ranking_profile p))"

text \<open>
  C32. Every plan the planner makes fits its schema, whatever the request says: the constraints have ids of the
  allowed characters and a field and label, the ranking names each dimension once, the assumptions
  are well formed, and the category is a subject of one to 32 characters.
\<close>

theorem plan_fits_schema:
  assumes "planner u query = Some p"
  shows "fits_schema p \<and> sp_category p \<noteq> [] \<and> length (sp_category p) \<le> MAX_SUBJECT_LENGTH"
proof -
  obtain profile where profile: "ranking_profile_of query = Some profile" "each_dimension_once (rk_priority_order profile)"
    by (rule profile_found)
  obtain cs where cs: "hard_constraints_of u query = Some cs"
    using assms by (auto simp: planner_def split: option.splits)
  show ?thesis
    using assms profile cs constraints_fit [OF cs] assumptions_fit subject_bounds
    by (auto simp: planner_def fits_schema_def list_all_iff fields_ranking_profile_def each_dimension_once_def)
qed

section \<open>From a request to a decision\<close>

lemma requirement_not_empty:
  assumes "hard_constraints_of u query = Some cs" "c \<in> set cs" "hc_field c = lit ''material''"
  shows "scalar_str (hc_value c) \<noteq> []"
  using assms(1,2)
proof (cases rule: constraints_shape)
  case (negated i v)
  then show ?thesis by (simp add: negated_constraint_def scalar_str_def json_str_def split: prod.splits)
next
  case (material i v)
  then show ?thesis by (simp add: material_constraint_def scalar_str_def json_str_def)
next
  case (measure i caps)
  then obtain x y unit where m: "normalize_measure u (grp 1 caps) x (grp 4 caps) = (lit ''material'', Some y, unit)"
    using assms(3) by (auto simp: measure_constraint_def Let_def split: option.splits prod.splits)
  obtain field where "map_of MEASURE_FIELDS (grp 1 caps) = Some field"
    using measure_field_read [OF measure(2)] by (metis map_of_eq_None_iff not_None_eq set_map)
  then have "(grp 1 caps, lit ''material'') \<in> set MEASURE_FIELDS" using normalized_field [OF m] by (simp add: map_of_SomeD)
  then show ?thesis by (simp add: MEASURE_FIELDS_def)
qed (use assms(3) in \<open>simp_all add: budget_constraint_def specification_constraint_def split: prod.splits\<close>)

lemma planner_fields:
  assumes "planner u query = Some p"
  obtains profile where "hard_constraints_of u query = Some (sp_hard_constraints p)" "ranking_profile_of query = Some profile"
    "sp_ranking_profile p = profile" "sp_material_preferences p = negated_materials query"
    "sp_style_preferences p = style_preferences_of query" "sp_soft_preferences p = soft_preferences_of query"
  using assms by (auto simp: planner_def split: option.splits)

lemma planned_preferences: "planner u query = Some p \<Longrightarrow> [] \<notin> set (current_preferences p f)"
proof -
  assume "planner u query = Some p"
  then obtain profile where p: "hard_constraints_of u query = Some (sp_hard_constraints p)"
      "sp_material_preferences p = negated_materials query"
      "sp_style_preferences p = style_preferences_of query" "sp_soft_preferences p = soft_preferences_of query"
    by (rule planner_fields)
  have "[] \<notin> set (material_values p op)" for op
    using requirement_not_empty [OF p(1)] unfolding material_values_def by fastforce
  then show ?thesis
    by (cases f) (auto simp: p negated_materials_def style_preferences_of_def soft_preferences_of_def)
qed

lemma planned_is_decided:
  assumes "planner u query = Some p" "\<forall>x \<in> set offers. priced_offer x \<and> moderate_facts x" "\<forall>f. [] \<notin> set (pref r f)"
  shows "\<exists>d. decision_engine u p r offers n scores = Some d
    \<and> list_all (\<lambda>x. fields_ranking_score_breakdown (rec_score_breakdown x)) (ipo_recommendations d)"
proof (rule decision_exists)
  obtain profile where p: "hard_constraints_of u query = Some (sp_hard_constraints p)"
    using assms(1) by (rule planner_fields)
  show "each_dimension_once (rk_priority_order (sp_ranking_profile p))"
    by (rule planner_fields [OF assms(1)], rule profile_found [of query]) simp
  show "\<forall>c \<in> set (sp_hard_constraints p). moderate_scalar (hc_value c)"
    using constraints_moderate [OF p] by blast
qed (use assms planned_preferences in auto)

text \<open>A text captured from a request is no longer than the request, so its number is bounded.\<close>

lemma captured_length:
  "(p', s', c') \<in> set (matches r (p, s, c)) \<Longrightarrow> length s \<le> n \<Longrightarrow> list_all (\<lambda>(i, t). length t \<le> n) c \<Longrightarrow> list_all (\<lambda>(i, t). length t \<le> n) c'"
proof (induction r arbitrary: p s c p' s' c')
  case (Cat a b)
  then obtain p1 s1 c1 where m: "(p1, s1, c1) \<in> set (matches a (p, s, c))" "(p', s', c') \<in> set (matches b (p1, s1, c1))" by auto
  have "length s1 \<le> n" using matches_suffix [OF m(1)] Cat.prems(2) by (auto dest: suffix_length_le)
  with Cat.IH m Cat.prems show ?case by blast
next
  case (Grp i a)
  then obtain c1 where m: "(p', s', c1) \<in> set (matches a (p, s, c))" "c' = (i, take (length s - length s') s) # c1" by auto
  with Grp.IH [OF m(1) Grp.prems(2,3)] Grp.prems(2) show ?case by simp
next
  case (Alt a b)
  then show ?case by auto
next
  case (Opt a)
  then show ?case by auto
qed (auto simp: Let_def consume_def split: list.splits if_splits)

lemma group_length: "caps \<in> set (find_groups r s) \<Longrightarrow> length (grp n caps) \<le> length s"
proof -
  assume "caps \<in> set (find_groups r s)"
  then obtain q t p' t' where t: "suffix t s" and m: "(p', t', caps) \<in> set (matches r (q, t, []))"
    using groups_from_matches unfolding find_groups_def by blast
  have "list_all (\<lambda>(i, v). length v \<le> length s) caps"
    using captured_length [OF m suffix_length_le [OF t]] by simp
  then show ?thesis by (fastforce simp: grp_def list_all_iff split: option.splits dest: map_of_SomeD)
qed

definition decimal_digits :: "unicode_text \<Rightarrow> bool" where
  "decimal_digits u \<longleftrightarrow> (\<forall>c d. digit_value u c = Some d \<longrightarrow> 0 \<le> d \<and> d \<le> 9)"

lemma digits_value_bound: "decimal_digits u \<Longrightarrow> 0 \<le> digits_value u s \<and> digits_value u s \<le> 10 ^ length s - 1"
proof (induction s rule: rev_induct)
  case (snoc c s)
  define d where "d = (case digit_value u c of Some d \<Rightarrow> d | None \<Rightarrow> 0)"
  have "0 \<le> d" "d \<le> 9" using snoc.prems by (auto simp: d_def decimal_digits_def split: option.splits)
  then have "0 \<le> (of_int d :: rat)" "(of_int d :: rat) \<le> 9" by simp_all
  moreover have "digits_value u (s @ [c]) = digits_value u s * 10 + of_int d" by (simp add: digits_value_def d_def)
  ultimately show ?case using snoc by simp
qed (simp add: digits_value_def)

lemma decimal_of_text_bound:
  assumes "decimal_digits u"
  shows "\<bar>decimal_of_text u s\<bar> \<le> 10 ^ length s"
proof -
  define t where "t = (if starts_with [45] s then drop 1 s else s)"
  define whole fraction where "whole = takeWhile (\<lambda>c. c \<noteq> 46) t" and "fraction = drop 1 (dropWhile (\<lambda>c. c \<noteq> 46) t)"
  have "digits_value u fraction \<le> 10 ^ length fraction" using digits_value_bound [OF assms, of fraction] by simp
  then have f: "0 \<le> digits_value u fraction / 10 ^ length fraction" "digits_value u fraction / 10 ^ length fraction \<le> 1"
    using digits_value_bound [OF assms, of fraction] by (simp_all add: divide_le_eq)
  have "length whole \<le> length s" unfolding whole_def t_def by (rule le_trans [OF length_takeWhile_le]) simp
  then have "(10::rat) ^ length whole \<le> 10 ^ length s" by (rule power_increasing) simp
  with digits_value_bound [OF assms, of whole]
  have "0 \<le> digits_value u whole" "digits_value u whole \<le> 10 ^ length s - 1" by (simp, linarith)
  with f have "0 \<le> digits_value u whole + digits_value u fraction / 10 ^ length fraction"
      "digits_value u whole + digits_value u fraction / 10 ^ length fraction \<le> 10 ^ length s" by linarith+
  moreover have "decimal_of_text u s = (let x = digits_value u whole + digits_value u fraction / 10 ^ length fraction
      in if starts_with [45] s then - x else x)"
    unfolding decimal_of_text_def Let_def t_def whole_def fraction_def by (rule refl)
  ultimately show ?thesis by (simp add: Let_def abs_le_iff)
qed

lemma fl_within_pow2: "\<bar>x\<bar> \<le> 2 ^ n \<Longrightarrow> \<bar>fl x\<bar> \<le> 2 ^ n"
  using double.rnd_mono [of x "2 ^ n"] double.rnd_mono [of "- (2 ^ n)" x] by (simp add: double.rnd_minus fl_pow2 abs_le_iff)

lemma finite_within_pow2: "\<bar>x\<bar> \<le> 2 ^ n \<Longrightarrow> n < 1024 \<Longrightarrow> finite_float (fl x) = Some (fl x)"
  using fl_within_pow2 [of x n] power_strict_increasing [of n 1024 "2::rat"] by (simp add: finite_float_def)

lemma short_number:
  assumes "decimal_digits u" "length s \<le> 300"
  obtains x where "float_of_text u s = Some x" "\<bar>x\<bar> \<le> 2 ^ 1000"
proof -
  have "(10::rat) ^ length s \<le> 10 ^ 300" using assms(2) by (rule power_increasing) simp
  also have "\<dots> \<le> 2 ^ 1000" by simp
  finally have "\<bar>decimal_of_text u s\<bar> \<le> 2 ^ 1000" by (rule order_trans [OF decimal_of_text_bound [OF assms(1)]])
  then show thesis
    using that finite_within_pow2 [of _ 1000] fl_within_pow2 [of _ 1000] unfolding float_of_text_def by simp
qed

lemma normalized_number: "\<bar>x\<bar> \<le> 2 ^ 1000 \<Longrightarrow> fst (snd (normalize_measure u field x unit)) \<noteq> None"
proof -
  assume "\<bar>x\<bar> \<le> 2 ^ 1000"
  then have "\<bar>x * 1024\<bar> \<le> 2 ^ 1010" by (simp add: abs_mult)
  then have "finite_float (fl (x * 1024)) = Some (fl (x * 1024))" by (rule finite_within_pow2) simp
  then show ?thesis by (simp add: normalize_measure_def Let_def)
qed

lemma short_measures:
  assumes "decimal_digits u" "length query \<le> 300"
  shows "measure_constraints u k query \<noteq> None"
proof -
  have found: "measure_constraint u (i, caps) \<noteq> None" if "caps \<in> set (find_groups (MEASURE u) query)" for i caps
  proof -
    have "length (grp 3 caps) \<le> 300" using group_length [OF that] assms(2) le_trans by blast
    then obtain x where x: "float_of_text u (grp 3 caps) = Some x" "\<bar>x\<bar> \<le> 2 ^ 1000" by (rule short_number [OF assms(1)])
    with normalized_number [OF x(2), of u "grp 1 caps" "grp 4 caps"] show ?thesis
      by (auto simp: measure_constraint_def Let_def split: prod.splits option.splits)
  qed
  have all: "None \<notin> set xs \<Longrightarrow> all_given_of xs \<noteq> None" for xs :: "hard_constraint option list"
    by (induction xs rule: all_given_of.induct) auto
  have "measure_constraint u (k + i, caps) \<noteq> None" if "(i, caps) \<in> set (enumerate_py (find_groups (MEASURE u) query))" for i caps
    using that by (intro found) (auto simp: set_enumerate)
  then show ?thesis unfolding measure_constraints_def by (intro all) fastforce
qed

lemma short_budget: "decimal_digits u \<Longrightarrow> length query \<le> 300 \<Longrightarrow> extract_budget_cny u query \<noteq> Some None"
proof -
  assume a: "decimal_digits u" "length query \<le> 300"
  have "float_of_text u (grp 1 caps) \<noteq> None"
    if "caps \<in> set (find_groups (BUDGET_PATTERN u) query) \<union> set (find_groups (YUAN_PATTERN u) query)" for caps
  proof -
    have "length (grp 1 caps) \<le> 300" using that group_length a(2) by (meson Un_iff le_trans)
    then show ?thesis using short_number [OF a(1)] by (metis option.distinct(1))
  qed
  then have "float_of_text u (grp 1 caps) \<noteq> None"
    if "find_groups (BUDGET_PATTERN u) query @ find_groups (YUAN_PATTERN u) query = caps # rest" for caps rest
    using that by (metis list.set_intros(1) set_append)
  then show ?thesis unfolding extract_budget_cny_def by (auto split: list.splits)
qed

lemma short_request_planned:
  assumes "decimal_digits u" "length query \<le> 300"
  shows "planner u query \<noteq> None"
proof -
  have "with_requirements u query before \<noteq> None" for before
    using short_measures [OF assms] by (auto simp: with_requirements_def Let_def split: option.splits)
  then have "hard_constraints_of u query \<noteq> None"
    using short_budget [OF assms] by (auto simp: hard_constraints_of_def Let_def split: option.splits)
  moreover obtain profile where "ranking_profile_of query = Some profile" by (rule profile_found)
  ultimately show ?thesis by (auto simp: planner_def split: option.splits)
qed

section \<open>Properties\<close>



section \<open>What requests are misread as\<close>

text \<open>An offer cannot satisfy two constraints that require and exclude the same value.\<close>

lemma contradiction_excludes:
  assumes "decision_engine u p r offers n scores = Some d" "c \<in> set (sp_hard_constraints p)" "c' \<in> set (sp_hard_constraints p)"
    and "hc_operator c = OpContains" "hc_operator c' = OpNotContains" "hc_value c = hc_value c'"
    and "hc_field c = lit ''material''" "hc_field c' = lit ''material''"
  shows "ipo_recommendations d = []"
proof -
  obtain evaluated where e: "accounted u p d evaluated"
      "list_all (\<lambda>x. (landed_cost.truncate x, rec_constraint_evaluations x) \<in> set (filter is_eligible evaluated)) (ipo_recommendations d)"
    using decision_accounted [OF assms(1)] by blast
  have "(x, es) \<notin> set (filter is_eligible evaluated)" for x es
  proof
    assume x: "(x, es) \<in> set (filter is_eligible evaluated)"
    then have es: "evaluate_all u x (sp_hard_constraints p) = Some es" using e(1) by (auto simp: accounted_def list_all_iff)
    have satisfied: "cel_status ev = ConstraintSatisfied" if "ev \<in> set es" for ev
      using x that by (auto simp: eligible_satisfied list_all_iff)
    have facts: "facts_for_constraint u x c = facts_for_constraint u x c'"
      by (simp add: facts_for_constraint_def assms(7,8))
    have same: "text_evidence u x c (facts_for_constraint u x c) = text_evidence u x c' (facts_for_constraint u x c)"
      by (simp add: text_evidence_def assms(4-8))
    have "cel_status (evaluate_text u x k (facts_for_constraint u x k)) = ConstraintSatisfied" if "k \<in> {c, c'}" for k
    proof -
      obtain ev where "ev \<in> set es" "evaluate_constraint u x k = Some ev" using evaluate_all_member [OF es] assms(2,3) \<open>k \<in> {c, c'}\<close> by blast
      with that satisfied show ?thesis by (auto simp: evaluate_constraint_def Let_def assms(4,5,7,8))
    qed
    from this [of c] this [of c']
    have "cel_status (evaluate_text u x c (facts_for_constraint u x c)) = ConstraintSatisfied"
        "cel_status (evaluate_text u x c' (facts_for_constraint u x c)) = ConstraintSatisfied" by (simp_all add: facts)
    then show False
      using same by (auto simp: evaluate_text_def assms(4-6) unknown_def evaluation_def split: prod.splits if_splits)
  qed
  with e(2) show ?thesis by (cases "ipo_recommendations d") auto
qed

definition avoid_leather :: pystr where "avoid_leather = [19981, 35201, 30382, 38761, 26448, 36136]"

lemma leather_planned: "decimal_digits plain_text" "length avoid_leather \<le> 300"
  by (simp_all add: decimal_digits_def plain_text_def digit_def avoid_leather_def)

lemma avoid_leather_read:
  "negated_values avoid_leather = [(0, [30382, 38761])]"
  "extract_budget_cny plain_text avoid_leather = None"
  "material_values_of avoid_leather MATERIAL_NAMED = []" "material_values_of avoid_leather MATERIAL_WANTED = [[30382, 38761]]"
  "find_groups (MEASURE plain_text) avoid_leather = []" "find_groups SPECIFICATION avoid_leather = []"
  by code_simp+

lemma avoid_leather_constraints:
  "hard_constraints_of plain_text avoid_leather = Some [negated_constraint (0, [30382, 38761]), material_constraint 2 [30382, 38761]]"
  by (simp add: hard_constraints_of_def with_requirements_def avoid_leather_read measure_constraints_def
      specification_constraints_def material_constraints_def MATERIAL_REQUIREMENTS_def enumerate_py_def numeral_2_eq_2)


lemma readings:
  "find_groups (BUDGET_PATTERN plain_text) [32819, 26426, 37325, 37327, 19981, 36229, 36807, 50, 107, 103] = [[(1, lit ''2'')]]"
  "find_groups (BUDGET_PATTERN plain_text) [39044, 31639, 49, 44, 50, 48, 48, 20803] = [[(1, lit ''1'')]]"
  "material_values_of [26448, 36136, 20026, 26825, 65292, 26448, 36136, 20026, 40635] MATERIAL_NAMED = [[26825], [40635]]"
  "material_values_of [26448, 36136, 20026, 26825, 65292, 26448, 36136, 20026, 40635] MATERIAL_WANTED = []"
  "constraint_id (lit ''material'') OpContains 0 = lit ''material_contains_0''"
  by code_simp+

text \<open>
  Requests are misread: a limit on the weight is taken for the budget, the budget 1,200 is read as 1, and two
  required materials give two constraints of one id, though a relaxation names a constraint by its id.
\<close>

lemma requests_misread:
  "extract_budget_cny plain_text [32819, 26426, 37325, 37327, 19981, 36229, 36807, 50, 107, 103] = Some (Some 2)
   \<and> extract_budget_cny plain_text [39044, 31639, 49, 44, 50, 48, 48, 20803] = Some (Some 1)
   \<and> map hc_id (material_constraints 0 [26448, 36136, 20026, 26825, 65292, 26448, 36136, 20026, 40635]) = [lit ''material_contains_0'', lit ''material_contains_0'']"
  by (simp add: extract_budget_cny_def readings grp_def float_of_text_def decimals_read finite_float_def floats_read
      material_constraints_def MATERIAL_REQUIREMENTS_def enumerate_py_def material_constraint_def)

section \<open>Witnesses\<close>

theorem plan_fits_schema_witness:
  "\<exists>p. planner plain_text avoid_leather = Some p \<and> fits_schema p \<and> sp_category p \<noteq> [] \<and> length (sp_category p) \<le> 32"
proof -
  obtain p where p: "planner plain_text avoid_leather = Some p" using short_request_planned [OF leather_planned] by blast
  with plan_fits_schema [OF p] show ?thesis by (simp add: MAX_SUBJECT_LENGTH_def)
qed


end
