(* ===== verification/Compressor.thy ===== *)
theory Compressor
  imports AgentControl Snapshots Runtime Planner
begin

text \<open>
  \<open>app/compress/compressor.py\<close>: the bounded window of messages and typed facts that a model sees of a
  task. A message is its role and its content; the construction of a \<open>ContextMessage\<close> with blank
  content raises, which makes the result \<open>None\<close>. The hash of a text that is cut out is taken of its
  UTF-8 bytes, so texts hold no lone surrogates.
\<close>

section \<open>JSON texts\<close>

definition escape_char :: "int \<Rightarrow> pystr" where
  "escape_char c =
     (if c = 34 \<or> c = 92 then [92, c]
      else if c = 8 then [92, 98] else if c = 12 then [92, 102] else if c = 10 then [92, 110]
      else if c = 13 then [92, 114] else if c = 9 then [92, 116]
      else if c < 32 then hex_escape 117 4 c else [c])"

definition json_quoted :: "pystr \<Rightarrow> pystr" where
  "json_quoted s = [34] @ concat (map escape_char s) @ [34]"

fun sorted_keys :: "json \<Rightarrow> json" where
  \<comment> \<open>\<open>sort_keys=True\<close>\<close>
  "sorted_keys (JList xs) = JList (map sorted_keys xs)"
| "sorted_keys (JMap m) = JMap (sort_key fst (map (\<lambda>(k, v). (k, sorted_keys v)) m))"
| "sorted_keys v = v"

fun compact_json :: "json \<Rightarrow> pystr" where
  \<comment> \<open>\<open>json.dumps(v, ensure_ascii=False, separators=(",", ":"))\<close>\<close>
  "compact_json JNull = lit ''null''"
| "compact_json (JBool b) = (if b then lit ''true'' else lit ''false'')"
| "compact_json (JInt i) = show_int i"
| "compact_json (JNum x) = float_repr x"
| "compact_json (JStr s) = json_quoted s"
| "compact_json (JList xs) = [91] @ joined [44] (map compact_json xs) @ [93]"
| "compact_json (JMap m) = [123] @ joined [44] (map (\<lambda>(k, v). json_quoted k @ [58] @ compact_json v) m) @ [125]"

definition stable_json :: "json \<Rightarrow> pystr" where
  "stable_json v = compact_json (sorted_keys v)"

section \<open>Messages and settings\<close>

record compression_settings =
  keep_recent :: nat
  max_tokens :: nat

definition valid_compression :: "compression_settings \<Rightarrow> bool" where
  "valid_compression s \<longleftrightarrow> 1 \<le> keep_recent s \<and> 32 \<le> max_tokens s"

type_synonym turn = "pystr \<times> pystr"

datatype raw_message = Typed turn | Untyped "(pystr \<times> json) list"

definition new_turn :: "pystr \<Rightarrow> pystr \<Rightarrow> turn option" where
  \<comment> \<open>\<open>None\<close>: ValueError\<close>
  "new_turn role content = (if py_strip content = [] then None else Some (role, content))"

definition estimate_text_tokens :: "pystr \<Rightarrow> nat" where
  "estimate_text_tokens s = (if s = [] then 0 else max 1 ((length s + 3) div 4))"

definition cost_of_turn :: "turn \<Rightarrow> nat" where
  "cost_of_turn m = estimate_text_tokens (fst m) + estimate_text_tokens (snd m) + 1"

definition estimate_context_tokens :: "turn list \<Rightarrow> nat" where
  "estimate_context_tokens messages = sum_list (map cost_of_turn messages)"

definition estimate_untyped :: "unicode_text \<Rightarrow> (pystr \<times> json) list \<Rightarrow> nat" where
  \<comment> \<open>of a message that is a dictionary\<close>
  "estimate_untyped u m =
     (let role = (case map_of m (lit ''role'') of Some v \<Rightarrow> json_str (printable u) v | None \<Rightarrow> lit ''user'');
          content = (case map_of m (lit ''content'') of Some (JStr s) \<Rightarrow> s | Some v \<Rightarrow> stable_json v | None \<Rightarrow> [])
      in estimate_text_tokens role + estimate_text_tokens content + 1)"

definition MESSAGE_ROLES :: "pystr list" where
  "MESSAGE_ROLES = [lit ''system'', lit ''user'', lit ''assistant'', lit ''tool'']"

definition coerce_untyped :: "(pystr \<times> json) list \<Rightarrow> turn option" where
  \<comment> \<open>\<open>None\<close>: dropped\<close>
  "coerce_untyped m =
     (let role = (case map_of m (lit ''role'') of Some (JStr r) \<Rightarrow> if r \<in> set MESSAGE_ROLES then r else lit ''user'' | _ \<Rightarrow> lit ''user'');
          content = (case map_of m (lit ''content'') of Some (JStr s) \<Rightarrow> s | Some v \<Rightarrow> stable_json v | None \<Rightarrow> [])
      in new_turn role content)"

definition coerce_messages :: "raw_message list \<Rightarrow> turn list" where
  "coerce_messages ms = List.map_filter (\<lambda>m. case m of Typed t \<Rightarrow> Some t | Untyped d \<Rightarrow> coerce_untyped d) ms"

section \<open>Facts of the task\<close>

record context_response =
  cx_field :: clarification_field
  cx_reason_code :: clarification_reason
  cx_response :: pystr
  cx_resolved_value :: "pystr option"

datatype context_source = FromRememberedPreference | FromTaskOverride

record context_preference =
  cxp_field :: preference_field
  cxp_value :: pystr
  cxp_source :: context_source

record context_summary =
  cs_mode :: "research_mode option"
  cs_category :: "pystr option"
  cs_destination :: "pystr option"
  cs_supported_destination :: "pystr option"
  cs_resolved_hard_constraints :: "hard_constraint list"
  cs_product_variant :: "pystr option"
  cs_exact_identity :: "pystr option"
  cs_clarification_responses :: "context_response list"
  cs_working_assumptions :: "working_assumption list"
  cs_remembered_preference :: remembered_preference
  cs_task_overrides :: "task_override list"
  cs_preference_sources :: "context_preference list"
  cs_pending_clarification :: "clarification_prompt option"

fun answer_field :: "clarification_field \<Rightarrow> string" where
  "answer_field ClarifyMode = ''mode''"
| "answer_field ClarifyProductVariant = ''product_variant''"
| "answer_field ClarifyDestination = ''destination''"

fun reason_text :: "clarification_reason \<Rightarrow> string" where
  "reason_text BecauseModeAmbiguous = ''mode_ambiguous''"
| "reason_text BecauseProductVariantAmbiguous = ''product_variant_ambiguous''"
| "reason_text BecauseDestinationAmbiguous = ''destination_ambiguous''"

definition ANSWER_FIELDS :: "clarification_field list" where
  "ANSWER_FIELDS = [ClarifyMode, ClarifyProductVariant, ClarifyDestination]"

definition REASONS :: "clarification_reason list" where
  "REASONS = [BecauseModeAmbiguous, BecauseProductVariantAmbiguous, BecauseDestinationAmbiguous]"

fun source_text :: "context_source \<Rightarrow> string" where
  "source_text FromRememberedPreference = ''remembered_preference''"
| "source_text FromTaskOverride = ''task_override''"

definition empty_preference :: remembered_preference where
  "empty_preference = \<lparr>rpref_material_preferences = [], rpref_style_preferences = [], rpref_soft_preferences = [], rpref_avoid = []\<rparr>"

definition empty_summary :: context_summary where
  "empty_summary = \<lparr>cs_mode = None, cs_category = None, cs_destination = None, cs_supported_destination = None,
     cs_resolved_hard_constraints = [], cs_product_variant = None, cs_exact_identity = None, cs_clarification_responses = [],
     cs_working_assumptions = [], cs_remembered_preference = empty_preference, cs_task_overrides = [],
     cs_preference_sources = [], cs_pending_clarification = None\<rparr>"

definition preference_sources_of :: "remembered_preference \<Rightarrow> task_override list \<Rightarrow> context_preference list" where
  "preference_sources_of remembered overrides =
     concat (map (\<lambda>f. map (\<lambda>v. \<lparr>cxp_field = f, cxp_value = v, cxp_source = FromRememberedPreference\<rparr>) (pref remembered f)) FIELDS)
     @ map (\<lambda>t. \<lparr>cxp_field = to_field t, cxp_value = to_value t, cxp_source = FromTaskOverride\<rparr>) overrides"

definition py_or :: "pystr option \<Rightarrow> pystr option \<Rightarrow> pystr option" where
  \<comment> \<open>\<open>a or b\<close>\<close>
  "py_or a b = (if a = None \<or> a = Some [] then b else a)"

definition latest_responses :: "context_response list \<Rightarrow> context_response list" where
  \<comment> \<open>the last response of each field, in the order in which the fields first occur\<close>
  "latest_responses rs = map snd (fold (\<lambda>r d. AList.update (cx_field r) r d) rs [])"

definition inferred_variant :: "context_response list \<Rightarrow> pystr option" where
  "inferred_variant rs =
     (case filter (\<lambda>r. cx_field r = ClarifyProductVariant) (rev rs) of
        [] \<Rightarrow> None | r # _ \<Rightarrow> py_or (cx_resolved_value r) (Some (cx_response r)))"

definition build_context_summary ::
  "shopping_plan option \<Rightarrow> pystr option \<Rightarrow> pystr option \<Rightarrow> context_response list \<Rightarrow> remembered_preference option
   \<Rightarrow> task_override list \<Rightarrow> context_preference list \<Rightarrow> clarification_prompt option \<Rightarrow> context_summary" where
  "build_context_summary plan product_variant exact_identity clarifications remembered overrides sources pending =
     (let responses = latest_responses clarifications;
          preferences = (case remembered of Some r \<Rightarrow> r | None \<Rightarrow> empty_preference);
          variant = py_or product_variant (inferred_variant responses);
          mode = map_option sp_mode plan;
          destination = map_option sp_destination plan
      in \<lparr>cs_mode = mode, cs_category = map_option sp_category plan, cs_destination = destination,
          cs_supported_destination = (if destination = Some [20013, 22269, 22823, 38470] then destination else None),
          cs_resolved_hard_constraints = (case plan of Some p \<Rightarrow> sp_hard_constraints p | None \<Rightarrow> []),
          cs_product_variant = variant,
          cs_exact_identity = py_or exact_identity (if mode = Some ModeExactOfferComparison then variant else None),
          cs_clarification_responses = responses,
          cs_working_assumptions = (case plan of Some p \<Rightarrow> sp_working_assumptions p | None \<Rightarrow> []),
          cs_remembered_preference = preferences, cs_task_overrides = overrides,
          cs_preference_sources = (if sources = [] then preference_sources_of preferences overrides else sources),
          cs_pending_clarification = pending\<rparr>)"

section \<open>The summary as text\<close>

definition joined_or_none :: "pystr list \<Rightarrow> pystr" where
  "joined_or_none parts = (let s = joined [59] parts in if s = [] then lit ''[]'' else s)"

definition optional_text :: "pystr option \<Rightarrow> pystr" where
  "optional_text x = (case x of None \<Rightarrow> lit ''null'' | Some s \<Rightarrow> json_quoted s)"

definition prompt_json :: "clarification_prompt \<Rightarrow> json" where
  "prompt_json p =
     JMap [(lit ''field'', JStr (lit (answer_field (cp_field p)))), (lit ''reason_code'', JStr (lit (reason_text (cp_reason_code p)))),
           (lit ''question'', JStr (cp_question p))]"

definition summary_lines :: "context_summary \<Rightarrow> pystr list" where
  "summary_lines s =
     [lit ''Shopping Agent structured task context'',
      lit ''resolved_hard_constraints='' @ joined_or_none (map (\<lambda>c. joined [58]
        [hc_field c, lit (operator_name (hc_operator c)), compact_json (json_of_scalar (hc_value c)), optional_text (hc_unit c)]) (cs_resolved_hard_constraints s)),
      lit ''product_variant='' @ optional_text (cs_product_variant s),
      lit ''exact_identity='' @ optional_text (cs_exact_identity s),
      lit ''clarification_responses='' @ joined_or_none (map (\<lambda>r. joined [58]
        [lit (answer_field (cx_field r)), optional_text (cx_resolved_value r), json_quoted (cx_response r)]) (cs_clarification_responses s)),
      lit ''supported_destination='' @ optional_text (cs_supported_destination s),
      lit ''working_assumptions='' @ joined_or_none (map (\<lambda>a. joined [58] [wa_field a, json_quoted (wa_value a)]) (cs_working_assumptions s)),
      lit ''remembered_preference='' @ joined_or_none (concat (map (\<lambda>f.
        map (\<lambda>v. field_name f @ [61] @ json_quoted v) (pref (cs_remembered_preference s) f)) FIELDS)),
      lit ''task_overrides='' @ joined_or_none (map (\<lambda>t.
        field_name (to_field t) @ [61] @ json_quoted (to_value t) @ [62] @ compact_json (JList (map JStr (to_overridden_values t)))) (cs_task_overrides s)),
      lit ''preference_sources='' @ joined_or_none (map (\<lambda>x.
        field_name (cxp_field x) @ [61] @ json_quoted (cxp_value x) @ [64] @ lit (source_text (cxp_source x))) (cs_preference_sources s))]
     @ (case cs_pending_clarification s of None \<Rightarrow> [] | Some p \<Rightarrow> [lit ''pending_clarification='' @ compact_json (prompt_json p)])"

definition render_summary :: "context_summary \<Rightarrow> pystr" where
  "render_summary s = joined [10] (summary_lines s)"

section \<open>Fitting the window\<close>

definition content_digest :: "(int list \<Rightarrow> int list) \<Rightarrow> pystr \<Rightarrow> pystr" where
  \<comment> \<open>\<open>hashlib.sha256(value.encode("utf-8")).hexdigest()[:12]\<close>\<close>
  "content_digest sha256 s = take 12 (concat (map (\<lambda>b. [hex_digit (b div 16), hex_digit (b mod 16)]) (sha256 (utf8 s))))"

definition fit_text :: "(int list \<Rightarrow> int list) \<Rightarrow> pystr \<Rightarrow> nat \<Rightarrow> pystr" where
  "fit_text sha256 s max_chars =
     (if length s \<le> max_chars then s
      else if max_chars \<le> 24 then take max_chars s
      else let marker = lit ''...[content:'' @ content_digest sha256 s @ lit '']...'';
               side = nat (max 1 ((int max_chars - int (length marker)) div 2))
           in take side s @ marker @ last_n side s)"

text \<open>The messages that still fit, from the newest to the oldest.\<close>

fun fit_turns :: "(int list \<Rightarrow> int list) \<Rightarrow> nat \<Rightarrow> turn list \<Rightarrow> turn list \<Rightarrow> turn list option" where
  "fit_turns sha256 room [] fitted = Some fitted"
| "fit_turns sha256 room (m # ms) fitted =
     (if cost_of_turn m \<le> room then fit_turns sha256 (room - cost_of_turn m) ms (m # fitted)
      else if fitted \<noteq> [] then Some fitted
      else if room < estimate_text_tokens (fst m) + 2 then Some []
      else case new_turn (fst m) (fit_text sha256 (snd m) ((room - estimate_text_tokens (fst m) - 1) * 4)) of
             None \<Rightarrow> None
           | Some t \<Rightarrow> Some (if cost_of_turn t \<le> room then [t] else []))"

fun drop_oldest :: "nat \<Rightarrow> nat \<Rightarrow> turn list \<Rightarrow> turn list" where
  \<comment> \<open>while the window is too large\<close>
  "drop_oldest max_total summary_cost [] = []"
| "drop_oldest max_total summary_cost (m # ms) =
     (if max_total < summary_cost + estimate_context_tokens (m # ms) then drop_oldest max_total summary_cost ms else m # ms)"

definition SUMMARY_ROLE :: pystr where "SUMMARY_ROLE = lit ''system''"

definition summary_budget :: "turn list \<Rightarrow> compression_settings \<Rightarrow> nat" where
  "summary_budget recent s =
     (let reserved = (if recent = [] then 0 else cost_of_turn (last recent))
      in nat (max 1 (int (max_tokens s) - int (min reserved (max_tokens s - 1)) - int (estimate_text_tokens SUMMARY_ROLE) - 1)))"

definition fit_model_window ::
  "(int list \<Rightarrow> int list) \<Rightarrow> turn list \<Rightarrow> pystr \<Rightarrow> compression_settings \<Rightarrow> (pystr \<times> turn list \<times> nat) option" where
  "fit_model_window sha256 recent summary_text s =
     (case new_turn SUMMARY_ROLE (fit_text sha256 summary_text (summary_budget recent s * 4)) of
        None \<Rightarrow> None
      | Some summary \<Rightarrow>
     (case fit_turns sha256 (max_tokens s - cost_of_turn summary) (rev recent) [] of
        None \<Rightarrow> None
      | Some fitted0 \<Rightarrow>
          (let fitted = drop_oldest (max_tokens s) (cost_of_turn summary) fitted0;
               n_total = cost_of_turn summary + estimate_context_tokens fitted
           in if n_total \<le> max_tokens s then Some (snd summary, fitted, n_total)
              else let tokens = nat (max 1 (int (max_tokens s) - int (estimate_text_tokens SUMMARY_ROLE) - 1))
                   in case new_turn SUMMARY_ROLE (fit_text sha256 summary_text (tokens * 4)) of
                        None \<Rightarrow> None
                      | Some short \<Rightarrow> Some (snd short, fitted, cost_of_turn short))))"

section \<open>The window of a model\<close>

record model_context =
  mo_summary :: context_summary
  mo_recent_messages :: "turn list"
  mo_compressed_count :: nat
  mo_total_message_count :: nat
  mo_estimated_tokens :: nat
  mo_status :: compression_status
  mo_reason_code :: pystr
  mo_summary_text :: pystr

datatype context_input = Conversation "raw_message list" | Window model_context

definition to_model_messages :: "model_context \<Rightarrow> turn list option" where
  "to_model_messages c =
     (if mo_summary_text c = [] then Some (mo_recent_messages c)
      else map_option (\<lambda>m. m # mo_recent_messages c) (new_turn SUMMARY_ROLE (mo_summary_text c)))"

definition SUMMARY_FIELDS :: "pystr list" where
  "SUMMARY_FIELDS = map lit [''resolved_hard_constraints'', ''product_variant'', ''exact_identity'', ''clarification_responses'',
     ''supported_destination'', ''working_assumptions'', ''remembered_preference'', ''task_overrides'', ''preference_sources'']"

definition compression_event_data :: "model_context \<Rightarrow> event_data" where
  "compression_event_data c =
     DCompression (mo_status c) (mo_reason_code c) (int (mo_compressed_count c)) (int (length (mo_recent_messages c)))
       (int (mo_estimated_tokens c)) SUMMARY_FIELDS"

definition bounded_turns :: "compression_settings \<Rightarrow> turn list \<Rightarrow> turn list option" where
  \<comment> \<open>the conversation behind the cache breakpoint, tool results bounded; \<open>None\<close>: ValueError\<close>
  "bounded_turns s ms =
     (case compute_breakpoint (map fst ms) (keep_recent s) of
        None \<Rightarrow> None
      | Some b \<Rightarrow> map_option (map (\<lambda>m. (message_role m, message_content (\<lambda>_. []) m)))
          (compress_after_breakpoint (\<lambda>_. []) (map (\<lambda>(r, c). ContextMessage r c) ms) (int b) 2000))"

definition safe_bounded_context ::
  "(int list \<Rightarrow> int list) \<Rightarrow> context_input \<Rightarrow> context_summary option \<Rightarrow> compression_settings \<Rightarrow> pystr \<Rightarrow> model_context option" where
  "safe_bounded_context sha256 input summary s reason =
     (let (source, inherited, n_total, given) =
            (case input of
               Window c \<Rightarrow> (mo_recent_messages c, mo_compressed_count c, mo_total_message_count c,
                            if summary = None then Some (mo_summary c) else summary)
             | Conversation ms \<Rightarrow> (coerce_messages ms, 0, length (coerce_messages ms), summary));
          safe = (case given of Some x \<Rightarrow> x | None \<Rightarrow> empty_summary)
      in map_option (\<lambda>(body, recent, tokens).
           \<lparr>mo_summary = safe, mo_recent_messages = recent, mo_compressed_count = max inherited (n_total - length recent),
            mo_total_message_count = n_total, mo_estimated_tokens = tokens, mo_status = CompressionDegraded, mo_reason_code = reason,
            mo_summary_text = body\<rparr>)
         (fit_model_window sha256 (last_n (keep_recent s) source) (render_summary safe) s))"

definition compress_known_context ::
  "(int list \<Rightarrow> int list) \<Rightarrow> turn list \<Rightarrow> nat \<Rightarrow> bool \<Rightarrow> nat \<Rightarrow> context_summary \<Rightarrow> pystr \<Rightarrow> compression_settings \<Rightarrow> model_context option" where
  \<comment> \<open>for a valid summary and its text\<close>
  "compress_known_context sha256 source inherited applied n_total summary body s =
     (case bounded_turns s source of
        None \<Rightarrow> None
      | Some messages \<Rightarrow>
          (let compressed = (keep_recent s < length messages \<or> max_tokens s < estimate_context_tokens messages \<or> applied);
               window = cost_of_turn (SUMMARY_ROLE, body) + estimate_context_tokens messages
           in if \<not> compressed \<and> py_strip body = [] then None
              else if \<not> compressed \<and> window \<le> max_tokens s
              then Some \<lparr>mo_summary = summary, mo_recent_messages = messages, mo_compressed_count = inherited,
                     mo_total_message_count = n_total, mo_estimated_tokens = window, mo_status = CompressionNotNeeded,
                     mo_reason_code = lit ''below_threshold'', mo_summary_text = body\<rparr>
              else map_option (\<lambda>(fitted, recent, tokens).
                     \<lparr>mo_summary = summary, mo_recent_messages = recent, mo_compressed_count = max inherited (n_total - keep_recent s),
                      mo_total_message_count = n_total, mo_estimated_tokens = tokens, mo_status = CompressionApplied,
                      mo_reason_code = lit ''threshold_exceeded'', mo_summary_text = fitted\<rparr>)
                   (fit_model_window sha256 (last_n (keep_recent s) messages) body s)))"

definition compress_model_context ::
  "(int list \<Rightarrow> int list) \<Rightarrow> context_input \<Rightarrow> context_summary option \<Rightarrow> compression_settings \<Rightarrow> model_context option" where
  "compress_model_context sha256 input summary s =
     (case input of
        Conversation ms \<Rightarrow>
          (case summary of
             None \<Rightarrow> safe_bounded_context sha256 (Conversation (map Typed (coerce_messages ms))) None s (lit ''invalid_summary'')
           | Some x \<Rightarrow> compress_known_context sha256 (coerce_messages ms) 0 False (length (coerce_messages ms)) x (render_summary x) s)
      | Window c \<Rightarrow>
          (let x = (case summary of None \<Rightarrow> mo_summary c | Some x \<Rightarrow> x);
               body = (if summary = None \<or> summary = Some (mo_summary c) then mo_summary_text c else render_summary x)
           in compress_known_context sha256 (mo_recent_messages c) (mo_compressed_count c) (mo_status c = CompressionApplied)
                (max (mo_total_message_count c) (length (mo_recent_messages c))) x body s))"

section \<open>From recorded events\<close>

fun mode_text :: "data_mode \<Rightarrow> string" where
  "mode_text Live = ''live''" | "mode_text Sandbox = ''sandbox''" | "mode_text Mixed = ''mixed''"

definition event_dict :: "monitor_event \<Rightarrow> (pystr \<times> json) list" where
  \<comment> \<open>\<open>event.data\<close> of the two clarification events, as \<open>MonitorEvent\<close> dumps it; the others are not read\<close>
  "event_dict e =
     (let mode = [(lit ''data_mode'', JStr (lit (mode_text (me_data_mode e))))]
      in case me_data e of
           DRequired p \<Rightarrow> (case prompt_json p of JMap m \<Rightarrow> m @ mode)
         | DResolved a \<Rightarrow>
             [(lit ''field'', JStr (lit (answer_field (ca'_field a)))), (lit ''reason_code'', JStr (lit (reason_text (ca'_reason_code a)))),
              (lit ''response'', JStr (ca'_response a)),
              (lit ''resolved_value'', case ca'_resolved_value a of None \<Rightarrow> JNull | Some v \<Rightarrow> JStr v)] @ mode
         | _ \<Rightarrow> [])"

definition within_4000 :: "pystr \<Rightarrow> bool" where
  "within_4000 s \<longleftrightarrow> 1 \<le> length s \<and> length s \<le> 4000"

definition named_by :: "('a \<Rightarrow> string) \<Rightarrow> 'a list \<Rightarrow> json option \<Rightarrow> 'a option" where
  \<comment> \<open>the value of a Literal\<close>
  "named_by f xs v = (case v of Some (JStr s) \<Rightarrow> find (\<lambda>x. lit (f x) = s) xs | _ \<Rightarrow> None)"

definition response_of_dict :: "(pystr \<times> json) list \<Rightarrow> context_response option" where
  \<comment> \<open>\<open>ContextClarificationResponse.model_validate\<close>, a model that forbids other keys\<close>
  "response_of_dict d =
     (case (named_by answer_field ANSWER_FIELDS (map_of d (lit ''field'')), named_by reason_text REASONS (map_of d (lit ''reason_code'')),
            map_of d (lit ''response'')) of
        (Some f, Some reason, Some (JStr response)) \<Rightarrow>
          (if \<not> fst ` set d \<subseteq> {lit ''field'', lit ''reason_code'', lit ''response'', lit ''resolved_value''} \<or> \<not> within_4000 response then None
           else case map_of d (lit ''resolved_value'') of
             None \<Rightarrow> Some \<lparr>cx_field = f, cx_reason_code = reason, cx_response = response, cx_resolved_value = None\<rparr>
           | Some JNull \<Rightarrow> Some \<lparr>cx_field = f, cx_reason_code = reason, cx_response = response, cx_resolved_value = None\<rparr>
           | Some (JStr v) \<Rightarrow>
               if within_4000 v then Some \<lparr>cx_field = f, cx_reason_code = reason, cx_response = response, cx_resolved_value = Some v\<rparr> else None
           | Some _ \<Rightarrow> None)
      | _ \<Rightarrow> None)"

definition recorded_answers :: "monitor_event list \<Rightarrow> context_response list" where
  "recorded_answers events =
     List.map_filter (\<lambda>e. if me_event e = ClarificationResolved then response_of_dict (event_dict e) else None) events"

definition reason_of_field :: "clarification_field \<Rightarrow> clarification_reason" where
  "reason_of_field f =
     (case f of ClarifyMode \<Rightarrow> BecauseModeAmbiguous | ClarifyProductVariant \<Rightarrow> BecauseProductVariantAmbiguous
      | ClarifyDestination \<Rightarrow> BecauseDestinationAmbiguous)"

text \<open>\<open>None\<close>: an answer of more than 4000 characters makes the validation raise.\<close>

definition clarifications_from_events :: "monitor_event list \<Rightarrow> (clarification_field \<times> pystr) list \<Rightarrow> context_response list option" where
  "clarifications_from_events events answers =
     (let recorded = recorded_answers events;
          missing = filter (\<lambda>(f, v). f \<notin> cx_field ` set recorded \<and> py_strip v \<noteq> []) answers
      in if \<exists>(f, v) \<in> set missing. \<not> within_4000 v then None
         else Some (recorded @ map (\<lambda>(f, v).
           \<lparr>cx_field = f, cx_reason_code = reason_of_field f, cx_response = v, cx_resolved_value = Some v\<rparr>) missing))"

definition stripped_turn :: "pystr \<Rightarrow> json option \<Rightarrow> turn list" where
  "stripped_turn role v = (case v of Some (JStr s) \<Rightarrow> if py_strip s = [] then [] else [(role, py_strip s)] | _ \<Rightarrow> [])"

definition turns_of_event :: "monitor_event \<Rightarrow> turn list" where
  "turns_of_event e =
     (if me_event e = ClarificationRequired then stripped_turn (lit ''assistant'') (map_of (event_dict e) (lit ''question''))
      else if me_event e = ClarificationResolved then stripped_turn (lit ''user'') (map_of (event_dict e) (lit ''response''))
      else [])"

definition recorded_fields :: "monitor_event list \<Rightarrow> pystr list" where
  "recorded_fields events =
     concat (map (\<lambda>e. case map_of (event_dict e) (lit ''field'') of
         Some (JStr f) \<Rightarrow> if me_event e = ClarificationResolved \<and> turns_of_event e \<noteq> [] then [f] else []
       | _ \<Rightarrow> []) events)"

definition messages_from_events :: "pystr \<Rightarrow> monitor_event list \<Rightarrow> (clarification_field \<times> pystr) list \<Rightarrow> turn list option" where
  "messages_from_events query events answers =
     map_option (\<lambda>m. m # concat (map turns_of_event events)
        @ concat (map (\<lambda>(f, v). if lit (answer_field f) \<in> set (recorded_fields events) then [] else stripped_turn (lit ''user'') (Some (JStr v))) answers))
       (new_turn (lit ''user'') query)"

definition build_context_summary_from_events ::
  "shopping_plan option \<Rightarrow> monitor_event list \<Rightarrow> (clarification_field \<times> pystr) list \<Rightarrow> pystr option \<Rightarrow> pystr option
   \<Rightarrow> remembered_preference option \<Rightarrow> task_override list \<Rightarrow> context_preference list \<Rightarrow> clarification_prompt option
   \<Rightarrow> context_summary option" where
  "build_context_summary_from_events plan events answers variant identity remembered overrides sources pending =
     map_option (\<lambda>responses. build_context_summary plan variant identity responses remembered overrides sources pending)
       (clarifications_from_events events answers)"

definition build_model_context ::
  "(int list \<Rightarrow> int list) \<Rightarrow> pystr \<Rightarrow> shopping_plan option \<Rightarrow> monitor_event list \<Rightarrow> (clarification_field \<times> pystr) list
   \<Rightarrow> remembered_preference option \<Rightarrow> task_override list \<Rightarrow> context_preference list \<Rightarrow> pystr option \<Rightarrow> clarification_prompt option
   \<Rightarrow> compression_settings \<Rightarrow> model_context option" where
  "build_model_context sha256 query plan events answers remembered overrides sources variant pending s =
     (case clarifications_from_events events answers of None \<Rightarrow> None
      | Some responses \<Rightarrow>
     (case messages_from_events query events answers of None \<Rightarrow> None
      | Some messages \<Rightarrow>
          compress_model_context sha256 (Conversation (map Typed messages))
            (Some (build_context_summary plan variant None responses remembered overrides sources pending)) s))"

section \<open>The untyped helper\<close>

record cache_breakpoint =
  cb_summary :: pystr
  cb_recent :: "(pystr \<times> json) list list"
  cb_compressed_count :: nat
  cb_estimated_tokens :: nat
  cb_status :: compression_status
  cb_reason_code :: pystr

definition older_line :: "unicode_text \<Rightarrow> (pystr \<times> json) list \<Rightarrow> pystr" where
  "older_line u m =
     (case map_of m (lit ''role'') of Some v \<Rightarrow> json_str (printable u) v | None \<Rightarrow> lit ''event'') @ lit '': ''
     @ take 240 (stable_json (case map_of m (lit ''content'') of Some v \<Rightarrow> v | None \<Rightarrow> JMap m))"

definition compress_messages ::
  "unicode_text \<Rightarrow> (int list \<Rightarrow> int list) \<Rightarrow> (pystr \<times> json) list list \<Rightarrow> compression_settings \<Rightarrow> cache_breakpoint option" where
  "compress_messages u sha256 messages s =
     (case bounded_turns s (coerce_messages (map Untyped messages)) of
        None \<Rightarrow> None
      | Some source \<Rightarrow>
          if length source \<le> keep_recent s \<and> estimate_context_tokens source \<le> max_tokens s
          then Some \<lparr>cb_summary = [], cb_recent = messages, cb_compressed_count = 0, cb_estimated_tokens = estimate_context_tokens source,
                 cb_status = CompressionNotNeeded, cb_reason_code = lit ''below_threshold''\<rparr>
          else (let older = take (length messages - keep_recent s) messages;
                    summary = joined [10] (map (older_line u) older);
                    reason = (if summary = [] then lit ''compression_failed'' else lit ''threshold_exceeded'')
                in map_option (\<lambda>w. \<lparr>cb_summary = summary, cb_recent = last_n (keep_recent s) messages, cb_compressed_count = length older,
                       cb_estimated_tokens = mo_estimated_tokens w,
                       cb_status = (if summary = [] then mo_status w else CompressionApplied), cb_reason_code = reason\<rparr>)
                     (safe_bounded_context sha256 (Conversation (map Typed source)) (Some empty_summary) s reason)))"

end
