(* ===== verification/CompressorProperties.thy ===== *)
theory CompressorProperties
  imports Compressor
begin

text \<open>
  The window of a model: it stays within its token limit, keeps the newest messages in order and never
  loses the latest one, compressing it again changes nothing, and the answers recorded in events
  never reach its summary.
\<close>

section \<open>Tokens and shortened texts\<close>

lemma tokens_eq: "estimate_text_tokens s = (length s + 3) div 4"
  by (cases s) (auto simp: estimate_text_tokens_def)

lemma tokens_le: "estimate_text_tokens s \<le> n \<longleftrightarrow> length s \<le> 4 * n"
  unfolding tokens_eq by linarith

lemma blank_iff: "py_strip s = [] \<longleftrightarrow> list_all py_space s"
proof
  assume "py_strip s = []"
  then have "dropWhile py_space (rev (dropWhile py_space s)) = []" by (simp add: py_strip_def)
  then have "\<forall>c \<in> set (dropWhile py_space s). py_space c" by (simp add: dropWhile_eq_Nil_conv)
  then show "list_all py_space s"
    by (metis list_all_iff Un_iff set_append set_takeWhileD takeWhile_dropWhile_id)
next
  assume "list_all py_space s"
  then have "dropWhile py_space s = []" by (metis dropWhile_eq_Nil_conv list_all_iff)
  then show "py_strip s = []" by (simp only: py_strip_def rev.simps dropWhile.simps)
qed

definition hash_of_32_bytes :: "(int list \<Rightarrow> int list) \<Rightarrow> bool" where
  "hash_of_32_bytes sha256 \<longleftrightarrow> (\<forall>b. length (sha256 b) = 32)"

lemma digest_length: "hash_of_32_bytes sha256 \<Longrightarrow> length (content_digest sha256 s) = 12"
  by (simp add: content_digest_def length_concat hash_of_32_bytes_def comp_def sum_list_triv)

text \<open>A marker is 28 characters long, so limits from 25 to 29 are exceeded.\<close>

lemma fit_text_length:
  assumes "hash_of_32_bytes sha256"
  shows "length (fit_text sha256 s n) \<le> (if 24 < n \<and> n < 30 then 30 else n)"
proof -
  define marker where "marker = lit ''...[content:'' @ content_digest sha256 s @ lit '']...''"
  have m: "length marker = 28" by (simp add: marker_def digest_length [OF assms])
  define side where "side = nat (max 1 ((int n - 28) div 2))"
  have side: "2 * side + 28 \<le> (if n < 30 then 30 else n)" by (cases "n < 30") (auto simp: side_def)
  consider "length s \<le> n" | "n < length s" "n \<le> 24" | "n < length s" "24 < n" by linarith
  then show ?thesis
  proof cases
    case 3
    then have "fit_text sha256 s n = take side s @ marker @ last_n side s"
      unfolding fit_text_def side_def Let_def marker_def [symmetric] by (simp add: m)
    moreover have "length (take side s @ marker @ last_n side s) \<le> 2 * side + 28" by (simp add: m)
    ultimately show ?thesis using side 3 by (simp split: if_splits)
  qed (auto simp: fit_text_def)
qed

lemma fit_tokens:
  assumes "hash_of_32_bytes sha256"
  shows "estimate_text_tokens (fit_text sha256 s (k * 4)) \<le> (if k = 7 then 8 else k)"
proof -
  have "24 < k * 4 \<and> k * 4 < 30 \<longleftrightarrow> k = 7" by presburger
  with fit_text_length [OF assms, of s "k * 4"] show ?thesis by (auto simp: tokens_le split: if_splits)
qed

lemma fit_text_nonblank:
  assumes "24 < n" "py_strip s \<noteq> []"
  shows "py_strip (fit_text sha256 s n) \<noteq> []"
proof -
  have "46 \<in> set (fit_text sha256 s n)" if "n < length s"
    using that assms(1) by (simp add: fit_text_def Let_def lit_def)
  moreover have "\<not> py_space 46" by (simp add: py_space_def)
  ultimately show ?thesis using assms(2) unfolding blank_iff
    by (cases "n < length s") (auto simp: list_all_iff fit_text_def)
qed

section \<open>Fitting the turns\<close>

lemma fit_turns_bound: "fit_turns sha256 room ms fitted = Some out \<Longrightarrow> estimate_context_tokens out \<le> room + estimate_context_tokens fitted"
proof (induction sha256 room ms fitted rule: fit_turns.induct)
  case (2 sha256 room m ms fitted)
  show ?case
  proof (cases "cost_of_turn m \<le> room")
    case True
    with 2 have "estimate_context_tokens out \<le> room - cost_of_turn m + estimate_context_tokens (m # fitted)" by simp
    with True show ?thesis by (simp add: estimate_context_tokens_def)
  next
    case False
    with "2.prems" show ?thesis by (auto simp: estimate_context_tokens_def split: if_splits option.splits)
  qed
qed simp

lemma fit_turns_all: "estimate_context_tokens ms \<le> room \<Longrightarrow> fit_turns sha256 room ms fitted = Some (rev ms @ fitted)"
  by (induction ms arbitrary: room fitted) (auto simp: estimate_context_tokens_def)

lemma estimate_rev: "estimate_context_tokens (rev ms) = estimate_context_tokens ms"
  by (simp add: estimate_context_tokens_def rev_map [symmetric] sum_list_rev)

text \<open>The kept turns are the newest ones, unless a single one is shortened.\<close>

lemma fit_turns_shape:
  "fit_turns sha256 room ms fitted = Some out \<Longrightarrow>
     (\<exists>k. out = rev (take k ms) @ fitted)
     \<or> (\<exists>m rest n. fitted = [] \<and> ms = m # rest \<and> room < cost_of_turn m \<and> out = [(fst m, fit_text sha256 (snd m) n)] \<and> cost_of_turn (hd out) \<le> room)"
proof (induction sha256 room ms fitted rule: fit_turns.induct)
  case (2 sha256 room m ms fitted)
  show ?case
  proof (cases "cost_of_turn m \<le> room")
    case True
    with 2 obtain k where "out = rev (take k ms) @ m # fitted" by auto
    then show ?thesis by (intro disjI1 exI [of _ "Suc k"]) simp
  next
    case False
    then show ?thesis using "2.prems" by (auto simp: new_turn_def intro: exI [of _ 0] split: if_splits option.splits)
  qed
qed (auto intro: exI [of _ 0])

lemma drop_oldest_fits: "summary_cost + estimate_context_tokens ms \<le> max_total \<Longrightarrow> drop_oldest max_total summary_cost ms = ms"
  by (cases ms) auto

section \<open>The window\<close>

lemma summary_role_tokens: "estimate_text_tokens SUMMARY_ROLE = 2"
  by (simp add: SUMMARY_ROLE_def tokens_eq)

lemma cost_of_summary: "cost_of_turn (SUMMARY_ROLE, t) = estimate_text_tokens t + 3"
  by (simp add: cost_of_turn_def summary_role_tokens)

definition reserved :: "turn list \<Rightarrow> nat" where
  "reserved recent = (if recent = [] then 0 else cost_of_turn (last recent))"

lemma summary_budget_eq: "32 \<le> max_tokens s \<Longrightarrow> summary_budget recent s = max 1 (max_tokens s - reserved recent - 3)"
  by (auto simp: summary_budget_def reserved_def summary_role_tokens Let_def)

text \<open>
  The text of the summary leaves room for the latest turn, or nearly: a marker may take one token too
  many, and an overlong turn is to be shortened; then at least 21 tokens are left for it.
\<close>

lemma room_left:
  assumes "32 \<le> max_tokens s" "hash_of_32_bytes sha256" "t = fit_text sha256 body (summary_budget recent s * 4)"
  shows "cost_of_turn (SUMMARY_ROLE, t) \<le> max_tokens s"
    and "reserved recent \<le> max_tokens s - cost_of_turn (SUMMARY_ROLE, t) \<or> 21 \<le> max_tokens s - cost_of_turn (SUMMARY_ROLE, t)"
    and "28 < length t \<Longrightarrow> summary_budget recent s = 7 \<Longrightarrow> max_tokens s - cost_of_turn (SUMMARY_ROLE, t) < reserved recent"
proof -
  let ?k = "summary_budget recent s"
  have k: "?k = max 1 (max_tokens s - reserved recent - 3)" by (rule summary_budget_eq [OF assms(1)])
  have t: "estimate_text_tokens t \<le> (if ?k = 7 then 8 else ?k)" using fit_tokens [OF assms(2)] assms(3) by simp
  show "cost_of_turn (SUMMARY_ROLE, t) \<le> max_tokens s" using t k assms(1) by (auto simp: cost_of_summary split: if_splits)
  show "reserved recent \<le> max_tokens s - cost_of_turn (SUMMARY_ROLE, t) \<or> 21 \<le> max_tokens s - cost_of_turn (SUMMARY_ROLE, t)"
    using t k assms(1) by (auto simp: cost_of_summary split: if_splits)
  assume "28 < length t" "?k = 7"
  then show "max_tokens s - cost_of_turn (SUMMARY_ROLE, t) < reserved recent"
    using k assms(1) by (auto simp: cost_of_summary tokens_eq split: if_splits)
qed

text \<open>What the fitting returns: it never needs to drop a turn again or to shorten the summary twice.\<close>

lemma fit_model_window_SomeE:
  assumes "fit_model_window sha256 recent body s = Some (t, rs, n)" "32 \<le> max_tokens s" "hash_of_32_bytes sha256"
  obtains "t = fit_text sha256 body (summary_budget recent s * 4)" "py_strip t \<noteq> []"
    "fit_turns sha256 (max_tokens s - cost_of_turn (SUMMARY_ROLE, t)) (rev recent) [] = Some rs"
    "n = cost_of_turn (SUMMARY_ROLE, t) + estimate_context_tokens rs" "n \<le> max_tokens s"
proof -
  define t' where "t' = fit_text sha256 body (summary_budget recent s * 4)"
  have summary: "new_turn SUMMARY_ROLE t' = Some (SUMMARY_ROLE, t')" "py_strip t' \<noteq> []"
    using assms(1) by (auto simp: fit_model_window_def new_turn_def t'_def split: if_splits)
  obtain rs' where rs': "fit_turns sha256 (max_tokens s - cost_of_turn (SUMMARY_ROLE, t')) (rev recent) [] = Some rs'"
    using assms(1) summary by (auto simp: fit_model_window_def t'_def [symmetric] split: option.splits)
  have fits: "cost_of_turn (SUMMARY_ROLE, t') + estimate_context_tokens rs' \<le> max_tokens s"
    using fit_turns_bound [OF rs'] room_left(1) [OF assms(2,3) t'_def] by (simp add: estimate_context_tokens_def)
  have eq: "t = t'" "rs = rs'" "n = cost_of_turn (SUMMARY_ROLE, t') + estimate_context_tokens rs'"
    using assms(1) summary rs' fits by (auto simp: fit_model_window_def t'_def [symmetric] Let_def drop_oldest_fits)
  show thesis using summary(2) rs' fits by (intro that) (simp_all add: eq t'_def)
qed

definition proper_turn :: "turn \<Rightarrow> bool" where
  "proper_turn m \<longleftrightarrow> fst m \<in> set MESSAGE_ROLES \<and> py_strip (snd m) \<noteq> []"

lemma fit_turns_continues: "fitted \<noteq> [] \<Longrightarrow> \<exists>k. fit_turns sha256 room ms fitted = Some (rev (take k ms) @ fitted)"
proof (induction ms arbitrary: room fitted)
  case (Cons m ms)
  show ?case
  proof (cases "cost_of_turn m \<le> room")
    case True
    with Cons.IH [of "m # fitted"] obtain k where "fit_turns sha256 (room - cost_of_turn m) ms (m # fitted) = Some (rev (take k ms) @ m # fitted)" by blast
    with True show ?thesis by (intro exI [of _ "Suc k"]) simp
  qed (use Cons.prems in \<open>auto intro: exI [of _ 0]\<close>)
qed simp

definition newest_kept :: "(int list \<Rightarrow> int list) \<Rightarrow> turn list \<Rightarrow> turn list \<Rightarrow> bool" where
  \<comment> \<open>the kept turns are the newest, unchanged; a single one may be shortened\<close>
  "newest_kept sha256 recent rs \<longleftrightarrow>
     (\<exists>older kept. recent = older @ kept \<and> kept \<noteq> [] \<and> rs = kept)
     \<or> (\<exists>older m n. recent = older @ [m] \<and> rs = [(fst m, fit_text sha256 (snd m) n)] \<and> length (fit_text sha256 (snd m) n) < length (snd m))"

lemma shorter_turn:
  assumes "proper_turn m" "21 \<le> room" "room < cost_of_turn m" "hash_of_32_bytes sha256"
  shows "\<exists>n. fit_turns sha256 room (m # ms) [] = Some [(fst m, fit_text sha256 (snd m) n)]
    \<and> length (fit_text sha256 (snd m) n) < length (snd m)"
proof -
  define k where "k = room - estimate_text_tokens (fst m) - 1"
  have role: "estimate_text_tokens (fst m) \<le> 3"
    using assms(1) by (auto simp: proper_turn_def MESSAGE_ROLES_def tokens_eq)
  then have k: "17 \<le> k" "room = k + estimate_text_tokens (fst m) + 1" using assms(2) by (simp_all add: k_def)
  let ?t = "fit_text sha256 (snd m) (k * 4)"
  have cost: "estimate_text_tokens ?t \<le> k" using fit_tokens [OF assms(4), of "snd m" k] k by simp
  have "py_strip ?t \<noteq> []" using assms(1) k by (intro fit_text_nonblank) (auto simp: proper_turn_def)
  moreover have "length ?t < length (snd m)"
  proof -
    have "k < estimate_text_tokens (snd m)" using assms(3) k by (simp add: cost_of_turn_def)
    moreover have "length ?t \<le> 4 * k" using cost by (simp add: tokens_le)
    ultimately show ?thesis by (simp add: tokens_eq)
  qed
  moreover have "\<not> room < estimate_text_tokens (fst m) + 2" using k by simp
  ultimately show ?thesis
    using assms(3) cost k by (intro exI [of _ "k * 4"]) (simp add: new_turn_def k_def [symmetric] cost_of_turn_def)
qed

lemma fit_model_window_keeps:
  assumes "32 \<le> max_tokens s" "hash_of_32_bytes sha256" "py_strip (fit_text sha256 body (summary_budget recent s * 4)) \<noteq> []"
    and "recent \<noteq> []" "proper_turn (last recent)"
  shows "\<exists>t rs n. fit_model_window sha256 recent body s = Some (t, rs, n) \<and> newest_kept sha256 recent rs"
proof -
  define t where "t = fit_text sha256 body (summary_budget recent s * 4)"
  define room where "room = max_tokens s - cost_of_turn (SUMMARY_ROLE, t)"
  obtain older m where r: "recent = older @ [m]" using assms(4) by (metis append_butlast_last_id)
  have summary: "new_turn SUMMARY_ROLE t = Some (SUMMARY_ROLE, t)" using assms(3) by (simp add: new_turn_def t_def)
  have "\<exists>rs. fit_turns sha256 room (rev recent) [] = Some rs \<and> newest_kept sha256 recent rs"
  proof (cases "cost_of_turn m \<le> room")
    case True
    then obtain k where "fit_turns sha256 room (rev recent) [] = Some (rev (take k (rev older)) @ [m])"
      using fit_turns_continues [of "[m]" sha256 "room - cost_of_turn m" "rev older"] by (auto simp: r)
    moreover have "recent = rev (drop k (rev older)) @ rev (take k (rev older)) @ [m]"
      unfolding r by (simp flip: append_assoc rev_append)
    ultimately show ?thesis unfolding newest_kept_def by blast
  next
    case False
    then have "21 \<le> room" using room_left(2) [OF assms(1,2) t_def] by (simp add: r reserved_def room_def)
    then obtain n where "fit_turns sha256 room (m # rev older) [] = Some [(fst m, fit_text sha256 (snd m) n)]"
        "length (fit_text sha256 (snd m) n) < length (snd m)"
      using shorter_turn [of m room sha256 "rev older"] False assms(2,5) by (auto simp: r)
    then show ?thesis unfolding newest_kept_def r by (intro exI conjI disjI2) auto
  qed
  then obtain rs where rs: "fit_turns sha256 room (rev recent) [] = Some rs" "newest_kept sha256 recent rs" by blast
  have "cost_of_turn (SUMMARY_ROLE, t) + estimate_context_tokens rs \<le> max_tokens s"
    using fit_turns_bound [OF rs(1)] room_left(1) [OF assms(1,2) t_def] by (simp add: estimate_context_tokens_def room_def)
  then have "fit_model_window sha256 recent body s = Some (t, rs, cost_of_turn (SUMMARY_ROLE, t) + estimate_context_tokens rs)"
    using summary rs(1) by (simp add: fit_model_window_def t_def [symmetric] room_def Let_def drop_oldest_fits)
  with rs(2) show ?thesis by blast
qed

text \<open>Fitting the result again changes nothing.\<close>

lemma fit_text_short: "length s \<le> n \<Longrightarrow> fit_text sha256 s n = s"
  by (simp add: fit_text_def)

lemma last_fitted:
  assumes "fit_turns sha256 room (rev recent) [] = Some rs"
  shows "reserved rs \<le> reserved recent" and "reserved rs \<le> room"
proof -
  from fit_turns_shape [OF assms] consider k where "rs = rev (take k (rev recent))"
    | m rest n where "rev recent = m # rest" "room < cost_of_turn m" "rs = [(fst m, fit_text sha256 (snd m) n)]" "cost_of_turn (hd rs) \<le> room"
    by auto
  then show "reserved rs \<le> reserved recent"
  proof cases
    case 1
    then show ?thesis by (cases "rev recent"; cases k) (auto simp: reserved_def)
  next
    case 2
    then have "last recent = m" "recent \<noteq> []" by (auto simp: hd_rev [symmetric])
    with 2 show ?thesis by (simp add: reserved_def)
  qed
  have "estimate_context_tokens rs \<le> room" using fit_turns_bound [OF assms] by (simp add: estimate_context_tokens_def)
  moreover have "reserved rs \<le> estimate_context_tokens rs"
    by (cases rs rule: rev_cases) (simp_all add: reserved_def estimate_context_tokens_def)
  ultimately show "reserved rs \<le> room" by simp
qed

lemma fit_model_window_again:
  assumes "fit_model_window sha256 recent body s = Some (t, rs, n)" "32 \<le> max_tokens s" "hash_of_32_bytes sha256"
  shows "fit_model_window sha256 rs t s = Some (t, rs, n)"
proof -
  from assms obtain t: "t = fit_text sha256 body (summary_budget recent s * 4)" "py_strip t \<noteq> []"
      and rs: "fit_turns sha256 (max_tokens s - cost_of_turn (SUMMARY_ROLE, t)) (rev recent) [] = Some rs"
      and n: "n = cost_of_turn (SUMMARY_ROLE, t) + estimate_context_tokens rs" "n \<le> max_tokens s"
    by (rule fit_model_window_SomeE)
  note last = last_fitted [OF rs]
  have budget: "summary_budget recent s \<le> summary_budget rs s"
    using last(1) by (simp add: summary_budget_eq [OF assms(2)])
  have "length t \<le> summary_budget rs s * 4"
  proof (cases "summary_budget recent s = 7 \<and> 28 < length t")
    case True
    with room_left(3) [OF assms(2,3) t(1)] last(2) have "reserved rs < reserved recent" by simp
    with True have "8 \<le> summary_budget rs s" using assms(2) by (auto simp: summary_budget_eq [OF assms(2)])
    moreover have "length t \<le> 30" using fit_text_length [OF assms(3), of body 28] True by (simp add: t(1))
    ultimately show ?thesis by simp
  next
    case False
    then have "length t \<le> summary_budget recent s * 4"
      using fit_tokens [OF assms(3), of body "summary_budget recent s"] t(1)
      by (cases "summary_budget recent s = 7") (simp_all add: tokens_le)
    with budget show ?thesis by simp
  qed
  then have "new_turn SUMMARY_ROLE (fit_text sha256 t (summary_budget rs s * 4)) = Some (SUMMARY_ROLE, t)"
    using t(2) by (simp add: fit_text_short new_turn_def)
  moreover have "fit_turns sha256 (max_tokens s - cost_of_turn (SUMMARY_ROLE, t)) (rev rs) [] = Some rs"
    using n by (simp add: fit_turns_all estimate_rev)
  ultimately show ?thesis using n by (simp add: fit_model_window_def Let_def drop_oldest_fits)
qed

section \<open>The conversation\<close>

lemma breakpoint_exists: "1 \<le> n \<Longrightarrow> \<exists>b. compute_breakpoint roles n = Some b"
  by (simp add: compute_breakpoint_def Let_def)

lemma message_of_turns: "map message_role (map (\<lambda>(r, c). ContextMessage r c) ms) = map fst ms"
  by (induction ms) auto

lemma bounded_turns_exist: "1 \<le> keep_recent s \<Longrightarrow> \<exists>out. bounded_turns s ms = Some out"
  using breakpoint_exists [of "keep_recent s" "map fst ms"] by (auto simp: bounded_turns_def compress_after_breakpoint_def Let_def)

lemma bounded_turns_roles:
  assumes "bounded_turns s ms = Some out"
  shows "map fst out = map fst ms" and "(\<forall>m \<in> set ms. py_strip (snd m) \<noteq> []) \<Longrightarrow> \<forall>m \<in> set out. py_strip (snd m) \<noteq> []"
proof -
  obtain b where out: "out = map (\<lambda>m. (message_role m, message_content (\<lambda>_. []) m))
      (take b (map (\<lambda>(r, c). ContextMessage r c) ms) @ map (bound_message (\<lambda>_. []) 2000) (drop b (map (\<lambda>(r, c). ContextMessage r c) ms)))"
    using assms by (auto simp: bounded_turns_def compress_after_breakpoint_def Let_def split: option.splits)
  have role: "message_role (bound_message (\<lambda>_. []) 2000 (ContextMessage r c)) = r" for r c by (simp add: role_bound_message)
  show "map fst out = map fst ms"
    unfolding out by (simp add: comp_def split_beta role take_map drop_map) (metis append_take_drop_id map_append)
  have "46 \<in> set trimmed_suffix" "\<not> py_space 46" by (simp_all add: trimmed_suffix_def py_space_def)
  then have kept: "py_strip c \<noteq> [] \<Longrightarrow> py_strip (message_content (\<lambda>_. []) (bound_message (\<lambda>_. []) 2000 (ContextMessage r c))) \<noteq> []" for r c
    unfolding blank_iff by (auto simp: bound_message_def Let_def list_all_iff)
  assume "\<forall>m \<in> set ms. py_strip (snd m) \<noteq> []"
  then show "\<forall>m \<in> set out. py_strip (snd m) \<noteq> []"
    unfolding out by (fastforce simp: kept dest: in_set_takeD in_set_dropD)
qed

lemma bounded_turns_short:
  assumes "1 \<le> keep_recent s" "length ms \<le> keep_recent s"
  shows "bounded_turns s ms = Some ms"
proof -
  have "length (filter (\<lambda>(i, r). r = lit ''tool'') (enumerate_py (map fst ms))) \<le> length ms"
    using length_filter_le [of _ "enumerate_py (map fst ms)"] by (simp add: enumerate_py_def)
  then have "compute_breakpoint (map fst ms) (keep_recent s) = Some (length ms)"
    using assms by (simp add: compute_breakpoint_def Let_def)
  moreover have "map (\<lambda>m. (message_role m, message_content (\<lambda>_. []) m)) (map (\<lambda>(r, c). ContextMessage r c) ms) = ms"
    by (induction ms) auto
  ultimately show ?thesis by (simp add: bounded_turns_def compress_after_breakpoint_def comp_def)
qed

lemma label_starts: "\<exists>rest. render_summary x = 83 # rest"
  by (simp add: render_summary_def summary_lines_def lit_def)

lemma summary_not_blank: "0 < n \<Longrightarrow> py_strip (fit_text sha256 (render_summary x) n) \<noteq> []"
proof -
  assume "0 < n"
  obtain rest where "render_summary x = 83 # rest" using label_starts by blast
  then have "83 \<in> set (fit_text sha256 (render_summary x) n)"
    using \<open>0 < n\<close> by (cases n) (auto simp: fit_text_def Let_def take_Cons' max_def)
  moreover have "\<not> py_space 83" by (simp add: py_space_def)
  ultimately show ?thesis by (auto simp: blank_iff list_all_iff)
qed

lemma coerced_proper:
  assumes "\<forall>m. Typed m \<in> set ms \<longrightarrow> proper_turn m" "m \<in> set (coerce_messages ms)"
  shows "proper_turn m"
proof -
  have "proper_turn m" if "coerce_untyped d = Some m" for d
    using that by (auto simp: coerce_untyped_def Let_def new_turn_def proper_turn_def MESSAGE_ROLES_def split: option.splits json.splits if_splits)
  with assms show ?thesis by (auto simp: coerce_messages_def map_filter_def split: raw_message.splits if_splits)
qed

lemma newest_kept_suffix: "newest_kept sha256 (last_n n ms) rs \<Longrightarrow> newest_kept sha256 ms rs"
proof -
  have "ms = take (length ms - n) ms @ last_n n ms" by (simp add: last_n_def)
  then show "newest_kept sha256 (last_n n ms) rs \<Longrightarrow> newest_kept sha256 ms rs"
    unfolding newest_kept_def by (metis append_assoc)
qed

lemma newest_kept_all: "ms \<noteq> [] \<Longrightarrow> newest_kept sha256 ms ms"
  by (auto simp: newest_kept_def)

lemma known_context_kept:
  assumes "valid_compression s" "hash_of_32_bytes sha256" "bounded_turns s source = Some messages" "messages \<noteq> []" "proper_turn (last messages)"
  shows "\<exists>c. compress_known_context sha256 source inherited applied k x (render_summary x) s = Some c \<and> newest_kept sha256 messages (mo_recent_messages c)"
proof -
  have s: "32 \<le> max_tokens s" "1 \<le> keep_recent s" using assms(1) by (simp_all add: valid_compression_def)
  have shown: "py_strip (render_summary x) \<noteq> []"
    using summary_not_blank [of "length (render_summary x)" sha256 x] label_starts [of x] by (auto simp: fit_text_def)
  have "0 < summary_budget (last_n (keep_recent s) messages) s * 4" by (simp add: summary_budget_eq [OF s(1)])
  note blank = summary_not_blank [OF this]
  have "length messages - keep_recent s < length messages" using assms(4) s(2) by (simp add: diff_less)
  then have "last_n (keep_recent s) messages \<noteq> []" "last (last_n (keep_recent s) messages) = last messages"
    by (simp_all add: last_n_def)
  then obtain t rs n where "fit_model_window sha256 (last_n (keep_recent s) messages) (render_summary x) s = Some (t, rs, n)"
      "newest_kept sha256 (last_n (keep_recent s) messages) rs"
    using fit_model_window_keeps [OF s(1) assms(2) blank] assms(5) by metis
  then show ?thesis
    using assms(3,4) shown newest_kept_suffix newest_kept_all by (auto simp: compress_known_context_def Let_def)
qed


lemma known_context_bounded:
  assumes "compress_known_context sha256 source inherited applied k x body s = Some c" "valid_compression s" "hash_of_32_bytes sha256"
  shows "\<exists>ms. to_model_messages c = Some ms \<and> estimate_context_tokens ms = mo_estimated_tokens c \<and> mo_estimated_tokens c \<le> max_tokens s"
proof -
  have s: "32 \<le> max_tokens s" using assms(2) by (simp add: valid_compression_def)
  have shown: "to_model_messages c = Some ((SUMMARY_ROLE, t) # mo_recent_messages c)" if "mo_summary_text c = t" "py_strip t \<noteq> []" for t
    using that by (auto simp: to_model_messages_def new_turn_def py_strip_def)
  obtain messages where m: "bounded_turns s source = Some messages"
    using assms(1) by (auto simp: compress_known_context_def split: option.splits)
  consider "mo_summary_text c = body" "py_strip body \<noteq> []" "mo_estimated_tokens c = cost_of_turn (SUMMARY_ROLE, body) + estimate_context_tokens (mo_recent_messages c)"
      "mo_estimated_tokens c \<le> max_tokens s"
    | "fit_model_window sha256 (last_n (keep_recent s) messages) body s = Some (mo_summary_text c, mo_recent_messages c, mo_estimated_tokens c)"
    using assms(1) m by (auto simp: compress_known_context_def Let_def split: if_splits)
  then show ?thesis
  proof cases
    case 1
    with shown show ?thesis by (simp add: estimate_context_tokens_def)
  next
    case 2
    then show ?thesis
      by (rule fit_model_window_SomeE [OF _ s assms(3)]) (simp add: shown estimate_context_tokens_def)
  qed
qed

lemma safe_context_bounded:
  assumes "safe_bounded_context sha256 input summary s reason = Some c" "valid_compression s" "hash_of_32_bytes sha256"
  shows "\<exists>ms. to_model_messages c = Some ms \<and> estimate_context_tokens ms = mo_estimated_tokens c \<and> mo_estimated_tokens c \<le> max_tokens s"
proof -
  have s: "32 \<le> max_tokens s" using assms(2) by (simp add: valid_compression_def)
  obtain source x where "fit_model_window sha256 (last_n (keep_recent s) source) (render_summary x) s = Some (mo_summary_text c, mo_recent_messages c, mo_estimated_tokens c)"
    using assms(1) by (auto simp: safe_bounded_context_def Let_def split: prod.splits)
  then show ?thesis
    by (rule fit_model_window_SomeE [OF _ s assms(3)]) (auto simp: estimate_context_tokens_def to_model_messages_def new_turn_def py_strip_def)
qed

text \<open>
  C36. Whatever the conversation, the facts and the path (compression, its reuse for a window, or the fallback after
  a failure), the messages a model is given are estimated at no more than the limit, and the estimate
  that the event reports is theirs.
\<close>

theorem window_is_bounded:
  assumes "valid_compression s" "hash_of_32_bytes sha256"
    and "compress_model_context sha256 input summary s = Some c \<or> safe_bounded_context sha256 input summary s reason = Some c"
  shows "\<exists>ms. to_model_messages c = Some ms \<and> estimate_context_tokens ms = mo_estimated_tokens c \<and> mo_estimated_tokens c \<le> max_tokens s"
  using assms(3)
proof
  assume "compress_model_context sha256 input summary s = Some c"
  then show ?thesis
    by (cases input; cases summary)
      (auto simp: compress_model_context_def Let_def intro: known_context_bounded safe_context_bounded assms(1,2))
qed (rule safe_context_bounded [OF _ assms(1,2)])

section \<open>Compressing again\<close>

lemma known_context_again:
  assumes "compress_known_context sha256 source inherited applied k x body s = Some c" "valid_compression s" "hash_of_32_bytes sha256"
    and "length source \<le> k"
  shows "compress_known_context sha256 (mo_recent_messages c) (mo_compressed_count c) (mo_status c = CompressionApplied)
     (max (mo_total_message_count c) (length (mo_recent_messages c))) (mo_summary c) (mo_summary_text c) s = Some c"
proof -
  have s: "32 \<le> max_tokens s" "1 \<le> keep_recent s" using assms(2) by (simp_all add: valid_compression_def)
  obtain messages where m: "bounded_turns s source = Some messages"
    using assms(1) by (auto simp: compress_known_context_def split: option.splits)
  have len: "length messages = length source" using bounded_turns_roles(1) [OF m] by (metis length_map)
  show ?thesis
  proof (cases "mo_status c = CompressionApplied")
    case False
    with assms(1) m have c: "c = \<lparr>mo_summary = x, mo_recent_messages = messages, mo_compressed_count = inherited,
          mo_total_message_count = k, mo_estimated_tokens = cost_of_turn (SUMMARY_ROLE, body) + estimate_context_tokens messages,
          mo_status = CompressionNotNeeded, mo_reason_code = lit ''below_threshold'', mo_summary_text = body\<rparr>"
        and short: "length messages \<le> keep_recent s" "estimate_context_tokens messages \<le> max_tokens s" "py_strip body \<noteq> []"
          "cost_of_turn (SUMMARY_ROLE, body) + estimate_context_tokens messages \<le> max_tokens s"
      by (auto simp: compress_known_context_def Let_def split: if_splits)
    have "max k (length messages) = k" using assms(4) len by simp
    with bounded_turns_short [OF s(2) short(1)] short show ?thesis
      unfolding c by (simp add: compress_known_context_def Let_def)
  next
    case True
    with assms(1) m obtain t rs n where f: "fit_model_window sha256 (last_n (keep_recent s) messages) body s = Some (t, rs, n)"
        and c: "c = \<lparr>mo_summary = x, mo_recent_messages = rs, mo_compressed_count = max inherited (k - keep_recent s),
          mo_total_message_count = k, mo_estimated_tokens = n, mo_status = CompressionApplied,
          mo_reason_code = lit ''threshold_exceeded'', mo_summary_text = t\<rparr>"
      by (auto simp: compress_known_context_def Let_def split: if_splits)
    have "fit_turns sha256 (max_tokens s - cost_of_turn (SUMMARY_ROLE, t)) (rev (last_n (keep_recent s) messages)) [] = Some rs"
      using f s(1) assms(3) by (rule fit_model_window_SomeE)
    from fit_turns_shape [OF this] have "length rs \<le> length (last_n (keep_recent s) messages)"
      by (auto dest!: arg_cong [of _ _ length])
    then have rs: "length rs \<le> keep_recent s" "length rs \<le> length messages" by simp_all
    have "bounded_turns s rs = Some rs" "last_n (keep_recent s) rs = rs"
      using bounded_turns_short [OF s(2) rs(1)] rs(1) by (simp_all add: last_n_all)
    moreover have "max k (length rs) = k" using assms(4) len rs by simp
    moreover note fit_model_window_again [OF f s(1) assms(3)]
    ultimately show ?thesis unfolding c by (simp add: compress_known_context_def Let_def max.assoc)
  qed
qed


section \<open>Recorded answers\<close>

text \<open>
  The summary forgets every recorded answer: the data of a recorded answer carries its data mode, the model
  of an answer in the summary forbids other keys, and the failed validation is skipped, so
  whatever events are recorded, only the answers of the current task are summarised.
\<close>

lemma recorded_answers_are_forgotten:
  "recorded_answers events = [] \<and> clarifications_from_events events answers = clarifications_from_events [] answers"
proof -
  have forbidden: "lit ''data_mode'' \<notin> {lit ''field'', lit ''reason_code'', lit ''response'', lit ''resolved_value''}" by simp
  have "event_dict e = [] \<or> lit ''data_mode'' \<in> fst ` set (event_dict e)" for e
    by (auto simp: event_dict_def Let_def prompt_json_def split: event_data.splits)
  then have "event_dict e = [] \<or> \<not> fst ` set (event_dict e) \<subseteq> {lit ''field'', lit ''reason_code'', lit ''response'', lit ''resolved_value''}" for e
    using forbidden by blast
  moreover have "response_of_dict d = None"
    if "\<not> fst ` set d \<subseteq> {lit ''field'', lit ''reason_code'', lit ''response'', lit ''resolved_value''}" for d
    using that unfolding response_of_dict_def by (simp split: option.splits json.splits)
  moreover have "response_of_dict [] = None" by (simp add: response_of_dict_def named_by_def)
  ultimately have "response_of_dict (event_dict e) = None" for e by metis
  then have "recorded_answers events = []" for events by (simp add: recorded_answers_def map_filter_def)
  then show ?thesis by (simp add: clarifications_from_events_def Let_def)
qed

section \<open>Witnesses\<close>

definition two_messages :: "raw_message list" where
  "two_messages = [Typed (lit ''user'', lit ''hello''), Typed (lit ''assistant'', lit ''which one?'')]"

definition small_window :: compression_settings where "small_window = \<lparr>keep_recent = 1, max_tokens = 40\<rparr>"

definition zero_hash :: "int list \<Rightarrow> int list" where "zero_hash b = replicate 32 0"

lemma small_window_valid: "valid_compression small_window" "hash_of_32_bytes zero_hash"
  by (simp_all add: small_window_def valid_compression_def zero_hash_def hash_of_32_bytes_def)

lemma two_proper: "\<forall>m. Typed m \<in> set two_messages \<longrightarrow> proper_turn m"
    "coerce_messages two_messages = [(lit ''user'', lit ''hello''), (lit ''assistant'', lit ''which one?'')]"
    "bounded_turns small_window (coerce_messages two_messages) = Some [(lit ''user'', lit ''hello''), (lit ''assistant'', lit ''which one?'')]"
proof -
  have "list_all (\<lambda>m. case m of Typed t \<Rightarrow> proper_turn t | Untyped _ \<Rightarrow> True) two_messages" by code_simp
  then show "\<forall>m. Typed m \<in> set two_messages \<longrightarrow> proper_turn m" by (fastforce simp: list_all_iff)
qed code_simp+

lemma two_compressed: "\<exists>c. compress_model_context zero_hash (Conversation two_messages) (Some empty_summary) small_window = Some c"
proof -
  have "proper_turn (lit ''assistant'', lit ''which one?'')" using two_proper(1) by (simp add: two_messages_def)
  then show ?thesis
    using known_context_kept [OF small_window_valid two_proper(3)] by (simp add: compress_model_context_def) blast
qed


theorem window_is_bounded_witness:
  "\<exists>c ms. compress_model_context zero_hash (Conversation two_messages) (Some empty_summary) small_window = Some c
     \<and> to_model_messages c = Some ms \<and> estimate_context_tokens ms \<le> 40"
proof -
  obtain c where c: "compress_model_context zero_hash (Conversation two_messages) (Some empty_summary) small_window = Some c"
    using two_compressed by blast
  obtain ms where "to_model_messages c = Some ms" "estimate_context_tokens ms \<le> max_tokens small_window"
    using window_is_bounded [OF small_window_valid disjI1 [OF c]] by metis
  with c show ?thesis by (auto simp: small_window_def)
qed


end
