(* ===== verification/Recall.thy ===== *)
theory Recall
  imports Memory Identity
begin

text \<open>
  \<open>app/recall/orchestrator.py\<close>: which offers a research keeps and in which order, from whatever
  optional signals answer (towers, the ANN index, the reranker, category knowledge), with a
  provenance that says which channels took part. The adapters call other services: their replies are
  parameters, failures included. Sums of floats are those of Python 3.10, the version of the images;
  embeddings are small enough for the scores to stay finite.
\<close>

section \<open>Replies of the adapters\<close>

datatype failure = TimedOut | EmptyResponse | InvalidResponse | ChannelFailed

fun reason_code :: "failure \<Rightarrow> string" where
  "reason_code TimedOut = ''timeout''"
| "reason_code EmptyResponse = ''empty_response''"
| "reason_code InvalidResponse = ''invalid_response''"
| "reason_code ChannelFailed = ''channel_failed''"

datatype reading = Finite rat | NotFinite | Unreadable failure
  \<comment> \<open>\<open>float(item)\<close>\<close>

datatype vector_reply = Numbers "reading list" | NotNumbers | NoReply failure

datatype ann_reply = AnnLists "reading list" "(failure + int) list" | AnnNotLists | AnnFailed failure

datatype score_reply = Scores "reading list" | NotScores | NoScores failure

record recall_adapters =
  ad_query :: "pystr \<Rightarrow> vector_reply"
  ad_item :: "candidate \<Rightarrow> vector_reply"
  ad_ann :: "rat list \<Rightarrow> nat \<Rightarrow> ann_reply"
  ad_user :: "pystr \<Rightarrow> remembered_preference \<Rightarrow> vector_reply"
  ad_rerank :: "nat \<Rightarrow> pystr \<Rightarrow> candidate list \<Rightarrow> score_reply"  \<comment> \<open>of the first and the second call\<close>

fun floats_of :: "reading list \<Rightarrow> failure + rat option list" where
  "floats_of [] = Inr []"
| "floats_of (r # rs) =
     (case r of
        Unreadable f \<Rightarrow> Inl f
      | NotFinite \<Rightarrow> rbind (floats_of rs) (\<lambda>xs. Inr (None # xs))
      | Finite x \<Rightarrow> rbind (floats_of rs) (\<lambda>xs. Inr (Some x # xs)))"

definition vector_of :: "vector_reply \<Rightarrow> failure + rat list" where
  "vector_of reply =
     (case reply of
        NoReply f \<Rightarrow> Inl f
      | NotNumbers \<Rightarrow> Inl InvalidResponse
      | Numbers rs \<Rightarrow>
          if rs = [] then Inl InvalidResponse
          else rbind (floats_of rs) (\<lambda>xs. if None \<in> set xs then Inl InvalidResponse else Inr (map the xs)))"

definition non_zero_vector :: "rat list \<Rightarrow> failure + rat list" where
  "non_zero_vector xs = (if list_all (\<lambda>x. x = 0) xs then Inl InvalidResponse else Inr xs)"

section \<open>Similarity\<close>

fun isqrt :: "nat \<Rightarrow> nat" where
  "isqrt n = (if n = 0 then 0 else let r = 2 * isqrt (n div 4) in if (r + 1) * (r + 1) \<le> n then r + 1 else r)"

declare isqrt.simps [simp del]

definition fl_sqrt :: "rat \<Rightarrow> rat" where
  \<comment> \<open>\<open>math.sqrt\<close>: the root to at least 55 binary digits, with a digit that says whether it is exact\<close>
  "fl_sqrt x =
     (if x \<le> 0 then 0
      else let k = nat (max 0 (57 - lead_exp 2 x div 2)); y = x * 4 ^ k; r = isqrt (nat \<lfloor>y\<rfloor>)
           in fl ((2 * of_nat r + (if of_nat (r * r) = y then 0 else 1)) / 2 ^ (k + 1)))"

definition fl_sum :: "rat list \<Rightarrow> rat" where
  "fl_sum xs = foldl (\<lambda>a x. fl (a + x)) 0 xs"

definition cosine :: "rat list \<Rightarrow> rat list \<Rightarrow> rat option" where
  \<comment> \<open>\<open>None\<close>: ValueError\<close>
  "cosine left right =
     (if length left \<noteq> length right then None
      else let l = fl_sqrt (fl_sum (map (\<lambda>v. fl (v * v)) left)); r = fl_sqrt (fl_sum (map (\<lambda>v. fl (v * v)) right))
           in Some (if l = 0 \<or> r = 0 then 0 else fl (fl_sum (map (\<lambda>(a, b). fl (a * b)) (zip left right)) / fl (l * r))))"

text \<open>The insight into a category, as \<open>app/schemas.py\<close> declares it.\<close>

record bestseller =
  be_name :: pystr
  be_typical_price_cny :: "rat option"
  be_why_popular :: pystr

record attribute_dist =
  ad_name :: pystr
  ad_distribution :: "(pystr \<times> rat) list"

datatype price_tier_name = TierBudget | TierMid | TierPremium

record price_tier =
  pt_tier :: price_tier_name
  pt_range_cny :: "rat \<times> rat"
  pt_notes :: pystr

record category_evidence =
  ce_document_id :: pystr
  ce_field :: pystr
  ce_summary :: pystr
  ce_score :: rat

record category_insight =
  ci_category :: pystr
  ci_standard_category :: "pystr option"
  ci_query_expansions :: "pystr list"
  ci_subtypes :: "pystr list"
  ci_category_ids :: "pystr list"
  ci_components :: "pystr list"
  ci_bestsellers :: "bestseller list"
  ci_attributes :: "attribute_dist list"
  ci_price_tiers :: "price_tier list"
  ci_confidence :: rat
  ci_evidence :: "category_evidence list"
  ci_provider :: provider_metadata

definition category_score :: "unicode_text \<Rightarrow> category_insight option \<Rightarrow> candidate \<Rightarrow> rat" where
  "category_score u insight c =
     (case insight of
        None \<Rightarrow> 0
      | Some i \<Rightarrow>
          if pm_source (ci_provider i) \<noteq> SrcLive then 0
          else let haystack = casefolded u (joined [32] ([ca_title c, ci_category i] @ map fst (ca_attributes c)
                     @ map (\<lambda>(k, v). json_str (printable u) v) (ca_attributes c)));
                   terms = map (casefolded u) (filter (\<lambda>t. py_strip t \<noteq> []) (ci_components i))
               in if terms = [] then 0 else fl (of_nat (length (filter (\<lambda>t. str_in t haystack) terms)) / of_nat (length terms)))"

section \<open>Configured channels\<close>

type_synonym channels = "recall_channel_name \<Rightarrow> recall_channel_report"

definition CHANNELS :: "recall_channel_name list" where
  "CHANNELS = [ChannelOpensearch, ChannelQueryTower, ChannelItemTower, ChannelFaiss]"

fun channel_text :: "recall_channel_name \<Rightarrow> string" where
  "channel_text ChannelOpensearch = ''opensearch''"
| "channel_text ChannelQueryTower = ''query_tower''"
| "channel_text ChannelItemTower = ''item_tower''"
| "channel_text ChannelFaiss = ''faiss''"

definition configured_report :: "recall_channel_name \<Rightarrow> bool \<Rightarrow> string \<Rightarrow> string \<Rightarrow> string \<Rightarrow> string \<Rightarrow> recall_channel_report" where
  "configured_report c is_set code reason other_code other_reason =
     \<lparr>rch_channel = c, rch_configured = is_set, rch_state = (if is_set then StateConfigured else StateUnavailable),
      rch_reason_code = lit (if is_set then code else other_code),
      rch_reason = lit (if is_set then reason else other_reason), rch_participated = False\<rparr>"

definition ann_enabled :: "settings \<Rightarrow> bool" where
  "ann_enabled s \<longleftrightarrow> ann_backend s = lit ''faiss''"

definition configured_channels :: "settings \<Rightarrow> channels" where
  "configured_channels s c =
     (let ann = ann_enabled s
      in case c of
           ChannelOpensearch \<Rightarrow> configured_report c (opensearch_url s \<noteq> []) ''configured_not_probed''
             (if product_search_backend s = lit ''opensearch''
              then ''OpenSearch product ANN and category knowledge are configured; runtime health is checked during research''
              else ''OpenSearch category knowledge is configured; runtime health is checked during research'')
             ''not_configured'' ''channel is not configured; deterministic fallback remains active''
         | ChannelQueryTower \<Rightarrow> configured_report c (ann \<and> tower_query_endpoint s \<noteq> []) (if ann then ''configured_not_probed'' else ''ann_backend_disabled'')
             (if ann then ''query tower is configured for ANN recall; runtime health is checked during research''
              else ''ANN backend is disabled; query tower is not used for item recall'')
             (if ann then ''endpoint_not_configured'' else ''ann_backend_disabled'')
             (if ann then ''TOWER_QUERY_ENDPOINT is not configured; deterministic fallback remains active''
              else ''ANN backend is disabled; deterministic fallback remains active'')
         | ChannelItemTower \<Rightarrow> configured_report c (ann \<and> tower_item_endpoint s \<noteq> []) (if ann then ''configured_not_probed'' else ''ann_backend_disabled'')
             (if ann then ''item tower is configured for ANN recall; runtime health is checked during research''
              else ''ANN backend is disabled; item tower is not used for item recall'')
             (if ann then ''endpoint_not_configured'' else ''ann_backend_disabled'')
             (if ann then ''TOWER_ITEM_ENDPOINT is not configured; deterministic fallback remains active''
              else ''ANN backend is disabled; deterministic fallback remains active'')
         | ChannelFaiss \<Rightarrow> configured_report c (ann \<and> ann_index_path s \<noteq> []) (if ann then ''configured_not_probed'' else ''backend_disabled'')
             (if ann then ''Faiss index is configured; index health is checked during research''
              else ''ANN_BACKEND is disabled; deterministic fallback remains active'')
             (if ann then ''index_not_configured'' else ''backend_disabled'')
             (if ann then ''ANN_INDEX_PATH is not configured; deterministic fallback remains active''
              else ''ANN_BACKEND is disabled; deterministic fallback remains active''))"

section \<open>Personalization\<close>

type_synonym user_input = "pystr \<times> remembered_preference"

definition preference_trace :: "user_input option \<Rightarrow> preference_field list \<times> pystr list" where
  "preference_trace input =
     (case input of
        None \<Rightarrow> ([], [])
      | Some (shopper, r) \<Rightarrow> (filter (\<lambda>f. pref r f \<noteq> []) FIELDS, concat (map (pref r) FIELDS)))"

definition personalization_of ::
  "bool \<Rightarrow> recall_channel_state \<Rightarrow> personalization_input \<Rightarrow> preference_field list \<Rightarrow> pystr list \<Rightarrow> string \<Rightarrow> string \<Rightarrow> personalization_report" where
  "personalization_of is_set state source named preferences code reason =
     \<lparr>pz_configured = is_set, pz_state = state, pz_input_source = source, pz_preference_fields = named,
      pz_preference_values = preferences, pz_signal = SignalNone, pz_dimension = None, pz_matched_candidate_count = 0,
      pz_reason_code = lit code, pz_reason = lit reason, pz_participated = False\<rparr>"

definition initial_personalization :: "settings \<Rightarrow> user_input option \<Rightarrow> personalization_report" where
  "initial_personalization s input =
     (case preference_trace input of (named, preferences) \<Rightarrow>
        let source = (if preferences = [] then InputNone else InputRememberedPreference)
        in if recall_architecture s = lit ''dual'' then
             personalization_of False StateUnavailable source named preferences ''dual_tower_architecture''
               ''Inference-only Query/Item dual-tower recall is active; User Tower is disabled''
           else if tower_user_endpoint s = [] then
             personalization_of False StateUnavailable source named preferences ''not_configured''
               ''TOWER_USER_ENDPOINT is not configured; existing recall path remains active''
           else if \<not> ann_enabled s then
             personalization_of True StateUnavailable source named preferences ''ann_backend_disabled''
               ''ANN backend is disabled; user-tower personalization remains optional and inactive''
           else if preferences = [] \<and> input = None then
             (if tower_item_endpoint s = [] then
                personalization_of True StateUnavailable InputNone [] [] ''item_tower_not_configured''
                  ''User-tower personalization requires the typed item-tower recall path''
              else personalization_of True StateConfigured InputNone [] [] ''awaiting_saved_preference''
                  ''User tower is configured; activation requires an explicit Remembered Preference'')
           else if preferences = [] then
             personalization_of True StateUnavailable InputNone [] [] ''no_saved_preference''
               ''No explicit Remembered Preference is saved for this Anonymous Shopper ID''
           else if tower_item_endpoint s = [] then
             personalization_of True StateUnavailable InputRememberedPreference named preferences ''item_tower_not_configured''
               ''User-tower personalization requires the typed item-tower recall path''
           else personalization_of True StateConfigured InputRememberedPreference named preferences ''configured_not_probed''
               ''User tower is configured; only explicit Remembered Preference will be encoded'')"

section \<open>Readiness\<close>

definition mode_for_channels :: "channels \<Rightarrow> settings \<Rightarrow> recall_mode" where
  "mode_for_channels ch s =
     (if product_search_backend s = lit ''opensearch'' then
        (if rch_configured (ch ChannelOpensearch) \<and> product_search_marketplaces s \<noteq> [] \<and> tower_query_endpoint s \<noteq> [] then RecallHybrid
         else if rch_configured (ch ChannelOpensearch) then RecallPartialHybrid else RecallDeterministicFallback)
      else if \<forall>c \<in> set CHANNELS. rch_state (ch c) = StateConfigured \<and> rch_configured (ch c) then RecallHybrid
      else if \<exists>c \<in> set CHANNELS. rch_configured (ch c) then RecallPartialHybrid
      else RecallDeterministicFallback)"

record recall_readiness =
  rd_mode :: recall_mode
  rd_channels :: "(recall_channel_name \<times> recall_channel_report) list"
  rd_required_actions :: "recall_action list"
  rd_personalization :: personalization_report

definition listed :: "channels \<Rightarrow> (recall_channel_name \<times> recall_channel_report) list" where
  "listed ch = map (\<lambda>c. (c, ch c)) CHANNELS"

definition recall_readiness_of :: "settings \<Rightarrow> recall_readiness" where
  "recall_readiness_of s =
     \<lparr>rd_mode = mode_for_channels (configured_channels s) s, rd_channels = listed (configured_channels s),
      rd_required_actions = recall_required_actions s, rd_personalization = initial_personalization s None\<rparr>"

section \<open>The channels at work\<close>

definition set_channel :: "recall_channel_name \<Rightarrow> recall_channel_state \<Rightarrow> pystr \<Rightarrow> pystr \<Rightarrow> bool \<Rightarrow> channels \<Rightarrow> channels" where
  "set_channel c state code reason participated ch =
     ch(c := (ch c)\<lparr>rch_state := state, rch_reason_code := code, rch_reason := reason, rch_participated := participated\<rparr>)"

definition query_vector :: "recall_adapters \<Rightarrow> pystr \<Rightarrow> channels \<Rightarrow> rat list option \<times> channels" where
  "query_vector ad query ch =
     (if \<not> rch_configured (ch ChannelQueryTower) then (None, ch)
      else case vector_of (ad_query ad query) of
        Inl f \<Rightarrow> (None, set_channel ChannelQueryTower StateUnavailable (lit (reason_code f)) (lit (''query tower failed: '' @ reason_code f)) False ch)
      | Inr v \<Rightarrow> (Some v, set_channel ChannelQueryTower StateReady (lit ''ready'') (lit ''query embedding returned a finite vector'') False ch))"

definition item_vectors :: "recall_adapters \<Rightarrow> candidate list \<Rightarrow> channels \<Rightarrow> (nat \<times> rat list) list \<times> channels" where
  "item_vectors ad cs ch =
     (if \<not> rch_configured (ch ChannelItemTower) then ([], ch)
      else if cs = [] then
        ([], set_channel ChannelItemTower StateDegraded (lit ''empty_candidate_set'') (lit ''marketplace Product Evidence was empty'') False ch)
      else let replies = map (\<lambda>(i, c). (i, vector_of (ad_item ad c))) (enumerate_py cs);
               vectors = List.map_filter (\<lambda>(i, r). case r of Inr v \<Rightarrow> Some (i, v) | Inl f \<Rightarrow> None) replies;
               failures = List.map_filter (\<lambda>(i, r). case r of Inl f \<Rightarrow> Some f | Inr v \<Rightarrow> None) replies
           in (vectors,
               if failures = [] \<and> length vectors = length cs then
                 set_channel ChannelItemTower StateReady (lit ''ready'') (lit ''item embeddings returned for every Product Evidence candidate'') False ch
               else if vectors \<noteq> [] then
                 set_channel ChannelItemTower StateDegraded (lit ''partial_response'')
                   (lit ''item tower returned embeddings for only part of Product Evidence'') False ch
               else set_channel ChannelItemTower StateUnavailable (lit (case failures of [] \<Rightarrow> ''empty_response'' | f # _ \<Rightarrow> reason_code f))
                   (lit ''item tower returned no usable embeddings'') False ch))"

definition user_vector :: "recall_adapters \<Rightarrow> user_input option \<Rightarrow> personalization_report \<Rightarrow> rat list option \<times> personalization_report" where
  "user_vector ad input p =
     (case input of
        None \<Rightarrow> (None, p)
      | Some (shopper, r) \<Rightarrow>
          if pz_state p \<noteq> StateConfigured then (None, p)
          else case rbind (vector_of (ad_user ad shopper r)) non_zero_vector of
            Inl f \<Rightarrow> (None, p\<lparr>pz_state := StateDegraded, pz_reason_code := lit (reason_code f),
               pz_reason := lit (''user tower degraded; existing recall path remains active ('' @ reason_code f @ '')'')\<rparr>)
          | Inr v \<Rightarrow> (Some v, p\<lparr>pz_state := StateReady, pz_signal := SignalUserTower, pz_dimension := Some (int (length v)),
               pz_reason_code := lit ''ready'', pz_reason := lit ''user tower encoded only explicit Remembered Preference''\<rparr>))"

type_synonym scores = "(nat \<times> rat) list"

definition score_at :: "scores \<Rightarrow> nat \<Rightarrow> rat" where
  \<comment> \<open>\<open>scores.get(i, 0.0)\<close>\<close>
  "score_at xs i = (case map_of xs i of Some x \<Rightarrow> x | None \<Rightarrow> 0)"

definition user_scores :: "rat list option \<Rightarrow> (nat \<times> rat list) list \<Rightarrow> nat \<Rightarrow> scores \<times> string option" where
  "user_scores user vectors n =
     (case user of
        None \<Rightarrow> ([], None)
      | Some v \<Rightarrow>
          if length vectors \<noteq> n then ([], Some ''item_tower_unavailable'')
          else if \<exists>(i, w) \<in> set vectors. length w \<noteq> length v then ([], Some ''dimension_mismatch'')
          else (map (\<lambda>(i, w). (i, the (cosine v w))) vectors, None))"

fun hits_of :: "(reading \<times> (failure + int)) list \<Rightarrow> failure + (rat \<times> nat) list" where
  "hits_of [] = Inr []"
| "hits_of ((score, i) # rest) =
     (case score of
        Unreadable f \<Rightarrow> Inl f
      | NotFinite \<Rightarrow> hits_of rest
      | Finite x \<Rightarrow>
          (case i of Inl f \<Rightarrow> Inl f
           | Inr k \<Rightarrow> if 0 \<le> k then rbind (hits_of rest) (\<lambda>hs. Inr ((x, nat k) # hs)) else hits_of rest))"

definition read_hits :: "ann_reply \<Rightarrow> failure + (rat \<times> nat) list" where
  "read_hits reply =
     (case reply of
        AnnFailed f \<Rightarrow> Inl f
      | AnnNotLists \<Rightarrow> Inl InvalidResponse
      | AnnLists scores ids \<Rightarrow> if length scores \<noteq> length ids then Inl InvalidResponse else hits_of (zip scores ids))"

definition ann_hits ::
  "recall_adapters \<Rightarrow> rat list option \<Rightarrow> (nat \<times> rat list) list \<Rightarrow> candidate list \<Rightarrow> channels
   \<Rightarrow> (rat \<times> nat) list option \<times> string option \<times> channels" where
  "ann_hits ad query vectors cs ch =
     (if \<not> rch_configured (ch ChannelFaiss) then (None, None, ch)
      else case query of
        None \<Rightarrow> (None, Some ''query_tower_unavailable'',
          set_channel ChannelFaiss StateUnavailable (lit ''query_tower_unavailable'') (lit ''Faiss recall requires a usable query embedding'') False ch)
      | Some v \<Rightarrow>
          if length vectors \<noteq> length cs then
            (None, Some ''item_tower_unavailable'',
             set_channel ChannelFaiss StateUnavailable (lit ''item_tower_unavailable'')
               (lit ''Faiss recall requires an item embedding for every candidate'') False ch)
          else case read_hits (ad_ann ad v (max 1 (length cs))) of
            Inl f \<Rightarrow> (None, Some (reason_code f),
              set_channel ChannelFaiss StateUnavailable (lit (reason_code f)) (lit (''Faiss index failed: '' @ reason_code f)) False ch)
          | Inr [] \<Rightarrow> (None, Some ''empty_response'',
              set_channel ChannelFaiss StateDegraded (lit ''empty_response'')
                (lit ''Faiss returned no candidate IDs; deterministic fallback preserved Product Evidence'') False ch)
          | Inr hits \<Rightarrow> (Some hits, None,
              set_channel ChannelFaiss StateReady (lit ''ready'') (lit ''Faiss returned candidate IDs and similarity scores'') False ch))"

definition rerank_scores :: "recall_adapters \<Rightarrow> nat \<Rightarrow> settings \<Rightarrow> pystr \<Rightarrow> candidate list \<Rightarrow> scores" where
  "rerank_scores ad call s query cs =
     (if reranker_endpoint s = [] \<or> cs = [] then []
      else case ad_rerank ad call query cs of
        Scores rs \<Rightarrow>
          if length rs \<noteq> length cs then []
          else (case floats_of rs of Inl f \<Rightarrow> []
                | Inr xs \<Rightarrow> List.map_filter (\<lambda>(i, x). map_option (Pair i) x) (enumerate_py xs))
      | _ \<Rightarrow> [])"

section \<open>Selection\<close>

fun mapped_hits :: "nat \<Rightarrow> (rat \<times> nat) list \<Rightarrow> nat list \<Rightarrow> (rat \<times> nat) list" where
  \<comment> \<open>the first hit of each index of a candidate\<close>
  "mapped_hits n [] seen = []"
| "mapped_hits n ((score, i) # hs) seen =
     (if n \<le> i \<or> i \<in> set seen then mapped_hits n hs seen else (score, i) # mapped_hits n hs (i # seen))"

definition hit_key :: "scores \<Rightarrow> scores \<Rightarrow> scores \<Rightarrow> (nat \<Rightarrow> rat) \<Rightarrow> rat \<times> nat \<Rightarrow> rat \<times> rat \<times> rat \<times> rat \<times> rat \<times> nat" where
  "hit_key reranked user items category h =
     (- fst h, - score_at reranked (snd h), - score_at user (snd h), - score_at items (snd h), - category (snd h), snd h)"

definition index_key :: "scores \<Rightarrow> scores \<Rightarrow> (nat \<Rightarrow> rat) \<Rightarrow> nat \<Rightarrow> rat \<times> rat \<times> rat \<times> nat" where
  "index_key reranked user category i = (- score_at user i, - score_at reranked i, - category i, i)"

definition selected_indices ::
  "unicode_text \<Rightarrow> candidate list \<Rightarrow> category_insight option \<Rightarrow> rat list option \<Rightarrow> (nat \<times> rat list) list \<Rightarrow> scores
   \<Rightarrow> (rat \<times> nat) list option \<Rightarrow> nat \<Rightarrow> scores \<Rightarrow> nat list \<times> recall_channel_name list \<times> string option" where
  "selected_indices u cs insight query vectors user hits top_k reranked =
     (let category = (\<lambda>i. category_score u insight (cs ! i));
          items = (case query of None \<Rightarrow> [] | Some q \<Rightarrow> List.map_filter (\<lambda>(i, v). map_option (Pair i) (cosine q v)) vectors);
          known = (\<exists>i < length cs. 0 < category i)
      in case hits of
           Some (h # hs) \<Rightarrow>
             (let mapped = mapped_hits (length cs) (h # hs) []
              in if mapped \<noteq> []
                 then (map snd (take top_k (sort_key (hit_key reranked user items category) mapped)),
                       [ChannelOpensearch, ChannelQueryTower, ChannelItemTower, ChannelFaiss], None)
                 else ([0..<length cs], [], Some ''faiss_id_mapping_failed''))
         | _ \<Rightarrow>
             if user \<noteq> [] \<or> reranked \<noteq> [] \<or> known
             then (take top_k (sort_key (index_key reranked user category) [0..<length cs]), if known then [ChannelOpensearch] else [], None)
             else ([0..<length cs], [], None))"

section \<open>The recall\<close>

definition opensearch_report :: "category_insight option \<Rightarrow> bool \<Rightarrow> bool option \<Rightarrow> pystr option \<Rightarrow> channels \<Rightarrow> channels" where
  "opensearch_report insight used whole failure ch =
     (let live = (case insight of Some i \<Rightarrow> pm_source (ci_provider i) = SrcLive | None \<Rightarrow> False);
          healthy = (case insight of Some i \<Rightarrow> pm_status (ci_provider i) = ProviderOk | None \<Rightarrow> False);
          put = (\<lambda>state code reason. set_channel ChannelOpensearch state (lit code) (lit reason))
      in if \<not> rch_configured (ch ChannelOpensearch) then ch
         else case whole of
           Some c \<Rightarrow>
             if used \<and> c \<and> live \<and> healthy then
               put StateReady ''ready'' ''OpenSearch product ANN and category knowledge participated'' True ch
             else if used \<and> c then
               put StateDegraded ''category_fallback'' ''OpenSearch product ANN participated, but category knowledge used a disclosed fallback'' True ch
             else if used then
               put StateDegraded ''product_ann_partial''
                 ''OpenSearch product ANN returned only a partial platform result; the remaining candidates used another path'' True ch
             else set_channel ChannelOpensearch StateDegraded (lit ''product_ann_unavailable'')
                 (lit ''OpenSearch product ANN was not used; ''
                  @ (case failure of Some r \<Rightarrow> (if r = [] then lit ''a non-semantic product path was used'' else r)
                     | None \<Rightarrow> lit ''a non-semantic product path was used'')) False ch
         | None \<Rightarrow>
             if live then
               (if healthy then put StateReady ''ready'' ''OpenSearch category knowledge was returned'' False ch
                else put StateDegraded ''semantic_fallback'' ''OpenSearch returned category knowledge with a disclosed semantic fallback'' False ch)
             else put StateDegraded ''request_failed'' ''OpenSearch was configured but category knowledge used deterministic fallback'' False ch)"

definition empty_pool_report :: "channels \<Rightarrow> channels" where
  "empty_pool_report ch c =
     (if c \<noteq> ChannelOpensearch \<and> rch_configured (ch c)
      then set_channel c StateDegraded (lit ''empty_candidate_set'') (lit ''marketplace Product Evidence was empty'') False ch c
      else ch c)"

record signals =
  sg_channels :: channels
  sg_personalization :: personalization_report
  sg_query :: "rat list option"
  sg_vectors :: "(nat \<times> rat list) list"
  sg_user_scores :: scores
  sg_hits :: "(rat \<times> nat) list option"
  sg_ann_failure :: "string option"
  sg_reranked :: scores

definition no_signals :: "channels \<Rightarrow> personalization_report \<Rightarrow> signals" where
  "no_signals ch p = \<lparr>sg_channels = ch, sg_personalization = p, sg_query = None, sg_vectors = [], sg_user_scores = [],
     sg_hits = None, sg_ann_failure = None, sg_reranked = []\<rparr>"

definition scored_personalization :: "rat list option \<Rightarrow> scores \<Rightarrow> string option \<Rightarrow> personalization_report \<Rightarrow> personalization_report" where
  "scored_personalization user scores failed p =
     (case user of
        None \<Rightarrow> p
      | Some v \<Rightarrow>
          (case failed of
             Some f \<Rightarrow> p\<lparr>pz_state := StateDegraded, pz_signal := SignalNone, pz_reason_code := lit f,
                 pz_reason := lit (''user tower signal unavailable; existing recall path remains active ('' @ f @ '')'')\<rparr>
           | None \<Rightarrow> p\<lparr>pz_matched_candidate_count := int (length scores), pz_participated := (scores \<noteq> [])\<rparr>))"

definition gather_signals ::
  "recall_adapters \<Rightarrow> settings \<Rightarrow> pystr \<Rightarrow> candidate list \<Rightarrow> user_input option \<Rightarrow> channels \<Rightarrow> personalization_report \<Rightarrow> signals" where
  "gather_signals ad s query cs input ch p =
     (if cs = [] then
        no_signals (empty_pool_report ch)
          (if pz_state p = StateConfigured
           then p\<lparr>pz_state := StateDegraded, pz_reason_code := lit ''empty_candidate_set'',
                  pz_reason := lit ''marketplace Product Evidence was empty; user tower was not invoked''\<rparr>
           else p)
      else if ann_enabled s then
        (case query_vector ad query ch of (q, ch1) \<Rightarrow>
         case item_vectors ad cs ch1 of (vectors, ch2) \<Rightarrow>
         case user_vector ad input p of (user, p1) \<Rightarrow>
         case ann_hits ad q vectors cs ch2 of (hits, failed, ch3) \<Rightarrow>
         case user_scores user vectors (length cs) of (scores, user_failed) \<Rightarrow>
           \<lparr>sg_channels = ch3, sg_personalization = scored_personalization user scores user_failed p1, sg_query = q,
            sg_vectors = vectors, sg_user_scores = scores, sg_hits = hits, sg_ann_failure = failed,
            sg_reranked = rerank_scores ad 0 s query cs\<rparr>)
      else no_signals ch
        (if pz_state p = StateConfigured
         then p\<lparr>pz_state := StateDegraded, pz_reason_code := lit ''ann_backend_disabled'',
                pz_reason := lit ''ANN backend is disabled; existing deterministic recall path remains active''\<rparr>
         else p))"

definition with_participants :: "recall_channel_name list \<Rightarrow> channels \<Rightarrow> channels" where
  "with_participants used ch c =
     (if c \<in> set used \<and> rch_state (ch c) \<in> {StateReady, StateDegraded} then (ch c)\<lparr>rch_participated := True\<rparr> else ch c)"

definition recall_mode_of :: "recall_channel_name list \<Rightarrow> channels \<Rightarrow> recall_mode" where
  "recall_mode_of effective ch =
     (if \<forall>c \<in> set effective. rch_state (ch c) = StateReady \<and> rch_participated (ch c) then RecallHybrid
      else if \<exists>c \<in> set effective. rch_participated (ch c) then RecallPartialHybrid
      else RecallDeterministicFallback)"

definition fallback_of :: "recall_channel_name list \<Rightarrow> bool \<Rightarrow> string option \<Rightarrow> channels \<Rightarrow> pystr option" where
  "fallback_of effective product_path ann_failure ch =
     (case recall_mode_of effective ch of
        RecallHybrid \<Rightarrow> None
      | RecallDeterministicFallback \<Rightarrow>
          Some (lit (if product_path then ''product_ann_unavailable''
            else (case ann_failure of Some f \<Rightarrow> ''faiss_'' @ f | None \<Rightarrow> ''optional_recall_unavailable'')))
      | RecallPartialHybrid \<Rightarrow>
          (case filter (\<lambda>c. rch_state (ch c) \<in> {StateDegraded, StateUnavailable}) effective of
             c # _ \<Rightarrow> Some (lit (channel_text c) @ [95] @ rch_reason_code (ch c))
           | [] \<Rightarrow> Some (lit ''partial_channel_failure'')))"

definition recall_limit :: "int option \<Rightarrow> nat \<Rightarrow> nat" where
  "recall_limit top_k n =
     (let pool = max 1 (int n); k = (case top_k of Some k \<Rightarrow> if k = 0 then pool else k | None \<Rightarrow> pool)
      in nat (max 1 (min k pool)))"

definition recalled_channels ::
  "signals \<Rightarrow> recall_channel_name list \<Rightarrow> string option \<Rightarrow> channels" where
  "recalled_channels g used selection_failure =
     with_participants used
       (case selection_failure of
          Some f \<Rightarrow> set_channel ChannelFaiss StateDegraded (lit f) (lit ''Faiss IDs did not map to the current Product Evidence set'') False (sg_channels g)
        | None \<Rightarrow> sg_channels g)"

definition recall_result_of ::
  "candidate list \<Rightarrow> nat list \<Rightarrow> bool \<Rightarrow> string option \<Rightarrow> channels \<Rightarrow> personalization_report \<Rightarrow> recall_result" where
  "recall_result_of cs picked product_path ann_failure ch p =
     (let effective = (if product_path then [ChannelOpensearch] else CHANNELS);
          mode = recall_mode_of effective ch;
          fallback = fallback_of effective product_path ann_failure ch
      in \<lparr>rr_candidates = map ((!) cs) picked, rr_total_recall = int (length picked),
          rr_truncated = (length picked < length cs),
          rr_provenance = \<lparr>rp_mode = mode, rp_channels = listed ch,
             rp_participating_channels = filter (\<lambda>c. rch_participated (ch c)) CHANNELS, rp_fallback_reason = fallback,
             rp_input_candidate_count = int (length cs), rp_selected_candidate_count = int (length picked),
             rp_personalization = Some p\<rparr>,
          rr_provider = \<lparr>pm_source = SrcComputed, pm_provider = lit ''recall-orchestrator'',
             pm_status = (if mode = RecallHybrid then ProviderOk else ProviderDegraded), pm_fallback_reason = fallback,
             pm_failure_reason = None\<rparr>\<rparr>)"

definition recall ::
  "unicode_text \<Rightarrow> recall_adapters \<Rightarrow> settings \<Rightarrow> pystr \<Rightarrow> candidate list \<Rightarrow> category_insight option \<Rightarrow> int option
   \<Rightarrow> user_input option \<Rightarrow> bool \<Rightarrow> bool option \<Rightarrow> pystr option \<Rightarrow> recall_result" where
  "recall u ad s query cs insight top_k input ann_used ann_complete ann_failure =
     (let ch = opensearch_report insight ann_used ann_complete ann_failure (configured_channels s);
          g = gather_signals ad s query cs input ch (initial_personalization s input);
          reranked = (if ann_complete = None \<and> reranker_endpoint s \<noteq> [] \<and> sg_reranked g = []
                      then rerank_scores ad (if cs \<noteq> [] \<and> ann_enabled s then 1 else 0) s query cs else sg_reranked g)
      in case selected_indices u cs insight (sg_query g) (sg_vectors g) (sg_user_scores g) (sg_hits g) (recall_limit top_k (length cs)) reranked of
           (picked, used, failed) \<Rightarrow>
             recall_result_of cs picked (ann_complete \<noteq> None) (sg_ann_failure g) (recalled_channels g used failed) (sg_personalization g))"

end
