(* ===== verification/RecallProperties.thy ===== *)
theory RecallProperties
  imports Recall MemoryProperties CostProperties
begin

text \<open>
  What a recall guarantees whatever its channels answer: it never invents or repeats an offer and never
  loses all of them, its provenance is consistent with the reports of the channels, the selection is the
  best by its keys, and without any signal the offers pass unchanged. And a channel that failed is
  named as one that took part.
\<close>

section \<open>The selection\<close>

lemma mapped_hits_spec:
  "distinct (map snd (mapped_hits n hs seen)) \<and> (\<forall>h \<in> set (mapped_hits n hs seen). snd h < n \<and> snd h \<notin> set seen \<and> h \<in> set hs)"
proof (induction n hs seen rule: mapped_hits.induct)
  case (2 n score i hs seen)
  show ?case
  proof (cases "n \<le> i \<or> i \<in> set seen")
    case True
    with 2 show ?thesis by auto
  next
    case False
    with 2 have "distinct (map snd (mapped_hits n hs (i # seen)))"
        "\<forall>h \<in> set (mapped_hits n hs (i # seen)). snd h < n \<and> snd h \<notin> set (i # seen) \<and> h \<in> set hs" by simp_all
    with False show ?thesis by auto
  qed
qed simp

definition picks_of :: "nat \<Rightarrow> nat \<Rightarrow> nat list \<Rightarrow> bool" where
  \<comment> \<open>distinct positions, at most \<open>k\<close> of them or all, and not none of some\<close>
  "picks_of n k picked \<longleftrightarrow> distinct picked \<and> set picked \<subseteq> {..<n} \<and> (length picked \<le> k \<or> picked = [0..<n]) \<and> (0 < n \<longrightarrow> picked \<noteq> [])"

lemma picks_take_sort:
  fixes f :: "'a \<Rightarrow> 'b :: linorder"
  assumes "distinct (map g xs)" "set (map g xs) \<subseteq> {..<n}" "0 < k" "xs \<noteq> []"
  shows "picks_of n k (map g (take k (sort_key f xs)))"
proof -
  have "mset (map g (sort_key f xs)) = mset (map g xs)" by simp
  then have "distinct (map g (sort_key f xs))" using assms(1) by (metis mset_eq_imp_distinct_iff)
  then have "distinct (take k (map g (sort_key f xs)))" by (rule distinct_take)
  moreover have "set (take k (sort_key f xs)) \<subseteq> set xs" using set_take_subset [of k "sort_key f xs"] by simp
  then have "set (map g (take k (sort_key f xs))) \<subseteq> {..<n}" using assms(2) by auto
  moreover have "take k (sort_key f xs) \<noteq> []"
    using assms(3,4) by (metis length_0_conv length_sort take_eq_Nil neq0_conv)
  ultimately show ?thesis using assms(3) by (simp add: picks_of_def take_map)
qed

lemma selection_picks:
  assumes "selected_indices u cs insight query vectors user hits k reranked = (picked, used, failed)" "0 < k"
  shows "picks_of (length cs) k picked"
proof -
  have all: "picks_of (length cs) k [0..<length cs]" by (auto simp: picks_of_def)
  have positions: "distinct (map (\<lambda>i. i) [0..<length cs])" "set (map (\<lambda>i. i) [0..<length cs]) \<subseteq> {..<length cs}" by auto
  have "picks_of (length cs) k (map (\<lambda>i. i) (take k (sort_key f [0..<length cs])))" for f :: "nat \<Rightarrow> rat \<times> rat \<times> rat \<times> nat"
  proof (cases "cs = []")
    case False
    then show ?thesis by (intro picks_take_sort [OF positions assms(2)]) simp
  qed (simp add: picks_of_def)
  then have sorted: "picks_of (length cs) k (take k (sort_key f [0..<length cs]))" for f :: "nat \<Rightarrow> rat \<times> rat \<times> rat \<times> nat" by simp
  have mapped: "picks_of (length cs) k (map snd (take k (sort_key f ms)))"
    if "ms = mapped_hits (length cs) hs []" "ms \<noteq> []" for f :: "rat \<times> nat \<Rightarrow> rat \<times> rat \<times> rat \<times> rat \<times> rat \<times> nat" and ms hs
    using mapped_hits_spec [of "length cs" hs "[]"] that by (intro picks_take_sort [OF _ _ assms(2)]) auto
  show ?thesis
    using assms(1) all sorted mapped by (auto simp: selected_indices_def Let_def split: option.splits list.splits if_splits)
qed

lemma limit_pos: "0 < recall_limit top_k n"
  by (simp add: recall_limit_def Let_def)

section \<open>The channels\<close>

text \<open>
  The invariant of the reports through a recall: each stands under its own name, what is ready or degraded is
  configured, and what takes part is ready or degraded.
\<close>

definition channels_ok :: "channels \<Rightarrow> bool" where
  "channels_ok ch \<longleftrightarrow> (\<forall>c. rch_channel (ch c) = c
     \<and> (rch_state (ch c) \<in> {StateReady, StateDegraded} \<longrightarrow> rch_configured (ch c))
     \<and> (rch_participated (ch c) \<longrightarrow> rch_state (ch c) \<in> {StateReady, StateDegraded}))"

lemma channels_ok_configured: "channels_ok (configured_channels s)"
  unfolding channels_ok_def
proof
  fix c show "rch_channel (configured_channels s c) = c
     \<and> (rch_state (configured_channels s c) \<in> {StateReady, StateDegraded} \<longrightarrow> rch_configured (configured_channels s c))
     \<and> (rch_participated (configured_channels s c) \<longrightarrow> rch_state (configured_channels s c) \<in> {StateReady, StateDegraded})"
    by (cases c) (simp_all add: configured_channels_def configured_report_def Let_def)
qed

lemma channels_ok_set:
  "channels_ok ch \<Longrightarrow> rch_configured (ch c) \<Longrightarrow> (participated \<longrightarrow> state \<in> {StateReady, StateDegraded})
     \<Longrightarrow> channels_ok (set_channel c state code reason participated ch)"
  by (auto simp: channels_ok_def set_channel_def)

lemma set_channel_configured [simp]: "rch_configured (set_channel c state code reason participated ch d) = rch_configured (ch d)"
  by (simp add: set_channel_def)

lemma opensearch_report_ok: "channels_ok ch \<Longrightarrow> channels_ok (opensearch_report insight ann_used whole failed ch)"
  by (auto simp: opensearch_report_def Let_def intro!: channels_ok_set split: option.splits)

lemma opensearch_report_configured [simp]: "rch_configured (opensearch_report insight ann_used whole failed ch c) = rch_configured (ch c)"
  by (auto simp: opensearch_report_def Let_def split: option.splits)

lemma query_vector_ok: "query_vector ad query ch = (v, ch') \<Longrightarrow> channels_ok ch \<Longrightarrow> channels_ok ch' \<and> (\<forall>c. rch_configured (ch' c) = rch_configured (ch c))"
  by (auto simp: query_vector_def intro!: channels_ok_set split: if_splits sum.splits)

lemma item_vectors_ok: "item_vectors ad cs ch = (v, ch') \<Longrightarrow> channels_ok ch \<Longrightarrow> channels_ok ch' \<and> (\<forall>c. rch_configured (ch' c) = rch_configured (ch c))"
  by (auto simp: item_vectors_def Let_def intro!: channels_ok_set split: if_splits)

lemma ann_hits_ok:
  "ann_hits ad q vectors cs ch = (hits, failed, ch') \<Longrightarrow> channels_ok ch
     \<Longrightarrow> channels_ok ch' \<and> (hits \<noteq> None \<longrightarrow> rch_configured (ch' ChannelFaiss) \<and> rch_state (ch' ChannelFaiss) = StateReady)"
  by (auto simp: ann_hits_def set_channel_def intro!: channels_ok_set [unfolded set_channel_def] split: if_splits option.splits sum.splits list.splits)

lemma gather_signals_ok:
  assumes "channels_ok ch"
  shows "channels_ok (sg_channels (gather_signals ad s query cs input ch p))
    \<and> (sg_hits (gather_signals ad s query cs input ch p) \<noteq> None \<longrightarrow> rch_configured (sg_channels (gather_signals ad s query cs input ch p) ChannelFaiss))"
proof -
  have "channels_ok (empty_pool_report ch)"
    using assms by (auto simp: channels_ok_def empty_pool_report_def set_channel_def)
  moreover obtain q ch1 where 1: "query_vector ad query ch = (q, ch1)" by (cases "query_vector ad query ch")
  moreover obtain vs ch2 where 2: "item_vectors ad cs ch1 = (vs, ch2)" by (cases "item_vectors ad cs ch1")
  moreover obtain hits failed ch3 where 3: "ann_hits ad q vs cs ch2 = (hits, failed, ch3)" by (cases "ann_hits ad q vs cs ch2")
  moreover have "channels_ok ch3 \<and> (hits \<noteq> None \<longrightarrow> rch_configured (ch3 ChannelFaiss))"
    using query_vector_ok [OF 1 assms] item_vectors_ok [OF 2] ann_hits_ok [OF 3] by blast
  ultimately show ?thesis using assms
    by (auto simp: gather_signals_def no_signals_def split: prod.splits)
qed

lemma with_participants_ok: "channels_ok ch \<Longrightarrow> channels_ok (with_participants used ch)"
  by (auto simp: channels_ok_def with_participants_def)

lemma selection_failure_needs_hits: "selected_indices u cs insight query vectors user hits k reranked = (picked, used, Some f) \<Longrightarrow> hits \<noteq> None"
  by (auto simp: selected_indices_def Let_def split: option.splits if_splits)

text \<open>A recall is the result of a selection under reports that keep the invariant.\<close>

lemma recall_shape:
  obtains picked ch p ann_failed where "recall u ad s query cs insight top_k input ann_used whole failed
      = recall_result_of cs picked (whole \<noteq> None) ann_failed ch p"
    "picks_of (length cs) (recall_limit top_k (length cs)) picked" "channels_ok ch"
proof -
  define g where "g = gather_signals ad s query cs input (opensearch_report insight ann_used whole failed (configured_channels s)) (initial_personalization s input)"
  define reranked where "reranked = (if whole = None \<and> reranker_endpoint s \<noteq> [] \<and> sg_reranked g = []
      then rerank_scores ad (if cs \<noteq> [] \<and> ann_enabled s then 1 else 0) s query cs else sg_reranked g)"
  obtain picked used bad where sel: "selected_indices u cs insight (sg_query g) (sg_vectors g) (sg_user_scores g) (sg_hits g)
      (recall_limit top_k (length cs)) reranked = (picked, used, bad)"
    by (metis prod_cases3)
  have ok: "channels_ok (sg_channels g)" "sg_hits g \<noteq> None \<Longrightarrow> rch_configured (sg_channels g ChannelFaiss)"
    using gather_signals_ok [OF opensearch_report_ok [OF channels_ok_configured]] unfolding g_def by blast+
  have "channels_ok (recalled_channels g used bad)"
    using ok selection_failure_needs_hits sel
    by (auto simp: recalled_channels_def intro!: with_participants_ok channels_ok_set split: option.splits)
  moreover have "recall u ad s query cs insight top_k input ann_used whole failed
      = recall_result_of cs picked (whole \<noteq> None) (sg_ann_failure g) (recalled_channels g used bad) (sg_personalization g)"
    unfolding recall_def Let_def g_def [symmetric] reranked_def [symmetric] sel prod.case ..
  ultimately show thesis using that selection_picks [OF sel limit_pos] by blast
qed

section \<open>Properties\<close>

lemma picks_mset:
  assumes "picks_of (length cs) k picked"
  shows "mset (map ((!) cs) picked) \<subseteq># mset cs"
proof -
  have "distinct picked" "set picked \<subseteq> {0..<length cs}" using assms by (auto simp: picks_of_def)
  then have "mset picked \<subseteq># mset [0..<length cs]"
    by (metis finite_atLeastLessThan mset_set_set mset_upt subset_imp_msubset_mset_set)
  from image_mset_subseteq_mono [OF this, of "(!) cs"] show ?thesis
    by (metis map_nth mset_map)
qed

definition keeps_offers :: "candidate list \<Rightarrow> nat \<Rightarrow> recall_result \<Rightarrow> bool" where
  "keeps_offers cs k r \<longleftrightarrow> mset (rr_candidates r) \<subseteq># mset cs \<and> (rr_candidates r = [] \<longleftrightarrow> cs = [])
     \<and> (length (rr_candidates r) \<le> k \<or> rr_candidates r = cs)
     \<and> rr_total_recall r = int (length (rr_candidates r)) \<and> (rr_truncated r \<longleftrightarrow> length (rr_candidates r) < length cs)
     \<and> rp_selected_candidate_count (rr_provenance r) = rr_total_recall r"


definition consistent_provenance :: "recall_channel_name list \<Rightarrow> recall_result \<Rightarrow> bool" where
  "consistent_provenance counted r \<longleftrightarrow>
     (\<exists>ch. rp_channels (rr_provenance r) = listed ch \<and> channels_ok ch
      \<and> rp_participating_channels (rr_provenance r) = filter (\<lambda>c. rch_participated (ch c)) CHANNELS
      \<and> (rp_mode (rr_provenance r) = RecallHybrid \<longleftrightarrow> list_all (\<lambda>c. rch_state (ch c) = StateReady \<and> rch_participated (ch c)) counted)
      \<and> (rp_mode (rr_provenance r) = RecallDeterministicFallback \<longleftrightarrow> \<not> list_ex (\<lambda>c. rch_participated (ch c)) counted)
      \<and> (rp_fallback_reason (rr_provenance r) = None \<longleftrightarrow> rp_mode (rr_provenance r) = RecallHybrid)
      \<and> (pm_status (rr_provider r) = ProviderOk \<longleftrightarrow> rp_mode (rr_provenance r) = RecallHybrid)
      \<and> pm_fallback_reason (rr_provider r) = rp_fallback_reason (rr_provenance r))"

lemma result_is_consistent:
  assumes ok: "channels_ok ch"
  shows "consistent_provenance (if product_path then [ChannelOpensearch] else CHANNELS) (recall_result_of cs picked product_path af ch p)"
proof -
  define counted where "counted = (if product_path then [ChannelOpensearch] else CHANNELS)"
  have "counted \<noteq> []" by (simp add: counted_def CHANNELS_def)
  then have mode: "recall_mode_of counted ch = RecallHybrid \<longleftrightarrow> list_all (\<lambda>c. rch_state (ch c) = StateReady \<and> rch_participated (ch c)) counted"
      "recall_mode_of counted ch = RecallDeterministicFallback \<longleftrightarrow> \<not> list_ex (\<lambda>c. rch_participated (ch c)) counted"
    by (auto simp: recall_mode_of_def list_all_iff list_ex_iff neq_Nil_conv)
  have "fallback_of counted b af ch = None \<longleftrightarrow> recall_mode_of counted ch = RecallHybrid" for b
    by (auto simp: fallback_of_def split: recall_mode.splits list.splits)
  with mode ok show ?thesis
    unfolding consistent_provenance_def recall_result_of_def Let_def counted_def [symmetric]
    by (intro exI [of _ ch]) simp
qed

text \<open>
  C39. The provenance of a recall agrees with the reports of its channels: those that take part are exactly the
  listed ones, each configured and ready or degraded; the recall is called hybrid exactly if every
  channel that counts is ready and takes part, deterministic exactly if none of them takes part, and
  a fallback reason is given, with the status degraded, exactly if it is not hybrid.
\<close>

theorem recall_provenance_is_consistent:
  "consistent_provenance (if whole \<noteq> None then [ChannelOpensearch] else CHANNELS)
     (recall u ad s query cs insight top_k input ann_used whole failed)"
proof -
  obtain picked ch p af where "recall u ad s query cs insight top_k input ann_used whole failed = recall_result_of cs picked (whole \<noteq> None) af ch p"
      and "channels_ok ch"
    by (rule recall_shape)
  then show ?thesis by (simp only: result_is_consistent)
qed

section \<open>Failing open\<close>

definition all_fail :: "recall_adapters \<Rightarrow> bool" where
  "all_fail ad \<longleftrightarrow> (\<forall>q. \<exists>f. ad_query ad q = NoReply f) \<and> (\<forall>c. \<exists>f. ad_item ad c = NoReply f) \<and> (\<forall>v n. \<exists>f. ad_ann ad v n = AnnFailed f)
     \<and> (\<forall>p r. \<exists>f. ad_user ad p r = NoReply f) \<and> (\<forall>n q cs. \<exists>f. ad_rerank ad n q cs = NoScores f)"

definition not_live :: "category_insight option \<Rightarrow> bool" where
  "not_live insight \<longleftrightarrow> (\<forall>i. insight = Some i \<longrightarrow> pm_source (ci_provider i) \<noteq> SrcLive)"

definition silent :: "channels \<Rightarrow> bool" where
  "silent ch \<longleftrightarrow> (\<forall>c. \<not> rch_participated (ch c) \<and> rch_state (ch c) \<noteq> StateReady)"

lemma silent_set: "silent ch \<Longrightarrow> state \<noteq> StateReady \<Longrightarrow> silent (set_channel c state code reason False ch)"
  by (simp add: silent_def set_channel_def)

lemma silent_configured: "silent (configured_channels s)"
  unfolding silent_def
proof
  fix c show "\<not> rch_participated (configured_channels s c) \<and> rch_state (configured_channels s c) \<noteq> StateReady"
    by (cases c) (simp_all add: configured_channels_def configured_report_def Let_def)
qed

lemma silent_opensearch: "silent ch \<Longrightarrow> not_live insight \<Longrightarrow> silent (opensearch_report insight used None failure ch)"
  by (auto simp: opensearch_report_def not_live_def Let_def intro!: silent_set split: option.splits)

lemma all_failE:
  assumes "all_fail ad"
  obtains q i a u r where "\<And>x. vector_of (ad_query ad x) = Inl (q x)" "\<And>x. vector_of (ad_item ad x) = Inl (i x)"
    "\<And>v n. ad_ann ad v n = AnnFailed (a v n)" "\<And>x y. vector_of (ad_user ad x y) = Inl (u x y)" "\<And>n x cs. ad_rerank ad n x cs = NoScores (r n x cs)"
proof -
  from assms obtain q where q: "\<And>x. ad_query ad x = NoReply (q x)" unfolding all_fail_def by metis
  from assms obtain i where i: "\<And>x. ad_item ad x = NoReply (i x)" unfolding all_fail_def by metis
  from assms obtain a where a: "\<And>v n. ad_ann ad v n = AnnFailed (a v n)" unfolding all_fail_def by metis
  from assms obtain u where u: "\<And>x y. ad_user ad x y = NoReply (u x y)" unfolding all_fail_def by metis
  from assms obtain r where r: "\<And>n x cs. ad_rerank ad n x cs = NoScores (r n x cs)" unfolding all_fail_def by metis
  show thesis by (rule that) (simp_all add: vector_of_def q i a u r)
qed

lemma failing_query:
  assumes "all_fail ad" "silent ch"
  shows "\<exists>ch'. query_vector ad query ch = (None, ch') \<and> silent ch'"
proof -
  obtain f where "vector_of (ad_query ad query) = Inl f" using assms(1) by (metis all_failE)
  then show ?thesis using assms(2) by (simp add: query_vector_def silent_set)
qed

lemma failing_items:
  assumes "all_fail ad" "silent ch"
  shows "\<exists>ch'. item_vectors ad cs ch = ([], ch') \<and> silent ch'"
proof -
  obtain f where f: "\<And>c. vector_of (ad_item ad c) = Inl (f c)" using assms(1) by (metis all_failE)
  have "List.map_filter (\<lambda>(i, r). case r of Inr v \<Rightarrow> Some (i, v) | Inl f \<Rightarrow> None) (map (\<lambda>(i, c). (i, Inl (f c))) xs) = []" for xs :: "(nat \<times> candidate) list"
    by (induction xs) (auto simp: List.map_filter_simps)
  then show ?thesis using assms(2) by (auto simp: item_vectors_def Let_def f intro!: silent_set)
qed

lemma failing_user:
  assumes "all_fail ad"
  shows "fst (user_vector ad input p) = None"
proof -
  obtain f where "\<And>x y. vector_of (ad_user ad x y) = Inl (f x y)" using assms by (metis all_failE)
  then show ?thesis by (simp add: user_vector_def split: option.splits prod.splits)
qed

lemma failing_rerank:
  assumes "all_fail ad"
  shows "rerank_scores ad call s query cs = []"
proof -
  obtain f where "\<And>n q cs. ad_rerank ad n q cs = NoScores (f n q cs)" using assms by (metis all_failE)
  then show ?thesis by (simp add: rerank_scores_def)
qed

lemma failing_ann: "silent ch \<Longrightarrow> \<exists>failed ch'. ann_hits ad None vectors cs ch = (None, failed, ch') \<and> silent ch'"
  by (auto simp: ann_hits_def intro: silent_set)


lemma failing_selection:
  "not_live insight \<Longrightarrow> selected_indices u cs insight query vectors [] None k [] = ([0..<length cs], [], None)"
proof -
  assume "not_live insight"
  then have "category_score u insight c = 0" for c by (auto simp: category_score_def not_live_def split: option.splits)
  then show ?thesis by (simp add: selected_indices_def)
qed

lemma failing_signals:
  assumes "all_fail ad" "silent ch"
  shows "silent (sg_channels (gather_signals ad s query cs input ch p)) \<and> sg_user_scores (gather_signals ad s query cs input ch p) = []
    \<and> sg_hits (gather_signals ad s query cs input ch p) = None \<and> sg_reranked (gather_signals ad s query cs input ch p) = []"
proof -
  have empty: "silent (empty_pool_report ch)"
    using assms(2) by (auto simp: silent_def empty_pool_report_def set_channel_def)
  obtain ch1 where 1: "query_vector ad query ch = (None, ch1)" "silent ch1" using failing_query [OF assms] by blast
  obtain ch2 where 2: "item_vectors ad cs ch1 = ([], ch2)" "silent ch2" using failing_items [OF assms(1) 1(2)] by blast
  obtain failed ch3 where 3: "ann_hits ad None [] cs ch2 = (None, failed, ch3)" "silent ch3" using failing_ann [OF 2(2)] by blast
  obtain p1 where 4: "user_vector ad input p = (None, p1)" using failing_user [OF assms(1)] by (metis prod.collapse)
  show ?thesis
    using assms(2) empty 3(2) by (simp add: gather_signals_def no_signals_def user_scores_def failing_rerank [OF assms(1)] 1(1) 2(1) 3(1) 4)
qed

lemma silent_recalled: "silent (sg_channels g) \<Longrightarrow> silent (recalled_channels g [] None)"
  by (simp add: recalled_channels_def with_participants_def silent_def)

lemma result_of_silent:
  assumes "silent ch"
  shows "rr_candidates (recall_result_of cs [0..<length cs] False af ch p) = cs"
    "rp_mode (rr_provenance (recall_result_of cs [0..<length cs] False af ch p)) = RecallDeterministicFallback"
    "rp_participating_channels (rr_provenance (recall_result_of cs [0..<length cs] False af ch p)) = []"
    "pm_status (rr_provider (recall_result_of cs [0..<length cs] False af ch p)) = ProviderDegraded"
  using assms by (auto simp: recall_result_of_def Let_def silent_def recall_mode_of_def CHANNELS_def map_nth)

text \<open>
  C40. A recall whose services all fail keeps the research going: whatever the configuration, the request and the
  limit, it returns every offer in the order it was given, and says that no channel took part and that the
  result is a degraded, deterministic one.
\<close>

theorem recall_fails_open:
  assumes "all_fail ad" "not_live insight"
  shows "rr_candidates (recall u ad s query cs insight top_k input used None failure) = cs
    \<and> rp_mode (rr_provenance (recall u ad s query cs insight top_k input used None failure)) = RecallDeterministicFallback
    \<and> rp_participating_channels (rr_provenance (recall u ad s query cs insight top_k input used None failure)) = []
    \<and> pm_status (rr_provider (recall u ad s query cs insight top_k input used None failure)) = ProviderDegraded"
proof -
  define g where "g = gather_signals ad s query cs input (opensearch_report insight used None failure (configured_channels s)) (initial_personalization s input)"
  have quiet: "silent (sg_channels g)" "sg_user_scores g = []" "sg_hits g = None" "sg_reranked g = []"
    using failing_signals [OF assms(1) silent_opensearch [OF silent_configured assms(2)]] unfolding g_def by blast+
  have "recall u ad s query cs insight top_k input used None failure
      = recall_result_of cs [0..<length cs] False (sg_ann_failure g) (recalled_channels g [] None) (sg_personalization g)"
    unfolding recall_def Let_def g_def [symmetric]
    by (simp add: quiet(2-4) failing_rerank [OF assms(1)] failing_selection [OF assms(2)])
  then show ?thesis by (simp add: result_of_silent silent_recalled quiet(1))
qed

section \<open>A failed channel named as a participant\<close>

definition toy_adapters :: recall_adapters where
  "toy_adapters = \<lparr>ad_query = \<lambda>_. Numbers [Finite 1], ad_item = \<lambda>_. Numbers [Finite 1], ad_ann = \<lambda>_ _. AnnLists [Finite 1] [Inr 0],
     ad_user = \<lambda>_ _. NoReply ChannelFailed, ad_rerank = \<lambda>_ _ _. NoScores ChannelFailed\<rparr>"

text \<open>
  With every channel configured, towers and index answering and the category knowledge lost, the
  provenance names OpenSearch among the channels that took part, and its report gives the reason request_failed.
\<close>

lemma failed_channel_participates:
  assumes "opensearch_url s \<noteq> []" "ann_enabled s" "tower_query_endpoint s \<noteq> []" "tower_item_endpoint s \<noteq> []" "ann_index_path s \<noteq> []"
  shows "\<exists>report. (ChannelOpensearch, report) \<in> set (rp_channels (rr_provenance (recall u toy_adapters s query [c] None None None False None None)))
    \<and> rch_participated report \<and> rch_reason_code report = lit ''request_failed''"
  using assms
  by (simp add: recall_def Let_def gather_signals_def query_vector_def item_vectors_def ann_hits_def user_vector_def user_scores_def
      selected_indices_def recall_result_of_def listed_def CHANNELS_def toy_adapters_def vector_of_def read_hits_def
      opensearch_report_def configured_channels_def configured_report_def set_channel_def recalled_channels_def
      with_participants_def enumerate_py_def List.map_filter_simps scored_personalization_def rerank_scores_def)

definition failing_adapters :: recall_adapters where
  "failing_adapters = \<lparr>ad_query = \<lambda>_. NoReply TimedOut, ad_item = \<lambda>_. NoReply TimedOut, ad_ann = \<lambda>_ _. AnnFailed ChannelFailed,
     ad_user = \<lambda>_ _. NoReply TimedOut, ad_rerank = \<lambda>_ _ _. NoScores EmptyResponse\<rparr>"

theorem recall_fails_open_witness:
  "\<exists>s. from_env Map.empty = Inr s
     \<and> rr_candidates (recall plain_text failing_adapters (s\<lparr>ann_backend := lit ''faiss'', tower_query_endpoint := lit ''q'', ann_index_path := lit ''i''\<rparr>)
         [97] [an_offer, an_offer\<lparr>ca_title := [97]\<rparr>] None (Some 1) None False None None) = [an_offer, an_offer\<lparr>ca_title := [97]\<rparr>]"
proof -
  have "all_fail failing_adapters" by (simp add: all_fail_def failing_adapters_def)
  from recall_fails_open [OF this, of None] default_settings show ?thesis by (auto simp: not_live_def)
qed

end
